(* ===== verification/Prelude.thy ===== *)
theory Prelude
  imports Main "HOL-Library.Word"
begin

text \<open>
  Shared vocabulary of the development.

  \<^item> \<open>fatal\<close> lists the ways the program dies on purpose or by an uncaught exception: every
    \<open>LOG(FATAL)\<close>, every \<open>Try::get()\<close> on an error, and the one C++ exception that nobody
    catches.  A fallible operation returns \<open>fatal + 'a\<close>; \<open>bind_fatal\<close> sequences two of them.
  \<^item> \<open>opt_or\<close> reads a protobuf field: a field that is not set reads as its default.
  \<^item> \<open>run\<close> is the reflexive transitive closure of a labelled step relation that is kept along a
    list of events; the locale \<open>invariant_machine\<close> states once that a predicate kept by every
    admissible step is kept by every run, and each component interprets it for its invariants.
  \<^item> collections of facts: \<open>model_defs\<close> (definitions that the component proofs unfold) and \<open>frame_simps\<close> (what an operation leaves unchanged).
\<close>

section \<open>Fact collections\<close>

named_theorems model_defs \<open>small wrappers of the model that component proofs unfold\<close>
named_theorems mutable_defs \<open>the mutable accessors of protobuf sub-messages\<close>
named_theorems frame_simps \<open>what an operation leaves unchanged\<close>

section \<open>Fatal outcomes\<close>

datatype fatal =
    Registry_Dns_Name_Unset
  | Framework_Image_Unset
  | State_Unparsable
  | State_Unserializable
  | Resources_Unparsable
  | Memory_Out_Of_Range
  | Binary_Too_Large
  | Http_Server_Not_Started
  | Principal_Unset
  | Invalid_Flags
  | Hostname_Unknown

fun bind_fatal :: "'e + 'a \<Rightarrow> ('a \<Rightarrow> 'e + 'b) \<Rightarrow> 'e + 'b" where
  "bind_fatal (Inl e) f = Inl e"
| "bind_fatal (Inr x) f = f x"

lemma bind_fatal_Inr_iff:
  "bind_fatal m f = Inr y \<longleftrightarrow> (\<exists>x. m = Inr x \<and> f x = Inr y)"
  by (cases m) auto

lemma bind_fatal_Inl_iff:
  "bind_fatal m f = Inl e \<longleftrightarrow> m = Inl e \<or> (\<exists>x. m = Inr x \<and> f x = Inl e)"
  by (cases m) auto

lemma bind_fatal_return [simp]: "bind_fatal m Inr = m"
  by (cases m) auto

lemma bind_fatal_assoc:
  "bind_fatal (bind_fatal m f) g = bind_fatal m (\<lambda>x. bind_fatal (f x) g)"
  by (cases m) auto

text \<open>An operation that does not end the program.\<close>

fun succeeds :: "'e + 'a \<Rightarrow> bool" where
  "succeeds (Inl e) = False"
| "succeeds (Inr x) = True"

lemma succeeds_iff: "succeeds m \<longleftrightarrow> (\<exists>x. m = Inr x)"
  by (cases m) auto

lemma succeeds_bind [intro]: "succeeds m \<Longrightarrow> (\<And>x. succeeds (f x)) \<Longrightarrow> succeeds (bind_fatal m f)"
  by (cases m) auto

section \<open>Optional fields\<close>

primrec opt_or :: "'a \<Rightarrow> 'a option \<Rightarrow> 'a" where
  "opt_or d None = d"
| "opt_or d (Some x) = x"

lemma opt_or_default_iff: "opt_or d x = v \<longleftrightarrow> (x = Some v \<or> x = None \<and> d = v)"
  by (cases x) auto

section \<open>Runs of a labelled step relation\<close>

inductive run :: "('s \<Rightarrow> 'e \<Rightarrow> 's \<Rightarrow> bool) \<Rightarrow> 's \<Rightarrow> 'e list \<Rightarrow> 's \<Rightarrow> bool"
  for step :: "'s \<Rightarrow> 'e \<Rightarrow> 's \<Rightarrow> bool" where
  run_nil: "run step s [] s"
| run_cons: "step s e t \<Longrightarrow> run step t es u \<Longrightarrow> run step s (e # es) u"

inductive_simps run_Nil_iff [simp]: "run step s [] t"
inductive_simps run_Cons_iff: "run step s (e # es) t"

lemma run_append_iff:
  "run step s (es @ fs) u \<longleftrightarrow> (\<exists>t. run step s es t \<and> run step t fs u)"
proof (induction es arbitrary: s)
  case Nil
  then show ?case by simp
next
  case (Cons e es)
  then show ?case by (auto simp: run_Cons_iff)
qed

text \<open>
  \<open>admissible s e\<close> is what the environment promises about an event that arrives in state \<open>s\<close>
  (\<open>True\<close> where the invariant needs no promise); \<open>admissible_run\<close> asks it along a run.
\<close>

inductive admissible_run ::
    "('s \<Rightarrow> 'e \<Rightarrow> 's \<Rightarrow> bool) \<Rightarrow> ('s \<Rightarrow> 'e \<Rightarrow> bool) \<Rightarrow> 's \<Rightarrow> 'e list \<Rightarrow> 's \<Rightarrow> bool"
  for step :: "'s \<Rightarrow> 'e \<Rightarrow> 's \<Rightarrow> bool" and admissible :: "'s \<Rightarrow> 'e \<Rightarrow> bool" where
  admissible_nil: "admissible_run step admissible s [] s"
| admissible_cons: "admissible s e \<Longrightarrow> step s e t \<Longrightarrow> admissible_run step admissible t es u \<Longrightarrow>
    admissible_run step admissible s (e # es) u"

inductive_simps admissible_run_Nil_iff [simp]: "admissible_run step admissible s [] t"
inductive_simps admissible_run_Cons_iff: "admissible_run step admissible s (e # es) t"

lemma admissible_run_is_run:
  "admissible_run step admissible s es t \<Longrightarrow> run step s es t"
  by (induction rule: admissible_run.induct) (auto intro: run.intros)

lemma run_is_admissible_run:
  "run step s es t \<Longrightarrow> admissible_run step (\<lambda>s e. True) s es t"
  by (induction rule: run.induct) (auto intro: admissible_run.intros)

locale invariant_machine =
  fixes step :: "'s \<Rightarrow> 'e \<Rightarrow> 's \<Rightarrow> bool"
    and admissible :: "'s \<Rightarrow> 'e \<Rightarrow> bool"
    and invariant :: "'s \<Rightarrow> bool"
  assumes step_invariant: "invariant s \<Longrightarrow> admissible s e \<Longrightarrow> step s e t \<Longrightarrow> invariant t"
begin

lemma admissible_run_invariant:
  "admissible_run step admissible s es t \<Longrightarrow> invariant s \<Longrightarrow> invariant t"
  by (induction rule: admissible_run.induct) (auto dest: step_invariant)

lemma run_invariant:
  assumes "\<And>s e. admissible s e" and "run step s es t" and "invariant s"
  shows "invariant t"
proof -
  have "admissible_run step admissible s es t"
    using assms(2) by (induction rule: run.induct) (auto intro: admissible_run.intros assms(1))
  then show ?thesis using assms(3) by (rule admissible_run_invariant)
qed

end

end
