(* ===== verification/Cpp_String.thy ===== *)
theory Cpp_String
  imports Prelude "HOL-Library.Sublist"
begin

text \<open>
  The operations of \<open>std::string\<close> and of the number conversions that the program uses.  A
  \<open>std::string\<close> is a \<^typ>\<open>string\<close> (a list of bytes); \<open>npos\<close> is \<^term>\<open>None\<close>.  Every \<open>substr\<close> of the
  program starts within its string, which the lemmas of the users show, so the exception of
  \<open>substr\<close> is not modelled.  \<open>stoi\<close> has its two exceptions as values.
\<close>

section \<open>Searching\<close>

fun find_str :: "string \<Rightarrow> string \<Rightarrow> nat option" where
  "find_str pat [] = (if pat = [] then Some 0 else None)"
| "find_str pat (c # cs) =
     (if prefix pat (c # cs) then Some 0 else map_option Suc (find_str pat cs))"

fun rfind_char :: "char \<Rightarrow> string \<Rightarrow> nat option" where
  "rfind_char c [] = None"
| "rfind_char c (x # xs) =
     (case rfind_char c xs of
        Some i \<Rightarrow> Some (Suc i)
      | None \<Rightarrow> if x = c then Some 0 else None)"

definition substr :: "string \<Rightarrow> nat \<Rightarrow> nat \<Rightarrow> string" where
  "substr s pos n = take n (drop pos s)"

lemma find_str_Some_0: "find_str pat s = Some 0 \<longleftrightarrow> prefix pat s"
  by (cases s) auto

lemma find_str_self [simp]: "find_str pat (pat @ s) = Some 0"
  by (simp add: find_str_Some_0)

lemma find_str_Some_iff_sublist: "find_str pat s \<noteq> None \<longleftrightarrow> sublist pat s"
  by (induction s) (auto simp: sublist_Cons_right)

lemma find_str_bound: "find_str pat s = Some i \<Longrightarrow> i + length pat \<le> length s"
  by (induction s arbitrary: i) (auto split: if_splits dest: prefix_length_le)

lemma find_str_skip:
  "c \<notin> set xs \<Longrightarrow> find_str (c # p) (xs @ s) = map_option ((+) (length xs)) (find_str (c # p) s)"
  by (induction xs; cases "find_str (c # p) s"; auto)

lemma find_char_first: "c \<notin> set xs \<Longrightarrow> find_str [c] (xs @ c # s) = Some (length xs)"
  by (simp add: find_str_skip)

lemma find_char_None: "find_str [c] s = None \<longleftrightarrow> c \<notin> set s"
  by (induction s) auto

lemma rfind_char_None: "rfind_char c s = None \<longleftrightarrow> c \<notin> set s"
  by (induction s) (auto split: option.splits)

lemma rfind_char_last: "c \<notin> set ys \<Longrightarrow> rfind_char c (xs @ c # ys) = Some (length xs)"
proof (induction xs)
  case Nil
  then have "rfind_char c ys = None" by (simp add: rfind_char_None)
  then show ?case by simp
qed simp

lemma rfind_char_SomeD:
  assumes "rfind_char c s = Some i"
  shows "i < length s \<and> s = take i s @ c # drop (Suc i) s \<and> c \<notin> set (drop (Suc i) s)"
  using assms
proof (induction s arbitrary: i)
  case (Cons x xs)
  then show ?case
    by (auto split: option.splits if_splits simp: rfind_char_None)
qed simp

section \<open>Printing numbers\<close>

definition digit_char :: "nat \<Rightarrow> char" where
  "digit_char d = char_of (48 + d)"

fun dec_of_nat :: "nat \<Rightarrow> string" where
  "dec_of_nat n = (if n < 10 then [digit_char n] else dec_of_nat (n div 10) @ [digit_char (n mod 10)])"

declare dec_of_nat.simps [simp del]

definition to_string :: "int \<Rightarrow> string" where
  "to_string i = (if i < 0 then CHR ''-'' # dec_of_nat (nat (- i)) else dec_of_nat (nat i))"

section \<open>Reading numbers\<close>

definition is_digit :: "char \<Rightarrow> bool" where
  "is_digit c \<longleftrightarrow> 48 \<le> (of_char c :: nat) \<and> (of_char c :: nat) \<le> 57"

definition digit_val :: "char \<Rightarrow> nat" where
  "digit_val c = of_char c - 48"

definition is_space :: "char \<Rightarrow> bool" where
  "is_space c \<longleftrightarrow> (of_char c :: nat) = 32 \<or> 9 \<le> (of_char c :: nat) \<and> (of_char c :: nat) \<le> 13"

definition read_digits :: "string \<Rightarrow> nat" where
  "read_digits ds = foldl (\<lambda>acc c. acc * 10 + digit_val c) 0 ds"

datatype stoi_result = Stoi_Value int | Stoi_Invalid_Argument | Stoi_Out_Of_Range

text \<open>
  \<open>std::stoi\<close>: leading white space, an optional sign, the longest run of decimal digits; the
  characters after it are ignored.  No digit throws \<open>invalid_argument\<close>, a value that does not
  fit 32 bits throws \<open>out_of_range\<close>.
\<close>

definition stoi_unsigned :: "bool \<Rightarrow> string \<Rightarrow> stoi_result" where
  "stoi_unsigned neg s =
     (let ds = takeWhile is_digit s;
          v = (if neg then - int (read_digits ds) else int (read_digits ds))
      in if ds = [] then Stoi_Invalid_Argument
         else if v < - (2 ^ 31) \<or> 2 ^ 31 \<le> v then Stoi_Out_Of_Range
         else Stoi_Value v)"

definition stoi :: "string \<Rightarrow> stoi_result" where
  "stoi s =
     (case dropWhile is_space s of
        [] \<Rightarrow> Stoi_Invalid_Argument
      | c # cs \<Rightarrow> if c = CHR ''-'' then stoi_unsigned True cs
                  else if c = CHR ''+'' then stoi_unsigned False cs
                  else stoi_unsigned False (c # cs))"

section \<open>Printing and reading are inverse\<close>

lemma of_char_digit_char: "d < 10 \<Longrightarrow> (of_char (digit_char d) :: nat) = 48 + d"
  by (simp add: digit_char_def)

lemma is_digit_digit_char [simp]: "d < 10 \<Longrightarrow> is_digit (digit_char d)"
  by (simp add: is_digit_def of_char_digit_char)

lemma digit_val_digit_char [simp]: "d < 10 \<Longrightarrow> digit_val (digit_char d) = d"
  by (simp add: digit_val_def of_char_digit_char)

lemma dec_of_nat_digits: "c \<in> set (dec_of_nat n) \<Longrightarrow> is_digit c"
proof (induction n rule: dec_of_nat.induct)
  case (1 n)
  then show ?case by (subst (asm) (2) dec_of_nat.simps) (auto split: if_splits)
qed

lemma dec_of_nat_nonempty [simp]: "dec_of_nat n \<noteq> []"
  by (subst dec_of_nat.simps) simp

lemma read_digits_snoc: "read_digits (ds @ [c]) = read_digits ds * 10 + digit_val c"
  by (simp add: read_digits_def)

lemma read_digits_dec_of_nat [simp]: "read_digits (dec_of_nat n) = n"
proof (induction n rule: dec_of_nat.induct)
  case (1 n)
  show ?case
  proof (cases "n < 10")
    case True
    then show ?thesis by (subst dec_of_nat.simps) (simp add: read_digits_def)
  next
    case False
    with 1 show ?thesis by (subst dec_of_nat.simps) (simp add: read_digits_snoc)
  qed
qed

lemma is_digit_not_space: "is_digit c \<Longrightarrow> \<not> is_space c"
  by (auto simp: is_digit_def is_space_def)

lemma is_digit_not_sign: "is_digit c \<Longrightarrow> c \<noteq> CHR ''-'' \<and> c \<noteq> CHR ''+''"
  by (auto simp: is_digit_def)

lemma takeWhile_dec_of_nat:
  assumes "rest = [] \<or> \<not> is_digit (hd rest)"
  shows "takeWhile is_digit (dec_of_nat n @ rest) = dec_of_nat n"
proof -
  have "takeWhile is_digit rest = []" using assms by (cases rest) auto
  then show ?thesis by (simp add: takeWhile_append2 dec_of_nat_digits)
qed

lemma stoi_dec_of_nat:
  assumes "n < 2 ^ 31" and rest: "rest = [] \<or> \<not> is_digit (hd rest)"
  shows "stoi (dec_of_nat n @ rest) = Stoi_Value (int n)"
proof -
  obtain c cs where c: "dec_of_nat n = c # cs" by (cases "dec_of_nat n") auto
  then have "is_digit c" using dec_of_nat_digits [of c n] by simp
  then have "dropWhile is_space (dec_of_nat n @ rest) = dec_of_nat n @ rest"
    and "c \<noteq> CHR ''-''" and "c \<noteq> CHR ''+''"
    using c is_digit_not_space is_digit_not_sign by auto
  then have "stoi (dec_of_nat n @ rest) = stoi_unsigned False (dec_of_nat n @ rest)"
    by (simp add: stoi_def c)
  also have "\<dots> = Stoi_Value (int n)"
    using assms(1) by (simp add: stoi_unsigned_def takeWhile_dec_of_nat [OF rest])
  finally show ?thesis .
qed

lemma stoi_to_string:
  assumes "- (2 ^ 31) \<le> i" and "i < 2 ^ 31" and rest: "rest = [] \<or> \<not> is_digit (hd rest)"
  shows "stoi (to_string i @ rest) = Stoi_Value i"
proof (cases "i < 0")
  case True
  have "\<not> is_space (CHR ''-'')" by (simp add: is_space_def)
  with True assms(1) show ?thesis
    by (simp add: to_string_def stoi_def stoi_unsigned_def takeWhile_dec_of_nat [OF rest])
next
  case False
  with assms show ?thesis
    by (simp add: to_string_def stoi_dec_of_nat nat_less_iff)
qed

lemma dec_of_nat_inject [simp]: "dec_of_nat m = dec_of_nat n \<longleftrightarrow> m = n"
  by (metis read_digits_dec_of_nat)

end
