(* ===== verification/Std_Map.thy ===== *)
theory Std_Map
  imports Prelude "HOL-Library.Char_ord" "HOL-Library.List_Lexorder"
begin

text \<open>
  \<open>std::map\<close> as the program uses it: an ordered association list without duplicate keys, so that
  iteration (\<open>for (auto& node : nodes_)\<close>) visits the keys in ascending order.  \<open>map_insert\<close> is
  \<open>insert\<close>/\<open>emplace\<close>, which keep an entry that is already there; \<open>map_modify\<close> is a write through
  an iterator or a reference to a mapped value.

  The locale \<open>ordered_map\<close> is the contract that the users of a map rely on; it is interpreted on
  the operations below, and the components reason from \<open>smap\<close> facts only.
\<close>

type_synonym ('k, 'v) std_map = "('k \<times> 'v) list"

fun map_find :: "('k, 'v) std_map \<Rightarrow> 'k \<Rightarrow> 'v option" where
  "map_find [] k = None"
| "map_find ((k', v) # m) k = (if k = k' then Some v else map_find m k)"

fun map_insert :: "'k::linorder \<Rightarrow> 'v \<Rightarrow> ('k, 'v) std_map \<Rightarrow> ('k, 'v) std_map" where
  "map_insert k v [] = [(k, v)]"
| "map_insert k v ((k', v') # m) =
     (if k = k' then (k', v') # m
      else if k < k' then (k, v) # (k', v') # m
      else (k', v') # map_insert k v m)"

fun map_modify :: "'k \<Rightarrow> ('v \<Rightarrow> 'v) \<Rightarrow> ('k, 'v) std_map \<Rightarrow> ('k, 'v) std_map" where
  "map_modify k f [] = []"
| "map_modify k f ((k', v) # m) =
     (if k = k' then (k', f v) # m else (k', v) # map_modify k f m)"

definition map_keys :: "('k, 'v) std_map \<Rightarrow> 'k list" where
  "map_keys m = map fst m"

definition map_ok :: "('k::linorder, 'v) std_map \<Rightarrow> bool" where
  "map_ok m \<longleftrightarrow> sorted_wrt (<) (map_keys m)"

section \<open>The contract of an ordered map\<close>

locale ordered_map =
  fixes find :: "'m \<Rightarrow> 'k::linorder \<Rightarrow> 'v option"
    and insert :: "'k \<Rightarrow> 'v \<Rightarrow> 'm \<Rightarrow> 'm"
    and modify :: "'k \<Rightarrow> ('v \<Rightarrow> 'v) \<Rightarrow> 'm \<Rightarrow> 'm"
    and keys :: "'m \<Rightarrow> 'k list"
    and ok :: "'m \<Rightarrow> bool"
    and empty :: 'm
  assumes find_empty: "find empty k = None"
    and find_insert: "ok m \<Longrightarrow> find (insert k v m) j =
      (if j = k \<and> find m k = None then Some v else find m j)"
    and find_modify: "find (modify k f m) j =
      (if j = k then map_option f (find m k) else find m j)"
    and keys_iff: "set (keys m) = {k. find m k \<noteq> None}"
    and keys_modify: "keys (modify k f m) = keys m"
    and keys_sorted: "ok m \<Longrightarrow> sorted_wrt (<) (keys m)"
    and ok_empty: "ok empty"
    and ok_insert: "ok m \<Longrightarrow> ok (insert k v m)"
    and ok_modify: "ok m \<Longrightarrow> ok (modify k f m)"
begin

lemma insert_present: "ok m \<Longrightarrow> find m k = Some x \<Longrightarrow> find (insert k v m) j = find m j"
  by (simp add: find_insert)

lemma insert_absent: "ok m \<Longrightarrow> find m k = None \<Longrightarrow> find (insert k v m) k = Some v"
  by (simp add: find_insert)

lemma find_insert_cases:
  "ok m \<Longrightarrow> find (insert k v m) j = Some x \<Longrightarrow> find m j = Some x \<or> j = k \<and> x = v"
  by (auto simp: find_insert split: if_splits)

lemma find_modify_same: "find m k = Some x \<Longrightarrow> find (modify k f m) k = Some (f x)"
  by (simp add: find_modify)

lemma find_modify_other: "j \<noteq> k \<Longrightarrow> find (modify k f m) j = find m j"
  by (simp add: find_modify)

lemma find_modify_cases:
  "find (modify k f m) j = Some x \<Longrightarrow>
     (j \<noteq> k \<and> find m j = Some x) \<or> (\<exists>y. j = k \<and> find m k = Some y \<and> x = f y)"
  by (auto simp: find_modify split: if_splits)

lemma keys_distinct: "ok m \<Longrightarrow> distinct (keys m)"
  using keys_sorted strict_sorted_iff by blast

lemma keys_insert: "ok m \<Longrightarrow> set (keys (insert k v m)) = Set.insert k (set (keys m))"
  by (auto simp: keys_iff find_insert)

text \<open>A predicate on all entries survives both writes.\<close>

lemma all_insert:
  "ok m \<Longrightarrow> (\<And>j x. find m j = Some x \<Longrightarrow> P j x) \<Longrightarrow> P k v \<Longrightarrow>
   find (insert k v m) j = Some x \<Longrightarrow> P j x"
  using find_insert_cases by blast

lemma all_modify:
  "(\<And>j x. find m j = Some x \<Longrightarrow> P j x) \<Longrightarrow> (\<And>x. find m k = Some x \<Longrightarrow> P k x \<Longrightarrow> P k (f x)) \<Longrightarrow>
   find (modify k f m) j = Some x \<Longrightarrow> P j x"
  using find_modify_cases by blast

end

section \<open>The association list is an ordered map\<close>

lemma map_keys_simps [simp]:
  "map_keys [] = []" "map_keys ((k, v) # m) = k # map_keys m"
  by (simp_all add: map_keys_def)

lemma set_map_keys: "set (map_keys m) = {k. map_find m k \<noteq> None}"
  by (induction m) auto

lemma map_ok_Nil [simp]: "map_ok []"
  by (simp add: map_ok_def)

lemma map_ok_Cons: "map_ok ((k, v) # m) \<longleftrightarrow> (\<forall>j \<in> set (map_keys m). k < j) \<and> map_ok m"
  by (simp add: map_ok_def)

lemma map_find_below:
  assumes "map_ok ((k', v) # m)" and "k < k'"
  shows "map_find m k = None"
proof (rule ccontr)
  assume "map_find m k \<noteq> None"
  then have "k \<in> set (map_keys m)" by (simp add: set_map_keys)
  with assms show False by (auto simp: map_ok_Cons)
qed

lemma map_find_insert:
  "map_ok m \<Longrightarrow> map_find (map_insert k v m) j =
     (if j = k \<and> map_find m k = None then Some v else map_find m j)"
proof (induction k v m rule: map_insert.induct)
  case (2 k v k' v' m)
  then show ?case using map_find_below [of k' v' m k] by (auto simp: map_ok_Cons)
qed simp

lemma set_keys_insert: "set (map_keys (map_insert k v m)) = insert k (set (map_keys m))"
  by (induction k v m rule: map_insert.induct) auto

lemma map_insert_present [simp]: "map_ok m \<Longrightarrow> map_find m k = Some x \<Longrightarrow> map_insert k v m = m"
proof (induction k v m rule: map_insert.induct)
  case (2 k v k' v' m)
  then show ?case using map_find_below [of k' v' m k] by (auto simp: map_ok_Cons split: if_splits)
qed simp

lemma map_find_modify:
  "map_find (map_modify k f m) j = (if j = k then map_option f (map_find m k) else map_find m j)"
  by (induction k f m rule: map_modify.induct) auto

lemma map_keys_modify [simp]: "map_keys (map_modify k f m) = map_keys m"
  by (induction k f m rule: map_modify.induct) auto

lemma map_ok_insert: "map_ok m \<Longrightarrow> map_ok (map_insert k v m)"
proof (induction k v m rule: map_insert.induct)
  case (2 k v k' v' m)
  then show ?case by (auto simp: map_ok_Cons set_keys_insert)
qed (simp add: map_ok_def)

lemma map_ok_modify [simp]: "map_ok (map_modify k f m) = map_ok m"
  by (simp add: map_ok_def)

lemma map_okD: "map_ok m \<Longrightarrow> sorted_wrt (<) (map_keys m)"
  by (simp add: map_ok_def)

interpretation smap: ordered_map map_find map_insert map_modify map_keys map_ok "[]"
  by unfold_locales
    (auto simp: map_find_insert map_find_modify set_map_keys map_ok_insert dest: map_okD)

lemma map_find_same_keys:
  assumes "map_keys m' = map_keys m"
  shows "map_find m' k = None \<longleftrightarrow> map_find m k = None"
proof -
  have "k \<in> set (map_keys m') \<longleftrightarrow> k \<in> set (map_keys m)" using assms by simp
  then show ?thesis by (simp add: set_map_keys del: not_None_eq)
qed

lemma map_find_in_set: "map_find m k = Some v \<Longrightarrow> (k, v) \<in> set m"
  by (induction m) (auto split: if_splits)

lemma in_set_map_find: "map_ok m \<Longrightarrow> (k, v) \<in> set m \<Longrightarrow> map_find m k = Some v"
proof (induction m)
  case (Cons a m)
  obtain k' v' where a: "a = (k', v')" by (cases a)
  show ?case
  proof (cases "(k, v) = a")
    case False
    with Cons.prems a have "(k, v) \<in> set m" and "map_ok m" by (auto simp: map_ok_Cons)
    moreover have "k \<in> set (map_keys m)" using \<open>(k, v) \<in> set m\<close> by (force simp: map_keys_def)
    ultimately show ?thesis using Cons.IH Cons.prems(1) a by (auto simp: map_ok_Cons)
  qed (use a in simp)
qed simp

end
