(* ===== verification/Flags.thy ===== *)
theory Flags
  imports Prelude
begin

text \<open>
  The command line flags (gflags) of the scheduler.  An \<open>int32\<close> flag is an \<^typ>\<open>int\<close>: the code
  adds, subtracts and compares flags as signed integers, where an overflow is undefined
  behaviour, so the model has the value of every computation that does not overflow.  The
  conversion of a flag to \<open>uint16_t\<close>, which is defined for every value, is written out where the
  code makes it.
\<close>

record flags =
  FLAGS_probe_interval_s :: int
  FLAGS_probe_executor_keepalive_interval_s :: int
  FLAGS_reconcile_service_interval_s :: int
  FLAGS_restrict_hosts :: string
  FLAGS_docker_image :: string
  FLAGS_registry_dns_name :: string
  FLAGS_mesos_dns_domain :: string
  FLAGS_registry_resources :: string
  FLAGS_metadata_resources :: string
  FLAGS_data_resources :: string
  FLAGS_prober_resources :: string
  FLAGS_client_resources :: string
  FLAGS_api_resources :: string
  FLAGS_s3_resources :: string
  FLAGS_webconsole_resources :: string
  FLAGS_extra_service_config :: string
  FLAGS_service_debug_port :: int
  FLAGS_registry_extra_ram_mb :: int
  FLAGS_metadata_extra_ram_mb :: int
  FLAGS_s3_extra_ram_mb :: int
  FLAGS_enable_assertions :: bool
  FLAGS_host_device_directory :: string
  FLAGS_prober_user :: string
  FLAGS_port_range_base :: int
  FLAGS_api_port :: int
  FLAGS_s3_port :: int
  FLAGS_s3_hostname :: string
  FLAGS_webconsole_port :: int
  FLAGS_framework_image :: string
  FLAGS_client_image :: string
  FLAGS_public_slave_role :: string
  FLAGS_autodetect_service_ip :: bool
  FLAGS_client_mount_point :: string

text \<open>The defaults of the \<open>DEFINE_\<close> macros.\<close>

definition default_flags :: flags where
  "default_flags = \<lparr>
     FLAGS_probe_interval_s = 120,
     FLAGS_probe_executor_keepalive_interval_s = 60,
     FLAGS_reconcile_service_interval_s = 60,
     FLAGS_restrict_hosts = '''',
     FLAGS_docker_image = '''',
     FLAGS_registry_dns_name = ''_registry._tcp.quobyte'',
     FLAGS_mesos_dns_domain = ''.mesos'',
     FLAGS_registry_resources = ''cpus:1.0;mem:2084;disk:32'',
     FLAGS_metadata_resources = ''cpus:2.0;mem:8192;disk:32'',
     FLAGS_data_resources = ''cpus:4.0;mem:4096;disk:32'',
     FLAGS_prober_resources = ''cpus:0.1;mem:256;disk:150'',
     FLAGS_client_resources = ''cpus:2.0;mem:2048;disk:150'',
     FLAGS_api_resources = ''cpus:0.1;mem:512;disk:32'',
     FLAGS_s3_resources = ''cpus:1.0;mem:512;disk:32'',
     FLAGS_webconsole_resources = ''cpus:0.5;mem:512;disk:32'',
     FLAGS_extra_service_config = '''',
     FLAGS_service_debug_port = -1,
     FLAGS_registry_extra_ram_mb = 512,
     FLAGS_metadata_extra_ram_mb = 1024,
     FLAGS_s3_extra_ram_mb = 1536,
     FLAGS_enable_assertions = False,
     FLAGS_host_device_directory = ''/mnt'',
     FLAGS_prober_user = ''root'',
     FLAGS_port_range_base = 21000,
     FLAGS_api_port = 8889,
     FLAGS_s3_port = 80,
     FLAGS_s3_hostname = '''',
     FLAGS_webconsole_port = 8888,
     FLAGS_framework_image = ''quobyte/quobyte-mesos:latest'',
     FLAGS_client_image = '''',
     FLAGS_public_slave_role = '''',
     FLAGS_autodetect_service_ip = True,
     FLAGS_client_mount_point = ''''\<rparr>"

text \<open>\<open>uint16_t\<close> parameters that receive a flag or a sum of a flag and a constant.\<close>

type_synonym uint16 = "16 word"

definition to_uint16 :: "int \<Rightarrow> uint16" where
  "to_uint16 i = word_of_int i"

definition port :: "flags \<Rightarrow> int \<Rightarrow> uint16" where
  "port F k = to_uint16 (FLAGS_port_range_base F + k)"

text \<open>The names of the services (the \<open>_TASK\<close> constants).\<close>

definition PROBER_TASK :: string where "PROBER_TASK = ''prober''"
definition REGISTRY_TASK :: string where "REGISTRY_TASK = ''registry''"
definition METADATA_TASK :: string where "METADATA_TASK = ''metadata''"
definition DATA_TASK :: string where "DATA_TASK = ''data''"
definition API_TASK :: string where "API_TASK = ''api''"
definition S3_TASK :: string where "S3_TASK = ''s3''"
definition WEBCONSOLE_TASK :: string where "WEBCONSOLE_TASK = ''webconsole''"
definition CLIENT_TASK :: string where "CLIENT_TASK = ''client''"

lemmas task_defs = PROBER_TASK_def REGISTRY_TASK_def METADATA_TASK_def DATA_TASK_def
  API_TASK_def S3_TASK_def WEBCONSOLE_TASK_def CLIENT_TASK_def

text \<open>
  The ports of the service tasks are \<open>port F 0\<close> to \<open>port F 11\<close>: two per service.  They differ from
  each other even when the base is so large that they wrap around at 16 bits.
\<close>

lemma port_add: "port F k = port F 0 + of_int k"
  by (simp add: port_def to_uint16_def)

lemma port_eq_iff:
  assumes "0 \<le> j" "j < 2 ^ 16" "0 \<le> k" "k < 2 ^ 16"
  shows "port F j = port F k \<longleftrightarrow> j = k"
proof
  assume "port F j = port F k"
  then have "(of_int j :: uint16) = of_int k" by (simp add: port_add [of F j] port_add [of F k])
  then have "j mod 2 ^ 16 = k mod 2 ^ 16"
    by (simp add: word_of_int_eq_iff take_bit_eq_mod)
  with assms show "j = k" by simp
qed simp

end
