(* ===== verification/Proto.thy ===== *)
theory Proto
  imports Prelude
begin

text \<open>
  The messages of \<open>common/quobyte.proto\<close>.  A protobuf field is an option: \<^term>\<open>None\<close> while the
  has-bit is clear.  \<open>x_field\<close> is the stored field; the accessor of the generated C++ class, which
  reads an unset field as its default, is the abbreviation \<open>x\<close>.  A setter stores \<open>Some\<close>, and the
  \<open>mutable_\<close> accessor of a sub-message makes it present before it is written.
\<close>

section \<open>Enumerations\<close>

datatype DeviceType = BOOTSTRAP | REGISTRY | METADATA | DATA | CLIENT

fun device_number :: "DeviceType \<Rightarrow> nat" where
  "device_number BOOTSTRAP = 1"
| "device_number REGISTRY = 2"
| "device_number METADATA = 3"
| "device_number DATA = 4"
| "device_number CLIENT = 5"

lemma device_number_inject [simp]: "device_number a = device_number b \<longleftrightarrow> a = b"
  by (cases a; cases b) auto

text \<open>\<open>std::set<DeviceType>\<close> is ordered by the numbers of the enumeration.\<close>

instantiation DeviceType :: linorder
begin

definition less_eq_DeviceType :: "DeviceType \<Rightarrow> DeviceType \<Rightarrow> bool" where
  "a \<le> b \<longleftrightarrow> device_number a \<le> device_number b"

definition less_DeviceType :: "DeviceType \<Rightarrow> DeviceType \<Rightarrow> bool" where
  "a < b \<longleftrightarrow> device_number a < device_number b"

instance
  by standard (auto simp: less_eq_DeviceType_def less_DeviceType_def)

end

datatype ServiceTaskState = UNKNOWN | NOT_RUNNING | STARTING | RUNNING

fun ServiceState_TaskState_Name :: "ServiceTaskState \<Rightarrow> string" where
  "ServiceState_TaskState_Name UNKNOWN = ''UNKNOWN''"
| "ServiceState_TaskState_Name NOT_RUNNING = ''NOT_RUNNING''"
| "ServiceState_TaskState_Name STARTING = ''STARTING''"
| "ServiceState_TaskState_Name RUNNING = ''RUNNING''"

section \<open>Messages\<close>

text \<open>What the scheduler keeps in ZooKeeper.\<close>

record SchedulerState =
  framework_id_value_field :: "string option"
  target_version_field :: "string option"

abbreviation framework_id_value :: "SchedulerState \<Rightarrow> string" where
  "framework_id_value d \<equiv> opt_or '''' (framework_id_value_field d)"

abbreviation target_version :: "SchedulerState \<Rightarrow> string" where
  "target_version d \<equiv> opt_or '''' (target_version_field d)"

definition empty_SchedulerState :: SchedulerState where
  "empty_SchedulerState = \<lparr>framework_id_value_field = None, target_version_field = None\<rparr>"

text \<open>The messages between scheduler and executor.\<close>

record ProbeRequest =
  client_directory_field :: "string option"
  initialize_path_field :: "string option"

abbreviation client_directory :: "ProbeRequest \<Rightarrow> string" where
  "client_directory r \<equiv> opt_or '''' (client_directory_field r)"

abbreviation initialize_path :: "ProbeRequest \<Rightarrow> string" where
  "initialize_path r \<equiv> opt_or '''' (initialize_path_field r)"

record ProbeResponse =
  pr_device_type :: "DeviceType list"
  pr_client_mount_point_field :: "bool option"

abbreviation pr_client_mount_point :: "ProbeResponse \<Rightarrow> bool" where
  "pr_client_mount_point r \<equiv> opt_or False (pr_client_mount_point_field r)"

text \<open>The state of one service.\<close>

record ServiceState =
  ss_state_field :: "ServiceTaskState option"
  ss_last_update_s_field :: "int option"
  ss_last_seen_s_field :: "int option"
  ss_last_message_field :: "string option"
  ss_task_id_field :: "string option"

abbreviation ss_state :: "ServiceState \<Rightarrow> ServiceTaskState" where
  "ss_state s \<equiv> opt_or UNKNOWN (ss_state_field s)"

abbreviation ss_last_update_s :: "ServiceState \<Rightarrow> int" where
  "ss_last_update_s s \<equiv> opt_or 0 (ss_last_update_s_field s)"

abbreviation ss_last_seen_s :: "ServiceState \<Rightarrow> int" where
  "ss_last_seen_s s \<equiv> opt_or 0 (ss_last_seen_s_field s)"

abbreviation ss_last_message :: "ServiceState \<Rightarrow> string" where
  "ss_last_message s \<equiv> opt_or '''' (ss_last_message_field s)"

abbreviation ss_task_id :: "ServiceState \<Rightarrow> string" where
  "ss_task_id s \<equiv> opt_or '''' (ss_task_id_field s)"

definition new_ServiceState :: ServiceState where
  "new_ServiceState = \<lparr>ss_state_field = None, ss_last_update_s_field = None,
     ss_last_seen_s_field = None, ss_last_message_field = None, ss_task_id_field = None\<rparr>"

lemma new_ServiceState_simps [simp]:
  "ss_state_field new_ServiceState = None" "ss_last_update_s_field new_ServiceState = None"
  "ss_last_seen_s_field new_ServiceState = None" "ss_last_message_field new_ServiceState = None"
  "ss_task_id_field new_ServiceState = None"
  by (simp_all add: new_ServiceState_def)

text \<open>The state of one host.\<close>

record NodeState =
  ns_hostname_field :: "string option"
  ns_slave_id_value_field :: "string option"
  ns_prober_field :: "ServiceState option"
  ns_registry_field :: "ServiceState option"
  ns_metadata_field :: "ServiceState option"
  ns_data_field :: "ServiceState option"
  ns_client_field :: "ServiceState option"
  ns_device_type :: "DeviceType list"
  ns_client_mount_point_field :: "bool option"
  ns_device_types_valid_field :: "bool option"
  ns_last_probe_s_field :: "int option"
  ns_last_offer_s_field :: "int option"

abbreviation ns_hostname :: "NodeState \<Rightarrow> string" where
  "ns_hostname n \<equiv> opt_or '''' (ns_hostname_field n)"

abbreviation ns_slave_id_value :: "NodeState \<Rightarrow> string" where
  "ns_slave_id_value n \<equiv> opt_or '''' (ns_slave_id_value_field n)"

abbreviation ns_prober :: "NodeState \<Rightarrow> ServiceState" where
  "ns_prober n \<equiv> opt_or new_ServiceState (ns_prober_field n)"

abbreviation ns_registry :: "NodeState \<Rightarrow> ServiceState" where
  "ns_registry n \<equiv> opt_or new_ServiceState (ns_registry_field n)"

abbreviation ns_metadata :: "NodeState \<Rightarrow> ServiceState" where
  "ns_metadata n \<equiv> opt_or new_ServiceState (ns_metadata_field n)"

abbreviation ns_data :: "NodeState \<Rightarrow> ServiceState" where
  "ns_data n \<equiv> opt_or new_ServiceState (ns_data_field n)"

abbreviation ns_client :: "NodeState \<Rightarrow> ServiceState" where
  "ns_client n \<equiv> opt_or new_ServiceState (ns_client_field n)"

abbreviation ns_client_mount_point :: "NodeState \<Rightarrow> bool" where
  "ns_client_mount_point n \<equiv> opt_or False (ns_client_mount_point_field n)"

abbreviation ns_device_types_valid :: "NodeState \<Rightarrow> bool" where
  "ns_device_types_valid n \<equiv> opt_or False (ns_device_types_valid_field n)"

abbreviation ns_last_probe_s :: "NodeState \<Rightarrow> int" where
  "ns_last_probe_s n \<equiv> opt_or 0 (ns_last_probe_s_field n)"

abbreviation ns_last_offer_s :: "NodeState \<Rightarrow> int" where
  "ns_last_offer_s n \<equiv> opt_or 0 (ns_last_offer_s_field n)"

definition new_NodeState :: NodeState where
  "new_NodeState = \<lparr>ns_hostname_field = None, ns_slave_id_value_field = None,
     ns_prober_field = None, ns_registry_field = None, ns_metadata_field = None,
     ns_data_field = None, ns_client_field = None, ns_device_type = [],
     ns_client_mount_point_field = None, ns_device_types_valid_field = None,
     ns_last_probe_s_field = None, ns_last_offer_s_field = None\<rparr>"

definition mutable_prober :: "(ServiceState \<Rightarrow> ServiceState) \<Rightarrow> NodeState \<Rightarrow> NodeState" where
  [mutable_defs]: "mutable_prober f n = n\<lparr>ns_prober_field := Some (f (ns_prober n))\<rparr>"

definition mutable_registry :: "(ServiceState \<Rightarrow> ServiceState) \<Rightarrow> NodeState \<Rightarrow> NodeState" where
  [mutable_defs]: "mutable_registry f n = n\<lparr>ns_registry_field := Some (f (ns_registry n))\<rparr>"

definition mutable_metadata :: "(ServiceState \<Rightarrow> ServiceState) \<Rightarrow> NodeState \<Rightarrow> NodeState" where
  [mutable_defs]: "mutable_metadata f n = n\<lparr>ns_metadata_field := Some (f (ns_metadata n))\<rparr>"

definition mutable_data :: "(ServiceState \<Rightarrow> ServiceState) \<Rightarrow> NodeState \<Rightarrow> NodeState" where
  [mutable_defs]: "mutable_data f n = n\<lparr>ns_data_field := Some (f (ns_data n))\<rparr>"

definition mutable_client :: "(ServiceState \<Rightarrow> ServiceState) \<Rightarrow> NodeState \<Rightarrow> NodeState" where
  [mutable_defs]: "mutable_client f n = n\<lparr>ns_client_field := Some (f (ns_client n))\<rparr>"

end
