(* ===== verification/Mesos_Types.thy ===== *)
theory Mesos_Types
  imports Proto
begin

text \<open>
  The Mesos messages as the program fills and reads them, the calls it makes on the drivers, and
  the record of everything the program calls that is not in this repository.  That code is a
  parameter of the model: \<open>('r, 'z) externals\<close> is an argument of every definition that reaches it,
  for an arbitrary type \<open>'r\<close> of \<open>mesos::Resources\<close> and \<open>'z\<close> of the replicated state storage.  What
  the code relies on is written as predicates at the end (\<open>codec_ok\<close>, \<open>storage_ok\<close>,
  \<open>resources_ok\<close>), used as named hypotheses.
\<close>

section \<open>Messages\<close>

text \<open>The task states that \<open>IsTerminal\<close> distinguishes; any other value is undefined behaviour there.\<close>

datatype TaskState = TASK_STAGING | TASK_STARTING | TASK_RUNNING | TASK_FINISHED | TASK_FAILED
  | TASK_KILLED | TASK_LOST | TASK_ERROR

text \<open>What \<open>run\<close> of a driver returns.\<close>

datatype DriverStatus = DRIVER_NOT_STARTED | DRIVER_RUNNING | DRIVER_ABORTED | DRIVER_STOPPED

record TaskStatus =
  st_task_id :: string
  st_state :: TaskState
  st_slave_id :: string
  st_message :: string
  st_labels :: "(string \<times> string) list"

definition plain_status :: "string \<Rightarrow> TaskState \<Rightarrow> TaskStatus" where
  "plain_status task_id state = \<lparr>st_task_id = task_id, st_state = state, st_slave_id = '''',
     st_message = '''', st_labels = []\<rparr>"

record 'r Offer =
  offer_id :: string
  offer_hostname :: string
  offer_slave_id :: string
  offer_resources :: 'r

datatype VolumeMode = RW | RO

record Volume =
  vol_container_path :: string
  vol_host_path :: string
  vol_mode :: VolumeMode

datatype Network = HOST | BRIDGE

record PortMapping =
  pm_host_port :: "16 word"
  pm_container_port :: "16 word"
  pm_protocol :: string

record DockerInfo =
  docker_privileged :: bool
  docker_network :: Network
  docker_image :: string
  docker_parameters :: "(string \<times> string) list"

record ContainerInfo =
  cont_volumes :: "Volume list"
  cont_docker :: "DockerInfo option"

record CommandInfo =
  cmd_value :: string
  cmd_shell :: bool

record ExecutorInfo =
  exec_executor_id :: string
  exec_source :: string
  exec_container :: ContainerInfo
  exec_command :: CommandInfo

record DiscoveryPort =
  dp_number :: "16 word"
  dp_name :: string
  dp_protocol :: string

datatype Visibility = EXTERNAL | FRAMEWORK | CLUSTER

record DiscoveryInfo =
  disc_visibility :: Visibility
  disc_name :: string
  disc_version :: string
  disc_labels :: "(string \<times> string) list"
  disc_ports :: "DiscoveryPort list"

record 'r TaskInfo =
  ti_name :: string
  ti_task_id :: string
  ti_slave_id :: string
  ti_resources :: "'r option"
  ti_executor :: "ExecutorInfo option"
  ti_command :: "CommandInfo option"
  ti_container :: "ContainerInfo option"
  ti_labels :: "(string \<times> string) list"
  ti_discovery :: "DiscoveryInfo option"

definition new_TaskInfo :: "'r TaskInfo" where
  "new_TaskInfo = \<lparr>ti_name = '''', ti_task_id = '''', ti_slave_id = '''', ti_resources = None,
     ti_executor = None, ti_command = None, ti_container = None, ti_labels = [],
     ti_discovery = None\<rparr>"

text \<open>The calls on \<open>mesos::SchedulerDriver\<close>, in the order they are made.\<close>

datatype 'r driver_call =
    DeclineOffer string
  | LaunchTasks string "'r TaskInfo list"
  | KillTask string
  | ReconcileTasks "TaskStatus list"
  | SendFrameworkMessage string string string

section \<open>Code outside the repository\<close>

record ('r, 'z) externals =
  \<comment> \<open>\<open>mesos::Resources\<close>\<close>
  resources_parse :: "string \<Rightarrow> 'r option"
  resources_contains :: "'r \<Rightarrow> 'r \<Rightarrow> bool"
  resources_minus :: "'r \<Rightarrow> 'r \<Rightarrow> 'r"
  resources_reserved_size :: "'r \<Rightarrow> string \<Rightarrow> nat"
  resources_empty :: 'r
  \<comment> \<open>\<open>mesos::state::State\<close>\<close>
  state_fetch :: "'z \<Rightarrow> string \<Rightarrow> string"
  state_store :: "'z \<Rightarrow> string \<Rightarrow> string \<Rightarrow> 'z"
  \<comment> \<open>protobuf text format of \<open>SchedulerState\<close>\<close>
  text_print :: "SchedulerState \<Rightarrow> string option"
  text_parse :: "string \<Rightarrow> SchedulerState option"
  \<comment> \<open>protobuf wire format of the probe messages\<close>
  serialize_request :: "ProbeRequest \<Rightarrow> string"
  parse_response :: "string \<Rightarrow> ProbeResponse option"
  \<comment> \<open>\<open>DebugString\<close> of the three messages that the status page shows\<close>
  debug_SchedulerState :: "SchedulerState \<Rightarrow> string"
  debug_ServiceState :: "ServiceState \<Rightarrow> string"
  debug_NodeState :: "NodeState \<Rightarrow> string"
  \<comment> \<open>the executor archive: \<open>None\<close> if it cannot be opened, then the bytes or a read error\<close>
  archive_read :: "string option option"

text \<open>What the persistence of the scheduler relies on: the text format round-trips, and a stored
  value is what the next fetch of the same variable returns.\<close>

definition codec_ok :: "('r, 'z) externals \<Rightarrow> bool" where
  "codec_ok E \<longleftrightarrow> (\<forall>d. \<exists>s. text_print E d = Some s \<and> text_parse E s = Some d)"

definition storage_ok :: "('r, 'z) externals \<Rightarrow> bool" where
  "storage_ok E \<longleftrightarrow> (\<forall>z p v. state_fetch E (state_store E z p v) p = v)"

text \<open>What placement relies on: \<open>amount\<close> reads the quantity of one kind of resource; containment
  compares every kind, and subtraction of what is contained subtracts every kind.\<close>

definition resources_ok :: "('r, 'z) externals \<Rightarrow> ('r \<Rightarrow> 'k \<Rightarrow> nat) \<Rightarrow> bool" where
  "resources_ok E amount \<longleftrightarrow>
     (\<forall>a b k. resources_contains E a b \<longrightarrow>
        amount b k \<le> amount a k \<and> amount (resources_minus E a b) k = amount a k - amount b k)"

lemma codec_okE:
  assumes "codec_ok E"
  obtains s where "text_print E d = Some s" and "text_parse E s = Some d"
  using assms unfolding codec_ok_def by blast

lemma storage_okD: "storage_ok E \<Longrightarrow> state_fetch E (state_store E z p v) p = v"
  by (simp add: storage_ok_def)

lemma resources_okD:
  assumes "resources_ok E amount" and "resources_contains E a b"
  shows "amount b k \<le> amount a k"
    and "amount (resources_minus E a b) k = amount a k - amount b k"
  using assms by (auto simp: resources_ok_def)

end
