(* ===== verification/Tasks.thy ===== *)
theory Tasks
  imports Cpp_String Std_Map Flags Mesos_Types
begin

text \<open>
  The task descriptions of \<open>scheduler/scheduler.cpp\<close>: the memory setting read back from a resource
  string, the shell command of a service container, the resource string with its ports, and the
  \<open>TaskInfo\<close> of prober, client and services.
\<close>

section \<open>Memory of a resource string\<close>

text \<open>Both exceptions of \<open>stoi\<close> are visible: \<open>invalid_argument\<close> is caught, \<open>out_of_range\<close> is not.\<close>

definition memMbFromResourceString :: "string \<Rightarrow> fatal + int" where
  "memMbFromResourceString resource_string =
     (case find_str ''mem'' resource_string of
        None \<Rightarrow> Inr (- 1)
      | Some mem_idx \<Rightarrow>
          let mem_start_str = substr resource_string mem_idx (length resource_string);
              mem_end_idx = (case find_str '';'' mem_start_str of
                 None \<Rightarrow> length mem_start_str - 1
               | Some i \<Rightarrow> i);
              mem_str = substr mem_start_str 0 mem_end_idx;
              mem_val_idx = (case find_str '':'' mem_str of None \<Rightarrow> 0 | Some i \<Rightarrow> i + 1);
              mem_val_str = substr mem_str mem_val_idx (length mem_str)
          in (case stoi mem_val_str of
                Stoi_Value v \<Rightarrow> Inr v
              | Stoi_Invalid_Argument \<Rightarrow> Inr (- 1)
              | Stoi_Out_Of_Range \<Rightarrow> Inl Memory_Out_Of_Range))"

section \<open>The command of a service container\<close>

definition port_exports :: "nat \<Rightarrow> nat \<Rightarrow> string" where
  "port_exports rpcPort httpPort =
     (if rpcPort \<noteq> 0 then '' && export QUOBYTE_RPC_PORT='' @ dec_of_nat rpcPort
      else '' && export QUOBYTE_RPC_PORT=$PORT0'') @
     (if httpPort \<noteq> 0 then '' && export QUOBYTE_HTTP_PORT='' @ dec_of_nat httpPort
      else '' && export QUOBYTE_HTTP_PORT=$PORT1'')"

definition service_port_exports :: "flags \<Rightarrow> string \<Rightarrow> string" where
  "service_port_exports F service_name =
     (if service_name = ''api''
      then '' && export QUOBYTE_API_PORT='' @ to_string (FLAGS_api_port F) else '''') @
     (if service_name = ''s3''
      then '' && export QUOBYTE_S3_PORT='' @ to_string (FLAGS_s3_port F) else '''') @
     (if service_name = ''webconsole''
      then '' && export QUOBYTE_WEBCONSOLE_PORT='' @ to_string (FLAGS_webconsole_port F) else '''')"

definition export_mb :: "string \<Rightarrow> int \<Rightarrow> string" where
  "export_mb var mb = '' && export '' @ var @ ''='' @ to_string mb @ ''m''"

definition memory_exports :: "flags \<Rightarrow> string \<Rightarrow> fatal + string" where
  "memory_exports F service_name =
     (if service_name = ''registry'' then
        bind_fatal (memMbFromResourceString (FLAGS_registry_resources F))
          (\<lambda>mb. Inr (export_mb ''QUOBYTE_MAX_MEM_REGISTRY'' (mb - FLAGS_registry_extra_ram_mb F)))
      else if service_name = ''metadata'' then
        bind_fatal (memMbFromResourceString (FLAGS_metadata_resources F))
          (\<lambda>mb. Inr (export_mb ''QUOBYTE_MAX_MEM_METADATA'' (mb - FLAGS_metadata_extra_ram_mb F)))
      else if service_name = ''data'' then
        bind_fatal (memMbFromResourceString (FLAGS_data_resources F))
          (\<lambda>mb. Inr (export_mb ''QUOBYTE_MAX_MEM_DATA'' mb))
      else if service_name = ''api'' then
        bind_fatal (memMbFromResourceString (FLAGS_api_resources F))
          (\<lambda>mb. Inr (export_mb ''QUOBYTE_MAX_MEM_API'' mb))
      else if service_name = ''s3'' then
        bind_fatal (memMbFromResourceString (FLAGS_s3_resources F))
          (\<lambda>mb. Inr (export_mb ''QUOBYTE_MAX_MEM_S3'' (mb - FLAGS_s3_extra_ram_mb F) @
                     '' && export QUOBYTE_S3_HOSTNAME='' @ FLAGS_s3_hostname F))
      else if service_name = ''webconsole'' then
        bind_fatal (memMbFromResourceString (FLAGS_webconsole_resources F))
          (\<lambda>mb. Inr (export_mb ''QUOBYTE_MAX_MEM_WEBCONSOLE'' mb))
      else Inr '''')"

definition host_exports :: "flags \<Rightarrow> string \<Rightarrow> string" where
  "host_exports F host_name =
     '' && export DIG_LOOKUP=$(dig +short '' @ host_name @ '')'' @
     (if \<not> FLAGS_autodetect_service_ip F
      then '' && export HOST_IP=${DIG_LOOKUP:-'' @ host_name @ ''}'' else '''') @
     (if FLAGS_extra_service_config F \<noteq> ''''
      then '' && export QUOBYTE_EXTRA_SERVICE_CONFIG='' @ FLAGS_extra_service_config F else '''') @
     (if FLAGS_service_debug_port F \<noteq> - 1
      then '' && export QUOBYTE_DEBUG_PORT='' @ to_string (FLAGS_service_debug_port F) else '''') @
     (if FLAGS_enable_assertions F
      then '' && export QUOBYTE_ENABLE_ASSERTIONS=true'' else '''')"

definition constructDockerExecuteCommand :: "flags \<Rightarrow> string \<Rightarrow> string \<Rightarrow> nat \<Rightarrow> nat \<Rightarrow> fatal + string" where
  "constructDockerExecuteCommand F service_name host_name rpcPort httpPort =
     (if FLAGS_registry_dns_name F = '''' then Inl Registry_Dns_Name_Unset
      else bind_fatal (memory_exports F service_name) (\<lambda>memory. Inr (
        ''export QUOBYTE_SERVICE='' @ service_name @
        '' && export QUOBYTE_REGISTRY='' @ FLAGS_registry_dns_name F @ FLAGS_mesos_dns_domain F @
        port_exports rpcPort httpPort @
        service_port_exports F service_name @
        memory @
        host_exports F host_name @
        '' && /opt/main.sh'')))"

section \<open>Containers and resources\<close>

definition createQbContainerInfo :: "flags \<Rightarrow> ContainerInfo" where
  "createQbContainerInfo F = \<lparr>cont_volumes = [\<lparr>vol_container_path = ''/devices'',
     vol_host_path = FLAGS_host_device_directory F, vol_mode = RW\<rparr>], cont_docker = None\<rparr>"

definition createQbDockerInfo :: "string \<Rightarrow> bool \<Rightarrow> DockerInfo" where
  "createQbDockerInfo img same_pid = \<lparr>docker_privileged = True, docker_network = HOST,
     docker_image = img,
     docker_parameters = (if same_pid then [(''pid'', ''host'')] else [])\<rparr>"

definition makePort :: "uint16 \<Rightarrow> string \<Rightarrow> PortMapping" where
  "makePort p type = \<lparr>pm_host_port = p, pm_container_port = p, pm_protocol = type\<rparr>"

definition port_range :: "uint16 \<Rightarrow> string" where
  "port_range p = dec_of_nat (unat p) @ ''-'' @ dec_of_nat (unat p)"

definition buildResourceString :: "uint16 \<Rightarrow> uint16 \<Rightarrow> uint16 \<Rightarrow> string" where
  "buildResourceString rpcPort httpPort extraPort =
     ''ports:['' @ port_range rpcPort @ '','' @ port_range httpPort @
     (if extraPort \<noteq> 0 then '','' @ port_range extraPort else '''') @ '']''"

section \<open>Task descriptions\<close>

definition kExecutorId :: string where "kExecutorId = ''quobyte-mesos-prober-''"
definition kDockerImageVersion :: string where "kDockerImageVersion = ''docker_image_version''"

definition createProberTaskInfo :: "flags \<Rightarrow> string \<Rightarrow> fatal + 'r TaskInfo" where
  "createProberTaskInfo F framework_id =
     (if FLAGS_framework_image F = '''' then Inl Framework_Image_Unset
      else Inr (new_TaskInfo\<lparr>ti_executor := Some
        \<lparr>exec_executor_id = kExecutorId @ framework_id,
         exec_source = ''quobyte'',
         exec_container = (createQbContainerInfo F)\<lparr>cont_docker :=
           Some (createQbDockerInfo (FLAGS_framework_image F) False)\<rparr>,
         exec_command = \<lparr>cmd_value =
           ''LD_LIBRARY_PATH=/opt MESOS_SLAVE_ID=$MESOS_SLAVE_ID /opt/quobyte-mesos-executor'',
           cmd_shell = True\<rparr>\<rparr>\<rparr>))"

definition createClientTaskInfo :: "flags \<Rightarrow> 'r TaskInfo" where
  "createClientTaskInfo F = new_TaskInfo\<lparr>ti_container := Some
     \<lparr>cont_volumes = [\<lparr>vol_container_path = ''/quobyte'',
        vol_host_path = FLAGS_host_device_directory F, vol_mode = RW\<rparr>],
      cont_docker = Some ((createQbDockerInfo (FLAGS_client_image F) False)
        \<lparr>docker_parameters := [(''e'', ''QUOBYTE_REGISTRY='' @ FLAGS_registry_dns_name F @
           FLAGS_mesos_dns_domain F)]\<rparr>)\<rparr>\<rparr>"

text \<open>\<open>resources_[key]\<close> of a \<open>std::map\<close>: a key that is missing reads as empty resources.\<close>

definition resource_at :: "('r, 'z) externals \<Rightarrow> (string, 'r) std_map \<Rightarrow> string \<Rightarrow> 'r" where
  "resource_at E m key = opt_or (resources_empty E) (map_find m key)"

definition makeTask ::
    "flags \<Rightarrow> ('r, 'z) externals \<Rightarrow> (string, 'r) std_map \<Rightarrow> string \<Rightarrow>
     string \<Rightarrow> string \<Rightarrow> string \<Rightarrow> string \<Rightarrow> uint16 \<Rightarrow> uint16 \<Rightarrow> string \<Rightarrow> fatal + 'r TaskInfo" where
  "makeTask F E resources version service_id name task_id host_name rpcPort httpPort slave_id =
     bind_fatal
       (constructDockerExecuteCommand F service_id host_name (unat rpcPort) (unat httpPort))
       (\<lambda>command. Inr \<lparr>
          ti_name = name,
          ti_task_id = task_id,
          ti_slave_id = slave_id,
          ti_resources = Some (resource_at E resources service_id),
          ti_executor = None,
          ti_command = Some \<lparr>cmd_value = command, cmd_shell = True\<rparr>,
          ti_container = Some ((createQbContainerInfo F)\<lparr>cont_docker :=
            Some (createQbDockerInfo (FLAGS_docker_image F @ '':'' @ version) False)\<rparr>),
          ti_labels = [(kDockerImageVersion, version)],
          ti_discovery = Some \<lparr>disc_visibility = EXTERNAL, disc_name = service_id,
            disc_version = version, disc_labels = [(kDockerImageVersion, version)],
            disc_ports = [\<lparr>dp_number = rpcPort, dp_name = ''rpc'', dp_protocol = ''tcp''\<rparr>]\<rparr>\<rparr>)"

section \<open>Lemmas\<close>

text \<open>
  The resource string \<open>pre mem:val ; post\<close>, and the same string with the memory at its end, where
  \<open>mem_end_idx\<close> is one too small and the last character of the value is dropped.
\<close>

lemma mem_found: "CHR ''m'' \<notin> set pre \<Longrightarrow> find_str ''mem'' (pre @ ''mem'' @ rest) = Some (length pre)"
  using find_str_skip [of "CHR ''m''" pre "''em''" "''mem'' @ rest"]
    find_str_self [of "''mem''" rest] by simp

lemma mem_value_of_entry:
  assumes "CHR ''m'' \<notin> set pre" and "CHR '';'' \<notin> set val"
  shows "memMbFromResourceString (pre @ ''mem:'' @ val @ '';'' @ post) =
    (case stoi val of
       Stoi_Value v \<Rightarrow> Inr v
     | Stoi_Invalid_Argument \<Rightarrow> Inr (- 1)
     | Stoi_Out_Of_Range \<Rightarrow> Inl Memory_Out_Of_Range)"
proof -
  have found: "find_str ''mem'' (pre @ ''mem:'' @ val @ '';'' @ post) = Some (length pre)"
    using mem_found [OF assms(1), of "'':'' @ val @ '';'' @ post"] by simp
  have semi: "find_str '';'' (''mem:'' @ val @ CHR '';'' # post) = Some (4 + length val)"
    using find_char_first [of "CHR '';''" "''mem:'' @ val" post] assms(2) by simp
  have colon: "find_str '':'' (''mem:'' @ val) = Some 3"
    using find_char_first [of "CHR '':''" "''mem''" val] by simp
  show ?thesis
    unfolding memMbFromResourceString_def found
    using semi colon by (simp add: substr_def)
qed

lemma mem_value_at_end:
  assumes "CHR ''m'' \<notin> set pre" and "CHR '';'' \<notin> set val" and "val \<noteq> []"
  shows "memMbFromResourceString (pre @ ''mem:'' @ val) =
    (case stoi (butlast val) of
       Stoi_Value v \<Rightarrow> Inr v
     | Stoi_Invalid_Argument \<Rightarrow> Inr (- 1)
     | Stoi_Out_Of_Range \<Rightarrow> Inl Memory_Out_Of_Range)"
proof -
  have found: "find_str ''mem'' (pre @ ''mem:'' @ val) = Some (length pre)"
    using mem_found [OF assms(1), of "'':'' @ val"] by simp
  obtain v c where val: "val = v @ [c]" using assms(3) by (cases val rule: rev_cases) auto
  have semi: "find_str '';'' (''mem:'' @ val) = None"
    using assms(2) by (simp add: find_char_None)
  have colon: "find_str '':'' (''mem:'' @ v) = Some 3"
    using find_char_first [of "CHR '':''" "''mem''" v] by simp
  show ?thesis
    unfolding memMbFromResourceString_def found
    using semi colon by (simp add: substr_def val)
qed

lemma butlast_dec_of_nat: "butlast (dec_of_nat n) = (if n < 10 then [] else dec_of_nat (n div 10))"
  by (subst dec_of_nat.simps) simp

lemma semicolon_not_digit: "CHR '';'' \<notin> set (dec_of_nat n)"
  using dec_of_nat_digits [of "CHR '';''" n] by (auto simp: is_digit_def)

text \<open>When building the command fails.\<close>

definition service_resources :: "flags \<Rightarrow> string \<Rightarrow> string" where
  "service_resources F s =
     (if s = ''registry'' then FLAGS_registry_resources F
      else if s = ''metadata'' then FLAGS_metadata_resources F
      else if s = ''data'' then FLAGS_data_resources F
      else if s = ''api'' then FLAGS_api_resources F
      else if s = ''s3'' then FLAGS_s3_resources F
      else if s = ''webconsole'' then FLAGS_webconsole_resources F
      else '''')"

lemma memMb_empty: "memMbFromResourceString '''' = Inr (- 1)"
  by (simp add: memMbFromResourceString_def)

lemma memory_exports_Inl:
  "memory_exports F s = Inl e \<longleftrightarrow> memMbFromResourceString (service_resources F s) = Inl e"
  by (auto simp: memory_exports_def service_resources_def bind_fatal_Inl_iff memMb_empty)

lemma memMb_only_error: "memMbFromResourceString r = Inl e \<Longrightarrow> e = Memory_Out_Of_Range"
  by (auto simp: memMbFromResourceString_def Let_def split: option.splits stoi_result.splits)

text \<open>What every task of \<open>makeTask\<close> carries.\<close>

lemma makeTask_Inr:
  assumes "makeTask F E m ver sid nm tid host rp hp slv = Inr t"
  shows "ti_name t = nm" "ti_task_id t = tid" "ti_slave_id t = slv"
    "ti_resources t = Some (resource_at E m sid)"
    "ti_labels t = [(kDockerImageVersion, ver)]" "ti_executor t = None"
  using assms by (auto simp: makeTask_def bind_fatal_Inr_iff)

lemma createProberTaskInfo_Inr:
  assumes "createProberTaskInfo F fid = Inr t"
  shows "\<exists>x. ti_executor t = Some x \<and> exec_executor_id x = kExecutorId @ fid"
  using assms by (auto simp: createProberTaskInfo_def split: if_splits)

end
