(* ===== verification/State_Proxy.thy ===== *)
theory State_Proxy
  imports Mesos_Types
begin

text \<open>
  \<open>SchedulerStateProxy\<close>: the framework id and the target version, kept in memory and written to
  the replicated state storage on every change.  The storage \<open>'z\<close> and the text format are
  parameters; the result of \<open>state_->store\<close> is a future that the code ignores.
\<close>

record SchedulerStateProxy =
  proxy_path :: string
  proxy_data :: SchedulerState

definition open_proxy :: "('r, 'z) externals \<Rightarrow> 'z \<Rightarrow> string \<Rightarrow> fatal + SchedulerStateProxy" where
  "open_proxy E z path =
     (case text_parse E (state_fetch E z path) of
        None \<Rightarrow> Inl State_Unparsable
      | Some d \<Rightarrow> Inr \<lparr>proxy_path = path, proxy_data = d\<rparr>)"

definition writeback :: "('r, 'z) externals \<Rightarrow> 'z \<Rightarrow> SchedulerStateProxy \<Rightarrow> fatal + 'z" where
  "writeback E z p =
     (case text_print E (proxy_data p) of
        None \<Rightarrow> Inl State_Unserializable
      | Some serialized \<Rightarrow> Inr (state_store E z (proxy_path p) serialized))"

definition framework_id :: "SchedulerStateProxy \<Rightarrow> string" where
  [model_defs]: "framework_id p = framework_id_value (proxy_data p)"

definition proxy_set :: "('r, 'z) externals \<Rightarrow> (SchedulerState \<Rightarrow> SchedulerState) \<Rightarrow>
    'z \<Rightarrow> SchedulerStateProxy \<Rightarrow> fatal + ('z \<times> SchedulerStateProxy)" where
  "proxy_set E f z p =
     (let p' = p\<lparr>proxy_data := f (proxy_data p)\<rparr>
      in bind_fatal (writeback E z p') (\<lambda>z'. Inr (z', p')))"

definition set_framework_id where
  "set_framework_id E fid = proxy_set E (\<lambda>d. d\<lparr>framework_id_value_field := Some fid\<rparr>)"

definition set_target_version where
  "set_target_version E version = proxy_set E (\<lambda>d. d\<lparr>target_version_field := Some version\<rparr>)"

definition erase where
  "erase E = proxy_set E (\<lambda>d. empty_SchedulerState)"

section \<open>The storage always holds what the proxy holds\<close>

text \<open>
  \<open>persisted\<close> is the abstraction relation between the proxy and the storage: opening the storage
  again gives the same proxy.
\<close>

definition persisted :: "('r, 'z) externals \<Rightarrow> 'z \<Rightarrow> SchedulerStateProxy \<Rightarrow> bool" where
  "persisted E z p \<longleftrightarrow> open_proxy E z (proxy_path p) = Inr p"

lemma open_proxy_persisted: "open_proxy E z path = Inr p \<Longrightarrow> persisted E z p \<and> proxy_path p = path"
  by (auto simp: open_proxy_def persisted_def split: option.splits)

lemma proxy_set_Inr:
  assumes "proxy_set E f z p = Inr (z', p')"
  shows "proxy_data p' = f (proxy_data p)" "proxy_path p' = proxy_path p"
    "writeback E z p' = Inr z'"
  using assms by (auto simp: proxy_set_def Let_def bind_fatal_Inr_iff)

lemma writeback_persisted:
  assumes "codec_ok E" and "storage_ok E" and "writeback E z p = Inr z'"
  shows "persisted E z' p"
proof -
  obtain s where "text_print E (proxy_data p) = Some s" "text_parse E s = Some (proxy_data p)"
    using assms(1) by (rule codec_okE)
  with assms(2,3) show ?thesis
    by (auto simp: writeback_def persisted_def open_proxy_def storage_okD)
qed

lemma proxy_set_persisted:
  assumes "codec_ok E" and "storage_ok E" and "proxy_set E f z p = Inr (z', p')"
  shows "persisted E z' p'"
  using writeback_persisted [OF assms(1,2)] proxy_set_Inr(3) [OF assms(3)] by blast

lemma proxy_set_total:
  assumes "codec_ok E"
  shows "\<exists>z' p'. proxy_set E f z p = Inr (z', p')"
proof -
  obtain s where "text_print E (f (proxy_data p)) = Some s"
    using assms by (rule codec_okE)
  then show ?thesis by (simp add: proxy_set_def writeback_def)
qed

lemmas proxy_setters = set_framework_id_def set_target_version_def erase_def

end
