(* ===== verification/Scheduler_State.thy ===== *)
theory Scheduler_State
  imports Tasks State_Proxy
begin

text \<open>
  The state of \<open>QuobyteScheduler\<close> and its small helpers.  The record \<open>world\<close> holds the members of
  the class, the state proxy with its storage, the clock and the list of calls made on the driver.
  \<open>clock w i\<close> is the \<open>i\<close>-th reading of the steady clock; \<open>now\<close> takes the next one, so two readings
  in one handler may differ, as they may in the program.
\<close>

record ('r, 'z) world =
  storage :: 'z
  proxy :: SchedulerStateProxy
  resources :: "(string, 'r) std_map"
  api_state :: ServiceState
  console_state :: ServiceState
  s3_state :: ServiceState
  nodes :: "(string, NodeState) std_map"
  clock :: "nat \<Rightarrow> int"
  reads :: nat
  calls :: "'r driver_call list"

definition now :: "('r, 'z) world \<Rightarrow> int \<times> ('r, 'z) world" where
  [model_defs]: "now w = (clock w (reads w), w\<lparr>reads := Suc (reads w)\<rparr>)"

definition emit :: "'r driver_call \<Rightarrow> ('r, 'z) world \<Rightarrow> ('r, 'z) world" where
  [model_defs]: "emit c w = w\<lparr>calls := calls w @ [c]\<rparr>"

definition node_at :: "('r, 'z) world \<Rightarrow> string \<Rightarrow> NodeState" where
  "node_at w h = opt_or new_NodeState (map_find (nodes w) h)"

definition update_node :: "string \<Rightarrow> (NodeState \<Rightarrow> NodeState) \<Rightarrow> ('r, 'z) world \<Rightarrow> ('r, 'z) world" where
  [model_defs]: "update_node h f w = w\<lparr>nodes := map_modify h f (nodes w)\<rparr>"

section \<open>Static helpers\<close>

fun IsTerminal :: "TaskState \<Rightarrow> bool" where
  "IsTerminal TASK_STAGING = False"
| "IsTerminal TASK_STARTING = False"
| "IsTerminal TASK_RUNNING = False"
| "IsTerminal TASK_FINISHED = True"
| "IsTerminal TASK_FAILED = True"
| "IsTerminal TASK_KILLED = True"
| "IsTerminal TASK_LOST = True"
| "IsTerminal TASK_ERROR = True"

fun ShouldServiceBeStarted :: "ServiceTaskState \<Rightarrow> bool" where
  "ShouldServiceBeStarted STARTING = False"
| "ShouldServiceBeStarted RUNNING = False"
| "ShouldServiceBeStarted UNKNOWN = False"
| "ShouldServiceBeStarted NOT_RUNNING = True"

definition core_services_running :: "NodeState \<Rightarrow> nat" where
  "core_services_running node =
     (if ss_state (ns_registry node) = RUNNING then 1 else 0) +
     (if ss_state (ns_metadata node) = RUNNING then 1 else 0) +
     (if ss_state (ns_data node) = RUNNING then 1 else 0)"

definition DoStartService :: "string \<Rightarrow> NodeState \<Rightarrow> ServiceTaskState \<Rightarrow> bool" where
  "DoStartService service_type node state =
     (if \<not> ns_device_types_valid node then False
      else if core_services_running node \<noteq> length (ns_device_type node)
            \<and> service_type \<noteq> REGISTRY_TASK
            \<and> service_type \<noteq> METADATA_TASK
            \<and> service_type \<noteq> DATA_TASK then False
      else ShouldServiceBeStarted state)"

definition KillServiceIfRunning :: "string \<Rightarrow> ServiceState \<Rightarrow> ('r, 'z) world \<Rightarrow> ('r, 'z) world" where
  "KillServiceIfRunning task_id service w =
     (if ss_state service = RUNNING then emit (KillTask task_id) w else w)"

text \<open>\<open>NoRecentUpdates\<close> has no caller; it is kept because it is part of the file.\<close>

definition NoRecentUpdates :: "flags \<Rightarrow> ServiceState \<Rightarrow> ('r, 'z) world \<Rightarrow> bool \<times> ('r, 'z) world" where
  "NoRecentUpdates F service w =
     (if ss_last_update_s service = 0 then (True, w)
      else let (t, w) = now w
           in (t - ss_last_update_s service > FLAGS_reconcile_service_interval_s F, w))"

lemma ShouldServiceBeStarted_iff: "ShouldServiceBeStarted s \<longleftrightarrow> s = NOT_RUNNING"
  by (cases s) auto

lemma core_services_running_le: "core_services_running node \<le> 3"
  by (simp add: core_services_running_def)

section \<open>Construction\<close>

definition prepareServiceResources ::
    "flags \<Rightarrow> ('r, 'z) externals \<Rightarrow> string \<Rightarrow> uint16 \<Rightarrow> uint16 \<Rightarrow> string \<Rightarrow>
     (string, 'r) std_map \<Rightarrow> fatal + (string, 'r) std_map" where
  "prepareServiceResources F E service_id rpcPort httpPort sys_resources m =
     (let res_string = sys_resources @ '';'' @
        (if service_id = ''api''
         then buildResourceString rpcPort httpPort (to_uint16 (FLAGS_api_port F))
         else if service_id = ''webconsole''
         then buildResourceString rpcPort httpPort (to_uint16 (FLAGS_webconsole_port F))
         else if service_id = ''s3''
         then buildResourceString rpcPort httpPort (to_uint16 (FLAGS_s3_port F))
         else buildResourceString rpcPort httpPort 0)
      in case resources_parse E res_string of
           None \<Rightarrow> Inl Resources_Unparsable
         | Some r \<Rightarrow> Inr (map_insert service_id r m))"

definition parse_plain ::
    "('r, 'z) externals \<Rightarrow> string \<Rightarrow> string \<Rightarrow> (string, 'r) std_map \<Rightarrow> fatal + (string, 'r) std_map" where
  "parse_plain E key res_string m =
     (case resources_parse E res_string of
        None \<Rightarrow> Inl Resources_Unparsable
      | Some r \<Rightarrow> Inr (map_insert key r m))"

text \<open>The member \<open>resources_\<close> as the constructor fills it.\<close>

definition construct_resources :: "flags \<Rightarrow> ('r, 'z) externals \<Rightarrow> fatal + (string, 'r) std_map" where
  "construct_resources F E =
     bind_fatal (prepareServiceResources F E REGISTRY_TASK (port F 0) (port F 1)
       (FLAGS_registry_resources F) []) (\<lambda>m.
     bind_fatal (prepareServiceResources F E METADATA_TASK (port F 2) (port F 3)
       (FLAGS_metadata_resources F) m) (\<lambda>m.
     bind_fatal (prepareServiceResources F E DATA_TASK (port F 4) (port F 5)
       (FLAGS_data_resources F) m) (\<lambda>m.
     bind_fatal (prepareServiceResources F E API_TASK (port F 6) (port F 7)
       (FLAGS_api_resources F) m) (\<lambda>m.
     bind_fatal (prepareServiceResources F E WEBCONSOLE_TASK (port F 8) (port F 9)
       (FLAGS_webconsole_resources F) m) (\<lambda>m.
     bind_fatal (prepareServiceResources F E S3_TASK (port F 10) (port F 11)
       (FLAGS_webconsole_resources F) m) (\<lambda>m.
     bind_fatal (parse_plain E PROBER_TASK (FLAGS_prober_resources F) m) (\<lambda>m.
     parse_plain E CLIENT_TASK (FLAGS_client_resources F) m)))))))"

definition QuobyteScheduler ::
    "flags \<Rightarrow> ('r, 'z) externals \<Rightarrow> 'z \<Rightarrow> SchedulerStateProxy \<Rightarrow> (nat \<Rightarrow> int) \<Rightarrow> nat \<Rightarrow>
     fatal + ('r, 'z) world" where
  "QuobyteScheduler F E z p clk n =
     bind_fatal (construct_resources F E) (\<lambda>m. Inr
       \<lparr>storage = z, proxy = p, resources = m,
        api_state = new_ServiceState, console_state = new_ServiceState, s3_state = new_ServiceState,
        nodes = [], clock = clk, reads = n, calls = []\<rparr>)"

section \<open>Hosts\<close>

definition createHost :: "string \<Rightarrow> string \<Rightarrow> ('r, 'z) world \<Rightarrow> ('r, 'z) world" where
  "createHost hostname slave_id w =
     w\<lparr>nodes := map_insert hostname
        (new_NodeState\<lparr>ns_hostname_field := Some hostname, ns_slave_id_value_field := Some slave_id\<rparr>)
        (nodes w)\<rparr>"

definition reconcileHost :: "'r Offer \<Rightarrow> ('r, 'z) world \<Rightarrow> ('r, 'z) world" where
  "reconcileHost offer w =
     emit (ReconcileTasks
        [plain_status (''quobyte-device-prober-'' @ offer_hostname offer) TASK_LOST,
         plain_status (''quobyte-registry-'' @ offer_hostname offer) TASK_LOST,
         plain_status (''quobyte-metadata-'' @ offer_hostname offer) TASK_LOST,
         plain_status (''quobyte-data-'' @ offer_hostname offer) TASK_LOST,
         plain_status (''quobyte-webconsole-'' @ offer_hostname offer) TASK_LOST,
         plain_status (''quobyte-api-'' @ offer_hostname offer) TASK_LOST,
         plain_status (''quobyte-s3-'' @ offer_hostname offer) TASK_LOST])
       (createHost (offer_hostname offer) (offer_slave_id offer) w)"

section \<open>Where the state of a service lives\<close>

text \<open>
  \<open>getService\<close> returns a pointer: into the node, or to one of the three members of the scheduler
  that all hosts share.  A \<open>service_ref\<close> names the target; \<open>read_service\<close> and \<open>write_service\<close> are
  the accesses through the pointer.
\<close>

datatype service_ref = Prober_Ref | Registry_Ref | Metadata_Ref | Data_Ref | Client_Ref
  | Api_Ref | S3_Ref | Console_Ref

fun mutable_service :: "service_ref \<Rightarrow> (ServiceState \<Rightarrow> ServiceState) \<Rightarrow> NodeState \<Rightarrow> NodeState" where
  "mutable_service Prober_Ref f n = mutable_prober f n"
| "mutable_service Registry_Ref f n = mutable_registry f n"
| "mutable_service Metadata_Ref f n = mutable_metadata f n"
| "mutable_service Data_Ref f n = mutable_data f n"
| "mutable_service Client_Ref f n = mutable_client f n"
| "mutable_service _ f n = n"

fun node_service :: "service_ref \<Rightarrow> NodeState \<Rightarrow> ServiceState" where
  "node_service Prober_Ref n = ns_prober n"
| "node_service Registry_Ref n = ns_registry n"
| "node_service Metadata_Ref n = ns_metadata n"
| "node_service Data_Ref n = ns_data n"
| "node_service Client_Ref n = ns_client n"
| "node_service _ n = new_ServiceState"

fun is_shared :: "service_ref \<Rightarrow> bool" where
  "is_shared Api_Ref = True"
| "is_shared S3_Ref = True"
| "is_shared Console_Ref = True"
| "is_shared _ = False"

fun read_service :: "service_ref \<Rightarrow> string \<Rightarrow> ('r, 'z) world \<Rightarrow> ServiceState" where
  "read_service Api_Ref h w = api_state w"
| "read_service S3_Ref h w = s3_state w"
| "read_service Console_Ref h w = console_state w"
| "read_service r h w = node_service r (node_at w h)"

fun write_service ::
    "service_ref \<Rightarrow> string \<Rightarrow> (ServiceState \<Rightarrow> ServiceState) \<Rightarrow> ('r, 'z) world \<Rightarrow> ('r, 'z) world" where
  "write_service Api_Ref h f w = w\<lparr>api_state := f (api_state w)\<rparr>"
| "write_service S3_Ref h f w = w\<lparr>s3_state := f (s3_state w)\<rparr>"
| "write_service Console_Ref h f w = w\<lparr>console_state := f (console_state w)\<rparr>"
| "write_service r h f w = update_node h (mutable_service r f) w"

definition service_of :: "string \<Rightarrow> service_ref option" where
  "service_of service =
     (if service = ''quobyte-device-prober'' then Some Prober_Ref
      else if service = ''quobyte-registry'' then Some Registry_Ref
      else if service = ''quobyte-metadata'' then Some Metadata_Ref
      else if service = ''quobyte-data'' then Some Data_Ref
      else if service = ''quobyte-api'' then Some Api_Ref
      else if service = ''quobyte-s3'' then Some S3_Ref
      else if service = ''quobyte-webconsole'' then Some Console_Ref
      else if service = ''quobyte-client'' then Some Client_Ref
      else None)"

text \<open>The \<open>mutable_\<close> accessor behind the pointer makes the sub-message of the node present.\<close>

definition getService :: "string \<Rightarrow> string \<Rightarrow> ('r, 'z) world \<Rightarrow> service_ref option \<times> ('r, 'z) world" where
  "getService hostname service w =
     (case service_of service of
        None \<Rightarrow> (None, w)
      | Some r \<Rightarrow> (Some r, write_service r hostname (\<lambda>s. s) w))"

section \<open>The contract of a service pointer\<close>

text \<open>
  What the users of \<open>getService\<close> rely on: a write through the pointer is what the next read sees,
  and two writes through it are one.  \<open>valid\<close> says that the pointer has a target: a service of a
  node exists while the node is in the map, the three shared services always.
\<close>

locale service_cell =
  fixes load :: "'w \<Rightarrow> 's"
    and store :: "('s \<Rightarrow> 's) \<Rightarrow> 'w \<Rightarrow> 'w"
    and valid :: "'w \<Rightarrow> bool"
  assumes load_store: "valid w \<Longrightarrow> load (store f w) = f (load w)"
    and store_store: "store f (store g w) = store (\<lambda>s. f (g s)) w"
    and valid_store: "valid (store f w) = valid w"
begin

lemma load_touch: "valid w \<Longrightarrow> load (store (\<lambda>s. s) w) = load w"
  by (simp add: load_store)

lemma store_touch: "store f (store (\<lambda>s. s) w) = store f w"
  by (simp add: store_store)

lemma load_store_store: "valid w \<Longrightarrow> load (store f (store g w)) = f (g (load w))"
  by (simp add: load_store valid_store)

end

lemma map_modify_modify: "map_modify k f (map_modify k g m) = map_modify k (\<lambda>x. f (g x)) m"
  by (induction m) auto

lemma mutable_service_comp: "mutable_service r f (mutable_service r g n) = mutable_service r (\<lambda>s. f (g s)) n"
  by (cases r) (simp_all add: mutable_defs)

lemma node_mutable_same: "\<not> is_shared r \<Longrightarrow> node_service r (mutable_service r f n) = f (node_service r n)"
  by (cases r) (simp_all add: mutable_defs)

lemma node_mutable_other: "r \<noteq> r' \<Longrightarrow> node_service r (mutable_service r' f n) = node_service r n"
  by (cases r; cases r') (simp_all add: mutable_defs)

lemma write_service_node: "\<not> is_shared r \<Longrightarrow> write_service r h f w = update_node h (mutable_service r f) w"
  by (cases r) simp_all

lemma read_service_node: "\<not> is_shared r \<Longrightarrow> read_service r h w = node_service r (node_at w h)"
  by (cases r) simp_all

lemma node_at_update_node:
  "node_at (update_node h f w) j =
     (if j = h \<and> map_find (nodes w) h \<noteq> None then f (node_at w h) else node_at w j)"
  by (auto simp: node_at_def update_node_def map_find_modify)

definition has_target :: "service_ref \<Rightarrow> string \<Rightarrow> ('r, 'z) world \<Rightarrow> bool" where
  "has_target r h w \<longleftrightarrow> is_shared r \<or> map_find (nodes w) h \<noteq> None"

interpretation cell: service_cell "read_service r h" "write_service r h" "has_target r h" for r h
proof unfold_locales
  fix w :: "('r, 'z) world" and f g
  show "has_target r h w \<Longrightarrow> read_service r h (write_service r h f w) = f (read_service r h w)"
    by (cases "is_shared r", cases r)
      (simp_all add: has_target_def write_service_node read_service_node node_at_update_node
        node_mutable_same)
  show "write_service r h f (write_service r h g w) = write_service r h (\<lambda>s. f (g s)) w"
    by (cases "is_shared r", cases r)
      (simp_all add: write_service_node update_node_def map_modify_modify mutable_service_comp)
  show "has_target r h (write_service r h f w) = has_target r h w"
    by (cases r) (auto simp: has_target_def update_node_def map_find_modify)
qed

text \<open>Different services do not share a target, and services of different nodes do not either.\<close>

lemma node_at_shared [simp]:
  "node_at (w\<lparr>api_state := s\<rparr>) h = node_at w h" "node_at (w\<lparr>s3_state := s\<rparr>) h = node_at w h"
  "node_at (w\<lparr>console_state := s\<rparr>) h = node_at w h" "node_at (w\<lparr>reads := n\<rparr>) h = node_at w h"
  "node_at (w\<lparr>calls := cs\<rparr>) h = node_at w h" "node_at (w\<lparr>proxy := p\<rparr>) h = node_at w h"
  "node_at (w\<lparr>storage := z\<rparr>) h = node_at w h"
  by (simp_all add: node_at_def)

lemma read_update_shared: "is_shared r \<Longrightarrow> read_service r h (update_node j f w) = read_service r h w"
  by (cases r) (simp_all add: update_node_def)

lemma read_write_shared:
  "r \<noteq> r' \<Longrightarrow> is_shared r' \<Longrightarrow> read_service r h (write_service r' j f w) = read_service r h w"
  by (cases r'; cases r) simp_all

lemma read_write_other: "r \<noteq> r' \<Longrightarrow> read_service r h (write_service r' j f w) = read_service r h w"
proof (cases "is_shared r'")
  case True
  assume "r \<noteq> r'"
  then show ?thesis using True by (rule read_write_shared)
next
  case False
  assume "r \<noteq> r'"
  then show ?thesis
    using False by (cases "is_shared r")
      (simp_all add: write_service_node read_service_node node_at_update_node node_mutable_other
        read_update_shared)
qed

lemma read_write_other_node:
  "h \<noteq> j \<Longrightarrow> \<not> is_shared r \<Longrightarrow> read_service r h (write_service r j f w) = read_service r h w"
  by (simp add: write_service_node read_service_node node_at_update_node)

lemma write_service_frame [frame_simps]:
  "storage (write_service r h f w) = storage w" "proxy (write_service r h f w) = proxy w"
  "resources (write_service r h f w) = resources w" "clock (write_service r h f w) = clock w"
  "reads (write_service r h f w) = reads w" "calls (write_service r h f w) = calls w"
  "map_keys (nodes (write_service r h f w)) = map_keys (nodes w)"
  by (cases r; simp add: update_node_def)+

lemma service_of_Some_iff:
  "service_of s = Some r \<longleftrightarrow> s = (case r of Prober_Ref \<Rightarrow> ''quobyte-device-prober''
     | Registry_Ref \<Rightarrow> ''quobyte-registry'' | Metadata_Ref \<Rightarrow> ''quobyte-metadata''
     | Data_Ref \<Rightarrow> ''quobyte-data'' | Client_Ref \<Rightarrow> ''quobyte-client'' | Api_Ref \<Rightarrow> ''quobyte-api''
     | S3_Ref \<Rightarrow> ''quobyte-s3'' | Console_Ref \<Rightarrow> ''quobyte-webconsole'')"
  by (cases r) (auto simp: service_of_def)

end
