(* ===== verification/Offers.thy ===== *)
theory Offers
  imports Scheduler_State
begin

text \<open>
  \<open>QuobyteScheduler::resourceOffers\<close>.  The loop over the offers is \<open>resourceOffers\<close>, one iteration is
  \<open>handle_offer\<close>; within it \<open>start_prober\<close>, \<open>trigger_discovery\<close>, \<open>start_services\<close> and
  \<open>shutdown_services\<close> are the blocks of the body in their order.  The blocks that start services
  thread a \<open>placement\<close>: the world, \<open>remaining_resources\<close> and \<open>tasks_to_start\<close>.
\<close>

type_synonym ('r, 'z) placement = "('r, 'z) world \<times> 'r \<times> 'r TaskInfo list"

section \<open>Starting services\<close>

definition on_public_slave :: "flags \<Rightarrow> ('r, 'z) externals \<Rightarrow> 'r \<Rightarrow> bool" where
  "on_public_slave F E remaining \<longleftrightarrow>
     FLAGS_public_slave_role F = '''' \<or>
     resources_reserved_size E remaining (FLAGS_public_slave_role F) > 0"

text \<open>\<open>makeTask\<close> as the blocks below call it: all arguments but the service and its ports are fixed.\<close>

definition service_task ::
    "flags \<Rightarrow> ('r, 'z) externals \<Rightarrow> 'r Offer \<Rightarrow> ('r, 'z) world \<Rightarrow> string \<Rightarrow> string \<Rightarrow> int \<Rightarrow> int \<Rightarrow>
     fatal + 'r TaskInfo" where
  "service_task F E offer w service_id name k1 k2 =
     makeTask F E (resources w) (target_version (proxy_data (proxy w))) service_id name
       (name @ ''-'' @ offer_hostname offer) (offer_hostname offer) (port F k1) (port F k2)
       (offer_slave_id offer)"

definition start_shared ::
    "flags \<Rightarrow> ('r, 'z) externals \<Rightarrow> 'r Offer \<Rightarrow> service_ref \<Rightarrow> string \<Rightarrow> string \<Rightarrow> int \<Rightarrow> int \<Rightarrow>
     ('r, 'z) placement \<Rightarrow> fatal + ('r, 'z) placement" where
  "start_shared F E offer r service_id name k1 k2 = (\<lambda>(w, remaining, tasks_to_start).
     let h = offer_hostname offer; needed = resource_at E (resources w) service_id in
     if resources_contains E remaining needed
        \<and> DoStartService service_id (node_at w h) (ss_state (read_service r h w))
        \<and> on_public_slave F E remaining
     then bind_fatal (service_task F E offer w service_id name k1 k2) (\<lambda>task. Inr
       (write_service r h (\<lambda>s. s\<lparr>ss_state_field := Some RUNNING,
                                  ss_task_id_field := Some (name @ ''-'' @ h)\<rparr>) w,
        resources_minus E remaining needed,
        tasks_to_start @ [task]))
     else Inr (w, remaining, tasks_to_start))"

definition start_api where
  "start_api F E offer = start_shared F E offer Api_Ref API_TASK ''quobyte-api'' 6 7"

definition start_s3 where
  "start_s3 F E offer pl =
     (if FLAGS_s3_hostname F \<noteq> ''''
      then start_shared F E offer S3_Ref S3_TASK ''quobyte-s3'' 10 11 pl
      else Inr pl)"

definition start_webconsole where
  "start_webconsole F E offer =
     start_shared F E offer Console_Ref WEBCONSOLE_TASK ''quobyte-webconsole'' 8 9"

definition start_client ::
    "flags \<Rightarrow> ('r, 'z) externals \<Rightarrow> 'r Offer \<Rightarrow> ('r, 'z) placement \<Rightarrow> fatal + ('r, 'z) placement" where
  "start_client F E offer = (\<lambda>(w, remaining, tasks_to_start).
     let h = offer_hostname offer; needed = resource_at E (resources w) CLIENT_TASK in
     if resources_contains E remaining needed
        \<and> DoStartService CLIENT_TASK (node_at w h) (ss_state (ns_client (node_at w h)))
        \<and> ns_client_mount_point (node_at w h)
     then Inr
       (write_service Client_Ref h (\<lambda>s. s\<lparr>ss_state_field := Some RUNNING,
                                          ss_task_id_field := Some (''quobyte-client-'' @ h)\<rparr>) w,
        resources_minus E remaining needed,
        tasks_to_start @ [(createClientTaskInfo F)\<lparr>ti_name := ''quobyte-client'',
          ti_task_id := ''quobyte-client-'' @ h, ti_slave_id := offer_slave_id offer\<rparr>])
     else Inr (w, remaining, tasks_to_start))"

text \<open>One case of the switch over the device types; the three cases differ in their names only.\<close>

definition start_core ::
    "flags \<Rightarrow> ('r, 'z) externals \<Rightarrow> 'r Offer \<Rightarrow> service_ref \<Rightarrow> string \<Rightarrow> string \<Rightarrow> int \<Rightarrow> int \<Rightarrow> string \<Rightarrow>
     ('r, 'z) placement \<Rightarrow> fatal + ('r, 'z) placement" where
  "start_core F E offer r service_id name k1 k2 message = (\<lambda>(w, remaining, tasks_to_start).
     let h = offer_hostname offer; needed = resource_at E (resources w) service_id in
     if DoStartService service_id (node_at w h) (ss_state (read_service r h w)) then
       if \<not> resources_contains E remaining needed
       then Inr (write_service r h (\<lambda>s. s\<lparr>ss_last_message_field := Some message\<rparr>) w,
                 remaining, tasks_to_start)
       else bind_fatal (service_task F E offer w service_id name k1 k2) (\<lambda>task. Inr
              (w, resources_minus E remaining needed, tasks_to_start @ [task]))
     else Inr (w, remaining, tasks_to_start))"

fun start_device ::
    "flags \<Rightarrow> ('r, 'z) externals \<Rightarrow> 'r Offer \<Rightarrow> DeviceType \<Rightarrow>
     ('r, 'z) placement \<Rightarrow> fatal + ('r, 'z) placement" where
  "start_device F E offer REGISTRY pl =
     start_core F E offer Registry_Ref REGISTRY_TASK ''quobyte-registry'' 0 1
       ''Could not start registry: insufficient resources'' pl"
| "start_device F E offer METADATA pl =
     start_core F E offer Metadata_Ref METADATA_TASK ''quobyte-metadata'' 2 3
       ''Could not start metadata: insufficient resources'' pl"
| "start_device F E offer DATA pl =
     start_core F E offer Data_Ref DATA_TASK ''quobyte-data'' 4 5
       ''Could not start data: insufficient resources'' pl"
| "start_device F E offer _ pl = Inr pl"

fun start_devices ::
    "flags \<Rightarrow> ('r, 'z) externals \<Rightarrow> 'r Offer \<Rightarrow> DeviceType list \<Rightarrow>
     ('r, 'z) placement \<Rightarrow> fatal + ('r, 'z) placement" where
  "start_devices F E offer [] pl = Inr pl"
| "start_devices F E offer (d # ds) pl =
     bind_fatal (start_device F E offer d pl) (start_devices F E offer ds)"

definition start_services ::
    "flags \<Rightarrow> ('r, 'z) externals \<Rightarrow> 'r Offer \<Rightarrow> ('r, 'z) placement \<Rightarrow> fatal + ('r, 'z) placement" where
  "start_services F E offer pl =
     bind_fatal (start_api F E offer pl) (\<lambda>pl.
     bind_fatal (start_s3 F E offer pl) (\<lambda>pl.
     bind_fatal (start_webconsole F E offer pl) (\<lambda>pl.
     bind_fatal (start_client F E offer pl) (\<lambda>pl.
     start_devices F E offer (ns_device_type (node_at (fst pl) (offer_hostname offer))) pl))))"

section \<open>The other blocks\<close>

definition shutdown_services :: "string \<Rightarrow> ('r, 'z) world \<Rightarrow> ('r, 'z) world" where
  "shutdown_services h w =
     (let node = node_at w h;
          w = KillServiceIfRunning (''quobyte-registry-'' @ h) (ns_registry node) w;
          w = KillServiceIfRunning (''quobyte-data-'' @ h) (ns_data node) w;
          w = KillServiceIfRunning (''quobyte-metadata-'' @ h) (ns_metadata node) w;
          w = KillServiceIfRunning (''quobyte-api-'' @ h) (api_state w) w;
          w = KillServiceIfRunning (''quobyte-s3-'' @ h) (s3_state w) w
      in KillServiceIfRunning (''quobyte-webconsole-'' @ h) (console_state w) w)"

definition start_prober ::
    "flags \<Rightarrow> ('r, 'z) externals \<Rightarrow> 'r Offer \<Rightarrow> ('r, 'z) world \<Rightarrow> fatal + ('r, 'z) world" where
  "start_prober F E offer w =
     (let h = offer_hostname offer;
          w = write_service Prober_Ref h (\<lambda>s. s\<lparr>ss_state_field := Some STARTING\<rparr>) w;
          (t, w) = now w;
          w = write_service Prober_Ref h (\<lambda>s. s\<lparr>ss_last_update_s_field := Some t\<rparr>) w
      in bind_fatal (createProberTaskInfo F (framework_id (proxy w))) (\<lambda>task. Inr
           (emit (LaunchTasks (offer_id offer)
              [task\<lparr>ti_name := ''quobyte-device-prober'',
                    ti_task_id := ''quobyte-device-prober-'' @ h,
                    ti_slave_id := offer_slave_id offer,
                    ti_resources := Some (resource_at E (resources w) PROBER_TASK)\<rparr>]) w)))"

definition trigger_discovery ::
    "flags \<Rightarrow> ('r, 'z) externals \<Rightarrow> 'r Offer \<Rightarrow> ('r, 'z) world \<Rightarrow> ('r, 'z) world" where
  "trigger_discovery F E offer w =
     (let (t, w) = now w;
          w = update_node (offer_hostname offer) (\<lambda>n. n\<lparr>ns_last_probe_s_field := Some t\<rparr>) w;
          w = emit (SendFrameworkMessage (kExecutorId @ framework_id (proxy w)) (offer_slave_id offer)
                (serialize_request E \<lparr>client_directory_field = Some (FLAGS_client_mount_point F),
                                      initialize_path_field = None\<rparr>)) w;
          w = reconcileHost offer w
      in emit (DeclineOffer (offer_id offer)) w)"

definition place_services ::
    "flags \<Rightarrow> ('r, 'z) externals \<Rightarrow> 'r Offer \<Rightarrow> ('r, 'z) world \<Rightarrow> fatal + ('r, 'z) world" where
  "place_services F E offer w =
     (if target_version (proxy_data (proxy w)) \<noteq> '''' then
        bind_fatal (start_services F E offer (w, offer_resources offer, [])) (\<lambda>(w, _, tasks_to_start).
          if tasks_to_start \<noteq> []
          then Inr (emit (LaunchTasks (offer_id offer) tasks_to_start) w)
          else Inr (emit (DeclineOffer (offer_id offer)) w))
      else Inr (emit (DeclineOffer (offer_id offer)) (shutdown_services (offer_hostname offer) w)))"

text \<open>The second guard reads the clock only when the prober is running (\<open>&&\<close> short-circuits).\<close>

definition probe_or_place ::
    "flags \<Rightarrow> ('r, 'z) externals \<Rightarrow> 'r Offer \<Rightarrow> ('r, 'z) world \<Rightarrow> fatal + ('r, 'z) world" where
  "probe_or_place F E offer w =
     (let node = node_at w (offer_hostname offer) in
      if ss_state (ns_prober node) = RUNNING then
        (let (t, w) = now w in
         if t - ns_last_probe_s node > FLAGS_probe_interval_s F
         then Inr (trigger_discovery F E offer w)
         else place_services F E offer w)
      else place_services F E offer w)"

definition offer_known_host ::
    "flags \<Rightarrow> ('r, 'z) externals \<Rightarrow> 'r Offer \<Rightarrow> ('r, 'z) world \<Rightarrow> fatal + ('r, 'z) world" where
  "offer_known_host F E offer w =
     (let h = offer_hostname offer;
          (t0, w) = now w;
          w = update_node h (\<lambda>n. n\<lparr>ns_last_offer_s_field := Some t0\<rparr>) w;
          (t1, w) = now w;
          prober = ns_prober (node_at w h)
      in if t1 - ss_last_seen_s prober > FLAGS_probe_executor_keepalive_interval_s F
            \<and> ss_state prober \<noteq> RUNNING \<and> ss_state prober \<noteq> STARTING
            \<and> resources_contains E (offer_resources offer) (resource_at E (resources w) PROBER_TASK)
         then start_prober F E offer w
         else probe_or_place F E offer w)"

definition host_restricted :: "flags \<Rightarrow> string \<Rightarrow> bool" where
  "host_restricted F h \<longleftrightarrow>
     FLAGS_restrict_hosts F \<noteq> '''' \<and> find_str h (FLAGS_restrict_hosts F) = None"

definition handle_offer ::
    "flags \<Rightarrow> ('r, 'z) externals \<Rightarrow> 'r Offer \<Rightarrow> ('r, 'z) world \<Rightarrow> fatal + ('r, 'z) world" where
  "handle_offer F E offer w =
     (if host_restricted F (offer_hostname offer)
      then Inr (emit (DeclineOffer (offer_id offer)) w)
      else if map_find (nodes w) (offer_hostname offer) = None
      then Inr (emit (DeclineOffer (offer_id offer)) (reconcileHost offer w))
      else offer_known_host F E offer w)"

fun resourceOffers ::
    "flags \<Rightarrow> ('r, 'z) externals \<Rightarrow> 'r Offer list \<Rightarrow> ('r, 'z) world \<Rightarrow> fatal + ('r, 'z) world" where
  "resourceOffers F E [] w = Inr w"
| "resourceOffers F E (offer # offers) w =
     bind_fatal (handle_offer F E offer w) (resourceOffers F E offers)"

end
