(* ===== verification/Offer_Lemmas.thy ===== *)
theory Offer_Lemmas
  imports Offers
begin

text \<open>
  What \<open>resourceOffers\<close> does with an offer, block by block: which calls it makes, which services it
  places and out of which resources, and what of the state it leaves alone.
\<close>

section \<open>Calls\<close>

text \<open>The offers that a list of calls answers, and the tasks it launches.\<close>

fun answered :: "'r driver_call \<Rightarrow> string list" where
  "answered (DeclineOffer oid) = [oid]"
| "answered (LaunchTasks oid ts) = [oid]"
| "answered _ = []"

fun launched :: "'r driver_call \<Rightarrow> 'r TaskInfo list" where
  "launched (LaunchTasks oid ts) = ts"
| "launched _ = []"

definition answers :: "'r driver_call list \<Rightarrow> string list" where
  "answers cs = concat (map answered cs)"

definition launches :: "'r driver_call list \<Rightarrow> 'r TaskInfo list" where
  "launches cs = concat (map launched cs)"

lemma answers_append [simp]: "answers (cs @ ds) = answers cs @ answers ds"
  by (simp add: answers_def)

lemma launches_append [simp]: "launches (cs @ ds) = launches cs @ launches ds"
  by (simp add: launches_def)

lemma answers_single [simp]: "answers [c] = answered c" "answers [] = []"
  by (simp_all add: answers_def)

lemma launches_single [simp]: "launches [c] = launched c" "launches [] = []"
  by (simp_all add: launches_def)

section \<open>Placement\<close>

text \<open>The keys of \<open>resources_\<close> and the service states they belong to.\<close>

definition key_state :: "string \<Rightarrow> string \<Rightarrow> ('r, 'z) world \<Rightarrow> ServiceTaskState" where
  "key_state k h w = (case service_of (''quobyte-'' @ k) of
     None \<Rightarrow> UNKNOWN | Some r \<Rightarrow> ss_state (read_service r h w))"

definition core_keys :: "string list" where
  "core_keys = [REGISTRY_TASK, METADATA_TASK, DATA_TASK]"

fun device_keys :: "DeviceType \<Rightarrow> string list" where
  "device_keys REGISTRY = [REGISTRY_TASK]"
| "device_keys METADATA = [METADATA_TASK]"
| "device_keys DATA = [DATA_TASK]"
| "device_keys _ = []"

definition placeable :: "DeviceType list \<Rightarrow> string list" where
  "placeable ds = [API_TASK, S3_TASK, WEBCONSOLE_TASK, CLIENT_TASK] @ concat (map device_keys ds)"

text \<open>Task \<open>t\<close> is the one that the code builds for service \<open>k\<close> on the offered host.\<close>

definition describes :: "('r, 'z) externals \<Rightarrow> (string, 'r) std_map \<Rightarrow> string \<Rightarrow> 'r Offer \<Rightarrow>
    string \<Rightarrow> 'r TaskInfo \<Rightarrow> bool" where
  "describes E m version offer k t \<longleftrightarrow>
     ti_name t = ''quobyte-'' @ k \<and>
     ti_task_id t = ''quobyte-'' @ k @ ''-'' @ offer_hostname offer \<and>
     ti_slave_id t = offer_slave_id offer \<and>
     (if k = CLIENT_TASK then ti_resources t = None
      else ti_resources t = Some (resource_at E m k) \<and>
           ti_labels t = [(kDockerImageVersion, version)])"

text \<open>\<open>takes E m a ks b\<close>: from resources \<open>a\<close> the needs of \<open>ks\<close> are taken one after the other, each
  contained in what is left, and \<open>b\<close> remains.\<close>

fun takes :: "('r, 'z) externals \<Rightarrow> (string, 'r) std_map \<Rightarrow> 'r \<Rightarrow> string list \<Rightarrow> 'r \<Rightarrow> bool" where
  "takes E m a [] b = (a = b)"
| "takes E m a (k # ks) b =
     (resources_contains E a (resource_at E m k) \<and>
      takes E m (resources_minus E a (resource_at E m k)) ks b)"

lemma takes_append: "takes E m a (ks @ js) c \<longleftrightarrow> (\<exists>b. takes E m a ks b \<and> takes E m b js c)"
  by (induction ks arbitrary: a) auto

text \<open>What a placement does not change: everything but the state of the services it starts and the
  messages of the core services of the offered host.\<close>

definition core_view where
  "core_view n = (ns_device_types_valid n, ns_device_type n, core_services_running n,
     ns_client_mount_point n, ns_prober n, ns_last_probe_s n)"

definition placement_frame :: "string \<Rightarrow> ('r, 'z) world \<Rightarrow> ('r, 'z) world \<Rightarrow> bool" where
  "placement_frame h w w' \<longleftrightarrow>
     proxy w' = proxy w \<and> resources w' = resources w \<and> calls w' = calls w \<and>
     map_keys (nodes w') = map_keys (nodes w) \<and>
     core_view (node_at w' h) = core_view (node_at w h)"

definition may_start :: "string \<Rightarrow> string \<Rightarrow> ('r, 'z) world \<Rightarrow> bool" where
  "may_start k h w \<longleftrightarrow> DoStartService k (node_at w h) (key_state k h w) \<and>
     (k = CLIENT_TASK \<longrightarrow> ns_client_mount_point (node_at w h))"

definition placed :: "('r, 'z) externals \<Rightarrow> 'r Offer \<Rightarrow> string list \<Rightarrow>
    ('r, 'z) placement \<Rightarrow> ('r, 'z) placement \<Rightarrow> bool" where
  "placed E offer ks = (\<lambda>(w, a, ts) (w', b, ts').
     placement_frame (offer_hostname offer) w w' \<and>
     takes E (resources w) a ks b \<and>
     (\<exists>new. ts' = ts @ new \<and>
        list_all2 (describes E (resources w) (target_version (proxy_data (proxy w))) offer) ks new) \<and>
     (\<forall>k. key_state k (offer_hostname offer) w' =
        (if k \<in> set ks \<and> k \<notin> set core_keys then RUNNING
         else key_state k (offer_hostname offer) w)) \<and>
     (\<forall>k \<in> set ks. may_start k (offer_hostname offer) w))"

lemma DoStartService_core_view:
  "core_view n = core_view n' \<Longrightarrow> DoStartService k n s = DoStartService k n' s"
  by (simp add: core_view_def DoStartService_def)

lemma DoStartService_NOT_RUNNING: "DoStartService k n s \<Longrightarrow> s = NOT_RUNNING"
  by (simp add: DoStartService_def ShouldServiceBeStarted_iff split: if_splits)

lemma placed_nil: "placed E offer [] pl pl"
  by (cases pl) (simp add: placed_def placement_frame_def)

lemma placed_skip: "\<exists>ks. subseq ks js \<and> placed E offer ks pl pl"
  by (intro exI [of _ "[]"]) (simp add: placed_nil)

lemma placed_trans:
  assumes 1: "placed E offer ks pl pl1" and 2: "placed E offer js pl1 pl2"
  shows "placed E offer (ks @ js) pl pl2"
proof -
  obtain w a ts w1 b ts1 w2 c ts2 where
    pl: "pl = (w, a, ts)" "pl1 = (w1, b, ts1)" "pl2 = (w2, c, ts2)"
    by (metis prod_cases3)
  let ?h = "offer_hostname offer"
  note d = 1 [unfolded pl placed_def prod.case] 2 [unfolded pl placed_def prod.case]
  have same: "resources w1 = resources w" "proxy w1 = proxy w"
    "core_view (node_at w1 ?h) = core_view (node_at w ?h)"
    using d(1) by (simp_all add: placement_frame_def)
  have start: "may_start k ?h w" if "k \<in> set js" for k
  proof -
    from that d(2) have m: "may_start k ?h w1" by blast
    then have "key_state k ?h w1 = NOT_RUNNING"
      using DoStartService_NOT_RUNNING by (auto simp: may_start_def)
    moreover from d(1) have "key_state k ?h w1 =
        (if k \<in> set ks \<and> k \<notin> set core_keys then RUNNING else key_state k ?h w)" by blast
    ultimately have "key_state k ?h w1 = key_state k ?h w" by (simp split: if_splits)
    with m same(3) show ?thesis
      using DoStartService_core_view [OF same(3)] by (simp add: may_start_def core_view_def)
  qed
  obtain n1 n2 where n: "ts1 = ts @ n1" "ts2 = ts1 @ n2"
    "list_all2 (describes E (resources w) (target_version (proxy_data (proxy w))) offer) ks n1"
    "list_all2 (describes E (resources w) (target_version (proxy_data (proxy w))) offer) js n2"
    using d same by auto
  have "placement_frame ?h w w2" using d by (simp add: placement_frame_def)
  moreover have "takes E (resources w) a (ks @ js) c" using d same by (auto simp: takes_append)
  moreover have "\<exists>new. ts2 = ts @ new \<and>
      list_all2 (describes E (resources w) (target_version (proxy_data (proxy w))) offer) (ks @ js) new"
    using n by (intro exI [of _ "n1 @ n2"]) (simp add: list_all2_appendI)
  moreover have "\<forall>k. key_state k ?h w2 =
      (if k \<in> set (ks @ js) \<and> k \<notin> set core_keys then RUNNING else key_state k ?h w)"
    using d by auto
  moreover have "\<forall>k \<in> set (ks @ js). may_start k ?h w" using d(1) start by auto
  ultimately show ?thesis unfolding pl placed_def prod.case by blast
qed

section \<open>Each block is a placement\<close>

lemma service_of_inj: "service_of s = Some r \<Longrightarrow> service_of s' = Some r \<Longrightarrow> s = s'"
  by (simp add: service_of_Some_iff)

lemma ss_state_read_write:
  assumes "\<And>s. ss_state (f s) = ss_state s"
  shows "ss_state (read_service r' h (write_service r h f w)) = ss_state (read_service r' h w)"
proof (cases "r' = r \<and> has_target r h w")
  case True
  then show ?thesis using assms by (simp add: cell.load_store)
next
  case False
  then show ?thesis
  proof (cases "r' = r")
    case True
    with False have "\<not> has_target r h w" by simp
    then show ?thesis using True
      by (simp add: has_target_def write_service_node read_service_node node_at_update_node)
  qed (simp add: read_write_other)
qed

lemma key_state_write:
  assumes "service_of (''quobyte-'' @ k) = Some r" and "has_target r h w"
  shows "key_state j h (write_service r h f w) =
    (if j = k then ss_state (f (read_service r h w)) else key_state j h w)"
proof (cases "j = k")
  case True
  with assms show ?thesis by (simp add: key_state_def cell.load_store)
next
  case False
  have "service_of (''quobyte-'' @ j) \<noteq> Some r"
    using False service_of_inj [OF assms(1), of "''quobyte-'' @ j"] by auto
  with False show ?thesis
    by (auto simp: key_state_def read_write_other split: option.split)
qed

lemma key_state_write_message:
  "key_state j h (write_service r h (\<lambda>s. s\<lparr>ss_last_message_field := m\<rparr>) w) = key_state j h w"
  by (simp add: key_state_def ss_state_read_write split: option.split)

lemma core_view_write:
  assumes "is_shared r \<or> r = Client_Ref"
  shows "core_view (node_at (write_service r h f w) j) = core_view (node_at w j)"
  using assms
  by (cases r) (simp_all add: node_at_update_node core_view_def core_services_running_def mutable_defs)

lemma core_view_write_message:
  assumes "r \<noteq> Prober_Ref"
  shows "core_view (node_at (write_service r h (\<lambda>s. s\<lparr>ss_last_message_field := m\<rparr>) w) j) =
    core_view (node_at w j)"
  using assms
  by (cases r) (simp_all add: node_at_update_node core_view_def core_services_running_def mutable_defs)

lemma placement_frame_write:
  "is_shared r \<or> r = Client_Ref \<Longrightarrow> placement_frame h w (write_service r h f w)"
  by (simp add: placement_frame_def core_view_write frame_simps)

lemma placement_frame_message:
  "r \<noteq> Prober_Ref \<Longrightarrow>
   placement_frame h w (write_service r h (\<lambda>s. s\<lparr>ss_last_message_field := m\<rparr>) w)"
  by (simp add: placement_frame_def core_view_write_message frame_simps)

lemma service_task_describes:
  assumes "service_task F E offer w k (''quobyte-'' @ k) k1 k2 = Inr t" and "k \<noteq> CLIENT_TASK"
  shows "describes E (resources w) (target_version (proxy_data (proxy w))) offer k t"
  using makeTask_Inr [OF assms(1) [unfolded service_task_def]] assms(2)
  by (simp add: describes_def)

lemma placed_one:
  assumes "placement_frame (offer_hostname offer) w w'"
    and "resources_contains E a (resource_at E (resources w) k)"
    and "describes E (resources w) (target_version (proxy_data (proxy w))) offer k t"
    and "may_start k (offer_hostname offer) w"
    and "\<And>j. key_state j (offer_hostname offer) w' =
      (if j = k \<and> k \<notin> set core_keys then RUNNING else key_state j (offer_hostname offer) w)"
  shows "placed E offer [k] (w, a, ts)
    (w', resources_minus E a (resource_at E (resources w) k), ts @ [t])"
  using assms by (auto simp: placed_def)

lemma start_shared_placed:
  assumes "start_shared F E offer r k (''quobyte-'' @ k) k1 k2 pl = Inr pl'"
    and r: "is_shared r" "service_of (''quobyte-'' @ k) = Some r"
    and k: "k \<notin> set core_keys" "k \<noteq> CLIENT_TASK"
  shows "\<exists>ks. subseq ks [k] \<and> placed E offer ks pl pl'"
proof -
  obtain w a ts where pl: "pl = (w, a, ts)" by (metis prod_cases3)
  let ?h = "offer_hostname offer" and ?need = "resource_at E (resources w) k"
  show ?thesis
  proof (cases "resources_contains E a ?need \<and>
      DoStartService k (node_at w ?h) (ss_state (read_service r ?h w)) \<and> on_public_slave F E a")
    case True
    with assms(1) obtain t where
      t: "service_task F E offer w k (''quobyte-'' @ k) k1 k2 = Inr t" and
      pl': "pl' = (write_service r ?h (\<lambda>s. s\<lparr>ss_state_field := Some RUNNING,
        ss_task_id_field := Some ((''quobyte-'' @ k) @ ''-'' @ ?h)\<rparr>) w, resources_minus E a ?need, ts @ [t])"
      by (auto simp: pl start_shared_def Let_def bind_fatal_Inr_iff)
    have "placed E offer [k] pl pl'"
      unfolding pl pl'
    proof (rule placed_one)
      show "may_start k ?h w" using True r(2) k(2) by (simp add: may_start_def key_state_def)
    qed (use True r k in \<open>simp_all add: placement_frame_write key_state_write has_target_def
          service_task_describes [OF t]\<close>)
    then show ?thesis by blast
  next
    case False
    with assms(1) have "pl' = pl" by (auto simp: pl start_shared_def Let_def)
    then show ?thesis by (simp add: placed_skip)
  qed
qed

lemma start_client_placed:
  assumes "start_client F E offer pl = Inr pl'"
    and "map_find (nodes (fst pl)) (offer_hostname offer) \<noteq> None"
  shows "\<exists>ks. subseq ks [CLIENT_TASK] \<and> placed E offer ks pl pl'"
proof -
  obtain w a ts where pl: "pl = (w, a, ts)" by (metis prod_cases3)
  let ?h = "offer_hostname offer" and ?need = "resource_at E (resources w) CLIENT_TASK"
  have r: "service_of (''quobyte-'' @ CLIENT_TASK) = Some Client_Ref"
    by (simp add: service_of_def CLIENT_TASK_def)
  have target: "has_target Client_Ref ?h w" using assms(2) pl by (simp add: has_target_def)
  show ?thesis
  proof (cases "resources_contains E a ?need \<and>
      DoStartService CLIENT_TASK (node_at w ?h) (ss_state (ns_client (node_at w ?h))) \<and>
      ns_client_mount_point (node_at w ?h)")
    case True
    define t where "t = (createClientTaskInfo F :: 'a TaskInfo)\<lparr>ti_name := ''quobyte-client'',
      ti_task_id := ''quobyte-client-'' @ ?h, ti_slave_id := offer_slave_id offer\<rparr>"
    from True assms(1) have
      pl': "pl' = (write_service Client_Ref ?h (\<lambda>s. s\<lparr>ss_state_field := Some RUNNING,
        ss_task_id_field := Some (''quobyte-client-'' @ ?h)\<rparr>) w, resources_minus E a ?need, ts @ [t])"
      by (auto simp: pl start_client_def Let_def t_def)
    have "placed E offer [CLIENT_TASK] pl pl'"
      unfolding pl pl'
    proof (rule placed_one)
      show "may_start CLIENT_TASK ?h w" using True r by (simp add: may_start_def key_state_def)
      show "describes E (resources w) (target_version (proxy_data (proxy w))) offer CLIENT_TASK t"
        by (simp add: describes_def t_def CLIENT_TASK_def createClientTaskInfo_def new_TaskInfo_def)
    qed (use True target in \<open>simp_all add: placement_frame_write key_state_write [OF r target]
          core_keys_def task_defs del: write_service.simps\<close>)
    then show ?thesis by blast
  next
    case False
    with assms(1) have "pl' = pl" by (auto simp: pl start_client_def Let_def)
    then show ?thesis by (simp add: placed_skip)
  qed
qed

lemma start_core_placed:
  assumes "start_core F E offer r k (''quobyte-'' @ k) k1 k2 message pl = Inr pl'"
    and r: "\<not> is_shared r" "r \<noteq> Prober_Ref" "service_of (''quobyte-'' @ k) = Some r"
    and k: "k \<in> set core_keys" "k \<noteq> CLIENT_TASK"
  shows "\<exists>ks. subseq ks [k] \<and> placed E offer ks pl pl'"
proof -
  obtain w a ts where pl: "pl = (w, a, ts)" by (metis prod_cases3)
  let ?h = "offer_hostname offer" and ?need = "resource_at E (resources w) k"
  consider (skip) "pl' = pl"
    | (message) "pl' = (write_service r ?h (\<lambda>s. s\<lparr>ss_last_message_field := Some message\<rparr>) w, a, ts)"
    | (start) t where "service_task F E offer w k (''quobyte-'' @ k) k1 k2 = Inr t"
        "pl' = (w, resources_minus E a ?need, ts @ [t])" "resources_contains E a ?need"
        "DoStartService k (node_at w ?h) (ss_state (read_service r ?h w))"
    using assms(1) by (auto simp: pl start_core_def Let_def bind_fatal_Inr_iff split: if_splits)
  then show ?thesis
  proof cases
    case skip
    then show ?thesis by (simp add: placed_skip)
  next
    case message
    then have "placed E offer [] pl pl'"
      using r(2) by (simp add: pl placed_def placement_frame_message key_state_write_message)
    then show ?thesis by blast
  next
    case start
    have "placed E offer [k] pl pl'"
      unfolding pl start(2)
      by (rule placed_one)
        (use start r k in \<open>simp_all add: service_task_describes may_start_def key_state_def placement_frame_def\<close>)
    then show ?thesis by blast
  qed
qed

lemma start_device_placed:
  assumes "start_device F E offer d pl = Inr pl'"
  shows "\<exists>ks. subseq ks (device_keys d) \<and> placed E offer ks pl pl'"
  using assms
  by (cases d)
    (auto intro!: start_core_placed placed_skip simp: task_defs core_keys_def service_of_def)

lemma start_devices_placed:
  assumes "start_devices F E offer ds pl = Inr pl'"
  shows "\<exists>ks. subseq ks (concat (map device_keys ds)) \<and> placed E offer ks pl pl'"
  using assms
proof (induction ds arbitrary: pl)
  case Nil
  then show ?case by (simp add: placed_skip del: list_emb_Nil2)
next
  case (Cons d ds)
  then obtain pl1 where 1: "start_device F E offer d pl = Inr pl1"
    and 2: "start_devices F E offer ds pl1 = Inr pl'" by (auto simp: bind_fatal_Inr_iff)
  from start_device_placed [OF 1] Cons.IH [OF 2] obtain ks js where
    "subseq ks (device_keys d)" "placed E offer ks pl pl1"
    "subseq js (concat (map device_keys ds))" "placed E offer js pl1 pl'" by blast
  then have "subseq (ks @ js) (concat (map device_keys (d # ds)))" "placed E offer (ks @ js) pl pl'"
    by (auto intro: list_emb_append_mono placed_trans)
  then show ?case by blast
qed

lemma placed_frame:
  assumes "placed E offer ks pl pl'"
  shows "placement_frame (offer_hostname offer) (fst pl) (fst pl')"
  using assms by (auto simp: placed_def split: prod.splits)

text \<open>The shared services and the client are placed first, then the devices in their order.\<close>

lemma start_services_split:
  assumes "start_services F E offer pl = Inr pl'"
    and "map_find (nodes (fst pl)) (offer_hostname offer) \<noteq> None"
  shows "\<exists>ks p4. subseq ks [API_TASK, S3_TASK, WEBCONSOLE_TASK, CLIENT_TASK] \<and> placed E offer ks pl p4 \<and>
    start_devices F E offer (ns_device_type (node_at (fst pl) (offer_hostname offer))) p4 = Inr pl'"
proof -
  let ?h = "offer_hostname offer"
  obtain p1 p2 p3 p4 where
    s1: "start_api F E offer pl = Inr p1" and s2: "start_s3 F E offer p1 = Inr p2" and
    s3: "start_webconsole F E offer p2 = Inr p3" and s4: "start_client F E offer p3 = Inr p4" and
    s5: "start_devices F E offer (ns_device_type (node_at (fst p4) ?h)) p4 = Inr pl'"
    using assms(1) by (auto simp: start_services_def bind_fatal_Inr_iff)
  have "\<exists>ks. subseq ks [API_TASK] \<and> placed E offer ks pl p1"
    using s1 unfolding start_api_def
    by (intro start_shared_placed) (simp_all add: task_defs core_keys_def service_of_def)
  moreover have "\<exists>ks. subseq ks [S3_TASK] \<and> placed E offer ks p1 p2"
  proof (cases "FLAGS_s3_hostname F = ''''")
    case True
    with s2 show ?thesis by (simp add: start_s3_def placed_skip)
  next
    case False
    with s2 show ?thesis unfolding start_s3_def
      by (intro start_shared_placed) (simp_all add: task_defs core_keys_def service_of_def)
  qed
  moreover have "\<exists>ks. subseq ks [WEBCONSOLE_TASK] \<and> placed E offer ks p2 p3"
    using s3 unfolding start_webconsole_def
    by (intro start_shared_placed) (simp_all add: task_defs core_keys_def service_of_def)
  ultimately obtain k1 k2 k3 where
    k: "subseq k1 [API_TASK]" "subseq k2 [S3_TASK]" "subseq k3 [WEBCONSOLE_TASK]" and
    p123: "placed E offer (k1 @ k2 @ k3) pl p3"
    using placed_trans by metis
  have "map_find (nodes (fst p3)) ?h \<noteq> None"
    using placed_frame [OF p123] assms(2) map_find_same_keys [of "nodes (fst p3)" "nodes (fst pl)"]
    by (simp add: placement_frame_def del: not_None_eq)
  then obtain k4 where k4: "subseq k4 [CLIENT_TASK]" and p4: "placed E offer k4 p3 p4"
    using start_client_placed [OF s4] by blast
  have p1234: "placed E offer ((k1 @ k2 @ k3) @ k4) pl p4" using p123 p4 by (rule placed_trans)
  then have dt: "ns_device_type (node_at (fst p4) ?h) = ns_device_type (node_at (fst pl) ?h)"
    using placed_frame by (fastforce simp: placement_frame_def core_view_def)
  have "subseq (k1 @ k2 @ k3 @ k4) ([API_TASK] @ [S3_TASK] @ [WEBCONSOLE_TASK] @ [CLIENT_TASK])"
    using k k4 by (intro list_emb_append_mono)
  then show ?thesis using p1234 s5 dt by (intro exI [of _ "k1 @ k2 @ k3 @ k4"] exI [of _ p4]) simp
qed

lemma start_services_placed:
  assumes "start_services F E offer pl = Inr pl'"
    and "map_find (nodes (fst pl)) (offer_hostname offer) \<noteq> None"
  shows "\<exists>ks. subseq ks (placeable (ns_device_type (node_at (fst pl) (offer_hostname offer)))) \<and>
    placed E offer ks pl pl'"
proof -
  let ?ds = "ns_device_type (node_at (fst pl) (offer_hostname offer))"
  obtain ks p4 where ks: "subseq ks [API_TASK, S3_TASK, WEBCONSOLE_TASK, CLIENT_TASK]"
    and p4: "placed E offer ks pl p4" and s5: "start_devices F E offer ?ds p4 = Inr pl'"
    using start_services_split [OF assms] by blast
  obtain k5 where k5: "subseq k5 (concat (map device_keys ?ds))" and p5: "placed E offer k5 p4 pl'"
    using start_devices_placed [OF s5] by blast
  have "subseq (ks @ k5) (placeable ?ds)"
    unfolding placeable_def using ks k5 by (rule list_emb_append_mono)
  with placed_trans [OF p4 p5] show ?thesis by blast
qed

section \<open>The outcome of one offer\<close>

text \<open>
  \<open>same_services h\<close>: the persistent state and every service of host \<open>h\<close> but the prober, the shared
  ones included, are as before.

  \<open>offer_outcome E offer w cs w'\<close>: handling \<open>offer\<close> in \<open>w\<close> makes the calls \<open>cs\<close> and gives \<open>w'\<close>.  The
  last call answers the offer: it is declined, or used for the prober alone, or for services that
  the resources cover.
\<close>

definition quiet :: "'r driver_call list \<Rightarrow> bool" where
  "quiet cs \<longleftrightarrow> answers cs = [] \<and> launches cs = []"

definition same_services :: "string \<Rightarrow> ('r, 'z) world \<Rightarrow> ('r, 'z) world \<Rightarrow> bool" where
  "same_services h w w' \<longleftrightarrow> proxy w' = proxy w \<and> resources w' = resources w \<and>
     (\<forall>k. k \<noteq> ''device-prober'' \<longrightarrow> key_state k h w' = key_state k h w)"

inductive offer_outcome ::
    "('r, 'z) externals \<Rightarrow> 'r Offer \<Rightarrow> ('r, 'z) world \<Rightarrow> 'r driver_call list \<Rightarrow> ('r, 'z) world \<Rightarrow> bool"
  for E offer w where
  declined: "quiet cs \<Longrightarrow> same_services (offer_hostname offer) w w' \<Longrightarrow>
    offer_outcome E offer w (cs @ [DeclineOffer (offer_id offer)]) w'"
| prober_launched: "same_services (offer_hostname offer) w w' \<Longrightarrow>
    ti_name task = ''quobyte-device-prober'' \<Longrightarrow>
    ti_task_id task = ''quobyte-device-prober-'' @ offer_hostname offer \<Longrightarrow>
    ti_resources task = Some (resource_at E (resources w) PROBER_TASK) \<Longrightarrow>
    resources_contains E (offer_resources offer) (resource_at E (resources w) PROBER_TASK) \<Longrightarrow>
    ss_state (ns_prober (node_at w (offer_hostname offer))) \<notin> {RUNNING, STARTING} \<Longrightarrow>
    ss_state (read_service Prober_Ref (offer_hostname offer) w') = STARTING \<Longrightarrow>
    offer_outcome E offer w [LaunchTasks (offer_id offer) [task]] w'"
| services_launched: "target_version (proxy_data (proxy w)) \<noteq> '''' \<Longrightarrow> tasks \<noteq> [] \<Longrightarrow>
    placed E offer ks (w, offer_resources offer, []) (w1, rest, tasks) \<Longrightarrow>
    subseq ks (placeable (ns_device_type (node_at w (offer_hostname offer)))) \<Longrightarrow>
    w' = emit (LaunchTasks (offer_id offer) tasks) w1 \<Longrightarrow>
    offer_outcome E offer w [LaunchTasks (offer_id offer) tasks] w'"

lemma core_view_stamps [simp]:
  "core_view (n\<lparr>ns_last_offer_s_field := x\<rparr>) = core_view n"
  by (simp add: core_view_def core_services_running_def)

lemma node_service_stamps [simp]:
  "node_service r (n\<lparr>ns_last_offer_s_field := x\<rparr>) = node_service r n"
  "node_service r (n\<lparr>ns_last_probe_s_field := x\<rparr>) = node_service r n"
  by (cases r; simp)+

lemma read_service_cong:
  "api_state w' = api_state w \<Longrightarrow> s3_state w' = s3_state w \<Longrightarrow> console_state w' = console_state w \<Longrightarrow>
   (\<And>r. node_service r (node_at w' h) = node_service r (node_at w h)) \<Longrightarrow>
   read_service r h w' = read_service r h w"
  by (cases "is_shared r", cases r) (simp_all add: read_service_node)

lemma read_service_reads [simp]: "read_service r h (w\<lparr>reads := n\<rparr>) = read_service r h w"
  by (rule read_service_cong) simp_all

lemma read_service_calls [simp]: "read_service r h (w\<lparr>calls := cs\<rparr>) = read_service r h w"
  by (rule read_service_cong) simp_all

lemma read_service_update_node:
  assumes "\<And>r n. node_service r (f n) = node_service r n"
  shows "read_service r h (update_node j f w) = read_service r h w"
  by (rule read_service_cong) (simp_all add: node_at_update_node assms, simp_all add: update_node_def)

lemma read_service_stamps [simp]:
  "read_service r h (update_node j (\<lambda>n. n\<lparr>ns_last_offer_s_field := x\<rparr>) w) = read_service r h w"
  "read_service r h (update_node j (\<lambda>n. n\<lparr>ns_last_probe_s_field := x\<rparr>) w) = read_service r h w"
  by (simp_all add: read_service_update_node)

lemma key_state_simps [simp]:
  "key_state k h (w\<lparr>reads := n\<rparr>) = key_state k h w"
  "key_state k h (w\<lparr>calls := cs\<rparr>) = key_state k h w"
  "key_state k h (emit c w) = key_state k h w"
  "key_state k h (update_node j (\<lambda>n. n\<lparr>ns_last_offer_s_field := x\<rparr>) w) = key_state k h w"
  "key_state k h (update_node j (\<lambda>n. n\<lparr>ns_last_probe_s_field := x\<rparr>) w) = key_state k h w"
  by (simp_all add: key_state_def emit_def split: option.split)

lemma update_node_frame [simp]:
  "proxy (update_node h f w) = proxy w" "resources (update_node h f w) = resources w"
  "calls (update_node h f w) = calls w" "clock (update_node h f w) = clock w"
  "reads (update_node h f w) = reads w" "storage (update_node h f w) = storage w"
  "map_keys (nodes (update_node h f w)) = map_keys (nodes w)"
  by (simp_all add: update_node_def)

lemma createHost_frame [simp]:
  "proxy (createHost h s w) = proxy w" "resources (createHost h s w) = resources w"
  "calls (createHost h s w) = calls w" "clock (createHost h s w) = clock w"
  "reads (createHost h s w) = reads w" "storage (createHost h s w) = storage w"
  "api_state (createHost h s w) = api_state w" "s3_state (createHost h s w) = s3_state w"
  "console_state (createHost h s w) = console_state w"
  by (simp_all add: createHost_def)

lemma emit_frame [simp]:
  "calls (emit c w) = calls w @ [c]" "proxy (emit c w) = proxy w"
  "resources (emit c w) = resources w" "nodes (emit c w) = nodes w"
  "api_state (emit c w) = api_state w" "s3_state (emit c w) = s3_state w"
  "console_state (emit c w) = console_state w" "storage (emit c w) = storage w"
  "clock (emit c w) = clock w" "reads (emit c w) = reads w"
  by (simp_all add: emit_def)

lemma node_at_emit [simp]: "node_at (emit c w) h = node_at w h"
  by (simp add: emit_def)

text \<open>A new host starts with the state that an absent one reads as.\<close>

lemma read_service_createHost:
  "map_ok (nodes w) \<Longrightarrow> read_service r h (createHost j s w) = read_service r h w"
proof (rule read_service_cong)
  fix r
  assume "map_ok (nodes w)"
  then show "node_service r (node_at (createHost j s w) h) = node_service r (node_at w h)"
    by (cases r) (auto simp: node_at_def createHost_def map_find_insert new_NodeState_def)
qed simp_all

lemma key_state_createHost [simp]:
  "map_ok (nodes w) \<Longrightarrow> key_state k h (createHost j s w) = key_state k h w"
  by (simp add: key_state_def read_service_createHost split: option.split)

lemma KillServiceIfRunning_cases:
  "KillServiceIfRunning tid s w = w \<or> KillServiceIfRunning tid s w = emit (KillTask tid) w"
  by (simp add: KillServiceIfRunning_def)

lemma quiet_simps [simp]:
  "quiet []" "quiet (c # cs) \<longleftrightarrow> answered c = [] \<and> launched c = [] \<and> quiet cs"
  "quiet (cs @ ds) \<longleftrightarrow> quiet cs \<and> quiet ds"
  by (auto simp: quiet_def answers_def launches_def)

lemma same_services_refl [simp]: "same_services h w w"
  by (simp add: same_services_def)

text \<open>Reading the clock and stamping the offer are an empty placement.\<close>

lemma stamp_placed:
  "placed E offer [] (w, a, [])
     ((update_node (offer_hostname offer) (\<lambda>n. n\<lparr>ns_last_offer_s_field := x\<rparr>) w)\<lparr>reads := i\<rparr>, a, [])"
  by (simp add: placed_def placement_frame_def node_at_update_node)

lemma shutdown_services_calls:
  "\<exists>cs. quiet cs \<and> shutdown_services h w = w\<lparr>calls := calls w @ cs\<rparr>"
proof -
  define killed :: "('a, 'b) world \<Rightarrow> ('a, 'b) world \<Rightarrow> bool"
    where "killed = (\<lambda>w w'. \<exists>cs. quiet cs \<and> w' = w\<lparr>calls := calls w @ cs\<rparr>)"
  have refl: "killed w w" for w by (auto simp: killed_def intro!: exI [of _ "[]"])
  have step: "killed w (KillServiceIfRunning tid s w')" if "killed w w'" for w w' tid s
  proof (cases "ss_state s = RUNNING")
    case True
    from that obtain cs where "quiet cs" "w' = w\<lparr>calls := calls w @ cs\<rparr>" by (auto simp: killed_def)
    with True show ?thesis unfolding killed_def
      by (intro exI [of _ "cs @ [KillTask tid]"]) (simp add: KillServiceIfRunning_def emit_def)
  qed (use that in \<open>simp add: KillServiceIfRunning_def\<close>)
  have "killed w (shutdown_services h w)"
    unfolding shutdown_services_def Let_def by (intro step refl)
  then show ?thesis by (simp add: killed_def)
qed

lemma key_state_prober_write:
  assumes "k \<noteq> ''device-prober''"
  shows "key_state k h (write_service Prober_Ref j f w) = key_state k h w"
proof (cases "service_of (''quobyte-'' @ k)")
  case (Some r)
  with assms have "r \<noteq> Prober_Ref" by (auto simp: service_of_Some_iff)
  with Some show ?thesis by (simp add: key_state_def read_write_other del: write_service.simps)
qed (simp add: key_state_def)

lemma placed_same_services:
  "placed E offer [] (w, a, ts) (w', b, ts') \<Longrightarrow> same_services (offer_hostname offer) w w'"
  by (simp add: placed_def placement_frame_def same_services_def)

lemma place_services_outcome:
  assumes "place_services F E offer w1 = Inr w'"
    and start: "placed E offer [] (w, offer_resources offer, []) (w1, offer_resources offer, [])"
    and known: "map_find (nodes w) (offer_hostname offer) \<noteq> None"
  shows "\<exists>cs. calls w' = calls w @ cs \<and> offer_outcome E offer w cs w'"
proof -
  let ?h = "offer_hostname offer"
  have frame: "placement_frame ?h w w1" using placed_frame [OF start] by simp
  then have eq: "calls w1 = calls w" "proxy w1 = proxy w"
    "ns_device_type (node_at w1 ?h) = ns_device_type (node_at w ?h)"
    by (simp_all add: placement_frame_def core_view_def)
  have known1: "map_find (nodes w1) ?h \<noteq> None"
    using frame known map_find_same_keys [of "nodes w1" "nodes w"]
    by (simp add: placement_frame_def del: not_None_eq)
  show ?thesis
  proof (cases "target_version (proxy_data (proxy w1)) = ''''")
    case True
    obtain cs where cs: "quiet cs" "shutdown_services ?h w1 = w1\<lparr>calls := calls w1 @ cs\<rparr>"
      using shutdown_services_calls by blast
    have w': "w' = emit (DeclineOffer (offer_id offer)) (w1\<lparr>calls := calls w1 @ cs\<rparr>)"
      using assms(1) True cs(2) by (simp add: place_services_def)
    then have "same_services ?h w w'"
      using placed_same_services [OF start] by (simp add: same_services_def)
    with w' cs(1) eq show ?thesis by (auto intro: declined)
  next
    case False
    with assms(1) obtain w2 rest ts where
      2: "start_services F E offer (w1, offer_resources offer, []) = Inr (w2, rest, ts)" and
      w': "w' = emit (if ts \<noteq> [] then LaunchTasks (offer_id offer) ts
                      else DeclineOffer (offer_id offer)) w2"
      by (auto simp: place_services_def bind_fatal_Inr_iff split: if_splits)
    obtain ks where ks: "subseq ks (placeable (ns_device_type (node_at w ?h)))"
      and p: "placed E offer ks (w1, offer_resources offer, []) (w2, rest, ts)"
      using start_services_placed [OF 2] known1 eq(3) by auto
    have p': "placed E offer ks (w, offer_resources offer, []) (w2, rest, ts)"
      using placed_trans [OF start p] by simp
    have c: "calls w2 = calls w" using placed_frame [OF p'] by (simp add: placement_frame_def)
    show ?thesis
    proof (cases "ts = []")
      case True
      then have "ks = []" using p' by (auto simp: placed_def)
      with p' have "same_services ?h w w2" by (auto intro: placed_same_services)
      then have "same_services ?h w w'" using w' by (simp add: same_services_def)
      then have "offer_outcome E offer w ([] @ [DeclineOffer (offer_id offer)]) w'"
        by (intro declined) simp_all
      with True c w' show ?thesis by auto
    next
      case ne: False
      then have "offer_outcome E offer w [LaunchTasks (offer_id offer) ts] w'"
        using p' ks w' False eq(2) by (intro services_launched) simp_all
      with ne c w' show ?thesis by auto
    qed
  qed
qed

lemma start_prober_outcome:
  assumes "start_prober F E offer w1 = Inr w'"
    and start: "placed E offer [] (w, offer_resources offer, []) (w1, offer_resources offer, [])"
    and known: "map_find (nodes w) (offer_hostname offer) \<noteq> None"
    and "resources_contains E (offer_resources offer) (resource_at E (resources w1) PROBER_TASK)"
    and "ss_state (ns_prober (node_at w1 (offer_hostname offer))) \<notin> {RUNNING, STARTING}"
  shows "\<exists>cs. calls w' = calls w @ cs \<and> offer_outcome E offer w cs w'"
proof -
  let ?h = "offer_hostname offer"
  have frame: "placement_frame ?h w w1" using placed_frame [OF start] by simp
  define w2 where "w2 = write_service Prober_Ref ?h (\<lambda>s. s\<lparr>ss_state_field := Some STARTING\<rparr>) w1"
  define w3 where "w3 = w2\<lparr>reads := Suc (reads w2)\<rparr>"
  define w4 where "w4 = write_service Prober_Ref ?h (\<lambda>s. s\<lparr>ss_last_update_s_field := Some (clock w2 (reads w2))\<rparr>) w3"
  have now: "now w2 = (clock w2 (reads w2), w3)" by (simp add: now_def w3_def)
  obtain t where
    w': "w' = emit (LaunchTasks (offer_id offer) [t\<lparr>ti_name := ''quobyte-device-prober'',
        ti_task_id := ''quobyte-device-prober-'' @ ?h, ti_slave_id := offer_slave_id offer,
        ti_resources := Some (resource_at E (resources w4) PROBER_TASK)\<rparr>]) w4"
    using assms(1) unfolding start_prober_def Let_def w2_def [symmetric] now prod.case
      w4_def [symmetric] bind_fatal_Inr_iff by blast
  have same: "proxy w4 = proxy w" "resources w4 = resources w1" "calls w4 = calls w"
    "resources w1 = resources w"
    using frame by (simp_all add: w4_def w3_def w2_def placement_frame_def frame_simps del: write_service.simps)
  have keys: "key_state k ?h w4 = key_state k ?h w1" if "k \<noteq> ''device-prober''" for k
    using that by (simp add: w4_def w3_def w2_def key_state_prober_write del: write_service.simps)
  have "map_find (nodes w1) ?h \<noteq> None"
    using frame known map_find_same_keys [of "nodes w1" "nodes w"]
    by (simp add: placement_frame_def del: not_None_eq)
  then have target: "has_target Prober_Ref ?h w1" by (simp add: has_target_def)
  then have "has_target Prober_Ref ?h w3"
    by (simp add: w3_def w2_def has_target_def frame_simps map_find_modify update_node_def)
  then have starting: "ss_state (read_service Prober_Ref ?h w4) = STARTING"
    using target unfolding w4_def
    by (simp add: cell.load_store w3_def w2_def del: write_service.simps read_service.simps)
  have services: "same_services ?h w w'"
    using placed_same_services [OF start] keys same by (simp add: w' same_services_def)
  have "offer_outcome E offer w [LaunchTasks (offer_id offer) [t\<lparr>ti_name := ''quobyte-device-prober'',
        ti_task_id := ''quobyte-device-prober-'' @ ?h, ti_slave_id := offer_slave_id offer,
        ti_resources := Some (resource_at E (resources w4) PROBER_TASK)\<rparr>]] w'"
  proof (rule prober_launched [OF services])
    show "ss_state (read_service Prober_Ref ?h w') = STARTING"
      using starting by (simp add: w')
    show "ss_state (ns_prober (node_at w ?h)) \<notin> {RUNNING, STARTING}"
      using assms(5) frame by (simp add: placement_frame_def core_view_def)
  qed (use assms(4) same in simp_all)
  with same(3) show ?thesis unfolding w' by auto
qed

lemma reconcileHost_quiet:
  "\<exists>c. quiet [c] \<and> (\<forall>w. reconcileHost offer w =
     emit c (createHost (offer_hostname offer) (offer_slave_id offer) w))"
  unfolding reconcileHost_def by (intro exI conjI allI) (rule_tac [2] refl, simp)

lemma trigger_discovery_outcome:
  assumes "trigger_discovery F E offer w1 = w'" and "map_ok (nodes w1)"
    and start: "placed E offer [] (w, offer_resources offer, []) (w1, offer_resources offer, [])"
  shows "\<exists>cs. calls w' = calls w @ cs \<and> offer_outcome E offer w cs w'"
proof -
  let ?h = "offer_hostname offer"
  have frame: "placement_frame ?h w w1" using placed_frame [OF start] by simp
  obtain a b w2 t n where
    w2: "w2 = createHost ?h (offer_slave_id offer) (emit a
      (update_node ?h (\<lambda>n. n\<lparr>ns_last_probe_s_field := Some t\<rparr>) (w1\<lparr>reads := n\<rparr>)))" and
    w': "w' = emit (DeclineOffer (offer_id offer)) (emit b w2)" and
    q: "quiet [a, b]"
    using assms(1) by (auto simp: trigger_discovery_def reconcileHost_def now_def Let_def)
  have "map_ok (nodes (update_node ?h (\<lambda>n. n\<lparr>ns_last_probe_s_field := Some t\<rparr>) (w1\<lparr>reads := n\<rparr>)))"
    using assms(2) by (simp add: update_node_def map_ok_def)
  then have "same_services ?h w w'"
    using placed_same_services [OF start] by (simp add: w' w2 same_services_def)
  then have "offer_outcome E offer w ([a, b] @ [DeclineOffer (offer_id offer)]) w'"
    using q by (intro declined)
  moreover have "calls w' = calls w @ [a, b] @ [DeclineOffer (offer_id offer)]"
    using frame by (simp add: w' w2 placement_frame_def)
  ultimately show ?thesis by blast
qed

lemma placed_reads:
  "placed E offer [] pl (w1, a, ts) \<Longrightarrow> placed E offer [] pl (w1\<lparr>reads := n\<rparr>, a, ts)"
  by (cases pl) (simp add: placed_def placement_frame_def)

lemma probe_or_place_outcome:
  assumes "probe_or_place F E offer w1 = Inr w'" and "map_ok (nodes w1)"
    and start: "placed E offer [] (w, offer_resources offer, []) (w1, offer_resources offer, [])"
    and known: "map_find (nodes w) (offer_hostname offer) \<noteq> None"
  shows "\<exists>cs. calls w' = calls w @ cs \<and> offer_outcome E offer w cs w'"
proof -
  consider (probe) n where "w' = trigger_discovery F E offer (w1\<lparr>reads := n\<rparr>)"
    | (later) n where "place_services F E offer (w1\<lparr>reads := n\<rparr>) = Inr w'"
    | (place) "place_services F E offer w1 = Inr w'"
    using assms(1) unfolding probe_or_place_def now_def Let_def prod.case
    by (metis Inr_inject)
  then show ?thesis
  proof cases
    case probe
    then show ?thesis
      by (intro trigger_discovery_outcome [OF probe [symmetric]] placed_reads [OF start])
        (simp add: assms(2))
  next
    case later
    then show ?thesis by (rule place_services_outcome [OF _ placed_reads [OF start] known])
  next
    case place
    then show ?thesis by (rule place_services_outcome [OF _ start known])
  qed
qed

lemma offer_known_host_outcome:
  assumes "offer_known_host F E offer w = Inr w'" and "map_ok (nodes w)"
    and known: "map_find (nodes w) (offer_hostname offer) \<noteq> None"
  shows "\<exists>cs. calls w' = calls w @ cs \<and> offer_outcome E offer w cs w'"
proof -
  let ?h = "offer_hostname offer"
  define w1 where "w1 = (update_node ?h (\<lambda>n. n\<lparr>ns_last_offer_s_field := Some (clock w (reads w))\<rparr>) w)
    \<lparr>reads := Suc (Suc (reads w))\<rparr>"
  have start: "placed E offer [] (w, offer_resources offer, []) (w1, offer_resources offer, [])"
    unfolding w1_def by (rule stamp_placed)
  have ok: "map_ok (nodes w1)" using assms(2) by (simp add: w1_def update_node_def map_ok_def)
  have "now (update_node ?h (\<lambda>n. n\<lparr>ns_last_offer_s_field := Some (clock w (reads w))\<rparr>)
      (w\<lparr>reads := Suc (reads w)\<rparr>)) = (clock w (Suc (reads w)), w1)"
    by (simp add: now_def w1_def update_node_def)
  then consider
      "start_prober F E offer w1 = Inr w'"
      "resources_contains E (offer_resources offer) (resource_at E (resources w1) PROBER_TASK)"
      "ss_state (ns_prober (node_at w1 ?h)) \<notin> {RUNNING, STARTING}"
    | "probe_or_place F E offer w1 = Inr w'"
    using assms(1) by (auto simp: offer_known_host_def now_def [of w] Let_def split: if_splits)
  then show ?thesis
  proof cases
    case 1
    then show ?thesis by (intro start_prober_outcome [OF _ start known])
  next
    case 2
    then show ?thesis by (rule probe_or_place_outcome [OF _ ok start known])
  qed
qed

lemma handle_offer_outcome:
  assumes "handle_offer F E offer w = Inr w'" and "map_ok (nodes w)"
  shows "\<exists>cs. calls w' = calls w @ cs \<and> offer_outcome E offer w cs w'"
proof -
  let ?d = "DeclineOffer (offer_id offer)"
  consider (restricted) "w' = emit ?d w"
    | (unknown) "w' = emit ?d (reconcileHost offer w)"
    | (known) "offer_known_host F E offer w = Inr w'"
        "map_find (nodes w) (offer_hostname offer) \<noteq> None"
    using assms(1) unfolding handle_offer_def by (metis Inr_inject)
  then show ?thesis
  proof cases
    case restricted
    then have "offer_outcome E offer w ([] @ [?d]) w'"
      by (intro declined) (simp_all add: same_services_def)
    moreover have "calls w' = calls w @ [] @ [?d]" using restricted by simp
    ultimately show ?thesis by blast
  next
    case unknown
    from reconcileHost_quiet obtain c where c: "quiet [c]" "w' = emit ?d (emit c
        (createHost (offer_hostname offer) (offer_slave_id offer) w))"
      using unknown by metis
    then have "offer_outcome E offer w ([c] @ [?d]) w'"
      using assms(2) by (intro declined) (simp_all add: same_services_def)
    moreover have "calls w' = calls w @ [c] @ [?d]" using c by simp
    ultimately show ?thesis by blast
  next
    case known
    then show ?thesis by (intro offer_known_host_outcome assms(2))
  qed
qed

end
