(* ===== verification/Status_Update.thy ===== *)
theory Status_Update
  imports Scheduler_State
begin

text \<open>
  The callbacks of \<open>QuobyteScheduler\<close> that report about tasks, executors and the connection:
  \<open>statusUpdate\<close>, \<open>frameworkMessage\<close>, \<open>registered\<close>, \<open>reregistered\<close> and those that only log.
\<close>

section \<open>Task ids\<close>

text \<open>A task id is split at its last dash; \<^term>\<open>None\<close> is the early return when there is none.\<close>

definition split_task_id :: "string \<Rightarrow> (string \<times> string) option" where
  "split_task_id task_id =
     (case rfind_char CHR ''-'' task_id of
        None \<Rightarrow> None
      | Some pos \<Rightarrow> Some (substr task_id 0 pos, substr task_id (pos + 1) (length task_id)))"

section \<open>statusUpdate\<close>

definition service_should_run :: "string \<Rightarrow> NodeState \<Rightarrow> ServiceState \<Rightarrow> string \<Rightarrow> bool" where
  "service_should_run service node service_state task_id =
     (let duplicate =
        (service = ''quobyte-api'' \<or> service = ''quobyte-webconsole'' \<or> service = ''quobyte-s3'')
        \<and> ss_state service_state = RUNNING \<and> ss_task_id service_state \<noteq> task_id
      in if ns_device_types_valid node then
           if service = ''quobyte-registry'' \<and> REGISTRY \<notin> set (ns_device_type node) then False
           else if service = ''quobyte-metadata'' \<and> METADATA \<notin> set (ns_device_type node) then False
           else if service = ''quobyte-data'' \<and> DATA \<notin> set (ns_device_type node) then False
           else if service = ''quobyte-client'' \<and> \<not> ns_client_mount_point node then False
           else \<not> duplicate
         else \<not> duplicate)"

text \<open>The fields written when a task runs and when it has ended.\<close>

definition record_running :: "TaskStatus \<Rightarrow> int \<Rightarrow> int \<Rightarrow> ServiceState \<Rightarrow> ServiceState" where
  "record_running status t1 t2 s = s\<lparr>ss_state_field := Some RUNNING,
     ss_last_update_s_field := Some t1, ss_last_seen_s_field := Some t2,
     ss_last_message_field := Some (st_message status),
     ss_task_id_field := Some (st_task_id status)\<rparr>"

definition record_terminal :: "TaskStatus \<Rightarrow> int \<Rightarrow> ServiceState \<Rightarrow> ServiceState" where
  "record_terminal status t s = s\<lparr>ss_state_field := Some NOT_RUNNING,
     ss_last_update_s_field := Some t, ss_last_message_field := Some (st_message status),
     ss_task_id_field := None\<rparr>"

definition update_service_state ::
    "TaskStatus \<Rightarrow> string \<Rightarrow> string \<Rightarrow> service_ref \<Rightarrow> ('r, 'z) world \<Rightarrow> ('r, 'z) world" where
  "update_service_state status service hostname r w =
     (let s = read_service r hostname w;
          mine = (st_task_id status = ss_task_id s \<or> ss_task_id s = '''')
      in if st_state status = TASK_RUNNING \<or> st_state status = TASK_FINISHED then
           if \<not> service_should_run service (node_at w hostname) s (st_task_id status)
           then emit (KillTask (st_task_id status)) w
           else if mine then
             (let (t1, w) = now w; (t2, w) = now w
              in write_service r hostname (record_running status t1 t2) w)
           else w
         else if IsTerminal (st_state status) \<and> mine then
           (let (t, w) = now w in write_service r hostname (record_terminal status t) w)
         else w)"

text \<open>
  The version of the task's labels is compared with the target version, but a difference is only
  logged; what remains of the check is that a task is killed when no version is to be deployed.
\<close>

fun label_version :: "(string \<times> string) list \<Rightarrow> string" where
  "label_version [] = ''''"
| "label_version ((key, val) # ls) = (if key = kDockerImageVersion then val else label_version ls)"

definition check_version :: "TaskStatus \<Rightarrow> ('r, 'z) world \<Rightarrow> ('r, 'z) world" where
  "check_version status w =
     (let version = label_version (st_labels status) in
      if target_version (proxy_data (proxy w)) = '''' then emit (KillTask (st_task_id status)) w
      else if version \<noteq> '''' \<and> version \<noteq> target_version (proxy_data (proxy w)) then w
      else w)"

definition find_or_create :: "TaskStatus \<Rightarrow> string \<Rightarrow> ('r, 'z) world \<Rightarrow> ('r, 'z) world" where
  "find_or_create status hostname w =
     (if map_find (nodes w) hostname = None then createHost hostname (st_slave_id status) w else w)"

definition statusUpdate :: "TaskStatus \<Rightarrow> ('r, 'z) world \<Rightarrow> ('r, 'z) world" where
  "statusUpdate status w =
     (case split_task_id (st_task_id status) of
        None \<Rightarrow> w
      | Some (service, hostname) \<Rightarrow>
          (let w = find_or_create status hostname w in
           case getService hostname service w of
             (None, w) \<Rightarrow> w
           | (Some r, w) \<Rightarrow>
               (let w = update_service_state status service hostname r w in
                if service = ''quobyte-device-prober'' \<or> IsTerminal (st_state status) then w
                else check_version status w)))"

section \<open>frameworkMessage\<close>

definition apply_response :: "ProbeResponse \<Rightarrow> int \<Rightarrow> NodeState \<Rightarrow> NodeState" where
  "apply_response response t n =
     mutable_prober (\<lambda>s. s\<lparr>ss_last_seen_s_field := Some t\<rparr>)
       (n\<lparr>ns_device_type := pr_device_type response,
          ns_client_mount_point_field := Some (pr_client_mount_point response)\<rparr>)
     \<lparr>ns_device_types_valid_field := Some True\<rparr>"

text \<open>
  The loop over the nodes; \<open>return\<close> on a message that does not parse leaves the rest of the map as
  it is.  The clock is read once per node that matches.
\<close>

fun probe_nodes ::
    "('r, 'z) externals \<Rightarrow> string \<Rightarrow> string \<Rightarrow> (nat \<Rightarrow> int) \<Rightarrow> nat \<Rightarrow>
     (string, NodeState) std_map \<Rightarrow> (string, NodeState) std_map \<times> nat" where
  "probe_nodes E slave_id data clk i [] = ([], i)"
| "probe_nodes E slave_id data clk i ((h, n) # ns) =
     (if ns_slave_id_value n = slave_id then
        (case parse_response E data of
           None \<Rightarrow> ((h, n) # ns, i)
         | Some response \<Rightarrow>
             (let (ns', i') = probe_nodes E slave_id data clk (Suc i) ns
              in ((h, apply_response response (clk i) n) # ns', i')))
      else (let (ns', i') = probe_nodes E slave_id data clk i ns in ((h, n) # ns', i')))"

definition frameworkMessage ::
    "('r, 'z) externals \<Rightarrow> string \<Rightarrow> string \<Rightarrow> ('r, 'z) world \<Rightarrow> ('r, 'z) world" where
  "frameworkMessage E slave_id data w =
     (let (ns, i) = probe_nodes E slave_id data (clock w) (reads w) (nodes w)
      in w\<lparr>nodes := ns, reads := i\<rparr>)"

section \<open>Registration\<close>

definition registered ::
    "('r, 'z) externals \<Rightarrow> string \<Rightarrow> ('r, 'z) world \<Rightarrow> fatal + ('r, 'z) world" where
  "registered E fid w =
     bind_fatal (set_framework_id E fid (storage w) (proxy w)) (\<lambda>(z, p).
       Inr (emit (ReconcileTasks []) (w\<lparr>storage := z, proxy := p\<rparr>)))"

definition reregistered :: "('r, 'z) world \<Rightarrow> ('r, 'z) world" where
  "reregistered w = emit (ReconcileTasks []) w"

section \<open>Callbacks that only log\<close>

definition disconnected :: "('r, 'z) world \<Rightarrow> ('r, 'z) world" where
  "disconnected w = w"

definition slaveLost :: "string \<Rightarrow> ('r, 'z) world \<Rightarrow> ('r, 'z) world" where
  "slaveLost sid w = w"

definition error :: "string \<Rightarrow> ('r, 'z) world \<Rightarrow> ('r, 'z) world" where
  "error message w = w"

definition offerRescinded :: "string \<Rightarrow> ('r, 'z) world \<Rightarrow> ('r, 'z) world" where
  "offerRescinded oid w = w"

definition executorLost :: "string \<Rightarrow> string \<Rightarrow> int \<Rightarrow> ('r, 'z) world \<Rightarrow> ('r, 'z) world" where
  "executorLost executor_id slave_id status w = w"

lemmas logging_callbacks = disconnected_def slaveLost_def error_def offerRescinded_def executorLost_def

end
