(* ===== verification/Http_Api.thy ===== *)
theory Http_Api
  imports Scheduler_State
begin

text \<open>
  The HTTP interface of the scheduler, \<open>QuobyteScheduler::handleHTTP\<close>: the executor archive, the
  version API, the health check and the status page.  \<open>DebugString\<close> and the archive file are
  parameters.
\<close>

definition dquote :: string where "dquote = [CHR 0x22]"
definition newline :: string where "newline = [CHR 0x0A]"

definition kArchiveUrl :: string where "kArchiveUrl = ''/executor.tar.gz''"
definition kVersionAPIUrl :: string where "kVersionAPIUrl = ''/v1/version''"
definition kHealthUrl :: string where "kHealthUrl = ''/v1/health''"
definition kBufferSize :: nat where "kBufferSize = 100 * 1024 * 1024"

section \<open>The status page\<close>

definition renderService :: "string \<Rightarrow> bool \<Rightarrow> NodeState \<Rightarrow> ServiceState \<Rightarrow> string" where
  "renderService name has_device node service =
     (let device_msg = (if \<not> ns_device_types_valid node then ''waiting for prober'' else ''no device'');
          extra = (if has_device \<and> ss_state service \<noteq> RUNNING
                   then ''style='' @ [CHR 0x27] @ ''background-color: yellow'' @ [CHR 0x27] else '''')
      in ''<tr><td>'' @ name @ '': </td><td>'' @
         (if has_device then ''found'' else device_msg) @
         '' <span title='' @ dquote @ ss_last_message service @ dquote @ '' '' @ extra @ ''>'' @ newline @
         ServiceState_TaskState_Name (ss_state service) @ ''</span>'' @
         ''</td></tr>'' @ newline)"

definition page_header :: string where
  "page_header =
     ''<html><head>'' @
     ''<style>.details { display: none; } .hostbox:hover .details { display:block; position:absolute; background:#fafafa; border: 2px solid lightgray; }</style>'' @
     ''</head><body style='' @ [CHR 0x27] @ ''font-family: sans-serif'' @ [CHR 0x27] @ ''>'' @
     ''<h1><img style='' @ [CHR 0x27] @ ''vertical-align:middle; padding:3px'' @ [CHR 0x27] @
     '' src='' @ dquote @ ''http://www.quobyte.com/favicon-128.png'' @ dquote @
     '' width='' @ dquote @ ''60'' @ dquote @ ''>Quobyte Mesos Framework Scheduler</h1>'' @ newline @
     ''<table><tbody>''"

definition details_div :: "string \<Rightarrow> string" where
  "details_div body = ''<div class='' @ dquote @ ''details'' @ dquote @ ''>'' @ body"

definition version_row :: "('r, 'z) externals \<Rightarrow> SchedulerState \<Rightarrow> string" where
  "version_row E d =
     ''<tr><td>Deployed container version:</td><td>'' @
     (if target_version d = '''' then ''No version to deploy (set via REST API)''
      else target_version d) @
     details_div (debug_SchedulerState E d @ ''</div></td></tr>'')"

definition shared_row :: "('r, 'z) externals \<Rightarrow> string \<Rightarrow> ServiceState \<Rightarrow> string" where
  "shared_row E label s =
     ''<tr class='' @ [CHR 0x27] @ ''hostbox'' @ [CHR 0x27] @ ''><td>'' @ label @ '': </td><td>'' @
     ServiceState_TaskState_Name (ss_state s) @ '' '' @ ss_task_id s @
     details_div (''<pre>'' @ debug_ServiceState E s @ ''</pre></div></td></tr>'')"

definition node_box :: "('r, 'z) externals \<Rightarrow> string \<times> NodeState \<Rightarrow> string" where
  "node_box E = (\<lambda>(h, node).
     ''<div class='' @ [CHR 0x27] @ ''hostbox'' @ [CHR 0x27] @ '' style='' @ dquote @
     ''display: inline-block; border: 1px solid lightgray; padding: 3px; margin: 3px'' @ dquote @ ''><h3>'' @
     h @ details_div (''<pre>'' @ debug_NodeState E node @ ''</pre></div>'') @ ''</h3>'' @
     ''<table><tbody>'' @
     renderService ''Registry'' (REGISTRY \<in> set (ns_device_type node)) node (ns_registry node) @
     renderService ''Data'' (DATA \<in> set (ns_device_type node)) node (ns_data node) @
     renderService ''Metadata'' (METADATA \<in> set (ns_device_type node)) node (ns_metadata node) @
     ''</table></tbody>'' @
     ''</div>'' @ newline)"

definition status_page :: "('r, 'z) externals \<Rightarrow> ('r, 'z) world \<Rightarrow> string" where
  "status_page E w =
     page_header @
     version_row E (proxy_data (proxy w)) @
     shared_row E ''API'' (api_state w) @
     shared_row E ''S3'' (s3_state w) @
     shared_row E ''Console'' (console_state w) @
     ''</tbody></table>'' @ newline @ newline @
     concat (map (node_box E) (nodes w)) @
     ''</body></html>''"

section \<open>Requests\<close>

definition bit :: "bool \<Rightarrow> int" where
  "bit b = (if b then 1 else 0)"

fun count_node_services :: "(string, NodeState) std_map \<Rightarrow> int \<Rightarrow> int" where
  "count_node_services [] result = result"
| "count_node_services ((h, node) # ns) result =
     count_node_services ns
       (result + bit (ss_state (ns_registry node) = RUNNING)
               + bit (ss_state (ns_metadata node) = RUNNING)
               + bit (ss_state (ns_data node) = RUNNING))"

definition countRunningServices :: "('r, 'z) world \<Rightarrow> int" where
  "countRunningServices w =
     count_node_services (nodes w)
       (bit (ss_state (api_state w) = RUNNING) + bit (ss_state (s3_state w) = RUNNING) +
        bit (ss_state (console_state w) = RUNNING))"

definition serve_archive :: "('r, 'z) externals \<Rightarrow> fatal + string" where
  "serve_archive E =
     (case archive_read E of
        None \<Rightarrow> Inr ''''
      | Some None \<Rightarrow> Inl Binary_Too_Large
      | Some (Some content) \<Rightarrow>
          if length content = 0 \<or> length content = kBufferSize then Inl Binary_Too_Large
          else Inr content)"

definition handleHTTP ::
    "('r, 'z) externals \<Rightarrow> string \<Rightarrow> string \<Rightarrow> string \<Rightarrow> ('r, 'z) world \<Rightarrow>
     fatal + (string \<times> ('r, 'z) world)" where
  "handleHTTP E verb path data w =
     (if verb = ''GET'' \<and> path = kArchiveUrl then
        bind_fatal (serve_archive E) (\<lambda>page. Inr (page, w))
      else if find_str kVersionAPIUrl path = Some 0 then
        bind_fatal
          (if verb = ''POST''
           then bind_fatal (set_target_version E data (storage w) (proxy w))
                  (\<lambda>(z, p). Inr (w\<lparr>storage := z, proxy := p\<rparr>))
           else Inr w)
          (\<lambda>w. Inr (target_version (proxy_data (proxy w)), w))
      else if verb = ''GET'' \<and> path = kHealthUrl then
        Inr (''OK. Running services: '' @ to_string (countRunningServices w), w)
      else if verb = ''GET'' \<and> path = ''/'' then Inr (status_page E w, w)
      else Inr ('''', w))"

end
