(* ===== verification/Http_Server.thy ===== *)
theory Http_Server
  imports Http_Api
begin

text \<open>
  \<open>scheduler/http_server.cpp\<close>: the request callback that collects the body of a POST over several
  calls and answers with the page of the dispatcher, or with 404 when the page is empty.
  libmicrohttpd is outside the repository: one call of the callback is \<open>HandleRequest\<close>, and
  \<open>handle_calls\<close> is the callback called with a given list of upload chunks until it answers.
\<close>

type_synonym 's dispatcher = "string \<Rightarrow> string \<Rightarrow> string \<Rightarrow> 's \<Rightarrow> fatal + (string \<times> 's)"

record http_reply =
  reply_status :: nat
  reply_body :: string

definition MHD_HTTP_OK :: nat where "MHD_HTTP_OK = 200"
definition MHD_HTTP_NOT_FOUND :: nat where "MHD_HTTP_NOT_FOUND = 404"

definition make_reply :: "string \<Rightarrow> string \<Rightarrow> http_reply" where
  "make_reply url page =
     (if page \<noteq> '''' then \<lparr>reply_status = MHD_HTTP_OK, reply_body = page\<rparr>
      else \<lparr>reply_status = MHD_HTTP_NOT_FOUND, reply_body = ''Not found: '' @ url\<rparr>)"

text \<open>
  \<open>post_data\<close> is \<open>*ptr\<close>: \<^term>\<open>None\<close> for the null pointer.  The result is the reply, if one is
  queued, the new \<open>*ptr\<close>, and the state behind the dispatcher.
\<close>

definition HandleRequest ::
    "'s dispatcher \<Rightarrow> string \<Rightarrow> string \<Rightarrow> string \<Rightarrow> string option \<Rightarrow> 's \<Rightarrow>
     fatal + (http_reply option \<times> string option \<times> 's)" where
  "HandleRequest dispatch url verb upload_data post_data s =
     (if verb = ''POST'' \<and> post_data = None then Inr (None, Some '''', s)
      else if verb = ''POST'' \<and> length upload_data > 0
      then Inr (None, Some (opt_or '''' post_data @ upload_data), s)
      else bind_fatal (dispatch verb url (opt_or '''' post_data) s)
        (\<lambda>(page, s). Inr (Some (make_reply url page), post_data, s)))"

fun handle_calls ::
    "'s dispatcher \<Rightarrow> string \<Rightarrow> string \<Rightarrow> string list \<Rightarrow> string option \<Rightarrow> 's \<Rightarrow>
     fatal + (http_reply option \<times> string option \<times> 's)" where
  "handle_calls dispatch url verb [] post_data s = Inr (None, post_data, s)"
| "handle_calls dispatch url verb (chunk # chunks) post_data s =
     bind_fatal (HandleRequest dispatch url verb chunk post_data s)
       (\<lambda>(reply, post_data, s).
          if reply = None then handle_calls dispatch url verb chunks post_data s
          else Inr (reply, post_data, s))"

section \<open>Starting and stopping\<close>

record HttpServer =
  http_daemon :: bool
  http_port :: int

definition new_HttpServer :: "int \<Rightarrow> HttpServer" where
  "new_HttpServer p = \<lparr>http_daemon = False, http_port = p\<rparr>"

text \<open>\<open>started\<close> is whether \<open>MHD_start_daemon\<close> returned a daemon.\<close>

definition Start :: "bool \<Rightarrow> HttpServer \<Rightarrow> fatal + HttpServer" where
  "Start started server =
     (if started then Inr (server\<lparr>http_daemon := True\<rparr>) else Inl Http_Server_Not_Started)"

definition Stop :: "HttpServer \<Rightarrow> HttpServer" where
  "Stop server = (if http_daemon server then server\<lparr>http_daemon := False\<rparr> else server)"

section \<open>Collecting a POST body\<close>

lemma handle_calls_collect:
  assumes "\<And>c. c \<in> set chunks \<Longrightarrow> c \<noteq> []"
  shows "handle_calls dispatch url ''POST'' (chunks @ [[]]) (Some body) s =
    bind_fatal (dispatch ''POST'' url (body @ concat chunks) s)
      (\<lambda>(page, s'). Inr (Some (make_reply url page), Some (body @ concat chunks), s'))"
  using assms
proof (induction chunks arbitrary: body)
  case Nil
  then show ?case
    by (cases "dispatch ''POST'' url body s") (auto simp: HandleRequest_def)
next
  case (Cons c cs)
  then have "c \<noteq> []" by simp
  with Cons show ?case by (simp add: HandleRequest_def)
qed

lemma handle_calls_immediate:
  assumes "verb \<noteq> ''POST''"
  shows "handle_calls dispatch url verb (chunk # chunks) None s =
    bind_fatal (dispatch verb url '''' s) (\<lambda>(page, s'). Inr (Some (make_reply url page), None, s'))"
  using assms by (cases "dispatch verb url '''' s") (auto simp: HandleRequest_def)

section \<open>The dispatcher's contract\<close>

text \<open>
  The server hands every request to a \<open>std::function\<close>.  It relies on one law of it: only a POST
  changes the state behind it.  The scheduler's \<open>handleHTTP\<close> keeps that law.
\<close>

locale read_only_dispatcher =
  fixes dispatch :: "'s dispatcher"
  assumes only_post_writes:
    "verb \<noteq> ''POST'' \<Longrightarrow> dispatch verb path body s = Inr (page, s') \<Longrightarrow> s' = s"
begin

lemma calls_read_only:
  assumes "verb \<noteq> ''POST''"
    and "handle_calls dispatch url verb chunks post_data s = Inr (reply, post_data', s')"
  shows "s' = s"
  using assms(2)
proof (induction chunks arbitrary: post_data)
  case (Cons c cs)
  then show ?case
    using assms(1) only_post_writes
    by (auto simp: HandleRequest_def bind_fatal_Inr_iff split: if_splits)
qed simp

end

interpretation scheduler_http: read_only_dispatcher "handleHTTP E" for E
  by unfold_locales (auto simp: handleHTTP_def bind_fatal_Inr_iff split: if_splits)

end
