(* ===== verification/Actions.thy ===== *)
theory Actions
  imports Offer_Lemmas Status_Update Http_Server
begin

text \<open>
  The abstract machine behind the callbacks.  \<open>act E R\<close> lists every way in which a callback writes
  the state of the scheduler, one primitive write with its guard at a time; \<open>R\<close> says about which
  services status updates arrive.  Every callback refines a sequence of actions, so an invariant
  of the scheduler is proved once per action and not once per callback.
\<close>

section \<open>Actions\<close>

inductive act ::
    "('r, 'z) externals \<Rightarrow> (string \<Rightarrow> bool) \<Rightarrow> ('r, 'z) world \<Rightarrow> ('r, 'z) world \<Rightarrow> bool"
  for E R where
  act_emit: "act E R w (emit c w)"
| act_clock: "act E R w (w\<lparr>reads := Suc (reads w)\<rparr>)"
| act_host: "act E R w (createHost h slave w)"
| act_offer_stamp: "i < reads w \<Longrightarrow>
    act E R w (update_node h (\<lambda>n. n\<lparr>ns_last_offer_s_field := Some (clock w i)\<rparr>) w)"
| act_probe_stamp: "i < reads w \<Longrightarrow>
    act E R w (update_node h (\<lambda>n. n\<lparr>ns_last_probe_s_field := Some (clock w i)\<rparr>) w)"
| act_touch: "act E R w (write_service r h (\<lambda>s. s) w)"
| act_prober: "ss_state (read_service Prober_Ref h w) \<notin> {RUNNING, STARTING} \<Longrightarrow>
    act E R w (write_service Prober_Ref h (\<lambda>s. s\<lparr>ss_state_field := Some STARTING\<rparr>) w)"
| act_prober_stamp: "i < reads w \<Longrightarrow>
    act E R w (write_service Prober_Ref h (\<lambda>s. s\<lparr>ss_last_update_s_field := Some (clock w i)\<rparr>) w)"
| act_launch: "service_of service = Some r \<Longrightarrow> is_shared r \<or> r = Client_Ref \<Longrightarrow>
    ss_state (read_service r h w) = NOT_RUNNING \<Longrightarrow>
    act E R w (write_service r h (\<lambda>s. s\<lparr>ss_state_field := Some RUNNING,
      ss_task_id_field := Some (service @ ''-'' @ h)\<rparr>) w)"
| act_message: "act E R w (write_service r h (\<lambda>s. s\<lparr>ss_last_message_field := Some m\<rparr>) w)"
| act_running: "R service \<Longrightarrow> service_of service = Some r \<Longrightarrow>
    st_task_id status = service @ ''-'' @ h \<Longrightarrow>
    ss_task_id (read_service r h w) \<in> {'''', st_task_id status} \<Longrightarrow>
    CHR ''-'' \<notin> set h \<Longrightarrow> i < reads w \<Longrightarrow> j < reads w \<Longrightarrow>
    act E R w (write_service r h (record_running status (clock w i) (clock w j)) w)"
| act_terminal: "R service \<Longrightarrow> service_of service = Some r \<Longrightarrow>
    st_task_id status = service @ ''-'' @ h \<Longrightarrow>
    ss_task_id (read_service r h w) \<in> {'''', st_task_id status} \<Longrightarrow>
    CHR ''-'' \<notin> set h \<Longrightarrow> i < reads w \<Longrightarrow>
    act E R w (write_service r h (record_terminal status (clock w i)) w)"
| act_response: "i < reads w \<Longrightarrow> parse_response E data = Some response \<Longrightarrow>
    act E R w (update_node h (apply_response response (clock w i)) w)"
| act_proxy: "proxy_set E f (storage w) (proxy w) = Inr (z, p) \<Longrightarrow>
    act E R w (w\<lparr>storage := z, proxy := p\<rparr>)"

abbreviation acts where "acts E R \<equiv> (act E R)\<^sup>*\<^sup>*"

lemma acts_step: "acts E R w w' \<Longrightarrow> act E R w' w'' \<Longrightarrow> acts E R w w''"
  by (rule rtranclp.rtrancl_into_rtrancl)

lemma acts_trans: "acts E R w w' \<Longrightarrow> acts E R w' w'' \<Longrightarrow> acts E R w w''"
  by (rule rtranclp_trans)

text \<open>A clock reading is an index below the number of readings taken.\<close>

lemma act_clock_keeps: "act E R w w' \<Longrightarrow> clock w' = clock w \<and> reads w \<le> reads w'"
  by (induction rule: act.induct) (simp_all add: frame_simps del: write_service.simps)

section \<open>Offers\<close>

lemma start_shared_acts:
  assumes "start_shared F E offer r k name k1 k2 (w, a, ts) = Inr (w', b, ts')"
    and "is_shared r" "service_of name = Some r"
  shows "acts E R w w'"
proof -
  let ?h = "offer_hostname offer"
  consider "w' = w"
    | "w' = write_service r ?h (\<lambda>s. s\<lparr>ss_state_field := Some RUNNING,
        ss_task_id_field := Some (name @ ''-'' @ ?h)\<rparr>) w"
      "DoStartService k (node_at w ?h) (ss_state (read_service r ?h w))"
    using assms(1) by (auto simp: start_shared_def Let_def bind_fatal_Inr_iff
        simp del: append.simps split: if_splits)
  then show ?thesis
  proof cases
    case 2
    have "act E R w w'" unfolding 2(1)
      by (rule act_launch) (use assms(2,3) 2(2) DoStartService_NOT_RUNNING in auto)
    then show ?thesis ..
  qed simp
qed

lemma start_client_acts:
  assumes "start_client F E offer (w, a, ts) = Inr (w', b, ts')"
  shows "acts E R w w'"
proof -
  let ?h = "offer_hostname offer"
  consider "w' = w"
    | "w' = write_service Client_Ref ?h (\<lambda>s. s\<lparr>ss_state_field := Some RUNNING,
        ss_task_id_field := Some (''quobyte-client'' @ ''-'' @ ?h)\<rparr>) w"
      "DoStartService CLIENT_TASK (node_at w ?h) (ss_state (read_service Client_Ref ?h w))"
    using assms(1) by (auto simp: start_client_def Let_def split: if_splits)
  then show ?thesis
  proof cases
    case 2
    have "service_of ''quobyte-client'' = Some Client_Ref" by (simp add: service_of_def)
    from act_launch [OF this] 2 show ?thesis
      using DoStartService_NOT_RUNNING by (metis r_into_rtranclp)
  qed simp
qed

lemma start_core_acts:
  assumes "start_core F E offer r k name k1 k2 m (w, a, ts) = Inr (w', b, ts')"
  shows "acts E R w w'"
proof -
  consider "w' = w"
    | "w' = write_service r (offer_hostname offer) (\<lambda>s. s\<lparr>ss_last_message_field := Some m\<rparr>) w"
    using assms by (auto simp: start_core_def Let_def bind_fatal_Inr_iff
        simp del: append.simps split: if_splits)
  then show ?thesis by cases (simp, metis act_message r_into_rtranclp)
qed

lemma start_device_acts:
  "start_device F E offer d (w, a, ts) = Inr (w', b, ts') \<Longrightarrow> acts E R w w'"
  by (cases d) (auto intro: start_core_acts)

lemma start_devices_acts:
  "start_devices F E offer ds (w, a, ts) = Inr (w', b, ts') \<Longrightarrow> acts E R w w'"
proof (induction ds arbitrary: w a ts)
  case (Cons d ds)
  then obtain w1 c us where "start_device F E offer d (w, a, ts) = Inr (w1, c, us)"
    and "start_devices F E offer ds (w1, c, us) = Inr (w', b, ts')"
    by (auto simp: bind_fatal_Inr_iff)
  with Cons.IH show ?case by (blast intro: acts_trans start_device_acts)
qed simp

lemma start_services_acts:
  assumes "start_services F E offer (w, a, ts) = Inr (w', b, ts')"
  shows "acts E R w w'"
proof -
  obtain w1 a1 t1 w2 a2 t2 w3 a3 t3 w4 a4 t4 where
    s: "start_api F E offer (w, a, ts) = Inr (w1, a1, t1)"
      "start_s3 F E offer (w1, a1, t1) = Inr (w2, a2, t2)"
      "start_webconsole F E offer (w2, a2, t2) = Inr (w3, a3, t3)"
      "start_client F E offer (w3, a3, t3) = Inr (w4, a4, t4)"
      "start_devices F E offer (ns_device_type (node_at w4 (offer_hostname offer))) (w4, a4, t4) =
         Inr (w', b, ts')"
    using assms by (auto simp: start_services_def bind_fatal_Inr_iff)
  have "acts E R w w1" using s(1) unfolding start_api_def
    by (rule start_shared_acts) (simp_all add: service_of_def)
  also have "acts E R w1 w2"
    using s(2) by (cases "FLAGS_s3_hostname F = ''''")
      (auto simp: start_s3_def service_of_def intro: start_shared_acts)
  also have "acts E R w2 w3" using s(3) unfolding start_webconsole_def
    by (rule start_shared_acts) (simp_all add: service_of_def)
  also have "acts E R w3 w4" using s(4) by (rule start_client_acts)
  also have "acts E R w4 w'" using s(5) by (rule start_devices_acts)
  finally show ?thesis .
qed

lemma KillServiceIfRunning_acts: "acts E R w w' \<Longrightarrow> acts E R w (KillServiceIfRunning tid s w')"
  by (auto simp: KillServiceIfRunning_def intro: act_emit acts_step)

lemma shutdown_services_acts: "acts E R w (shutdown_services h w)"
  unfolding shutdown_services_def Let_def
  by (rule KillServiceIfRunning_acts)+ (rule rtranclp.rtrancl_refl)

lemma start_prober_acts:
  assumes "start_prober F E offer w = Inr w'"
    and "ss_state (ns_prober (node_at w (offer_hostname offer))) \<notin> {RUNNING, STARTING}"
  shows "acts E R w w'"
proof -
  let ?h = "offer_hostname offer"
  define w1 where "w1 = write_service Prober_Ref ?h (\<lambda>s. s\<lparr>ss_state_field := Some STARTING\<rparr>) w"
  define w2 where "w2 = w1\<lparr>reads := Suc (reads w1)\<rparr>"
  define w3 where "w3 = write_service Prober_Ref ?h
    (\<lambda>s. s\<lparr>ss_last_update_s_field := Some (clock w2 (reads w1))\<rparr>) w2"
  have "now w1 = (clock w2 (reads w1), w2)" by (simp add: now_def w2_def)
  then have "\<exists>c. w' = emit c w3"
    using assms(1) unfolding start_prober_def Let_def w1_def [symmetric]
    by (simp only: prod.case w3_def [symmetric] bind_fatal_Inr_iff sum.inject) metis
  then obtain c where w': "w' = emit c w3" ..
  have "act E R w w1" unfolding w1_def using assms(2) by (intro act_prober) simp
  moreover have "act E R w1 w2" unfolding w2_def by (rule act_clock)
  moreover have "act E R w2 w3" unfolding w3_def by (rule act_prober_stamp) (simp add: w2_def)
  ultimately show ?thesis unfolding w'
    by (meson act_emit acts_step r_into_rtranclp)
qed

lemma reconcileHost_acts: "acts E R w (reconcileHost offer w)"
  unfolding reconcileHost_def by (meson act_emit act_host acts_step r_into_rtranclp)

lemma trigger_discovery_acts: "acts E R w (trigger_discovery F E offer w)"
proof -
  let ?h = "offer_hostname offer"
  define w1 where "w1 = w\<lparr>reads := Suc (reads w)\<rparr>"
  define w2 where "w2 = update_node ?h (\<lambda>n. n\<lparr>ns_last_probe_s_field := Some (clock w1 (reads w))\<rparr>) w1"
  obtain c d where w': "trigger_discovery F E offer w = emit d (reconcileHost offer (emit c w2))"
    by (simp add: trigger_discovery_def now_def Let_def w1_def w2_def)
  have "acts E R w w1" unfolding w1_def by (rule r_into_rtranclp, rule act_clock)
  also have "acts E R w1 w2" unfolding w2_def
    by (rule r_into_rtranclp, rule act_probe_stamp) (simp add: w1_def)
  also have "acts E R w2 (emit c w2)" by (rule r_into_rtranclp, rule act_emit)
  also have "acts E R (emit c w2) (reconcileHost offer (emit c w2))" by (rule reconcileHost_acts)
  finally show ?thesis unfolding w' by (rule acts_step) (rule act_emit)
qed

lemma place_services_acts:
  assumes "place_services F E offer w = Inr w'"
  shows "acts E R w w'"
proof (cases "target_version (proxy_data (proxy w)) = ''''")
  case True
  with assms have "w' = emit (DeclineOffer (offer_id offer)) (shutdown_services (offer_hostname offer) w)"
    by (simp add: place_services_def)
  then show ?thesis by (simp add: acts_step [OF shutdown_services_acts act_emit])
next
  case False
  with assms obtain w1 b ts where
    "start_services F E offer (w, offer_resources offer, []) = Inr (w1, b, ts)"
    "w' = emit (if ts \<noteq> [] then LaunchTasks (offer_id offer) ts else DeclineOffer (offer_id offer)) w1"
    by (auto simp: place_services_def bind_fatal_Inr_iff split: if_splits)
  then show ?thesis by (metis act_emit acts_step start_services_acts)
qed

lemma reads_acts: "acts E R (w\<lparr>reads := Suc (reads w)\<rparr>) w' \<Longrightarrow> acts E R w w'"
  by (rule converse_rtranclp_into_rtranclp, rule act_clock)

lemma probe_or_place_acts:
  assumes "probe_or_place F E offer w = Inr w'"
  shows "acts E R w w'"
proof -
  let ?w = "w\<lparr>reads := Suc (reads w)\<rparr>"
  consider "w' = trigger_discovery F E offer ?w" | "place_services F E offer ?w = Inr w'"
    | "place_services F E offer w = Inr w'"
    using assms unfolding probe_or_place_def now_def Let_def prod.case by (metis Inr_inject)
  then show ?thesis
    by cases (blast intro: reads_acts trigger_discovery_acts place_services_acts)+
qed

lemma offer_known_host_acts:
  assumes "offer_known_host F E offer w = Inr w'"
  shows "acts E R w w'"
proof -
  let ?h = "offer_hostname offer"
  define w1 where "w1 = w\<lparr>reads := Suc (reads w)\<rparr>"
  define w2 where "w2 = update_node ?h (\<lambda>n. n\<lparr>ns_last_offer_s_field := Some (clock w1 (reads w))\<rparr>) w1"
  define w3 where "w3 = w2\<lparr>reads := Suc (reads w2)\<rparr>"
  have 1: "act E R w w1" unfolding w1_def by (rule act_clock)
  have 2: "act E R w1 w2" unfolding w2_def by (rule act_offer_stamp) (simp add: w1_def)
  have 3: "act E R w2 w3" unfolding w3_def by (rule act_clock)
  have "now w = (clock w1 (reads w), w1)" "now w2 = (clock w2 (reads w2), w3)"
    by (simp_all add: now_def w1_def w3_def)
  then consider "start_prober F E offer w3 = Inr w'"
      "ss_state (ns_prober (node_at w3 ?h)) \<notin> {RUNNING, STARTING}"
    | "probe_or_place F E offer w3 = Inr w'"
    using assms unfolding offer_known_host_def Let_def
    by (auto simp: w2_def [symmetric] split: if_splits)
  then have "acts E R w3 w'" by cases (auto intro: start_prober_acts probe_or_place_acts)
  with 1 2 3 show ?thesis by (meson converse_rtranclp_into_rtranclp)
qed

lemma handle_offer_acts:
  assumes "handle_offer F E offer w = Inr w'"
  shows "acts E R w w'"
proof -
  let ?d = "DeclineOffer (offer_id offer)"
  consider "w' = emit ?d w" | "w' = emit ?d (reconcileHost offer w)"
    | "offer_known_host F E offer w = Inr w'"
    using assms unfolding handle_offer_def by (metis Inr_inject)
  then show ?thesis
    by cases (metis r_into_rtranclp act_emit, metis acts_step reconcileHost_acts act_emit,
        rule offer_known_host_acts)
qed

lemma resourceOffers_acts: "resourceOffers F E offers w = Inr w' \<Longrightarrow> acts E R w w'"
proof (induction offers arbitrary: w)
  case (Cons offer offers)
  then show ?case by (auto simp: bind_fatal_Inr_iff intro: acts_trans handle_offer_acts)
qed simp

section \<open>Task status\<close>

lemma split_task_id_Some:
  assumes "split_task_id tid = Some (service, h)"
  shows "tid = service @ ''-'' @ h" and "CHR ''-'' \<notin> set h"
  using assms by (auto simp: split_task_id_def substr_def dest!: rfind_char_SomeD split: option.splits)

lemma update_service_state_acts:
  assumes "R service" and r: "service_of service = Some r"
    and tid: "st_task_id status = service @ ''-'' @ h" and "CHR ''-'' \<notin> set h"
  shows "acts E R w (update_service_state status service h r w)"
proof -
  define w1 where "w1 = w\<lparr>reads := Suc (reads w)\<rparr>"
  define w2 where "w2 = w1\<lparr>reads := Suc (reads w1)\<rparr>"
  have now: "now w = (clock w1 (reads w), w1)" "now w1 = (clock w2 (reads w1), w2)"
    by (simp_all add: now_def w1_def w2_def)
  have clk: "clock w2 = clock w1" by (simp add: w1_def w2_def)
  have 1: "act E R w w1" "act E R w1 w2" unfolding w1_def w2_def by (rule act_clock)+
  have same: "read_service r h w1 = read_service r h w" "read_service r h w2 = read_service r h w"
    by (simp_all add: w1_def w2_def)
  define u where "u = update_service_state status service h r w"
  have "u = w \<or> u = emit (KillTask (st_task_id status)) w \<or>
    ss_task_id (read_service r h w) \<in> {'''', st_task_id status} \<and>
    (u = write_service r h (record_running status (clock w2 (reads w)) (clock w2 (reads w1))) w2 \<or>
     u = write_service r h (record_terminal status (clock w1 (reads w))) w1)"
    unfolding u_def update_service_state_def Let_def now prod.case clk by auto
  then consider "u = w" | "u = emit (KillTask (st_task_id status)) w"
    | "u = write_service r h (record_running status (clock w2 (reads w)) (clock w2 (reads w1))) w2"
      "ss_task_id (read_service r h w) \<in> {'''', st_task_id status}"
    | "u = write_service r h (record_terminal status (clock w1 (reads w))) w1"
      "ss_task_id (read_service r h w) \<in> {'''', st_task_id status}"
    by blast
  then show ?thesis
  proof cases
    case 3
    have "act E R w2 u" unfolding 3(1) using assms 3(2) same by (intro act_running) (simp_all add: w1_def w2_def)
    with 1 show ?thesis unfolding u_def by (meson acts_step r_into_rtranclp)
  next
    case 4
    have "act E R w1 u" unfolding 4(1) using assms 4(2) same by (intro act_terminal) (simp_all add: w1_def)
    with 1 show ?thesis unfolding u_def by (meson acts_step r_into_rtranclp)
  qed (auto simp: u_def [symmetric] intro: act_emit)
qed

lemma statusUpdate_acts:
  assumes "\<And>service h. split_task_id (st_task_id status) = Some (service, h) \<Longrightarrow> R service"
  shows "acts E R w (statusUpdate status w)"
proof (cases "split_task_id (st_task_id status)")
  case None
  then show ?thesis by (simp add: statusUpdate_def)
next
  case (Some p)
  obtain service h where p: "p = (service, h)" by (cases p)
  note split = Some [unfolded p]
  define w1 where "w1 = find_or_create status h w"
  have 1: "acts E R w w1"
    by (auto simp: w1_def find_or_create_def intro: act_host)
  show ?thesis
  proof (cases "service_of service")
    case None
    then show ?thesis using 1 split
      by (simp add: statusUpdate_def getService_def w1_def [symmetric])
  next
    case (Some r)
    define w2 where "w2 = write_service r h (\<lambda>s. s) w1"
    define w3 where "w3 = update_service_state status service h r w2"
    have "act E R w1 w2" unfolding w2_def by (rule act_touch)
    moreover have "acts E R w2 w3" unfolding w3_def
      using assms [OF split] Some split_task_id_Some [OF split] by (rule update_service_state_acts)
    moreover have "statusUpdate status w =
        (if service = ''quobyte-device-prober'' \<or> IsTerminal (st_state status) then w3
         else check_version status w3)"
      using Some split by (simp add: statusUpdate_def getService_def w1_def w2_def w3_def Let_def)
    moreover have "acts E R w3 (check_version status w3)"
      by (auto simp: check_version_def Let_def intro: act_emit)
    ultimately show ?thesis using 1 by (auto intro: acts_trans acts_step)
  qed
qed

section \<open>Probe responses\<close>

lemma map_modify_at:
  "map_ok (pre @ (h, n) # ns) \<Longrightarrow> map_modify h f (pre @ (h, n) # ns) = pre @ (h, f n) # ns"
  by (induction pre) (auto simp: map_ok_Cons map_keys_def)

lemma probe_nodes_acts:
  assumes "nodes w = pre @ ns" and "map_ok (nodes w)"
    and "probe_nodes E slave data (clock w) (reads w) ns = (ns', i')"
  shows "acts E R w (w\<lparr>nodes := pre @ ns', reads := i'\<rparr>)"
  using assms
proof (induction ns arbitrary: w pre ns' i')
  case Nil
  then have "w\<lparr>nodes := pre @ ns', reads := i'\<rparr> = w" by simp
  then show ?case by (metis rtranclp.rtrancl_refl)
next
  case (Cons x ns)
  obtain h n where x: "x = (h, n)" by (cases x)
  show ?case
  proof (cases "ns_slave_id_value n = slave")
    case True
    show ?thesis
    proof (cases "parse_response E data")
      case None
      with Cons.prems True x have "w\<lparr>nodes := pre @ ns', reads := i'\<rparr> = w" by auto
      then show ?thesis by (metis rtranclp.rtrancl_refl)
    next
      case (Some response)
      define w1 where "w1 = w\<lparr>reads := Suc (reads w)\<rparr>"
      define w2 where "w2 = update_node h (apply_response response (clock w1 (reads w))) w1"
      have a: "act E R w w1" "act E R w1 w2"
        unfolding w1_def w2_def
        by (rule act_clock, rule act_response [OF _ Some]) (simp add: w1_def)
      have n: "nodes w2 = (pre @ [(h, apply_response response (clock w (reads w)) n)]) @ ns"
        using Cons.prems(1,2) map_modify_at
        by (simp add: w2_def w1_def update_node_def x)
      moreover have "map_ok (nodes w2)"
        using Cons.prems(2) by (simp add: w2_def w1_def update_node_def)
      moreover obtain ns1 where ns1: "probe_nodes E slave data (clock w2) (reads w2) ns = (ns1, i')"
          "ns' = (h, apply_response response (clock w (reads w)) n) # ns1"
        using Cons.prems(3) True Some x
        by (auto simp: w2_def w1_def update_node_def split: prod.splits)
      ultimately have "acts E R w2 (w2\<lparr>nodes :=
          (pre @ [(h, apply_response response (clock w (reads w)) n)]) @ ns1, reads := i'\<rparr>)"
        using Cons.IH by blast
      moreover have "w2\<lparr>nodes := (pre @ [(h, apply_response response (clock w (reads w)) n)]) @ ns1,
          reads := i'\<rparr> = w\<lparr>nodes := pre @ ns', reads := i'\<rparr>"
        by (simp add: ns1(2) w2_def w1_def update_node_def)
      ultimately show ?thesis using a by (metis converse_rtranclp_into_rtranclp)
    qed
  next
    case False
    with Cons.prems(3) x obtain ns1 where
      "probe_nodes E slave data (clock w) (reads w) ns = (ns1, i')" "ns' = (h, n) # ns1"
      by (auto split: prod.splits)
    then show ?thesis using Cons.IH [of w "pre @ [(h, n)]" ns1 i'] Cons.prems(1,2) x by simp
  qed
qed

lemma frameworkMessage_acts:
  assumes "map_ok (nodes w)"
  shows "acts E R w (frameworkMessage E slave data w)"
proof -
  obtain ns i where p: "probe_nodes E slave data (clock w) (reads w) (nodes w) = (ns, i)"
    by fastforce
  show ?thesis using probe_nodes_acts [of w "[]", OF _ assms p] p
    by (simp add: frameworkMessage_def)
qed

section \<open>Registration and requests\<close>

lemma registered_acts:
  assumes "registered E fid w = Inr w'"
  shows "acts E R w w'"
proof -
  obtain z p where "set_framework_id E fid (storage w) (proxy w) = Inr (z, p)"
    and w': "w' = emit (ReconcileTasks []) (w\<lparr>storage := z, proxy := p\<rparr>)"
    using assms by (auto simp: registered_def bind_fatal_Inr_iff)
  then have "act E R w (w\<lparr>storage := z, proxy := p\<rparr>)"
    unfolding set_framework_id_def by (intro act_proxy)
  then show ?thesis unfolding w' by (meson act_emit acts_step r_into_rtranclp)
qed

lemma handleHTTP_acts:
  assumes "handleHTTP E verb path body w = Inr (page, w')"
  shows "acts E R w w'"
proof -
  have "w' = w \<or> (\<exists>z p. set_target_version E body (storage w) (proxy w) = Inr (z, p) \<and>
      w' = w\<lparr>storage := z, proxy := p\<rparr>)"
    using assms unfolding handleHTTP_def
    by (auto simp: bind_fatal_Inr_iff split: if_splits)
  then show ?thesis
    unfolding set_target_version_def by (metis act_proxy r_into_rtranclp rtranclp.rtrancl_refl)
qed

end
