(* ===== verification/Machine.thy ===== *)
theory Machine
  imports Actions
begin

text \<open>
  The scheduler as a state machine.  Every callback of Mesos and every HTTP request is an event;
  \<open>handle\<close> is the callback it reaches, \<open>step\<close> the relation between the states before and after an
  event that the program survives.  The locale \<open>act_invariant\<close> carries an invariant from the
  actions to the steps, and from there, as an \<open>invariant_machine\<close>, to the runs.
\<close>

datatype 'r event =
    Registered string
  | Reregistered
  | Disconnected
  | Resource_Offers "'r Offer list"
  | Offer_Rescinded string
  | Status_Update TaskStatus
  | Framework_Message string string
  | Slave_Lost string
  | Executor_Lost string string int
  | Error_Message string
  | Http_Request string string string

fun handle :: "flags \<Rightarrow> ('r, 'z) externals \<Rightarrow> 'r event \<Rightarrow> ('r, 'z) world \<Rightarrow> fatal + ('r, 'z) world" where
  "handle F E (Registered fid) w = registered E fid w"
| "handle F E Reregistered w = Inr (reregistered w)"
| "handle F E Disconnected w = Inr (disconnected w)"
| "handle F E (Resource_Offers offers) w = resourceOffers F E offers w"
| "handle F E (Offer_Rescinded oid) w = Inr (offerRescinded oid w)"
| "handle F E (Status_Update status) w = Inr (statusUpdate status w)"
| "handle F E (Framework_Message slave data) w = Inr (frameworkMessage E slave data w)"
| "handle F E (Slave_Lost sid) w = Inr (slaveLost sid w)"
| "handle F E (Executor_Lost eid sid n) w = Inr (executorLost eid sid n w)"
| "handle F E (Error_Message m) w = Inr (error m w)"
| "handle F E (Http_Request verb path body) w =
     bind_fatal (handleHTTP E verb path body w) (\<lambda>(page, w). Inr w)"

inductive step :: "flags \<Rightarrow> ('r, 'z) externals \<Rightarrow> ('r, 'z) world \<Rightarrow> 'r event \<Rightarrow> ('r, 'z) world \<Rightarrow> bool"
  for F E where
  step_handle: "handle F E e w = Inr w' \<Longrightarrow> step F E w e w'"

inductive_simps step_iff: "step F E w e w'"

text \<open>The service that an event reports about.\<close>

fun reports :: "'r event \<Rightarrow> string \<Rightarrow> bool" where
  "reports (Status_Update status) service \<longleftrightarrow>
     (case split_task_id (st_task_id status) of None \<Rightarrow> False | Some (s, h) \<Rightarrow> s = service)"
| "reports _ service \<longleftrightarrow> False"

text \<open>Every step is a sequence of actions.\<close>

lemma step_acts:
  assumes "step F E w e w'" and "map_ok (nodes w)" and "\<And>s. reports e s \<Longrightarrow> R s"
  shows "acts E R w w'"
proof -
  have e: "handle F E e w = Inr w'" using assms(1) by (simp add: step_iff)
  show ?thesis
  proof (cases e)
    case (Status_Update status)
    then show ?thesis using e assms(3) by (auto intro!: statusUpdate_acts)
  next
    case (Framework_Message slave data)
    then show ?thesis using e assms(2) by (auto intro: frameworkMessage_acts)
  next
    case (Http_Request verb path body)
    then show ?thesis using e by (auto simp: bind_fatal_Inr_iff intro: handleHTTP_acts)
  qed (use e in \<open>auto simp: logging_callbacks reregistered_def
      intro: registered_acts resourceOffers_acts act_emit\<close>)
qed

section \<open>Invariants\<close>

lemma map_ok_write_service [simp]: "map_ok (nodes (write_service r h f w)) = map_ok (nodes w)"
  by (simp add: map_ok_def frame_simps)

lemma map_ok_update_node [simp]: "map_ok (nodes (update_node h f w)) = map_ok (nodes w)"
  by (simp add: map_ok_def)

lemma act_map_ok: "act E R w w' \<Longrightarrow> map_ok (nodes w) \<Longrightarrow> map_ok (nodes w')"
  by (induction rule: act.induct)
    (simp_all add: createHost_def map_ok_insert del: write_service.simps)

locale act_invariant =
  fixes F :: flags and E :: "('r, 'z) externals" and R :: "string \<Rightarrow> bool"
    and I :: "('r, 'z) world \<Rightarrow> bool"
  assumes act_keeps: "I w \<Longrightarrow> map_ok (nodes w) \<Longrightarrow> act E R w w' \<Longrightarrow> I w'"
begin

lemma acts_keep: "acts E R w w' \<Longrightarrow> I w \<and> map_ok (nodes w) \<Longrightarrow> I w' \<and> map_ok (nodes w')"
  by (induction rule: rtranclp_induct) (auto intro: act_keeps act_map_ok)

lemma step_keeps:
  "step F E w e w' \<Longrightarrow> (\<And>s. reports e s \<Longrightarrow> R s) \<Longrightarrow> I w \<and> map_ok (nodes w) \<Longrightarrow>
   I w' \<and> map_ok (nodes w')"
  using step_acts acts_keep by blast

end

sublocale act_invariant \<subseteq>
  invariant_machine "step F E" "\<lambda>w e. \<forall>s. reports e s \<longrightarrow> R s" "\<lambda>w. I w \<and> map_ok (nodes w)"
  by unfold_locales (use step_keeps in blast)

section \<open>Runs of the scheduler\<close>

text \<open>\<open>scheduler_run F E z p clk n es w\<close>: the scheduler is constructed with storage \<open>z\<close> and proxy
  \<open>p\<close>, the events \<open>es\<close> arrive, and \<open>w\<close> is its state after them.\<close>

definition scheduler_run ::
    "flags \<Rightarrow> ('r, 'z) externals \<Rightarrow> 'z \<Rightarrow> SchedulerStateProxy \<Rightarrow> (nat \<Rightarrow> int) \<Rightarrow> nat \<Rightarrow>
     'r event list \<Rightarrow> ('r, 'z) world \<Rightarrow> bool" where
  "scheduler_run F E z p clk n es w \<longleftrightarrow>
     (\<exists>w0. QuobyteScheduler F E z p clk n = Inr w0 \<and> run (step F E) w0 es w)"

text \<open>The same by execution, for concrete runs.\<close>

fun handle_all :: "flags \<Rightarrow> ('r, 'z) externals \<Rightarrow> 'r event list \<Rightarrow> ('r, 'z) world \<Rightarrow> fatal + ('r, 'z) world" where
  "handle_all F E [] w = Inr w"
| "handle_all F E (e # es) w = bind_fatal (handle F E e w) (handle_all F E es)"

lemma run_iff_handle_all: "run (step F E) w es w' \<longleftrightarrow> handle_all F E es w = Inr w'"
  by (induction es arbitrary: w) (auto simp: run_Cons_iff step_iff bind_fatal_Inr_iff)

lemma scheduler_run_iff:
  "scheduler_run F E z p clk n es w \<longleftrightarrow>
     bind_fatal (QuobyteScheduler F E z p clk n) (handle_all F E es) = Inr w"
  by (auto simp: scheduler_run_def run_iff_handle_all bind_fatal_Inr_iff)

lemma QuobyteScheduler_Inr:
  assumes "QuobyteScheduler F E z p clk n = Inr w"
  shows "storage w = z" "proxy w = p" "construct_resources F E = Inr (resources w)"
    "api_state w = new_ServiceState" "console_state w = new_ServiceState"
    "s3_state w = new_ServiceState" "nodes w = []" "clock w = clk" "reads w = n" "calls w = []"
  using assms by (auto simp: QuobyteScheduler_def bind_fatal_Inr_iff)

context act_invariant
begin

lemma scheduler_run_keeps:
  assumes "scheduler_run F E z p clk n es w"
    and init: "\<And>w0. QuobyteScheduler F E z p clk n = Inr w0 \<Longrightarrow> I w0"
    and "\<And>e s. e \<in> set es \<Longrightarrow> reports e s \<Longrightarrow> R s"
  shows "I w \<and> map_ok (nodes w)"
proof -
  obtain w0 where w0: "QuobyteScheduler F E z p clk n = Inr w0" and r: "run (step F E) w0 es w"
    using assms(1) by (auto simp: scheduler_run_def)
  have "I w0 \<and> map_ok (nodes w0)" using init [OF w0] w0 by (simp add: QuobyteScheduler_Inr)
  with r assms(3) show ?thesis
    by (induction rule: run.induct) (simp, meson list.set_intros step_keeps)
qed

end

end
