(* ===== verification/Life_Cycle.thy ===== *)
theory Life_Cycle
  imports Machine
begin

text \<open>
  The life cycle of one service as an abstract machine: a slot holds the state of the service and
  the id of its task.  A status reaches a service of a node only if the host name has no dash,
  because a task id is split at its last one.  The scheduler refines it for every service of every host, and for the three
  services that all hosts share.
\<close>

section \<open>The abstract machine\<close>

type_synonym slot = "ServiceTaskState \<times> string"

text \<open>A task id names the service and a host, for a service of a node the host of the node.\<close>

definition owns :: "service_ref \<Rightarrow> string \<Rightarrow> string \<Rightarrow> string \<Rightarrow> bool" where
  "owns r h service tid \<longleftrightarrow> service_of service = Some r \<and>
     (\<exists>host. tid = service @ ''-'' @ host \<and> (is_shared r \<or> host = h))"

inductive slot_move :: "(string \<Rightarrow> bool) \<Rightarrow> service_ref \<Rightarrow> string \<Rightarrow> slot \<Rightarrow> slot \<Rightarrow> bool"
  for R r h where
  slot_stay: "slot_move R r h p p"
| slot_launch: "is_shared r \<or> r = Client_Ref \<Longrightarrow> owns r h service tid \<Longrightarrow>
    slot_move R r h (NOT_RUNNING, t) (RUNNING, tid)"
| slot_probe: "r = Prober_Ref \<Longrightarrow> s \<notin> {RUNNING, STARTING} \<Longrightarrow> slot_move R r h (s, t) (STARTING, t)"
| slot_observed: "R service \<Longrightarrow> owns r h service tid \<Longrightarrow> t \<in> {'''', tid} \<Longrightarrow>
    is_shared r \<or> CHR ''-'' \<notin> set h \<Longrightarrow>
    slot_move R r h (s, t) (RUNNING, tid)"
| slot_ended: "R service \<Longrightarrow> owns r h service tid \<Longrightarrow> t \<in> {'''', tid} \<Longrightarrow>
    is_shared r \<or> CHR ''-'' \<notin> set h \<Longrightarrow>
    slot_move R r h (s, t) (NOT_RUNNING, '''')"

inductive_cases slot_moveE: "slot_move R r h p q"

abbreviation slot_moves where "slot_moves R r h \<equiv> (slot_move R r h)\<^sup>*\<^sup>*"

definition slot_ok :: "service_ref \<Rightarrow> string \<Rightarrow> slot \<Rightarrow> bool" where
  "slot_ok r h p \<longleftrightarrow>
     (if fst p = RUNNING then \<exists>service. owns r h service (snd p) else snd p = '''')"

lemma slot_move_ok: "slot_move R r h p q \<Longrightarrow> slot_ok r h p \<Longrightarrow> slot_ok r h q"
  by (induction rule: slot_move.induct) (auto simp: slot_ok_def)

lemma slot_moves_ok: "slot_moves R r h p q \<Longrightarrow> slot_ok r h p \<Longrightarrow> slot_ok r h q"
  by (induction rule: rtranclp_induct) (auto intro: slot_move_ok)

text \<open>Without a report about the service, a running slot does not move.\<close>

lemma running_slot_stays:
  assumes "slot_moves R r h (RUNNING, t) q" and "\<And>s. service_of s = Some r \<Longrightarrow> \<not> R s"
  shows "q = (RUNNING, t)"
  using assms(1)
  by (induction rule: rtranclp_induct) (use assms(2) in \<open>auto elim: slot_moveE simp: owns_def\<close>)

section \<open>The concrete machine refines it\<close>

definition slot :: "service_ref \<Rightarrow> string \<Rightarrow> ('r, 'z) world \<Rightarrow> slot" where
  "slot r h w = (ss_state (read_service r h w), ss_task_id (read_service r h w))"

lemma read_shared_same: "is_shared r \<Longrightarrow> read_service r h w = read_service r j w"
  by (cases r) simp_all

lemma read_write:
  "read_service r h (write_service r' j f w) =
     (if r = r' \<and> (is_shared r \<or> h = j) \<and> has_target r' j w then f (read_service r h w)
      else read_service r h w)"
proof (cases "r = r'")
  case True
  show ?thesis
  proof (cases "is_shared r")
    case s: True
    then have "read_service r h (write_service r' j f w) = read_service r' j (write_service r' j f w)"
      "read_service r h w = read_service r' j w"
      using True by (metis read_shared_same)+
    with s True show ?thesis by (simp add: cell.load_store has_target_def del: write_service.simps)
  next
    case False
    with True show ?thesis
      by (auto simp: has_target_def write_service_node read_service_node node_at_update_node
          node_mutable_same)
  qed
qed (simp add: read_write_other)

lemma read_service_response:
  "read_service r h (update_node j (apply_response resp t) w) =
     (if r = Prober_Ref \<and> h = j \<and> map_find (nodes w) j \<noteq> None
      then (read_service r h w)\<lparr>ss_last_seen_s_field := Some t\<rparr> else read_service r h w)"
  by (cases "is_shared r", simp add: read_update_shared, force, cases r)
    (auto simp: node_at_update_node apply_response_def mutable_defs)

lemma read_service_frame [simp]:
  "read_service r h (emit c w) = read_service r h w"
  "read_service r h (w\<lparr>storage := z, proxy := p\<rparr>) = read_service r h w"
  by (rule read_service_cong; simp add: node_at_def)+

lemma slot_write_same:
  assumes "\<And>s. ss_state (f s) = ss_state s" and "\<And>s. ss_task_id (f s) = ss_task_id s"
  shows "slot r h (write_service r' j f w) = slot r h w"
  using assms by (simp add: slot_def read_write del: write_service.simps)

text \<open>One action moves a slot by one abstract move.\<close>

lemma act_slot_move:
  assumes "act E R w w'" and "map_ok (nodes w)"
  shows "slot_move R r h (slot r h w) (slot r h w')"
  using assms
proof (induction rule: act.induct)
  case (act_prober j w)
  then show ?case
    by (auto simp: slot_def read_write simp del: write_service.simps read_service.simps
        intro: slot_stay slot_probe)
next
  case (act_launch service r' j w)
  show ?case
  proof (cases "r = r' \<and> (is_shared r \<or> h = j) \<and> has_target r' j w")
    case True
    then have same: "read_service r h w = read_service r' j w" by (metis read_shared_same)
    have "owns r h service (service @ ''-'' @ j)" using True act_launch by (auto simp: owns_def)
    then show ?thesis using True act_launch(2,3) same
      by (auto simp: slot_def read_write slot_launch slot_stay simp del: write_service.simps)
  qed (auto simp: slot_def read_write slot_stay simp del: write_service.simps)
next
  case (act_running service r' status j w i k)
  show ?case
  proof (cases "r = r' \<and> (is_shared r \<or> h = j) \<and> has_target r' j w")
    case True
    then have same: "read_service r h w = read_service r' j w" by (metis read_shared_same)
    have "owns r h service (st_task_id status)" using True act_running by (auto simp: owns_def)
    then show ?thesis using True act_running(1,4,5) same
      by (auto simp: slot_def read_write record_running_def simp del: write_service.simps
          intro: slot_observed)
  qed (auto simp: slot_def read_write slot_stay simp del: write_service.simps)
next
  case (act_terminal service r' status j w i)
  show ?case
  proof (cases "r = r' \<and> (is_shared r \<or> h = j) \<and> has_target r' j w")
    case True
    then have same: "read_service r h w = read_service r' j w" by (metis read_shared_same)
    have "owns r h service (st_task_id status)" using True act_terminal by (auto simp: owns_def)
    then show ?thesis using True act_terminal(1,4,5) same
      by (auto simp: slot_def read_write record_terminal_def simp del: write_service.simps
          intro: slot_ended)
  qed (auto simp: slot_def read_write slot_stay simp del: write_service.simps)
qed (simp_all add: slot_write_same slot_stay del: write_service.simps,
     simp_all add: slot_def read_service_response slot_stay read_service_createHost)

lemma acts_slot_moves:
  assumes "acts E R w w'" and "map_ok (nodes w)"
  shows "slot_moves R r h (slot r h w) (slot r h w')"
proof -
  have "slot_moves R r h (slot r h w) (slot r h w') \<and> map_ok (nodes w')"
    using assms
    by (induction rule: rtranclp_induct) (auto dest: act_slot_move act_map_ok
        intro: rtranclp.rtrancl_into_rtrancl)
  then show ?thesis by simp
qed

end
