(* ===== verification/Invariants.thy ===== *)
theory Invariants
  imports Life_Cycle
begin

text \<open>
  The invariants of the scheduler, each an interpretation of \<open>act_invariant\<close>: which task ids a
  running service can have, where timestamps come from, what a host entry keeps, what the state
  storage holds, that a client is never launched while nobody reports about one, and that a host
  with a dash in its name is never served.
\<close>

section \<open>Task ids\<close>

definition task_ids_ok :: "('r, 'z) world \<Rightarrow> bool" where
  "task_ids_ok w \<longleftrightarrow> (\<forall>r h. slot_ok r h (slot r h w))"

interpretation task_ids: act_invariant F E "\<lambda>s. True" task_ids_ok for F E
  by unfold_locales (auto simp: task_ids_ok_def intro: slot_move_ok act_slot_move)

lemma node_at_empty: "nodes w = [] \<Longrightarrow> node_at w h = new_NodeState"
  by (simp add: node_at_def)

lemma new_NodeState_services [simp]: "node_service r new_NodeState = new_ServiceState"
  by (cases r) (simp_all add: new_NodeState_def)

lemma initial_service:
  assumes "QuobyteScheduler F E z p clk n = Inr w"
  shows "read_service r h w = new_ServiceState"
  by (cases r) (simp_all add: QuobyteScheduler_Inr [OF assms] node_at_empty)

lemma initial_slot: "QuobyteScheduler F E z p clk n = Inr w \<Longrightarrow> slot r h w = (UNKNOWN, '''')"
  by (simp add: slot_def initial_service)

lemma initial_task_ids: "QuobyteScheduler F E z p clk n = Inr w \<Longrightarrow> task_ids_ok w"
  by (simp add: task_ids_ok_def initial_slot slot_ok_def)

section \<open>Timestamps\<close>

text \<open>A timestamp is zero or a reading of the clock that has been taken.\<close>

definition taken :: "('r, 'z) world \<Rightarrow> int \<Rightarrow> bool" where
  "taken w t \<longleftrightarrow> t = 0 \<or> (\<exists>i < reads w. t = clock w i)"

definition stamps_ok :: "('r, 'z) world \<Rightarrow> bool" where
  "stamps_ok w \<longleftrightarrow>
     (\<forall>r h. taken w (ss_last_update_s (read_service r h w)) \<and>
            taken w (ss_last_seen_s (read_service r h w))) \<and>
     (\<forall>h. taken w (ns_last_offer_s (node_at w h)) \<and> taken w (ns_last_probe_s (node_at w h)))"

lemma taken_mono: "clock w' = clock w \<Longrightarrow> reads w \<le> reads w' \<Longrightarrow> taken w t \<Longrightarrow> taken w' t"
  unfolding taken_def by (metis order_less_le_trans)

lemma taken_clock: "i < reads w \<Longrightarrow> taken w (clock w i)"
  by (auto simp: taken_def)

lemma taken_update_node [simp]: "taken (update_node h f w) t = taken w t"
  by (simp add: taken_def)

lemma node_stamps_mutable [simp]:
  "ns_last_offer_s_field (mutable_service r f n) = ns_last_offer_s_field n"
  "ns_last_probe_s_field (mutable_service r f n) = ns_last_probe_s_field n"
  by (cases r; simp add: mutable_defs)+

lemma node_stamps_write [simp]:
  "ns_last_offer_s_field (node_at (write_service r h f w) j) = ns_last_offer_s_field (node_at w j)"
  "ns_last_probe_s_field (node_at (write_service r h f w) j) = ns_last_probe_s_field (node_at w j)"
  by (cases r; simp add: node_at_update_node mutable_defs)+

lemma node_stamps_createHost [simp]:
  "map_ok (nodes w) \<Longrightarrow>
     ns_last_offer_s_field (node_at (createHost h s w) j) = ns_last_offer_s_field (node_at w j)"
  "map_ok (nodes w) \<Longrightarrow>
     ns_last_probe_s_field (node_at (createHost h s w) j) = ns_last_probe_s_field (node_at w j)"
  by (auto simp: node_at_def createHost_def map_find_insert new_NodeState_def)

lemma stamps_ok_write:
  assumes "stamps_ok w"
    and "\<And>s. taken w (ss_last_update_s s) \<Longrightarrow> taken w (ss_last_update_s (f s))"
    and "\<And>s. taken w (ss_last_seen_s s) \<Longrightarrow> taken w (ss_last_seen_s (f s))"
  shows "stamps_ok (write_service r h f w)"
  using assms unfolding stamps_ok_def
  by (simp add: read_write taken_def frame_simps del: write_service.simps)

lemma act_stamps_ok:
  assumes "act E R w w'" and "stamps_ok w" and "map_ok (nodes w)"
  shows "stamps_ok w'"
  using assms
proof (induction rule: act.induct)
  case (act_clock w)
  then show ?case unfolding stamps_ok_def
    by (auto intro: taken_mono [of _ w])
next
  case (act_host w h s)
  then show ?case unfolding stamps_ok_def
    by (auto simp: read_service_createHost intro: taken_mono [of _ w])
next
  case (act_response i w data response h)
  then show ?case unfolding stamps_ok_def
    by (auto simp: read_service_response node_at_update_node apply_response_def mutable_defs
        taken_clock simp del: read_service.simps)
next
  case (act_emit w c)
  then show ?case by (simp add: stamps_ok_def taken_def)
next
  case (act_proxy f w z p)
  then show ?case by (simp add: stamps_ok_def taken_def)
next
  case (act_offer_stamp i w h)
  then show ?case
    by (auto simp: stamps_ok_def node_at_update_node taken_clock intro: taken_mono [of _ w])
next
  case (act_probe_stamp i w h)
  then show ?case
    by (auto simp: stamps_ok_def node_at_update_node taken_clock intro: taken_mono [of _ w])
qed (rule stamps_ok_write; simp add: taken_clock record_running_def record_terminal_def)+

interpretation stamps: act_invariant F E "\<lambda>s. True" stamps_ok for F E
  by unfold_locales (rule act_stamps_ok)

lemma initial_stamps: "QuobyteScheduler F E z p clk n = Inr w \<Longrightarrow> stamps_ok w"
  by (simp add: stamps_ok_def initial_service taken_def node_at_empty QuobyteScheduler_Inr
      new_NodeState_def)

section \<open>Hosts\<close>

text \<open>The entry of a host keeps the host name and the slave id that it was created with.\<close>

definition host_entry :: "string \<Rightarrow> string \<Rightarrow> ('r, 'z) world \<Rightarrow> bool" where
  "host_entry h slave w \<longleftrightarrow>
     (\<exists>n. map_find (nodes w) h = Some n \<and> ns_hostname n = h \<and> ns_slave_id_value n = slave)"

lemma host_mutable [simp]:
  "ns_hostname_field (mutable_service r f n) = ns_hostname_field n"
  "ns_slave_id_value_field (mutable_service r f n) = ns_slave_id_value_field n"
  by (cases r; simp add: mutable_defs)+

lemma host_entry_update:
  assumes "host_entry h slave w"
    and "\<And>n. ns_hostname (f n) = ns_hostname n" "\<And>n. ns_slave_id_value (f n) = ns_slave_id_value n"
  shows "host_entry h slave (update_node j f w)"
  using assms by (auto simp: host_entry_def update_node_def map_find_modify)

lemma host_entry_write: "host_entry h slave w \<Longrightarrow> host_entry h slave (write_service r j f w)"
proof (cases "is_shared r")
  case True
  assume "host_entry h slave w"
  with True show ?thesis by (cases r) (simp_all add: host_entry_def)
next
  case False
  assume "host_entry h slave w"
  with False show ?thesis by (simp add: write_service_node host_entry_update del: write_service.simps)
qed

lemma act_host_entry:
  assumes "act E R w w'" and "host_entry h slave w" and "map_ok (nodes w)"
  shows "host_entry h slave w'"
  using assms
proof (induction rule: act.induct)
  case (act_host w j s)
  then show ?case by (auto simp: host_entry_def createHost_def map_find_insert)
qed (simp_all add: host_entry_update host_entry_write apply_response_def mutable_defs
       del: write_service.simps, simp_all add: host_entry_def)

interpretation host: act_invariant F E "\<lambda>s. True" "host_entry h slave" for F E h slave
  by unfold_locales (rule act_host_entry)

section \<open>The state storage\<close>

text \<open>Whatever arrives, opening the storage again gives the state that the proxy holds.\<close>

definition storage_matches :: "('r, 'z) externals \<Rightarrow> ('r, 'z) world \<Rightarrow> bool" where
  "storage_matches E w \<longleftrightarrow> (codec_ok E \<and> storage_ok E \<longrightarrow> persisted E (storage w) (proxy w))"

lemma act_storage_matches:
  assumes "act E R w w'" and "storage_matches E w"
  shows "storage_matches E w'"
  using assms
  by (induction rule: act.induct)
    (auto simp: storage_matches_def frame_simps simp del: write_service.simps
      intro: proxy_set_persisted)

interpretation storage: act_invariant F E "\<lambda>s. True" "storage_matches E" for F E
  by unfold_locales (rule act_storage_matches)

section \<open>What never changes\<close>

lemma act_resources: "act E R w w' \<Longrightarrow> resources w' = resources w"
  by (induction rule: act.induct) (simp_all add: frame_simps del: write_service.simps)

lemma act_proxy_path: "act E R w w' \<Longrightarrow> proxy_path (proxy w') = proxy_path (proxy w)"
  by (induction rule: act.induct) (simp_all add: frame_simps proxy_set_Inr del: write_service.simps)

interpretation fixed_resources: act_invariant F E "\<lambda>s. True" "\<lambda>w. resources w = m" for F E m
  by unfold_locales (simp add: act_resources)

interpretation fixed_clock: act_invariant F E "\<lambda>s. True" "\<lambda>w. clock w = clk" for F E clk
  by unfold_locales (simp add: act_clock_keeps)

interpretation fixed_path: act_invariant F E "\<lambda>s. True" "\<lambda>w. proxy_path (proxy w) = path" for F E path
  by unfold_locales (simp add: act_proxy_path)

section \<open>Clients\<close>

text \<open>As long as no status of a client task arrives, the client of every host stays unknown, and
  an unknown service is not launched.\<close>

definition client_unknown :: "('r, 'z) world \<Rightarrow> bool" where
  "client_unknown w \<longleftrightarrow> (\<forall>h. slot Client_Ref h w = (UNKNOWN, ''''))"

lemma client_service: "service_of s = Some Client_Ref \<Longrightarrow> s = ''quobyte-client''"
  by (simp add: service_of_Some_iff)

lemma act_client_unknown:
  assumes "act E R w w'" and "\<not> R ''quobyte-client''" and "client_unknown w" and "map_ok (nodes w)"
  shows "client_unknown w'"
  unfolding client_unknown_def
proof
  fix h
  have "slot_move R Client_Ref h (UNKNOWN, '''') (slot Client_Ref h w')"
    using act_slot_move [OF assms(1,4), of Client_Ref h] assms(3) by (simp add: client_unknown_def)
  then show "slot Client_Ref h w' = (UNKNOWN, '''')"
    by (rule slot_moveE) (use assms(2) in \<open>auto simp: owns_def dest: client_service\<close>)
qed

interpretation client: act_invariant F E "\<lambda>s. s \<noteq> ''quobyte-client''" client_unknown for F E
  by unfold_locales (auto intro: act_client_unknown)

lemma initial_client: "QuobyteScheduler F E z p clk n = Inr w \<Longrightarrow> client_unknown w"
  by (simp add: client_unknown_def initial_slot)

section \<open>Hosts with a dash in the name\<close>

text \<open>No status reaches a service of such a host, so its services stay unknown and its prober does
  not get beyond STARTING.\<close>

definition idle_slot :: "service_ref \<Rightarrow> slot \<Rightarrow> bool" where
  "idle_slot r p \<longleftrightarrow> p = (UNKNOWN, '''') \<or> r = Prober_Ref \<and> p = (STARTING, '''')"

definition dashed_idle :: "('r, 'z) world \<Rightarrow> bool" where
  "dashed_idle w \<longleftrightarrow> (\<forall>r h. CHR ''-'' \<in> set h \<longrightarrow> \<not> is_shared r \<longrightarrow> idle_slot r (slot r h w))"

lemma dashed_slot_move:
  "slot_move R r h p q \<Longrightarrow> CHR ''-'' \<in> set h \<Longrightarrow> \<not> is_shared r \<Longrightarrow> idle_slot r p \<Longrightarrow> idle_slot r q"
  by (auto simp: idle_slot_def elim: slot_moveE)

interpretation dashed: act_invariant F E "\<lambda>s. True" dashed_idle for F E
  by unfold_locales (auto simp: dashed_idle_def intro: dashed_slot_move act_slot_move)

lemma initial_dashed: "QuobyteScheduler F E z p clk n = Inr w \<Longrightarrow> dashed_idle w"
  by (simp add: dashed_idle_def idle_slot_def initial_slot)

end
