(* ===== verification/Executor.thy ===== *)
theory Executor
  imports Cpp_String Mesos_Types
begin

text \<open>
  \<open>executor/executor.cpp\<close>: the prober that runs on every host.  The operating system is a parameter:
  \<open>os_stat\<close> says whether a path exists and whether it is a directory, \<open>os_read\<close> is the content that
  an \<open>ifstream\<close> yields, \<open>os_write\<close> creates a file.  \<open>parse_request\<close> is the request after
  \<open>ParseFromString\<close>, whose result the code ignores, and \<open>serialize_response\<close> the string after
  \<open>SerializeToString\<close>.
\<close>

record 'fs os =
  os_stat :: "'fs \<Rightarrow> string \<Rightarrow> bool option"
  os_read :: "'fs \<Rightarrow> string \<Rightarrow> string"
  os_write :: "'fs \<Rightarrow> string \<Rightarrow> string \<Rightarrow> 'fs"
  parse_request :: "string \<Rightarrow> ProbeRequest"
  serialize_response :: "ProbeResponse \<Rightarrow> string"

definition exists :: "'fs os \<Rightarrow> 'fs \<Rightarrow> string \<Rightarrow> bool" where
  "exists Os fs path \<longleftrightarrow> os_stat Os fs path \<noteq> None"

datatype executor_call =
    SendStatusUpdate TaskStatus
  | SendProbeResponse string

section \<open>Reading text\<close>

text \<open>\<open>std::getline\<close> in a loop.\<close>

fun getlines_from :: "string \<Rightarrow> string \<Rightarrow> string list" where
  "getlines_from acc [] = (if acc = [] then [] else [acc])"
| "getlines_from acc (c # cs) =
     (if c = CHR 0x0A then acc # getlines_from [] cs else getlines_from (acc @ [c]) cs)"

definition getlines :: "string \<Rightarrow> string list" where
  "getlines = getlines_from []"

text \<open>\<open>iss >> word\<close>: \<^term>\<open>None\<close> when there is no further word.\<close>

definition next_word :: "string \<Rightarrow> (string \<times> string) option" where
  "next_word s =
     (let s' = dropWhile is_space s in
      if s' = [] then None
      else Some (takeWhile (\<lambda>c. \<not> is_space c) s', dropWhile (\<lambda>c. \<not> is_space c) s'))"

definition parse_mount :: "string \<Rightarrow> (string \<times> string) option" where
  "parse_mount line =
     (case next_word line of None \<Rightarrow> None | Some (what, r) \<Rightarrow>
      (case next_word r of None \<Rightarrow> None | Some (mntpoint, r) \<Rightarrow>
      (case next_word r of None \<Rightarrow> None | Some (type, r) \<Rightarrow> Some (mntpoint, type))))"

section \<open>Device discovery\<close>

text \<open>\<open>found_types\<close> is a \<open>std::set\<close>: a sorted list without duplicates.\<close>

definition setup_line :: "string \<Rightarrow> DeviceType list \<Rightarrow> DeviceType list" where
  "setup_line line found =
     (if line = ''device.type=DIR_DEVICE'' then insort_insert REGISTRY found
      else if line = ''device.type=METADATA_DEVICE'' then insort_insert METADATA found
      else if line = ''device.type=DATA_DEVICE'' then insort_insert DATA found
      else found)"

definition setup_file :: "string \<Rightarrow> string" where
  "setup_file path = path @ ''/QUOBYTE_DEV_SETUP''"

definition probe_name :: "'fs os \<Rightarrow> 'fs \<Rightarrow> string \<Rightarrow> string \<Rightarrow> DeviceType list \<Rightarrow> DeviceType list" where
  "probe_name Os fs mntpoint name found =
     (let found =
        (if exists Os fs (mntpoint @ ''/quobyte-'' @ name) then
           if name = ''dir'' then insort_insert REGISTRY found
           else if name = ''metadata'' then insort_insert METADATA found
           else if name = ''data'' then insort_insert DATA found
           else found
         else found)
      in if exists Os fs (setup_file mntpoint)
         then fold setup_line (getlines (os_read Os fs (setup_file mntpoint))) found
         else found)"

definition probe_mount :: "'fs os \<Rightarrow> 'fs \<Rightarrow> string \<Rightarrow> DeviceType list \<Rightarrow> DeviceType list" where
  "probe_mount Os fs line found =
     (case parse_mount line of
        None \<Rightarrow> found
      | Some (mntpoint, type) \<Rightarrow>
          if type = ''ext4'' \<or> type = ''xfs''
          then fold (probe_name Os fs mntpoint) [''dir'', ''metadata'', ''data''] found
          else found)"

definition found_types :: "'fs os \<Rightarrow> 'fs \<Rightarrow> DeviceType list" where
  "found_types Os fs = fold (probe_mount Os fs) (getlines (os_read Os fs ''/proc/mounts'')) []"

definition probe_response :: "'fs os \<Rightarrow> 'fs \<Rightarrow> ProbeRequest \<Rightarrow> ProbeResponse" where
  "probe_response Os fs request =
     \<lparr>pr_device_type =
        (if client_directory request \<noteq> '''' \<and> exists Os fs (client_directory request)
         then [CLIENT] else []) @ found_types Os fs,
      pr_client_mount_point_field =
        (if os_stat Os fs ''/quobyte'' = Some True then Some True else None)\<rparr>"

section \<open>Initialising a device\<close>

definition setup_content :: "int \<Rightarrow> string" where
  "setup_content serial =
     ''# Quobyte device identifier file (written by Mesos framework)'' @ [CHR 0x0A] @
     ''device.serial='' @ to_string serial @
     ''device.model=Unknown'' @
     ''device.type=DATA_DEVICE''"

text \<open>
  \<^term>\<open>None\<close> is the early return for a path that is a device already.  \<open>serial\<close> is what \<open>random()\<close>
  returns.
\<close>

definition initialize_device :: "'fs os \<Rightarrow> int \<Rightarrow> string \<Rightarrow> 'fs \<Rightarrow> 'fs option" where
  "initialize_device Os serial path fs =
     (if path = '''' then Some fs
      else if exists Os fs (setup_file path) then None
      else Some (os_write Os fs (setup_file path) (setup_content serial)))"

section \<open>Callbacks\<close>

definition executor_frameworkMessage ::
    "'fs os \<Rightarrow> int \<Rightarrow> string \<Rightarrow> 'fs \<Rightarrow> executor_call list \<times> 'fs" where
  "executor_frameworkMessage Os serial data fs =
     (let request = parse_request Os data in
      case initialize_device Os serial (initialize_path request) fs of
        None \<Rightarrow> ([], fs)
      | Some fs' \<Rightarrow> ([SendProbeResponse (serialize_response Os (probe_response Os fs' request))], fs'))"

definition launchTask :: "'r TaskInfo \<Rightarrow> executor_call list" where
  "launchTask task = [SendStatusUpdate (plain_status (ti_task_id task) TASK_FINISHED)]"

definition killTask :: "string \<Rightarrow> executor_call list" where
  "killTask task_id = []"

text \<open>\<open>registered\<close>, \<open>reregistered\<close> and \<open>disconnected\<close> only print, and so do \<open>shutdown\<close> and \<open>error\<close>.\<close>

definition executor_logging_callback :: "executor_call list" where
  "executor_logging_callback = []"

definition executor_shutdown :: "executor_call list" where
  "executor_shutdown = []"

definition executor_error :: "string \<Rightarrow> executor_call list" where
  "executor_error message = []"

section \<open>The executor as a machine\<close>

text \<open>The callbacks of \<open>QuobyteExecutor\<close> as events; its only state is the file system.\<close>

datatype 'r executor_event =
    Executor_Registered
  | Executor_Reregistered
  | Executor_Disconnected
  | Launch_Task "'r TaskInfo"
  | Kill_Task string
  | Framework_Request string
  | Executor_Shutdown
  | Executor_Error string

fun executor_handle :: "'fs os \<Rightarrow> int \<Rightarrow> 'r executor_event \<Rightarrow> 'fs \<Rightarrow> executor_call list \<times> 'fs" where
  "executor_handle Os serial (Launch_Task task) fs = (launchTask task, fs)"
| "executor_handle Os serial (Kill_Task tid) fs = (killTask tid, fs)"
| "executor_handle Os serial (Framework_Request data) fs = executor_frameworkMessage Os serial data fs"
| "executor_handle Os serial Executor_Shutdown fs = (executor_shutdown, fs)"
| "executor_handle Os serial (Executor_Error message) fs = (executor_error message, fs)"
| "executor_handle Os serial _ fs = (executor_logging_callback, fs)"

inductive executor_step :: "'fs os \<Rightarrow> 'fs \<Rightarrow> 'r executor_event \<Rightarrow> 'fs \<Rightarrow> bool" for Os where
  executor_step: "executor_handle Os serial e fs = (cs, fs') \<Longrightarrow> executor_step Os fs e fs'"

inductive_cases executor_stepE: "executor_step Os fs e fs'"

text \<open>\<open>main\<close> of \<open>quobyte-mesos-executor.cpp\<close>: the exit status for the status that the driver returns.\<close>

definition executor_main :: "DriverStatus \<Rightarrow> int" where
  "executor_main status = (if status = DRIVER_STOPPED then 0 else 1)"

section \<open>What the two programs rely on\<close>

text \<open>Writing one file leaves every other path as it is; a file that did not exist has the written
  content, or still does not exist because it could not be created.\<close>

definition os_ok :: "'fs os \<Rightarrow> bool" where
  "os_ok Os \<longleftrightarrow> (\<forall>fs p c q. q \<noteq> p \<longrightarrow>
     os_stat Os (os_write Os fs p c) q = os_stat Os fs q \<and>
     os_read Os (os_write Os fs p c) q = os_read Os fs q) \<and>
   (\<forall>fs p c. os_stat Os fs p = None \<longrightarrow>
     os_stat Os (os_write Os fs p c) p = None \<or> os_read Os (os_write Os fs p c) p = c)"

lemma os_okD:
  assumes "os_ok Os"
  shows "q \<noteq> p \<Longrightarrow> os_stat Os (os_write Os fs p c) q = os_stat Os fs q"
    and "q \<noteq> p \<Longrightarrow> os_read Os (os_write Os fs p c) q = os_read Os fs q"
    and "os_stat Os fs p = None \<Longrightarrow> os_stat Os (os_write Os fs p c) p = None \<or>
      os_read Os (os_write Os fs p c) p = c"
  using assms unfolding os_ok_def by blast+

text \<open>What one program serializes is what the other one parses.\<close>

definition wire_ok :: "('r, 'z) externals \<Rightarrow> 'fs os \<Rightarrow> bool" where
  "wire_ok E Os \<longleftrightarrow> (\<forall>request. parse_request Os (serialize_request E request) = request) \<and>
     (\<forall>response. parse_response E (serialize_response Os response) = Some response)"

lemma wire_okD:
  assumes "wire_ok E Os"
  shows "parse_request Os (serialize_request E request) = request"
    and "parse_response E (serialize_response Os response) = Some response"
  using assms by (simp_all add: wire_ok_def)

end
