(* ===== verification/Sample.thy ===== *)
theory Sample
  imports Scheduler_State Executor
begin

text \<open>
  A concrete environment in which the properties are applied: resources are a number of units and
  every resource string asks for one, the storage is a map from paths to values, the codecs are
  small prefix codes, and the file system is a list of files and directories.  It satisfies the
  hypotheses that the properties make about the code outside the repository.
\<close>

section \<open>A text format\<close>

fun escape :: "string \<Rightarrow> string" where
  "escape [] = ''.''"
| "escape (c # cs) = CHR ''+'' # c # escape cs"

fun unescape :: "string \<Rightarrow> (string \<times> string) option" where
  "unescape (c # d # cs) =
     (if c = CHR ''.'' then Some ([], d # cs)
      else map_option (\<lambda>(s, r). (d # s, r)) (unescape cs))"
| "unescape [c] = (if c = CHR ''.'' then Some ([], []) else None)"
| "unescape [] = None"

lemma unescape_escape: "unescape (escape s @ r) = Some (s, r)"
proof (induction s)
  case Nil
  then show ?case by (cases r) simp_all
qed simp

fun print_field :: "string option \<Rightarrow> string" where
  "print_field None = ''-''"
| "print_field (Some s) = CHR ''='' # escape s"

fun parse_field :: "string \<Rightarrow> (string option \<times> string) option" where
  "parse_field [] = None"
| "parse_field (c # cs) =
     (if c = CHR ''-'' then Some (None, cs)
      else map_option (\<lambda>(s, r). (Some s, r)) (unescape cs))"

lemma parse_print_field: "parse_field (print_field x @ r) = Some (x, r)"
  by (cases x) (simp_all add: unescape_escape)

definition sample_print :: "SchedulerState \<Rightarrow> string" where
  "sample_print d = print_field (framework_id_value_field d) @ print_field (target_version_field d)"

text \<open>A variable that was never stored is empty, and an empty text is the empty message.\<close>

definition sample_parse :: "string \<Rightarrow> SchedulerState option" where
  "sample_parse s =
     (if s = [] then Some empty_SchedulerState
      else case parse_field s of
        None \<Rightarrow> None
      | Some (f, r) \<Rightarrow> (case parse_field r of
          None \<Rightarrow> None
        | Some (t, r') \<Rightarrow> if r' = [] then
            Some \<lparr>framework_id_value_field = f, target_version_field = t\<rparr> else None))"

lemma print_field_not_empty [simp]: "print_field x \<noteq> []"
  by (cases x) simp_all

lemma sample_parse_print: "sample_parse (sample_print d) = Some d"
  using parse_print_field [of "framework_id_value_field d" "print_field (target_version_field d)"]
    parse_print_field [of "target_version_field d" "[]"]
  by (simp add: sample_parse_def sample_print_def)

section \<open>A wire format\<close>

fun device_letter :: "DeviceType \<Rightarrow> char" where
  "device_letter BOOTSTRAP = CHR ''B''"
| "device_letter REGISTRY = CHR ''R''"
| "device_letter METADATA = CHR ''M''"
| "device_letter DATA = CHR ''D''"
| "device_letter CLIENT = CHR ''C''"

definition letter_device :: "char \<Rightarrow> DeviceType" where
  "letter_device c =
     (if c = CHR ''B'' then BOOTSTRAP else if c = CHR ''R'' then REGISTRY
      else if c = CHR ''M'' then METADATA else if c = CHR ''D'' then DATA else CLIENT)"

lemma letter_device_letter [simp]: "letter_device (device_letter d) = d"
  by (cases d) (simp_all add: letter_device_def)

fun mount_letter :: "bool option \<Rightarrow> char" where
  "mount_letter None = CHR ''n''"
| "mount_letter (Some True) = CHR ''t''"
| "mount_letter (Some False) = CHR ''f''"

definition sample_serialize :: "ProbeResponse \<Rightarrow> string" where
  "sample_serialize r = mount_letter (pr_client_mount_point_field r) # map device_letter (pr_device_type r)"

fun sample_response :: "string \<Rightarrow> ProbeResponse option" where
  "sample_response [] = None"
| "sample_response (c # cs) = Some \<lparr>pr_device_type = map letter_device cs,
     pr_client_mount_point_field =
       (if c = CHR ''n'' then None else Some (c = CHR ''t''))\<rparr>"

lemma sample_response_serialize: "sample_response (sample_serialize r) = Some r"
proof (cases r)
  case (fields ds m)
  have "map (letter_device \<circ> device_letter) ds = ds" by (simp add: map_idI)
  moreover have "(if mount_letter m = CHR ''n'' then None else Some (mount_letter m = CHR ''t'')) = m"
    by (cases m rule: mount_letter.cases) simp_all
  ultimately show ?thesis by (simp add: fields sample_serialize_def)
qed

definition sample_request :: "ProbeRequest \<Rightarrow> string" where
  "sample_request r = print_field (client_directory_field r) @ print_field (initialize_path_field r)"

definition sample_parse_request :: "string \<Rightarrow> ProbeRequest" where
  "sample_parse_request s = (case parse_field s of
     None \<Rightarrow> \<lparr>client_directory_field = None, initialize_path_field = None\<rparr>
   | Some (c, r) \<Rightarrow> (case parse_field r of
       None \<Rightarrow> \<lparr>client_directory_field = c, initialize_path_field = None\<rparr>
     | Some (i, r') \<Rightarrow> \<lparr>client_directory_field = c, initialize_path_field = i\<rparr>))"

lemma sample_parse_request_serialize: "sample_parse_request (sample_request r) = r"
  using parse_print_field [of "client_directory_field r" "print_field (initialize_path_field r)"]
    parse_print_field [of "initialize_path_field r" "[]"]
  by (simp add: sample_parse_request_def sample_request_def)

section \<open>The environment\<close>

definition sample_externals :: "(nat, string \<Rightarrow> string) externals" where
  "sample_externals = \<lparr>
     resources_parse = (\<lambda>s. Some 1),
     resources_contains = (\<lambda>a b. b \<le> a),
     resources_minus = (\<lambda>a b. a - b),
     resources_reserved_size = (\<lambda>a role. 1),
     resources_empty = 0,
     state_fetch = (\<lambda>z path. z path),
     state_store = (\<lambda>z path v. z(path := v)),
     text_print = (\<lambda>d. Some (sample_print d)),
     text_parse = sample_parse,
     serialize_request = sample_request,
     parse_response = sample_response,
     debug_SchedulerState = (\<lambda>d. ''state''),
     debug_ServiceState = (\<lambda>s. ''service''),
     debug_NodeState = (\<lambda>n. ''node''),
     archive_read = None\<rparr>"

definition sample_amount :: "nat \<Rightarrow> unit \<Rightarrow> nat" where
  "sample_amount r k = r"

lemma sample_codec_ok: "codec_ok sample_externals"
  by (simp add: codec_ok_def sample_externals_def sample_parse_print)

lemma sample_storage_ok: "storage_ok sample_externals"
  by (simp add: storage_ok_def sample_externals_def)

lemma sample_resources_ok: "resources_ok sample_externals sample_amount"
  by (simp add: resources_ok_def sample_externals_def sample_amount_def)

section \<open>A file system\<close>

text \<open>Files with their content; a directory has no content.\<close>

type_synonym sample_fs = "(string \<times> string option) list"

definition sample_os :: "sample_fs os" where
  "sample_os = \<lparr>
     os_stat = (\<lambda>fs path. map_option (\<lambda>c. c = None) (map_of fs path)),
     os_read = (\<lambda>fs path. case map_of fs path of Some (Some c) \<Rightarrow> c | _ \<Rightarrow> []),
     os_write = (\<lambda>fs path c. (path, Some c) # fs),
     parse_request = sample_parse_request,
     serialize_response = sample_serialize\<rparr>"

lemma sample_os_ok: "os_ok sample_os"
  by (simp add: os_ok_def sample_os_def)

lemma sample_wire_ok: "wire_ok sample_externals sample_os"
  by (simp add: wire_ok_def sample_externals_def sample_os_def sample_parse_request_serialize
      sample_response_serialize)

section \<open>A scheduler in operation\<close>

text \<open>
  Version 1.3 is deployed.  Host \<open>a\<close> has a registry device whose service does not run, its prober
  runs and has just been asked; host \<open>b\<close> has a running registry.  The API runs on host \<open>b\<close>.
\<close>

definition service_state :: "ServiceTaskState \<Rightarrow> string \<Rightarrow> ServiceState" where
  "service_state s tid = new_ServiceState\<lparr>ss_state_field := Some s, ss_task_id_field := Some tid\<rparr>"

definition sample_node :: "string \<Rightarrow> string \<Rightarrow> DeviceType list \<Rightarrow> ServiceState \<Rightarrow> NodeState" where
  "sample_node h slave ds registry = new_NodeState\<lparr>ns_hostname_field := Some h,
     ns_slave_id_value_field := Some slave, ns_prober_field := Some (service_state RUNNING (''quobyte-device-prober-'' @ h)),
     ns_registry_field := Some registry, ns_device_type := ds,
     ns_device_types_valid_field := Some True, ns_last_probe_s_field := Some 990\<rparr>"

definition sample_world :: "(nat, string \<Rightarrow> string) world" where
  "sample_world = \<lparr>
     storage = (\<lambda>path. ''''),
     proxy = \<lparr>proxy_path = ''scheduler-default'', proxy_data = \<lparr>framework_id_value_field = Some ''f1'',
       target_version_field = Some ''1.3''\<rparr>\<rparr>,
     resources = [(''api'', 1), (''client'', 2), (''data'', 3), (''metadata'', 3), (''prober'', 1),
       (''registry'', 2), (''s3'', 2), (''webconsole'', 1)],
     api_state = service_state RUNNING ''quobyte-api-b'',
     console_state = new_ServiceState, s3_state = new_ServiceState,
     nodes = [(''a'', sample_node ''a'' ''s1'' [REGISTRY] (service_state NOT_RUNNING '''')),
       (''b'', sample_node ''b'' ''s2'' [REGISTRY] (service_state RUNNING ''quobyte-registry-b''))],
     clock = (\<lambda>i. 1000 + int i), reads = 0, calls = []\<rparr>"

lemma sample_world_map_ok: "map_ok (nodes sample_world)"
  by (simp add: sample_world_def map_ok_Cons)

definition sample_offer :: "string \<Rightarrow> string \<Rightarrow> nat \<Rightarrow> nat Offer" where
  "sample_offer oid h amount = \<lparr>offer_id = oid, offer_hostname = h, offer_slave_id = ''s1'',
     offer_resources = amount\<rparr>"

text \<open>The same scheduler when no version is to be deployed.\<close>

definition sample_stopped :: "(nat, string \<Rightarrow> string) world" where
  "sample_stopped = sample_world\<lparr>proxy := \<lparr>proxy_path = ''scheduler-default'',
     proxy_data = \<lparr>framework_id_value_field = Some ''f1'', target_version_field = None\<rparr>\<rparr>\<rparr>"

end
