(* ===== verification/Status_Properties.thy ===== *)
theory Status_Properties
  imports Invariants Sample
begin

text \<open>
  Properties of \<open>statusUpdate\<close> and \<open>frameworkMessage\<close>: how a task id is taken apart, what each kind
  of status does to the service it names, when a task is killed, and what a probe response changes.
\<close>

section \<open>Task ids\<close>

text \<open>
  C34: a task id \<open>service-host\<close> is taken apart into the service and the host it was made of exactly
  when the host name contains no dash: the id is split at its last dash.
\<close>
theorem split_task_id_roundtrip:
  "split_task_id (service @ ''-'' @ host) = Some (service, host) \<longleftrightarrow> CHR ''-'' \<notin> set host"
proof
  assume "split_task_id (service @ ''-'' @ host) = Some (service, host)"
  then show "CHR ''-'' \<notin> set host" by (rule split_task_id_Some(2))
next
  assume "CHR ''-'' \<notin> set host"
  then have "rfind_char CHR ''-'' (service @ ''-'' @ host) = Some (length service)"
    using rfind_char_last [of "CHR ''-''" host service] by simp
  then show "split_task_id (service @ ''-'' @ host) = Some (service, host)"
    by (simp add: split_task_id_def substr_def)
qed

section \<open>Status updates\<close>

text \<open>The state in which the status is applied: the host exists and the service is present.\<close>

definition prepared :: "TaskStatus \<Rightarrow> service_ref \<Rightarrow> string \<Rightarrow> ('r, 'z) world \<Rightarrow> ('r, 'z) world" where
  "prepared status r h w = write_service r h (\<lambda>s. s) (find_or_create status h w)"

lemma statusUpdate_prepared:
  assumes "split_task_id (st_task_id status) = Some (service, h)" and "service_of service = Some r"
  shows "statusUpdate status w =
    (let u = update_service_state status service h r (prepared status r h w)
     in if service = ''quobyte-device-prober'' \<or> IsTerminal (st_state status) then u
        else check_version status u)"
  using assms by (simp add: statusUpdate_def getService_def prepared_def Let_def)

lemma prepared_frame [simp]:
  "clock (prepared status r h w) = clock w" "reads (prepared status r h w) = reads w"
  "calls (prepared status r h w) = calls w" "proxy (prepared status r h w) = proxy w"
  by (simp_all add: prepared_def find_or_create_def frame_simps del: write_service.simps)

lemma read_prepared [simp]:
  "map_ok (nodes w) \<Longrightarrow> read_service r' j (prepared status r h w) = read_service r' j w"
  by (simp add: prepared_def find_or_create_def read_write read_service_createHost
      del: write_service.simps)

lemma prepared_target: "map_ok (nodes w) \<Longrightarrow> has_target r h (prepared status r h w)"
  unfolding prepared_def
  by (subst cell.valid_store)
    (auto simp: has_target_def find_or_create_def createHost_def map_find_insert)

text \<open>What the decision whether a service should run reads of its node.\<close>

definition run_view :: "NodeState \<Rightarrow> bool \<times> DeviceType list \<times> bool" where
  "run_view n = (ns_device_types_valid n, ns_device_type n, ns_client_mount_point n)"

lemma run_view_write: "run_view (node_at (write_service r h f w) j) = run_view (node_at w j)"
  by (cases r) (simp_all add: run_view_def node_at_update_node mutable_defs)

lemma run_view_create: "map_ok (nodes w) \<Longrightarrow> run_view (node_at (find_or_create status h w) j) = run_view (node_at w j)"
  by (auto simp: find_or_create_def run_view_def node_at_def createHost_def map_find_insert
      new_NodeState_def)

lemma prepared_should_run [simp]:
  assumes "map_ok (nodes w)"
  shows "service_should_run service (node_at (prepared status r h w) h) s tid =
    service_should_run service (node_at w h) s tid"
proof -
  have "run_view (node_at (prepared status r h w) h) = run_view (node_at w h)"
    using assms by (simp add: prepared_def run_view_write run_view_create del: write_service.simps)
  then show ?thesis by (simp add: service_should_run_def run_view_def)
qed

text \<open>Only the service that the status names is written.\<close>

definition others_kept :: "service_ref \<Rightarrow> string \<Rightarrow> ('r, 'z) world \<Rightarrow> ('r, 'z) world \<Rightarrow> bool" where
  "others_kept r h w w' \<longleftrightarrow> (\<forall>r' j. \<not> (r' = r \<and> (is_shared r \<or> j = h)) \<longrightarrow>
     read_service r' j w' = read_service r' j w)"

text \<open>The calls of the version check: a running task is killed when no version is to be deployed.\<close>

definition version_calls :: "TaskStatus \<Rightarrow> string \<Rightarrow> ('r, 'z) world \<Rightarrow> 'r driver_call list" where
  "version_calls status service w =
     (if service \<noteq> ''quobyte-device-prober'' \<and> \<not> IsTerminal (st_state status) \<and>
         target_version (proxy_data (proxy w)) = ''''
      then [KillTask (st_task_id status)] else [])"

lemma finish_status:
  assumes "split_task_id (st_task_id status) = Some (service, h)" and "service_of service = Some r"
    and "update_service_state status service h r (prepared status r h w) = u"
    and "proxy u = proxy w"
  shows "read_service r' j (statusUpdate status w) = read_service r' j u"
    and "calls (statusUpdate status w) = calls u @ version_calls status service w"
  using assms(4) unfolding statusUpdate_prepared [OF assms(1,2)] assms(3)
  by (simp_all add: version_calls_def check_version_def Let_def)

lemma now_simps [simp]: "now w = (clock w (reads w), w\<lparr>reads := Suc (reads w)\<rparr>)"
  by (simp add: now_def)

lemma running_recorded:
  assumes "split_task_id (st_task_id status) = Some (service, h)" and "service_of service = Some r"
    and "st_state status \<in> {TASK_RUNNING, TASK_FINISHED}" and "map_ok (nodes w)"
    and "service_should_run service (node_at w h) (read_service r h w) (st_task_id status)"
    and "ss_task_id (read_service r h w) \<in> {'''', st_task_id status}"
  shows "read_service r h (statusUpdate status w) =
      record_running status (clock w (reads w)) (clock w (Suc (reads w))) (read_service r h w) \<and>
    others_kept r h w (statusUpdate status w) \<and>
    calls (statusUpdate status w) = calls w @ version_calls status service w"
proof -
  let ?p = "prepared status r h w"
  define u where "u = write_service r h (record_running status (clock w (reads w))
    (clock w (Suc (reads w)))) (?p\<lparr>reads := Suc (Suc (reads w))\<rparr>)"
  have "update_service_state status service h r ?p = u"
    using assms by (auto simp: update_service_state_def Let_def u_def simp del: write_service.simps)
  note fin = finish_status [OF assms(1,2) this]
  have "has_target r h (?p\<lparr>reads := Suc (Suc (reads w))\<rparr>)"
    using prepared_target [OF assms(4)] by (simp add: has_target_def)
  then have "read_service r' j u = (if r' = r \<and> (is_shared r \<or> j = h)
      then record_running status (clock w (reads w)) (clock w (Suc (reads w))) (read_service r' j w)
      else read_service r' j w)" for r' j
    using assms(4) by (auto simp: u_def read_write simp del: write_service.simps)
  moreover have "proxy u = proxy w" "calls u = calls w" by (simp_all add: u_def frame_simps del: write_service.simps)
  ultimately show ?thesis by (simp add: fin others_kept_def)
qed



text \<open>
  C18: a second task of a service that all hosts share is killed: when the API, the S3 proxy or the
  web console runs under one task id, a status that reports another id as running changes no
  service, and the first call it makes kills the reported task.
\<close>
theorem duplicate_shared_service_killed:
  assumes "split_task_id (st_task_id status) = Some (service, h)"
    and "service \<in> {''quobyte-api'', ''quobyte-s3'', ''quobyte-webconsole''}"
    and "service_of service = Some r" and "st_state status = TASK_RUNNING" and "map_ok (nodes w)"
    and "ss_state (read_service r h w) = RUNNING" and "ss_task_id (read_service r h w) \<noteq> st_task_id status"
  shows "(\<forall>r' j. read_service r' j (statusUpdate status w) = read_service r' j w) \<and>
    calls (statusUpdate status w) = calls w @ KillTask (st_task_id status) # version_calls status service w"
proof -
  let ?p = "prepared status r h w"
  have "\<not> service_should_run service (node_at w h) (read_service r h w) (st_task_id status)"
    using assms(2,6,7) by (auto simp: service_should_run_def)
  then have "update_service_state status service h r ?p = emit (KillTask (st_task_id status)) ?p"
    using assms(4,5) by (simp add: update_service_state_def Let_def)
  note fin = finish_status [OF assms(1,3) this]
  show ?thesis using assms(5) by (simp add: fin)
qed

text \<open>
  C19: a task of a core service on a host whose known devices do not include the device of the
  service is killed, and no service changes.
\<close>
theorem service_without_device_killed:
  assumes "split_task_id (st_task_id status) = Some (service, h)"
    and "(service, d) \<in> {(''quobyte-registry'', REGISTRY), (''quobyte-metadata'', METADATA),
      (''quobyte-data'', DATA)}"
    and "st_state status = TASK_RUNNING" and "map_ok (nodes w)"
    and "ns_device_types_valid (node_at w h)" and "d \<notin> set (ns_device_type (node_at w h))"
  shows "(\<forall>r j. read_service r j (statusUpdate status w) = read_service r j w) \<and>
    calls (statusUpdate status w) = calls w @ KillTask (st_task_id status) # version_calls status service w"
proof -
  obtain r where r: "service_of service = Some r" using assms(2) by (auto simp: service_of_def)
  have "\<not> service_should_run service (node_at w h) (read_service r h w) (st_task_id status)"
    using assms(2,5,6) by (auto simp: service_should_run_def)
  then have "update_service_state status service h r (prepared status r h w) =
      emit (KillTask (st_task_id status)) (prepared status r h w)"
    using assms(3,4) by (simp add: update_service_state_def Let_def)
  note fin = finish_status [OF assms(1) r this]
  show ?thesis using assms(4) by (simp add: fin)
qed

text \<open>
  C35: the version that a task carries in its labels has no influence: a task that runs an old
  version is logged as being restarted, but neither a call nor the state depends on the labels.
\<close>
theorem version_label_ignored:
  fixes w :: "('a, 'b) world"
  shows "statusUpdate (status\<lparr>st_labels := labels\<rparr>) w = statusUpdate status w"
proof -
  have "record_running (status\<lparr>st_labels := labels\<rparr>) = record_running status"
    "record_terminal (status\<lparr>st_labels := labels\<rparr>) = record_terminal status"
    by (simp_all add: fun_eq_iff record_running_def record_terminal_def)
  then have "find_or_create (status\<lparr>st_labels := labels\<rparr>) h v = find_or_create status h v"
    "update_service_state (status\<lparr>st_labels := labels\<rparr>) service h r v =
      update_service_state status service h r v"
    "check_version (status\<lparr>st_labels := labels\<rparr>) v = check_version status v"
    for service h r and v :: "('a, 'b) world"
    by (simp_all add: find_or_create_def update_service_state_def check_version_def Let_def)
  then show ?thesis
    by (cases "split_task_id (st_task_id status)")
      (auto simp: statusUpdate_def getService_def Let_def split: option.split)
qed

text \<open>
  A status whose task id has no dash changes nothing at all, and one of an unknown service adds
  at most the entry of its host: no service changes and no call is made.
\<close>
lemma unknown_task_ignored:
  assumes "\<And>service h. split_task_id (st_task_id status) = Some (service, h) \<Longrightarrow> service_of service = None"
    and "map_ok (nodes w)"
  shows "(split_task_id (st_task_id status) = None \<longrightarrow> statusUpdate status w = w) \<and>
    (\<forall>r j. read_service r j (statusUpdate status w) = read_service r j w) \<and>
    calls (statusUpdate status w) = calls w \<and> proxy (statusUpdate status w) = proxy w"
proof (cases "split_task_id (st_task_id status)")
  case (Some p)
  obtain service h where "p = (service, h)" by (cases p)
  with Some assms show ?thesis
    by (simp add: statusUpdate_def getService_def find_or_create_def read_service_createHost)
qed (simp add: statusUpdate_def)

section \<open>Probe responses\<close>

definition from_slave :: "string \<Rightarrow> string \<times> NodeState \<Rightarrow> bool" where
  "from_slave slave e \<longleftrightarrow> ns_slave_id_value (snd e) = slave"

lemma probe_nodes_None:
  "parse_response E data = None \<Longrightarrow> probe_nodes E slave data clk i ns = (ns, i)"
  by (induction ns arbitrary: i) auto

definition probed :: "string \<Rightarrow> ProbeResponse \<Rightarrow> (nat \<Rightarrow> int) \<Rightarrow> nat \<Rightarrow> nat \<Rightarrow>
    string \<times> NodeState \<Rightarrow> string \<times> NodeState \<Rightarrow> bool" where
  "probed slave response clk i k e e' \<longleftrightarrow> fst e' = fst e \<and>
     (if from_slave slave e then \<exists>j. i \<le> j \<and> j < k \<and> snd e' = apply_response response (clk j) (snd e)
      else snd e' = snd e)"

lemma probed_later: "probed slave response clk i k e e' \<Longrightarrow> j \<le> i \<Longrightarrow> probed slave response clk j k e e'"
  unfolding probed_def by (metis le_trans)

lemma probe_nodes_Some:
  assumes "parse_response E data = Some response"
    and "probe_nodes E slave data clk i ns = (ns', k)"
  shows "k = i + length (filter (from_slave slave) ns) \<and>
    list_all2 (probed slave response clk i k) ns ns'"
  using assms(2)
proof (induction ns arbitrary: i ns')
  case (Cons e ns)
  obtain h n where e: "e = (h, n)" by (cases e)
  define i' where "i' = (if ns_slave_id_value n = slave then Suc i else i)"
  obtain ns1 where r: "probe_nodes E slave data clk i' ns = (ns1, k)"
    and ns': "ns' = (h, if ns_slave_id_value n = slave then apply_response response (clk i) n else n) # ns1"
    using Cons.prems assms(1) by (auto simp: e i'_def split: prod.splits if_splits)
  from Cons.IH [OF r] have k: "k = i' + length (filter (from_slave slave) ns)"
    and l: "list_all2 (probed slave response clk i' k) ns ns1" by auto
  have "list_all2 (probed slave response clk i k) ns ns1"
    using l by (rule list_all2_mono) (auto simp: i'_def intro: probed_later split: if_splits)
  moreover have s: "from_slave slave e \<longleftrightarrow> ns_slave_id_value n = slave"
    by (simp add: from_slave_def e)
  moreover have "probed slave response clk i k e (hd ns')"
    using k by (auto simp: probed_def s [unfolded e] ns' i'_def e)
  ultimately show ?case using k by (simp add: ns' i'_def)
qed simp

lemma probed_find:
  assumes "list_all2 (probed slave response clk i k) ns ns'" and "map_find ns h = Some n"
  shows "\<exists>n'. map_find ns' h = Some n' \<and> probed slave response clk i k (h, n) (h, n')"
  using assms
proof (induction rule: list_all2_induct)
  case (Cons e ns e' ns')
  obtain j m j' m' where e: "e = (j, m)" "e' = (j', m')" by (cases e, cases e')
  with Cons(1) have "j' = j" by (simp add: probed_def)
  with Cons e show ?case by (cases "h = j") auto
qed simp

text \<open>
  C20: a message that does not parse changes nothing.  A probe response replaces the devices and the
  client mount point of every host of the slave it came from, marks its devices as known and its
  prober as seen at a clock reading taken for this host, and leaves every other host and the rest
  of the state as they are.
\<close>
theorem probe_response_recorded:
  assumes "map_find (nodes w) h = Some n"
  shows "case parse_response E data of
      None \<Rightarrow> frameworkMessage E slave data w = w
    | Some response \<Rightarrow>
        (\<exists>ns k. frameworkMessage E slave data w = w\<lparr>nodes := ns, reads := k\<rparr> \<and>
           k = reads w + length (filter (from_slave slave) (nodes w)) \<and>
           (if ns_slave_id_value n = slave
            then \<exists>j. reads w \<le> j \<and> j < k \<and> map_find ns h = Some (apply_response response (clock w j) n)
            else map_find ns h = Some n))"
proof (cases "parse_response E data")
  case None
  then show ?thesis by (simp add: frameworkMessage_def probe_nodes_None)
next
  case (Some response)
  obtain ns k where p: "probe_nodes E slave data (clock w) (reads w) (nodes w) = (ns, k)" by fastforce
  from probe_nodes_Some [OF Some p] have
    k: "k = reads w + length (filter (from_slave slave) (nodes w))" and
    l: "list_all2 (probed slave response (clock w) (reads w) k) (nodes w) ns" by auto
  from probed_find [OF l assms] obtain n' where "map_find ns h = Some n'"
    "probed slave response (clock w) (reads w) k (h, n) (h, n')" by blast
  with k p Some show ?thesis by (auto simp: frameworkMessage_def probed_def from_slave_def)
qed

section \<open>The properties at work\<close>



theorem duplicate_shared_service_killed_witness:
  "calls (statusUpdate (plain_status ''quobyte-api-a'' TASK_RUNNING) sample_world) =
     [KillTask ''quobyte-api-a'']"
proof -
  let ?status = "plain_status ''quobyte-api-a'' TASK_RUNNING"
  have "split_task_id (st_task_id ?status) = Some (''quobyte-api'', ''a'')" by code_simp
  moreover have "service_of ''quobyte-api'' = Some Api_Ref" by code_simp
  moreover have "st_state ?status = TASK_RUNNING" by code_simp
  moreover have "ss_state (read_service Api_Ref ''a'' sample_world) = RUNNING" by code_simp
  moreover have "ss_task_id (read_service Api_Ref ''a'' sample_world) \<noteq> st_task_id ?status" by code_simp
  moreover have "version_calls ?status ''quobyte-api'' sample_world = []" by code_simp
  moreover have "calls sample_world = []" by code_simp
  moreover have "st_task_id ?status = ''quobyte-api-a''" by code_simp
  ultimately show ?thesis
    using duplicate_shared_service_killed [of ?status, OF _ _ _ _ sample_world_map_ok] by simp
qed

theorem service_without_device_killed_witness:
  "calls (statusUpdate (plain_status ''quobyte-data-a'' TASK_RUNNING) sample_world) =
     [KillTask ''quobyte-data-a'']"
proof -
  let ?status = "plain_status ''quobyte-data-a'' TASK_RUNNING"
  have "split_task_id (st_task_id ?status) = Some (''quobyte-data'', ''a'')" by code_simp
  moreover have "st_state ?status = TASK_RUNNING" by code_simp
  moreover have "ns_device_types_valid (node_at sample_world ''a'')" by code_simp
  moreover have "DATA \<notin> set (ns_device_type (node_at sample_world ''a''))" by code_simp
  moreover have "version_calls ?status ''quobyte-data'' sample_world = []" by code_simp
  moreover have "calls sample_world = []" by code_simp
  moreover have "st_task_id ?status = ''quobyte-data-a''" by code_simp
  ultimately show ?thesis
    using service_without_device_killed [of ?status "''quobyte-data''" "''a''" DATA,
        OF _ _ _ sample_world_map_ok] by simp
qed

theorem probe_response_recorded_witness:
  "\<exists>n. map_find (nodes (frameworkMessage sample_externals ''s1'' ''nMD'' sample_world)) ''a'' = Some n \<and>
     ns_device_type n = [METADATA, DATA]"
proof -
  have n: "map_find (nodes sample_world) ''a'' =
      Some (sample_node ''a'' ''s1'' [REGISTRY] (service_state NOT_RUNNING ''''))" by code_simp
  have "parse_response sample_externals ''nMD'' =
      Some \<lparr>pr_device_type = [METADATA, DATA], pr_client_mount_point_field = None\<rparr>" by code_simp
  with probe_response_recorded [OF n, of sample_externals "''s1''" "''nMD''"] show ?thesis
    by (auto simp: sample_node_def apply_response_def mutable_prober_def)
qed

end
