(* ===== verification/Offer_Properties.thy ===== *)
theory Offer_Properties
  imports Invariants Sample
begin

text \<open>
  Properties of \<open>resourceOffers\<close>: every offer is answered once, what is launched fits the offer and
  is allowed to start there, shared services are started at most once, and what happens to hosts
  that are restricted or not known yet.
\<close>

section \<open>A batch of offers\<close>

text \<open>\<open>batch E offers w css w'\<close>: the outcomes of the offers one after the other; the \<open>i\<close>-th element of
  \<open>css\<close> holds the calls made for the \<open>i\<close>-th offer.\<close>

inductive batch ::
    "('r, 'z) externals \<Rightarrow> 'r Offer list \<Rightarrow> ('r, 'z) world \<Rightarrow> 'r driver_call list list \<Rightarrow> ('r, 'z) world \<Rightarrow> bool"
  for E where
  batch_nil: "batch E [] w [] w"
| batch_cons: "offer_outcome E offer w cs w1 \<Longrightarrow> acts E (\<lambda>s. False) w w1 \<Longrightarrow> batch E offers w1 css w' \<Longrightarrow>
    batch E (offer # offers) w (cs # css) w'"

lemma acts_map_ok: "acts E R w w' \<Longrightarrow> map_ok (nodes w) \<Longrightarrow> map_ok (nodes w')"
  by (induction rule: rtranclp_induct) (auto intro: act_map_ok)

lemma resourceOffers_batch:
  "resourceOffers F E offers w = Inr w' \<Longrightarrow> map_ok (nodes w) \<Longrightarrow>
   \<exists>css. calls w' = calls w @ concat css \<and> batch E offers w css w'"
proof (induction offers arbitrary: w)
  case Nil
  then have "batch E [] w [] w'" by (auto intro: batch_nil)
  with Nil show ?case by (intro exI [of _ "[]"]) simp
next
  case (Cons offer offers)
  then obtain w1 where 1: "handle_offer F E offer w = Inr w1"
    and 2: "resourceOffers F E offers w1 = Inr w'" by (auto simp: bind_fatal_Inr_iff)
  have a: "acts E (\<lambda>s. False) w w1" using 1 by (rule handle_offer_acts)
  obtain cs where cs: "calls w1 = calls w @ cs" "offer_outcome E offer w cs w1"
    using handle_offer_outcome [OF 1 Cons.prems(2)] by blast
  obtain css where css: "calls w' = calls w1 @ concat css" "batch E offers w1 css w'"
    using Cons.IH [OF 2 acts_map_ok [OF a Cons.prems(2)]] by blast
  have "batch E (offer # offers) w (cs # css) w'" using cs(2) a css(2) by (rule batch_cons)
  with cs(1) css(1) show ?case by (intro exI [of _ "cs # css"]) simp
qed

lemma outcome_answers: "offer_outcome E offer w cs w' \<Longrightarrow> answers cs = [offer_id offer]"
  by (induction rule: offer_outcome.induct) (simp_all add: quiet_def)

lemma batch_answers: "batch E offers w css w' \<Longrightarrow> answers (concat css) = map offer_id offers"
  by (induction rule: batch.induct) (simp_all add: outcome_answers)

text \<open>
  C1: every offer is answered exactly once and in order: among the calls of \<open>resourceOffers\<close> those
  that decline or use an offer are, in their order, one for each offer of the batch.
\<close>
theorem offers_answered_once:
  assumes "resourceOffers F E offers w = Inr w'" and "map_ok (nodes w)"
  shows "\<exists>cs. calls w' = calls w @ cs \<and> answers cs = map offer_id offers"
  using resourceOffers_batch [OF assms] batch_answers by blast

section \<open>Launched tasks fit the offer\<close>

definition task_amount :: "('r \<Rightarrow> 'k \<Rightarrow> nat) \<Rightarrow> 'k \<Rightarrow> 'r TaskInfo \<Rightarrow> nat" where
  "task_amount amount k t = (case ti_resources t of None \<Rightarrow> 0 | Some r \<Rightarrow> amount r k)"

definition fits :: "('r \<Rightarrow> 'k \<Rightarrow> nat) \<Rightarrow> 'r Offer \<Rightarrow> 'r driver_call list \<Rightarrow> bool" where
  "fits amount offer cs \<longleftrightarrow> answers cs = [offer_id offer] \<and>
     (\<forall>k. sum_list (map (task_amount amount k) (launches cs)) \<le> amount (offer_resources offer) k)"

lemma takes_fit:
  assumes "resources_ok E amount" and "takes E m a ks b"
    and "list_all2 (describes E m v offer) ks ts"
  shows "sum_list (map (task_amount amount k) ts) + amount b k \<le> amount a k"
  using assms(3,2)
proof (induction arbitrary: a rule: list_all2_induct)
  case (Cons j ks t ts)
  let ?n = "resource_at E m j"
  have c: "resources_contains E a ?n" and t: "takes E m (resources_minus E a ?n) ks b"
    using Cons.prems by simp_all
  have "task_amount amount k t \<le> amount ?n k"
    using Cons(1) by (auto simp: describes_def task_amount_def split: if_splits)
  then show ?case
    using Cons.IH [OF t] resources_okD [OF assms(1) c, of k] by simp
qed simp

lemma outcome_fits:
  assumes "resources_ok E amount" and "offer_outcome E offer w cs w'"
  shows "fits amount offer cs"
  using assms(2)
proof (cases rule: offer_outcome.cases)
  case (declined ds)
  then show ?thesis by (simp add: fits_def quiet_def)
next
  case (prober_launched task)
  then show ?thesis
    using resources_okD(1) [OF assms(1)] by (simp add: fits_def task_amount_def)
next
  case (services_launched tasks ks w1 rest)
  then obtain new where "takes E (resources w) (offer_resources offer) ks rest" "tasks = new"
    "list_all2 (describes E (resources w) (target_version (proxy_data (proxy w))) offer) ks new"
    by (auto simp: placed_def)
  then have "sum_list (map (task_amount amount k) tasks) + amount rest k \<le>
      amount (offer_resources offer) k" for k
    using takes_fit [OF assms(1)] by blast
  then show ?thesis
    using services_launched(1) by (auto simp: fits_def intro: add_leD1)
qed

lemma batch_fits:
  "batch E offers w css w' \<Longrightarrow> resources_ok E amount \<Longrightarrow> list_all2 (fits amount) offers css"
  by (induction rule: batch.induct) (simp_all add: outcome_fits)

text \<open>
  C2: the tasks launched on an offer together need at most what the offer has, in every kind of
  resource: the calls can be divided so that each offer gets one part, which answers this offer
  and whose tasks fit it.  Mesos provides that containment and subtraction work kind by kind.
\<close>
theorem launched_tasks_fit_offer:
  assumes "resources_ok E amount" and "resourceOffers F E offers w = Inr w'" and "map_ok (nodes w)"
  shows "\<exists>css. calls w' = calls w @ concat css \<and> list_all2 (fits amount) offers css"
  using resourceOffers_batch [OF assms(2,3)] batch_fits [OF _ assms(1)] by blast

section \<open>When a service is launched\<close>

definition is_prober :: "'r TaskInfo \<Rightarrow> bool" where
  "is_prober t \<longleftrightarrow> ti_name t = ''quobyte-device-prober''"

lemma outcome_frame:
  "offer_outcome E offer w cs w' \<Longrightarrow> proxy w' = proxy w \<and> resources w' = resources w"
  by (induction rule: offer_outcome.induct)
    (auto simp: same_services_def placed_def placement_frame_def)

lemma outcome_without_version:
  assumes "offer_outcome E offer w cs w'" and "target_version (proxy_data (proxy w)) = ''''"
  shows "\<forall>t \<in> set (launches cs). is_prober t"
  using assms by (cases rule: offer_outcome.cases) (auto simp: quiet_def is_prober_def)

lemma batch_without_version:
  "batch E offers w css w' \<Longrightarrow> target_version (proxy_data (proxy w)) = '''' \<Longrightarrow>
   \<forall>t \<in> set (launches (concat css)). is_prober t"
  by (induction rule: batch.induct) (auto dest: outcome_without_version outcome_frame)

text \<open>
  C14: while no version is to be deployed, no service is launched: every task that is launched is a
  device prober.
\<close>
theorem no_service_without_version:
  assumes "resourceOffers F E offers w = Inr w'" and "map_ok (nodes w)"
    and "target_version (proxy_data (proxy w)) = ''''"
  shows "\<exists>cs. calls w' = calls w @ cs \<and> (\<forall>t \<in> set (launches cs). is_prober t)"
  using resourceOffers_batch [OF assms(1,2)] batch_without_version [OF _ assms(3)] by blast

lemma placed_launch:
  assumes "placed E offer ks (w, a, []) (w', b, ts)" and "t \<in> set ts"
  shows "\<exists>k \<in> set ks. describes E (resources w) (target_version (proxy_data (proxy w))) offer k t \<and>
    may_start k (offer_hostname offer) w"
proof -
  have l: "list_all2 (describes E (resources w) (target_version (proxy_data (proxy w))) offer) ks ts"
    and m: "\<forall>k \<in> set ks. may_start k (offer_hostname offer) w"
    using assms(1) by (auto simp: placed_def)
  from l assms(2) obtain k where "k \<in> set ks"
    "describes E (resources w) (target_version (proxy_data (proxy w))) offer k t"
    by (metis in_set_conv_nth list_all2_conv_all_nth)
  with m show ?thesis by blast
qed

lemma subseq_set: "subseq xs ys \<Longrightarrow> set xs \<subseteq> set ys"
  by (induction rule: list_emb.induct) auto

text \<open>The device that a core service needs, and the condition for the others.\<close>

definition allowed_on :: "string \<Rightarrow> NodeState \<Rightarrow> bool" where
  "allowed_on k n \<longleftrightarrow> ns_device_types_valid n \<and>
     (if k = REGISTRY_TASK then REGISTRY \<in> set (ns_device_type n)
      else if k = METADATA_TASK then METADATA \<in> set (ns_device_type n)
      else if k = DATA_TASK then DATA \<in> set (ns_device_type n)
      else core_services_running n = length (ns_device_type n) \<and>
        (k = CLIENT_TASK \<longrightarrow> ns_client_mount_point n))"

lemma placeable_allowed:
  assumes "k \<in> set (placeable (ns_device_type (node_at w h)))" and "may_start k h w"
  shows "allowed_on k (node_at w h)" and "key_state k h w = NOT_RUNNING"
proof -
  show "key_state k h w = NOT_RUNNING"
    using assms(2) by (auto simp: may_start_def intro: DoStartService_NOT_RUNNING)
  consider (core) d where "d \<in> set (ns_device_type (node_at w h))" "k \<in> set (device_keys d)"
    | (other) "k \<in> {API_TASK, S3_TASK, WEBCONSOLE_TASK, CLIENT_TASK}"
    using assms(1) by (auto simp: placeable_def)
  then show "allowed_on k (node_at w h)"
  proof cases
    case core
    with assms(2) show ?thesis
      by (cases d) (auto simp: allowed_on_def may_start_def DoStartService_def task_defs split: if_splits)
  next
    case other
    with assms(2) show ?thesis
      by (auto simp: allowed_on_def may_start_def DoStartService_def task_defs split: if_splits)
  qed
qed


section \<open>Shared services\<close>

definition shared_keys :: "string list" where
  "shared_keys = [API_TASK, S3_TASK, WEBCONSOLE_TASK]"

definition launch_count :: "string \<Rightarrow> 'r driver_call list \<Rightarrow> nat" where
  "launch_count k cs = length (filter (\<lambda>t. ti_name t = ''quobyte-'' @ k) (launches cs))"

lemma launch_count_append [simp]: "launch_count k (cs @ ds) = launch_count k cs + launch_count k ds"
  by (simp add: launch_count_def)

lemma launch_count_Nil [simp]: "launch_count k [] = 0"
  by (simp add: launch_count_def)

lemma key_state_shared: "k \<in> set shared_keys \<Longrightarrow> key_state k h w = key_state k j w"
  by (auto simp: shared_keys_def key_state_def service_of_def task_defs)

lemma placeable_once: "k \<in> set shared_keys \<Longrightarrow> length (filter (\<lambda>x. x = k) (placeable ds)) = 1"
proof -
  assume k: "k \<in> set shared_keys"
  have "filter (\<lambda>x. x = k) (device_keys d) = []" for d
    using k by (cases d) (auto simp: shared_keys_def task_defs)
  then have "filter (\<lambda>x. x = k) (concat (map device_keys ds)) = []"
    by (induction ds) auto
  with k show ?thesis by (auto simp: placeable_def shared_keys_def task_defs)
qed

lemma filter_names:
  "list_all2 (describes E m v offer) ks ts \<Longrightarrow>
   length (filter (\<lambda>t. ti_name t = ''quobyte-'' @ k) ts) = length (filter (\<lambda>x. x = k) ks)"
  by (induction rule: list_all2_induct) (auto simp: describes_def)

lemma outcome_shared:
  assumes "offer_outcome E offer w cs w'" and k: "k \<in> set shared_keys"
  shows "(launch_count k cs = 0 \<and> key_state k h w' = key_state k h w) \<or>
    (launch_count k cs = 1 \<and> key_state k h w = NOT_RUNNING \<and> key_state k h w' = RUNNING)"
proof -
  let ?h = "offer_hostname offer"
  have k': "k \<noteq> ''device-prober''" "k \<notin> set core_keys"
    using k by (auto simp: shared_keys_def core_keys_def task_defs)
  have "(launch_count k cs = 0 \<and> key_state k ?h w' = key_state k ?h w) \<or>
    (launch_count k cs = 1 \<and> key_state k ?h w = NOT_RUNNING \<and> key_state k ?h w' = RUNNING)"
    using assms(1)
  proof (cases rule: offer_outcome.cases)
    case (declined ds)
    then show ?thesis using k' by (simp add: launch_count_def quiet_def same_services_def)
  next
    case (prober_launched task)
    then show ?thesis using k' by (simp add: launch_count_def same_services_def)
  next
    case (services_launched tasks ks w1 rest)
    have l: "list_all2 (describes E (resources w) (target_version (proxy_data (proxy w))) offer) ks tasks"
      and st: "key_state k ?h w1 = (if k \<in> set ks \<and> k \<notin> set core_keys then RUNNING else key_state k ?h w)"
      and may: "\<forall>k \<in> set ks. may_start k ?h w"
      using services_launched(4) by (auto simp: placed_def)
    have "launch_count k cs = length (filter (\<lambda>x. x = k) ks)"
      using filter_names [OF l] services_launched(1) by (simp add: launch_count_def)
    moreover have "length (filter (\<lambda>x. x = k) ks) \<le> 1"
      using subseq_filter [OF services_launched(5), of "\<lambda>x. x = k"] placeable_once [OF k]
      by (metis list_emb_length)
    moreover have "k \<in> set ks \<longleftrightarrow> filter (\<lambda>x. x = k) ks \<noteq> []" by (auto simp: filter_empty_conv)
    ultimately show ?thesis
      using st may k'(2) services_launched(6) DoStartService_NOT_RUNNING
      by (cases "k \<in> set ks") (auto simp: may_start_def le_Suc_eq)
  qed
  then show ?thesis using key_state_shared [OF k, of ?h] by metis
qed

lemma batch_shared:
  assumes "batch E offers w css w'" and k: "k \<in> set shared_keys"
  shows "launch_count k (concat css) \<le> (if key_state k h w = NOT_RUNNING then 1 else 0)"
  using assms(1)
proof (induction rule: batch.induct)
  case (batch_cons offer w cs w1 offers css w')
  show ?case
    using outcome_shared [OF batch_cons.hyps(1) k, of h] batch_cons.IH by (auto split: if_splits)
qed simp

text \<open>
  C9: of a service that all hosts share at most one task is launched in a batch of offers, and none
  unless the service is known not to run: the state is set when the task is launched, so that the
  next offer of the batch does not start a second one.
\<close>
theorem shared_service_launched_once:
  assumes "resourceOffers F E offers w = Inr w'" and "map_ok (nodes w)"
  shows "\<exists>cs. calls w' = calls w @ cs \<and> (\<forall>k \<in> set shared_keys.
    launch_count k cs \<le> (if key_state k h w = NOT_RUNNING then 1 else 0))"
  using resourceOffers_batch [OF assms] batch_shared by blast

section \<open>Task ids of a launch\<close>

lemma describes_ids:
  "list_all2 (describes E m v offer) ks ts \<Longrightarrow>
   map ti_task_id ts = map (\<lambda>k. ''quobyte-'' @ k @ ''-'' @ offer_hostname offer) ks"
  by (induction rule: list_all2_induct) (auto simp: describes_def)

lemma device_keys_inj: "k \<in> set (device_keys d) \<Longrightarrow> k \<in> set (device_keys d') \<Longrightarrow> d = d'"
  by (cases d; cases d') (simp_all add: task_defs)

lemma placeable_distinct: "distinct ds \<Longrightarrow> distinct (placeable ds)"
proof -
  assume "distinct ds"
  then have "distinct (concat (map device_keys ds)) \<and>
    set (concat (map device_keys ds)) \<subseteq> set core_keys"
  proof (induction ds)
    case (Cons d ds)
    have "set (device_keys d) \<inter> set (concat (map device_keys ds)) = {}"
      using Cons.prems device_keys_inj [of _ d] by fastforce
    with Cons show ?case by (cases d) (auto simp: core_keys_def)
  qed simp
  then show ?thesis
    by (auto simp: placeable_def core_keys_def task_defs)
qed

lemma subseq_distinct: "subseq xs ys \<Longrightarrow> distinct ys \<Longrightarrow> distinct xs"
  by (induction rule: list_emb.induct) (auto dest: subseq_set)

text \<open>
  The tasks launched on one offer have different ids, when the prober reported each device of
  the host once.
\<close>
lemma launched_ids_distinct:
  assumes "handle_offer F E offer w = Inr w'" and "map_ok (nodes w)"
    and "distinct (ns_device_type (node_at w (offer_hostname offer)))"
  shows "\<exists>cs. calls w' = calls w @ cs \<and> distinct (map ti_task_id (launches cs))"
proof -
  obtain cs where cs: "calls w' = calls w @ cs" and out: "offer_outcome E offer w cs w'"
    using handle_offer_outcome [OF assms(1,2)] by blast
  from out have "distinct (map ti_task_id (launches cs))"
  proof (cases rule: offer_outcome.cases)
    case (services_launched tasks ks w1 rest)
    have l: "list_all2 (describes E (resources w) (target_version (proxy_data (proxy w))) offer) ks tasks"
      using services_launched(4) by (simp add: placed_def)
    have "distinct ks"
      using services_launched(5) placeable_distinct [OF assms(3)] by (rule subseq_distinct)
    then show ?thesis
      using services_launched(1) describes_ids [OF l] by (simp add: distinct_map inj_on_def)
  qed (simp_all add: quiet_def)
  with cs show ?thesis by blast
qed

section \<open>The prober\<close>

definition prober_id :: "string \<Rightarrow> string" where
  "prober_id h = ''quobyte-device-prober-'' @ h"

definition prober_count :: "string \<Rightarrow> 'r driver_call list \<Rightarrow> nat" where
  "prober_count h cs = length (filter (\<lambda>t. is_prober t \<and> ti_task_id t = prober_id h) (launches cs))"

lemma prober_count_append [simp]: "prober_count h (cs @ ds) = prober_count h cs + prober_count h ds"
  by (simp add: prober_count_def)

lemma prober_count_Nil [simp]: "prober_count h [] = 0"
  by (simp add: prober_count_def)

lemma placeable_no_prober: "k \<in> set (placeable ds) \<Longrightarrow> k \<noteq> ''device-prober''"
proof -
  assume "k \<in> set (placeable ds)"
  moreover have "''device-prober'' \<notin> set (device_keys d)" for d by (cases d) (simp_all add: task_defs)
  ultimately show ?thesis by (auto simp: placeable_def task_defs)
qed

lemma services_no_prober:
  assumes "list_all2 (describes E m v offer) ks ts" and "\<forall>k \<in> set ks. k \<noteq> ''device-prober''"
  shows "filter (\<lambda>t. is_prober t \<and> P t) ts = []"
  using assms by (induction rule: list_all2_induct) (auto simp: describes_def is_prober_def)

abbreviation prober_state where
  "prober_state h w \<equiv> ss_state (read_service Prober_Ref h w)"

lemma outcome_prober:
  assumes "offer_outcome E offer w cs w'"
  shows "prober_count h cs = 0 \<or>
    (prober_count h cs = 1 \<and> prober_state h w \<notin> {RUNNING, STARTING} \<and> prober_state h w' = STARTING)"
  using assms
proof (cases rule: offer_outcome.cases)
  case (declined ds)
  then show ?thesis by (simp add: prober_count_def quiet_def)
next
  case (prober_launched task)
  then show ?thesis by (auto simp: prober_count_def prober_id_def)
next
  case (services_launched tasks ks w1 rest)
  have "list_all2 (describes E (resources w) (target_version (proxy_data (proxy w))) offer) ks tasks"
    using services_launched(4) by (simp add: placed_def)
  moreover have "\<forall>k \<in> set ks. k \<noteq> ''device-prober''"
    using subseq_set [OF services_launched(5)] placeable_no_prober by blast
  ultimately show ?thesis
    using services_launched(1) by (simp add: prober_count_def services_no_prober)
qed

lemma acts_prober_stays:
  assumes "acts E (\<lambda>s. False) w w'" and "map_ok (nodes w)" and "prober_state h w \<in> {RUNNING, STARTING}"
  shows "prober_state h w' = prober_state h w"
proof -
  have m: "slot_moves (\<lambda>s. False) Prober_Ref h (slot Prober_Ref h w) (slot Prober_Ref h w')"
    using assms(1,2) by (rule acts_slot_moves)
  have "fst p \<in> {RUNNING, STARTING} \<Longrightarrow> slot_moves (\<lambda>s. False) Prober_Ref h p q \<Longrightarrow> q = p" for p q
    by (rotate_tac, induction rule: rtranclp_induct) (auto elim: slot_moveE)
  from this [OF _ m] assms(3) show ?thesis by (simp add: slot_def)
qed

lemma batch_prober:
  assumes "batch E offers w css w'" and "map_ok (nodes w)"
  shows "prober_count h (concat css) \<le> (if prober_state h w \<in> {RUNNING, STARTING} then 0 else 1)"
  using assms
proof (induction rule: batch.induct)
  case (batch_cons offer w cs w1 offers css w')
  have "map_ok (nodes w1)" using acts_map_ok [OF batch_cons.hyps(2) batch_cons.prems] .
  note IH = batch_cons.IH [OF this]
  show ?case
    using outcome_prober [OF batch_cons.hyps(1), of h] IH
      acts_prober_stays [OF batch_cons.hyps(2) batch_cons.prems, of h]
    by (auto split: if_splits)
qed simp

text \<open>
  C24: in a batch of offers at most one prober is launched per host, and none while the prober of the
  host is starting or running.
\<close>
theorem prober_launched_once:
  assumes "resourceOffers F E offers w = Inr w'" and "map_ok (nodes w)"
  shows "\<exists>cs. calls w' = calls w @ cs \<and> (\<forall>h. prober_count h cs \<le>
    (if ss_state (ns_prober (node_at w h)) \<in> {RUNNING, STARTING} then 0 else 1))"
  using resourceOffers_batch [OF assms] batch_prober [OF _ assms(2)] by fastforce

section \<open>Restricted and unknown hosts\<close>

text \<open>
  With \<open>--restrict_hosts\<close> a host is served exactly when its name occurs anywhere in the text of
  the flag, also as a part of a longer name; the offer of any other host is declined and nothing
  else happens.
\<close>
lemma restricted_hosts:
  "(if FLAGS_restrict_hosts F = '''' \<or> sublist (offer_hostname offer) (FLAGS_restrict_hosts F)
    then \<not> host_restricted F (offer_hostname offer)
    else handle_offer F E offer w = Inr (w\<lparr>calls := calls w @ [DeclineOffer (offer_id offer)]\<rparr>))"
  using find_str_Some_iff_sublist [of "offer_hostname offer" "FLAGS_restrict_hosts F"]
  by (auto simp: host_restricted_def handle_offer_def emit_def)

text \<open>
  The first offer of a host adds its entry, asks Mesos for the state of seven tasks, all but
  that of the client, and declines the offer; no other entry changes.
\<close>
lemma new_host_reconciled:
  assumes "\<not> host_restricted F (offer_hostname offer)"
    and "map_find (nodes w) (offer_hostname offer) = None" and "map_ok (nodes w)"
  shows "\<exists>w' ss. handle_offer F E offer w = Inr w' \<and>
    calls w' = calls w @ [ReconcileTasks ss, DeclineOffer (offer_id offer)] \<and>
    map st_task_id ss = map (\<lambda>s. s @ ''-'' @ offer_hostname offer) [''quobyte-device-prober'',
      ''quobyte-registry'', ''quobyte-metadata'', ''quobyte-data'', ''quobyte-webconsole'',
      ''quobyte-api'', ''quobyte-s3''] \<and>
    map st_state ss = replicate 7 TASK_LOST \<and>
    (\<exists>n. map_find (nodes w') (offer_hostname offer) = Some n \<and>
       ns_hostname n = offer_hostname offer \<and> ns_slave_id_value n = offer_slave_id offer \<and>
       \<not> ns_device_types_valid n) \<and>
    (\<forall>h. h \<noteq> offer_hostname offer \<longrightarrow> map_find (nodes w') h = map_find (nodes w) h)"
proof -
  let ?h = "offer_hostname offer"
  let ?w = "createHost ?h (offer_slave_id offer) w"
  define ss where "ss = map (\<lambda>s. plain_status (s @ ''-'' @ ?h) TASK_LOST) [''quobyte-device-prober'',
    ''quobyte-registry'', ''quobyte-metadata'', ''quobyte-data'', ''quobyte-webconsole'',
    ''quobyte-api'', ''quobyte-s3'']"
  have r: "reconcileHost offer w = emit (ReconcileTasks ss) ?w"
    by (simp add: reconcileHost_def ss_def)
  have "handle_offer F E offer w = Inr (emit (DeclineOffer (offer_id offer)) (emit (ReconcileTasks ss) ?w))"
    using assms(1,2) by (simp add: handle_offer_def r)
  moreover have "map st_task_id ss = map (\<lambda>s. s @ ''-'' @ ?h) [''quobyte-device-prober'',
    ''quobyte-registry'', ''quobyte-metadata'', ''quobyte-data'', ''quobyte-webconsole'',
    ''quobyte-api'', ''quobyte-s3'']" "map st_state ss = replicate 7 TASK_LOST"
    by (simp_all add: ss_def plain_status_def numeral_eq_Suc)
  moreover have "map_find (nodes ?w) j = (if j = ?h then Some (new_NodeState
      \<lparr>ns_hostname_field := Some ?h, ns_slave_id_value_field := Some (offer_slave_id offer)\<rparr>)
      else map_find (nodes w) j)" for j
    using assms(2,3) by (simp add: createHost_def map_find_insert)
  ultimately show ?thesis by (intro exI conjI) (auto simp: new_NodeState_def)
qed

section \<open>Configuration\<close>

text \<open>What the flags must provide so that no task description fails.\<close>

definition config_ok :: "flags \<Rightarrow> bool" where
  "config_ok F \<longleftrightarrow> FLAGS_registry_dns_name F \<noteq> '''' \<and> FLAGS_framework_image F \<noteq> '''' \<and>
     list_all (\<lambda>k. succeeds (memMbFromResourceString (service_resources F k)))
       [REGISTRY_TASK, METADATA_TASK, DATA_TASK, API_TASK, S3_TASK, WEBCONSOLE_TASK]"

lemma config_ok_memory:
  assumes "config_ok F"
  shows "succeeds (memMbFromResourceString (service_resources F k))"
proof (cases "k \<in> {REGISTRY_TASK, METADATA_TASK, DATA_TASK, API_TASK, S3_TASK, WEBCONSOLE_TASK}")
  case True
  with assms show ?thesis by (auto simp: config_ok_def)
next
  case False
  then have "service_resources F k = ''''" by (simp add: service_resources_def task_defs)
  then show ?thesis by (simp add: memMb_empty)
qed

lemma service_task_total:
  assumes "config_ok F"
  shows "succeeds (service_task F E offer w k name k1 k2)"
proof -
  have "\<And>e. memory_exports F k \<noteq> Inl e"
    using config_ok_memory [OF assms, of k] by (auto simp: memory_exports_Inl)
  then obtain c where "memory_exports F k = Inr c" by (cases "memory_exports F k") auto
  then show ?thesis using assms
    by (simp add: service_task_def makeTask_def constructDockerExecuteCommand_def config_ok_def)
qed

lemma start_shared_total: "config_ok F \<Longrightarrow> succeeds (start_shared F E offer r k name k1 k2 pl)"
  by (cases pl) (auto simp: start_shared_def Let_def intro: service_task_total)

lemma start_core_total: "config_ok F \<Longrightarrow> succeeds (start_core F E offer r k name k1 k2 m pl)"
  by (cases pl) (auto simp: start_core_def Let_def intro: service_task_total)

lemma start_client_total: "succeeds (start_client F E offer pl)"
  by (cases pl) (simp add: start_client_def Let_def)

lemma start_devices_total: "config_ok F \<Longrightarrow> succeeds (start_devices F E offer ds pl)"
proof (induction ds arbitrary: pl)
  case (Cons d ds)
  have "succeeds (start_device F E offer d pl)"
    by (cases d) (simp_all add: start_core_total [OF Cons.prems])
  with Cons show ?case by auto
qed simp

lemma start_services_total: "config_ok F \<Longrightarrow> succeeds (start_services F E offer pl)"
  by (auto simp: start_services_def start_api_def start_s3_def start_webconsole_def
      intro!: succeeds_bind start_shared_total start_client_total start_devices_total)

lemma place_services_total: "config_ok F \<Longrightarrow> succeeds (place_services F E offer w)"
  by (auto simp: place_services_def intro!: succeeds_bind start_services_total)

lemma start_prober_total: "config_ok F \<Longrightarrow> succeeds (start_prober F E offer w)"
  by (simp add: start_prober_def Let_def config_ok_def createProberTaskInfo_def split: prod.split)

lemma probe_or_place_total: "config_ok F \<Longrightarrow> succeeds (probe_or_place F E offer w)"
  using place_services_total [of F E offer] by (simp add: probe_or_place_def Let_def split: prod.split)

lemma offer_known_host_total: "config_ok F \<Longrightarrow> succeeds (offer_known_host F E offer w)"
  using start_prober_total [of F E offer] probe_or_place_total [of F E offer]
  by (simp add: offer_known_host_def Let_def split: prod.split)

lemma handle_offer_total: "config_ok F \<Longrightarrow> succeeds (handle_offer F E offer w)"
  by (simp add: handle_offer_def offer_known_host_total)

lemma resourceOffers_total: "config_ok F \<Longrightarrow> succeeds (resourceOffers F E offers w)"
  by (induction offers arbitrary: w) (auto intro!: succeeds_bind handle_offer_total)

text \<open>
  C28: offers never end the scheduler when the registry's DNS name and the framework image are set
  and the memory entries of the resource flags fit an int, in whatever state it is.
\<close>
theorem offers_never_fatal:
  assumes "config_ok F"
  shows "succeeds (resourceOffers F E offers w)"
  using assms by (rule resourceOffers_total)

lemma default_config_ok: "config_ok default_flags"
  by code_simp

section \<open>Liveness of core services\<close>

text \<open>The service, name and ports behind a device type.\<close>

fun core_service :: "DeviceType \<Rightarrow> (service_ref \<times> string \<times> int) option" where
  "core_service REGISTRY = Some (Registry_Ref, REGISTRY_TASK, 0)"
| "core_service METADATA = Some (Metadata_Ref, METADATA_TASK, 2)"
| "core_service DATA = Some (Data_Ref, DATA_TASK, 4)"
| "core_service _ = None"

lemma start_device_core:
  assumes "core_service d = Some (r, k, j)"
  shows "\<exists>m. start_device F E offer d pl = start_core F E offer r k (''quobyte-'' @ k) j (j + 1) m pl"
  using assms by (cases d) (auto simp: task_defs)

text \<open>The state in which \<open>start_prober\<close> or the services are reached: two clock readings, one stamp.\<close>

definition offered :: "string \<Rightarrow> ('r, 'z) world \<Rightarrow> ('r, 'z) world" where
  "offered h w = (update_node h (\<lambda>n. n\<lparr>ns_last_offer_s_field := Some (clock w (reads w))\<rparr>) w)
     \<lparr>reads := Suc (Suc (reads w))\<rparr>"

lemma offered_node:
  "map_find (nodes w) h = Some n \<Longrightarrow> node_at (offered h w) h =
     n\<lparr>ns_last_offer_s_field := Some (clock w (reads w))\<rparr>"
  by (simp add: offered_def node_at_def update_node_def map_find_modify)

lemma offered_frame [simp]:
  "calls (offered h w) = calls w" "clock (offered h w) = clock w" "resources (offered h w) = resources w"
  "reads (offered h w) = Suc (Suc (reads w))" "proxy (offered h w) = proxy w"
  "map_keys (nodes (offered h w)) = map_keys (nodes w)"
  by (simp_all add: offered_def update_node_def)

lemma known_host_offer:
  assumes "map_find (nodes w) (offer_hostname offer) = Some n" and "\<not> host_restricted F (offer_hostname offer)"
  shows "handle_offer F E offer w =
    (if clock w (Suc (reads w)) - ss_last_seen_s (ns_prober n) > FLAGS_probe_executor_keepalive_interval_s F
       \<and> ss_state (ns_prober n) \<notin> {RUNNING, STARTING}
       \<and> resources_contains E (offer_resources offer) (resource_at E (resources w) PROBER_TASK)
     then start_prober F E offer (offered (offer_hostname offer) w)
     else probe_or_place F E offer (offered (offer_hostname offer) w))"
proof -
  define w1 where "w1 = update_node (offer_hostname offer)
    (\<lambda>n. n\<lparr>ns_last_offer_s_field := Some (clock w (reads w))\<rparr>) (w\<lparr>reads := Suc (reads w)\<rparr>)"
  have "w1\<lparr>reads := Suc (reads w1)\<rparr> = offered (offer_hostname offer) w"
    by (simp add: w1_def offered_def update_node_def)
  moreover have "node_at w1 (offer_hostname offer) = n\<lparr>ns_last_offer_s_field := Some (clock w (reads w))\<rparr>"
    using assms(1) by (simp add: w1_def node_at_update_node) (simp add: node_at_def)
  moreover have "clock w1 = clock w" "reads w1 = Suc (reads w)" "resources w1 = resources w"
    by (simp_all add: w1_def update_node_def)
  ultimately show ?thesis using assms
    by (simp add: handle_offer_def offer_known_host_def Let_def now_def w1_def [symmetric])
qed

text \<open>The devices are taken one after the other.\<close>

lemma start_devices_append:
  "start_devices F E offer (ds @ es) pl =
     bind_fatal (start_devices F E offer ds pl) (start_devices F E offer es)"
proof (induction ds arbitrary: pl)
  case (Cons d ds)
  then have "start_devices F E offer (ds @ es) =
      (\<lambda>pl. bind_fatal (start_devices F E offer ds pl) (start_devices F E offer es))" by (intro ext)
  then show ?case by (simp add: bind_fatal_assoc)
qed simp

lemma core_service_key:
  assumes "core_service d = Some (r, k, j)"
  shows "service_of (''quobyte-'' @ k) = Some r" and "k \<in> set core_keys" and "k \<noteq> CLIENT_TASK"
    and "\<not> is_shared r"
  using assms by (cases d; auto simp: core_keys_def task_defs service_of_def)+

lemma start_core_decides:
  assumes "start_core F E offer r k name k1 k2 m (w, a, ts) = Inr (w', b, ts')"
    and "DoStartService k (node_at w (offer_hostname offer)) (ss_state (read_service r (offer_hostname offer) w))"
  shows "\<not> resources_contains E a (resource_at E (resources w) k) \<or>
    (\<exists>t. ts' = ts @ [t] \<and> ti_task_id t = name @ ''-'' @ offer_hostname offer)"
proof (cases "resources_contains E a (resource_at E (resources w) k)")
  case True
  then obtain t where t: "service_task F E offer w k name k1 k2 = Inr t" "ts' = ts @ [t]"
    using assms by (auto simp: start_core_def Let_def bind_fatal_Inr_iff)
  then show ?thesis using makeTask_Inr [OF t(1) [unfolded service_task_def]] by simp
qed simp

text \<open>
  Service \<open>k\<close> is started, or the tasks \<open>ts\<close> that are started before it, those of the services \<open>ks\<close>,
  leave too little of the offer.
\<close>

definition started_or_short where
  "started_or_short E m a k h ts \<longleftrightarrow>
     (\<exists>t \<in> set ts. ti_task_id t = ''quobyte-'' @ k @ ''-'' @ h) \<or>
     (\<exists>before ks rest. prefix before ts \<and> map ti_name before = map (\<lambda>k. ''quobyte-'' @ k) ks \<and>
        takes E m a ks rest \<and> \<not> resources_contains E rest (resource_at E m k))"

lemma started_or_short_append:
  "started_or_short E m a k h ts \<Longrightarrow> started_or_short E m a k h (ts @ us)"
  unfolding started_or_short_def by (auto intro: prefix_prefix)

lemma describes_names:
  "list_all2 (describes E m version offer) ks ts \<Longrightarrow> map ti_name ts = map (\<lambda>k. ''quobyte-'' @ k) ks"
  by (induction rule: list_all2_induct) (simp_all add: describes_def)

lemma start_devices_decides:
  assumes "start_devices F E offer ds pl = Inr pl'" and "d \<in> set ds" and "core_service d = Some (r, k, j)"
    and start: "placed E offer ks (w, a, []) pl" and "may_start k (offer_hostname offer) w"
  shows "started_or_short E (resources w) a k (offer_hostname offer) (snd (snd pl'))"
proof -
  let ?h = "offer_hostname offer"
  obtain pre post where ds: "ds = pre @ d # post" using assms(2) by (meson split_list)
  obtain p1 p2 where 1: "start_devices F E offer pre pl = Inr p1"
    and 2: "start_device F E offer d p1 = Inr p2" and 3: "start_devices F E offer post p2 = Inr pl'"
    using assms(1) by (auto simp: ds start_devices_append bind_fatal_Inr_iff)
  obtain ks1 where "placed E offer ks1 pl p1" using start_devices_placed [OF 1] by blast
  with start have placed: "placed E offer (ks @ ks1) (w, a, []) p1" by (rule placed_trans)
  obtain w1 a1 ts1 w2 a2 ts2 where p: "p1 = (w1, a1, ts1)" "p2 = (w2, a2, ts2)" by (metis prod_cases3)
  note pl = placed [unfolded p placed_def prod.case]
  note key = core_service_key [OF assms(3)]
  have same: "core_view (node_at w1 ?h) = core_view (node_at w ?h)" "resources w1 = resources w"
    using pl by (simp_all add: placement_frame_def)
  have "key_state k ?h w1 = key_state k ?h w" using pl key(2) by simp
  then have "ss_state (read_service r ?h w1) = key_state k ?h w" using key(1) by (simp add: key_state_def)
  then have do_start: "DoStartService k (node_at w1 ?h) (ss_state (read_service r ?h w1))"
    using assms(5) DoStartService_core_view [OF same(1)] by (simp add: may_start_def)
  obtain m where "start_core F E offer r k (''quobyte-'' @ k) j (j + 1) m (w1, a1, ts1) = Inr (w2, a2, ts2)"
    using 2 start_device_core [OF assms(3)] p by metis
  from start_core_decides [OF this do_start]
  consider "\<not> resources_contains E a1 (resource_at E (resources w) k)"
    | t where "ts2 = ts1 @ [t]" "ti_task_id t = ''quobyte-'' @ k @ ''-'' @ ?h"
    using same(2) by auto
  then have "started_or_short E (resources w) a k ?h ts2"
  proof cases
    case 1
    have "map ti_name ts1 = map (\<lambda>k. ''quobyte-'' @ k) (ks @ ks1)" "takes E (resources w) a (ks @ ks1) a1"
      using pl describes_names by fastforce+
    moreover have "prefix ts1 ts2"
      using 2 start_device_placed [OF 2] p by (auto simp: placed_def)
    ultimately show ?thesis using 1 unfolding started_or_short_def by blast
  next
    case 2
    then show ?thesis by (simp add: started_or_short_def)
  qed
  moreover obtain w' b ts where p': "pl' = (w', b, ts)" by (metis prod_cases3)
  obtain new where "snd (snd pl') = ts2 @ new"
    using start_devices_placed [OF 3] p by (auto simp: placed_def p')
  ultimately show ?thesis by (metis started_or_short_append)
qed

lemma start_services_decides:
  assumes "start_services F E offer (w, a, []) = Inr (w', b, ts)" and "map_find (nodes w) h = Some n"
    and "offer_hostname offer = h" and "d \<in> set (ns_device_type n)" and "core_service d = Some (r, k, j)"
    and "ns_device_types_valid n" and "ss_state (node_service r n) = NOT_RUNNING"
  shows "started_or_short E (resources w) a k h ts"
proof -
  note key = core_service_key [OF assms(5)]
  have n: "node_at w h = n" using assms(2) by (simp add: node_at_def)
  have "ss_state (read_service r h w) = NOT_RUNNING" using key(4) assms(7) n by (simp add: read_service_node)
  then have "may_start k h w"
    using key assms(6) n by (auto simp: may_start_def DoStartService_def key_state_def core_keys_def)
  moreover obtain ks p4 where "placed E offer ks (w, a, []) p4"
      "start_devices F E offer (ns_device_type (node_at w h)) p4 = Inr (w', b, ts)"
    using start_services_split [OF assms(1)] assms(2,3) by auto
  ultimately show ?thesis
    using start_devices_decides [of F E offer "ns_device_type n" p4 "(w', b, ts)" d r k j ks w a] assms(3-5) n
    by simp
qed

lemma core_served:
  assumes "\<not> host_restricted F h" and "offer_hostname offer = h" and "map_find (nodes w) h = Some n"
    and "ss_state (ns_prober n) = RUNNING"
    and "clock w (Suc (Suc (reads w))) - ns_last_probe_s n \<le> FLAGS_probe_interval_s F"
    and "target_version (proxy_data (proxy w)) \<noteq> ''''"
    and "ns_device_types_valid n" and "d \<in> set (ns_device_type n)"
    and "core_service d = Some (r, k, j)" and "ss_state (node_service r n) = NOT_RUNNING"
    and "config_ok F"
  shows "\<exists>w' cs. handle_offer F E offer w = Inr w' \<and> calls w' = calls w @ cs \<and>
    started_or_short E (resources w) (offer_resources offer) k h (launches cs)"
proof -
  define u where "u = (offered h w)\<lparr>reads := Suc (Suc (Suc (reads w)))\<rparr>"
  have n: "node_at (offered h w) h = n\<lparr>ns_last_offer_s_field := Some (clock w (reads w))\<rparr>"
    using assms(3) by (rule offered_node)
  have "handle_offer F E offer w = place_services F E offer u"
    using known_host_offer [of w offer n F E] assms(1-5) n by (simp add: probe_or_place_def Let_def now_def u_def)
  moreover obtain p where p: "start_services F E offer (u, offer_resources offer, []) = Inr p"
    using start_services_total [OF assms(11), of E offer "(u, offer_resources offer, [])"] by (auto simp: succeeds_iff)
  obtain w' b ts where p': "p = (w', b, ts)" by (metis prod_cases3)
  have u: "map_find (nodes u) h = Some (n\<lparr>ns_last_offer_s_field := Some (clock w (reads w))\<rparr>)"
    "resources u = resources w" "proxy u = proxy w" "calls u = calls w"
    using assms(3) by (simp_all add: u_def offered_def update_node_def map_find_modify)
  have served: "started_or_short E (resources w) (offer_resources offer) k h ts"
    using start_services_decides [OF p [unfolded p'] u(1) assms(2)] assms(7-10) u(2)
    by (cases d; auto)
  have "calls w' = calls w"
    using start_services_placed [OF p] p' u(1,4) assms(2) by (auto simp: placed_def placement_frame_def)
  then show ?thesis
    using served p p' assms(6) u(3) \<open>handle_offer F E offer w = place_services F E offer u\<close>
    by (cases "ts = []") (auto simp: place_services_def)
qed

text \<open>
  C12: a core service that is known not to run is started: when an offer arrives for a host whose
  prober runs and was asked within the probe interval, while a version is to be deployed, then the
  task of each core service whose device is known is launched on the offer, unless the tasks that
  are launched before it leave too little of the offer for it.
\<close>
theorem core_service_is_started:
  assumes "\<not> host_restricted F h" and "offer_hostname offer = h" and "map_find (nodes w) h = Some n"
    and "ss_state (ns_prober n) = RUNNING"
    and "clock w (Suc (Suc (reads w))) - ns_last_probe_s n \<le> FLAGS_probe_interval_s F"
    and "target_version (proxy_data (proxy w)) \<noteq> ''''"
    and "ns_device_types_valid n" and "d \<in> set (ns_device_type n)"
    and "core_service d = Some (r, k, j)" and "ss_state (node_service r n) = NOT_RUNNING"
    and "config_ok F"
  shows "\<exists>w' cs. handle_offer F E offer w = Inr w' \<and> calls w' = calls w @ cs \<and>
    started_or_short E (resources w) (offer_resources offer) k h (launches cs)"
  using assms by (rule core_served)

section \<open>The properties at work\<close>

lemma sample_stopped_map_ok: "map_ok (nodes sample_stopped)"
  by (simp add: sample_stopped_def sample_world_map_ok)

lemma sample_no_calls: "calls sample_world = []" "calls sample_stopped = []"
  by code_simp+

definition sample_batch :: "nat Offer list" where
  "sample_batch = [sample_offer ''o1'' ''a'' 10, sample_offer ''o2'' ''b'' 1, sample_offer ''o3'' ''c'' 5]"

lemma sample_batch_result:
  "\<exists>w'. resourceOffers default_flags sample_externals sample_batch w = Inr w'"
  using resourceOffers_total [OF default_config_ok] by (simp add: succeeds_iff)

lemma sample_offer_result:
  "\<exists>w'. handle_offer default_flags sample_externals (sample_offer ''o1'' ''a'' 10) w = Inr w'"
  using handle_offer_total [OF default_config_ok] by (simp add: succeeds_iff)

theorem offers_answered_once_witness:
  "\<exists>w'. resourceOffers default_flags sample_externals sample_batch sample_world = Inr w' \<and>
     answers (calls w') = [''o1'', ''o2'', ''o3'']"
proof -
  obtain w' where w': "resourceOffers default_flags sample_externals sample_batch sample_world = Inr w'"
    using sample_batch_result by blast
  have "map offer_id sample_batch = [''o1'', ''o2'', ''o3'']" by code_simp
  with offers_answered_once [OF w' sample_world_map_ok] w' show ?thesis
    by (auto simp: sample_no_calls)
qed

theorem launched_tasks_fit_offer_witness:
  "\<exists>w' css. resourceOffers default_flags sample_externals sample_batch sample_world = Inr w' \<and>
     calls w' = concat css \<and> list_all2 (fits sample_amount) sample_batch css"
proof -
  obtain w' where w': "resourceOffers default_flags sample_externals sample_batch sample_world = Inr w'"
    using sample_batch_result by blast
  from launched_tasks_fit_offer [OF sample_resources_ok w' sample_world_map_ok] w' show ?thesis
    by (auto simp: sample_no_calls)
qed

theorem no_service_without_version_witness:
  "\<exists>w'. resourceOffers default_flags sample_externals sample_batch sample_stopped = Inr w' \<and>
     (\<forall>t \<in> set (launches (calls w')). is_prober t)"
proof -
  obtain w' where w': "resourceOffers default_flags sample_externals sample_batch sample_stopped = Inr w'"
    using sample_batch_result by blast
  have "target_version (proxy_data (proxy sample_stopped)) = ''''" by code_simp
  from no_service_without_version [OF w' sample_stopped_map_ok this] w' show ?thesis
    by (auto simp: sample_no_calls)
qed


theorem shared_service_launched_once_witness:
  "\<exists>w'. resourceOffers default_flags sample_externals sample_batch sample_world = Inr w' \<and>
     launch_count API_TASK (calls w') = 0"
proof -
  obtain w' where w': "resourceOffers default_flags sample_externals sample_batch sample_world = Inr w'"
    using sample_batch_result by blast
  have "key_state API_TASK h sample_world = RUNNING" for h
    by (simp add: key_state_def service_of_def API_TASK_def) (simp add: sample_world_def service_state_def)
  with shared_service_launched_once [OF w' sample_world_map_ok] w' show ?thesis
    by (auto simp: sample_no_calls shared_keys_def)
qed

theorem prober_launched_once_witness:
  "\<exists>w'. resourceOffers default_flags sample_externals sample_batch sample_world = Inr w' \<and>
     prober_count ''a'' (calls w') = 0"
proof -
  obtain w' where w': "resourceOffers default_flags sample_externals sample_batch sample_world = Inr w'"
    using sample_batch_result by blast
  have "ss_state (ns_prober (node_at sample_world ''a'')) = RUNNING" by code_simp
  moreover obtain cs where "calls w' = cs" and "prober_count ''a'' cs \<le>
      (if ss_state (ns_prober (node_at sample_world ''a'')) \<in> {RUNNING, STARTING} then 0 else 1)"
    using prober_launched_once [OF w' sample_world_map_ok] by (auto simp: sample_no_calls)
  ultimately show ?thesis using w' by auto
qed

theorem core_service_is_started_witness:
  "\<exists>w' cs. handle_offer default_flags sample_externals (sample_offer ''o1'' ''a'' 10) sample_world = Inr w' \<and>
     calls w' = cs \<and> started_or_short sample_externals (resources sample_world) 10 REGISTRY_TASK ''a'' (launches cs)"
proof -
  let ?o = "sample_offer ''o1'' ''a'' 10"
  let ?n = "sample_node ''a'' ''s1'' [REGISTRY] (service_state NOT_RUNNING '''')"
  have "\<exists>w' cs. handle_offer default_flags sample_externals ?o sample_world = Inr w' \<and>
      calls w' = calls sample_world @ cs \<and>
      started_or_short sample_externals (resources sample_world) (offer_resources ?o) REGISTRY_TASK ''a'' (launches cs)"
    by (rule core_service_is_started [where n = ?n and d = REGISTRY and r = Registry_Ref and j = 0,
        OF _ _ _ _ _ _ _ _ _ _ default_config_ok]) code_simp+
  moreover have "offer_resources ?o = 10" by (simp add: sample_offer_def)
  ultimately show ?thesis by (simp add: sample_no_calls)
qed

theorem offers_never_fatal_witness:
  "succeeds (resourceOffers default_flags sample_externals sample_batch sample_world)"
  using offers_never_fatal [OF default_config_ok] .

end
