(* ===== verification/Task_Properties.thy ===== *)
theory Task_Properties
  imports Sample Scheduler_State
begin

text \<open>
  Properties of the configuration and of the task descriptions: the memory setting of a container,
  when its command can be built, and the resources and ports that the constructor prepares.
\<close>

section \<open>Memory settings\<close>

text \<open>
  C39: a resource string whose memory entry is followed by another entry reads back as the amount
  of memory that was written, for every amount that an int holds and whatever comes before (no
  letter m) and after.
\<close>
theorem memory_roundtrip:
  assumes "CHR ''m'' \<notin> set pre" and "n < 2 ^ 31"
  shows "memMbFromResourceString (pre @ ''mem:'' @ dec_of_nat n @ '';'' @ post) = Inr (int n)"
  using assms mem_value_of_entry [OF assms(1) semicolon_not_digit [of n], of post]
    stoi_dec_of_nat [of n "[]"] by simp

theorem memory_roundtrip_witness:
  "memMbFromResourceString (''cpus:1.0;'' @ ''mem:'' @ dec_of_nat 2084 @ '';'' @ ''disk:32'') = Inr 2084"
  using memory_roundtrip [of "''cpus:1.0;''" 2084 "''disk:32''"] by simp

text \<open>
  C40: a memory entry at the end of the resource string loses the last digit of its value, and a
  value of one digit reads as -1: without a semicolon the end index is one too small.
\<close>
theorem memory_at_end_loses_digit:
  assumes "CHR ''m'' \<notin> set pre" and "n < 2 ^ 31"
  shows "memMbFromResourceString (pre @ ''mem:'' @ dec_of_nat n) =
    Inr (if n < 10 then - 1 else int (n div 10))"
proof -
  have "n div 10 < 2 ^ 31" using assms(2) by simp
  then have "stoi (dec_of_nat (n div 10)) = Stoi_Value (int (n div 10))"
    using stoi_dec_of_nat [of "n div 10" "[]"] by simp
  moreover have "stoi [] = Stoi_Invalid_Argument" by (simp add: stoi_def stoi_unsigned_def)
  moreover have "dec_of_nat n \<noteq> []" by (subst dec_of_nat.simps) simp
  ultimately show ?thesis
    using mem_value_at_end [OF assms(1) semicolon_not_digit [of n]] by (simp add: butlast_dec_of_nat)
qed

theorem memory_at_end_loses_digit_witness:
  "memMbFromResourceString (''cpus:1.0;'' @ ''mem:'' @ dec_of_nat 2048) = Inr 204"
  using memory_at_end_loses_digit [of "''cpus:1.0;''" 2048] by simp

section \<open>The command of a container\<close>


text \<open>
  With the default flags the memory limit of the S3 proxy is negative: the 1536 MB that are
  kept back for it are more than the 512 MB of its resources.
\<close>
lemma s3_default_heap_negative:
  "memory_exports default_flags S3_TASK =
     Inr ('' && export QUOBYTE_MAX_MEM_S3=-1024m'' @ '' && export QUOBYTE_S3_HOSTNAME='')"
  by code_simp

section \<open>What the constructor prepares\<close>

text \<open>The resource string that stands behind each key of \<open>resources_\<close>.\<close>

definition requested :: "flags \<Rightarrow> string \<Rightarrow> string option" where
  "requested F k =
     (if k = REGISTRY_TASK then
        Some (FLAGS_registry_resources F @ '';'' @ buildResourceString (port F 0) (port F 1) 0)
      else if k = METADATA_TASK then
        Some (FLAGS_metadata_resources F @ '';'' @ buildResourceString (port F 2) (port F 3) 0)
      else if k = DATA_TASK then
        Some (FLAGS_data_resources F @ '';'' @ buildResourceString (port F 4) (port F 5) 0)
      else if k = API_TASK then
        Some (FLAGS_api_resources F @ '';'' @
          buildResourceString (port F 6) (port F 7) (to_uint16 (FLAGS_api_port F)))
      else if k = WEBCONSOLE_TASK then
        Some (FLAGS_webconsole_resources F @ '';'' @
          buildResourceString (port F 8) (port F 9) (to_uint16 (FLAGS_webconsole_port F)))
      else if k = S3_TASK then
        Some (FLAGS_webconsole_resources F @ '';'' @
          buildResourceString (port F 10) (port F 11) (to_uint16 (FLAGS_s3_port F)))
      else if k = PROBER_TASK then Some (FLAGS_prober_resources F)
      else if k = CLIENT_TASK then Some (FLAGS_client_resources F)
      else None)"

definition all_keys :: "string list" where
  "all_keys = [REGISTRY_TASK, METADATA_TASK, DATA_TASK, API_TASK, WEBCONSOLE_TASK, S3_TASK,
     PROBER_TASK, CLIENT_TASK]"

fun fill :: "flags \<Rightarrow> ('r, 'z) externals \<Rightarrow> string list \<Rightarrow> (string, 'r) std_map \<Rightarrow> fatal + (string, 'r) std_map" where
  "fill F E [] m = Inr m"
| "fill F E (k # ks) m = (case resources_parse E (opt_or '''' (requested F k)) of
     None \<Rightarrow> Inl Resources_Unparsable | Some r \<Rightarrow> fill F E ks (map_insert k r m))"

lemma requested_None_iff: "requested F k = None \<longleftrightarrow> k \<notin> set all_keys"
  by (simp add: requested_def all_keys_def)

lemma construct_resources_fill: "construct_resources F E = fill F E all_keys []"
  by (simp add: construct_resources_def all_keys_def prepareServiceResources_def parse_plain_def
      requested_def task_defs split: option.split)

lemma fill_ok:
  "fill F E ks m = Inr m' \<Longrightarrow> map_ok m \<Longrightarrow> map_ok m' \<and>
     (\<forall>k. map_find m' k = (if map_find m k \<noteq> None then map_find m k
        else if k \<in> set ks then resources_parse E (opt_or '''' (requested F k)) else None))"
proof (induction ks arbitrary: m)
  case (Cons k ks)
  then obtain r where r: "resources_parse E (opt_or '''' (requested F k)) = Some r"
    and f: "fill F E ks (map_insert k r m) = Inr m'"
    by (auto split: option.splits)
  have "map_ok (map_insert k r m)" using Cons.prems(2) by (rule map_ok_insert)
  from Cons.IH [OF f this] r Cons.prems(2) show ?case
    by (auto simp: map_find_insert)
qed auto

lemma fill_total: "(\<And>s. resources_parse E s \<noteq> None) \<Longrightarrow> \<exists>m'. fill F E ks m = Inr m'"
  by (induction ks arbitrary: m) (auto split: option.split)

lemma fill_requested: "requested F' = requested F \<Longrightarrow> fill F' E ks m = fill F E ks m"
  by (induction ks arbitrary: m) (auto split: option.split)

lemma sample_externals_parse: "resources_parse sample_externals s = Some 1"
  by (simp add: sample_externals_def)



text \<open>
  C38: the flag for the resources of S3 has no influence on the resources that S3 gets: its entry is
  made from the flag of the web console.
\<close>
theorem s3_resources_ignored:
  "construct_resources (F\<lparr>FLAGS_s3_resources := s\<rparr>) E = construct_resources F E"
  unfolding construct_resources_fill
  by (rule fill_requested) (simp add: requested_def port_def fun_eq_iff)

section \<open>Ports\<close>

text \<open>The pair of ports of each service, as \<open>makeTask\<close> and the constructor are given them.\<close>

definition all_ports :: "flags \<Rightarrow> uint16 list" where
  "all_ports F = map (port F) [0, 1, 2, 3, 4, 5, 6, 7, 8, 9, 10, 11]"

text \<open>
  The twelve ports of the six services differ from each other for every value of the base
  flag, also where they wrap around at 16 bits; and the service whose port is 0 after wrapping
  gets the port variable of Mesos in its command instead.
\<close>
lemma ports_distinct:
  "distinct (all_ports F) \<and> length (all_ports F) = 12 \<and>
   port_exports (unat (port F k)) 1 =
     (if (FLAGS_port_range_base F + k) mod 2 ^ 16 = 0 then '' && export QUOBYTE_RPC_PORT=$PORT0''
      else '' && export QUOBYTE_RPC_PORT='' @ dec_of_nat (nat ((FLAGS_port_range_base F + k) mod 2 ^ 16))) @
     '' && export QUOBYTE_HTTP_PORT='' @ dec_of_nat 1"
proof -
  have "unat (port F k) = nat ((FLAGS_port_range_base F + k) mod 2 ^ 16)"
    by (simp only: port_def to_uint16_def unat_eq_nat_uint uint_word_of_int) simp
  moreover have "nat (x mod 2 ^ 16) = 0 \<longleftrightarrow> x mod 2 ^ 16 = 0" for x :: int
    using pos_mod_sign [of "2 ^ 16" x] by auto
  moreover have "distinct (all_ports F)" by (simp add: all_ports_def port_eq_iff)
  ultimately show ?thesis by (simp add: all_ports_def port_exports_def)
qed

end
