(* ===== verification/Run_Properties.thy ===== *)
theory Run_Properties
  imports Status_Properties Offer_Properties Task_Properties
begin

text \<open>
  Properties of whole runs of the scheduler: what holds in every state that can be reached from the
  constructor, whatever events arrive in whatever order.
\<close>

section \<open>Life cycle of a service\<close>

lemma run_acts:
  assumes "run (step F E) w es w'" and "map_ok (nodes w)"
    and "\<And>e s. e \<in> set es \<Longrightarrow> reports e s \<Longrightarrow> R s"
  shows "acts E R w w' \<and> map_ok (nodes w')"
  using assms
proof (induction rule: run.induct)
  case (run_cons w e w1 es w2)
  have a: "acts E R w w1" using run_cons.hyps(1) run_cons.prems by (intro step_acts) auto
  then have "map_ok (nodes w1)"
    using run_cons.prems(1) by (induction rule: rtranclp_induct) (auto intro: act_map_ok)
  moreover have "\<And>e s. e \<in> set es \<Longrightarrow> reports e s \<Longrightarrow> R s" using run_cons.prems(2) by auto
  ultimately have "acts E R w1 w2 \<and> map_ok (nodes w2)" by (rule run_cons.IH)
  with a show ?case by (blast intro: acts_trans)
qed simp

text \<open>The services that the status updates among some events report about.\<close>

definition reported_in :: "'r event list \<Rightarrow> string \<Rightarrow> bool" where
  "reported_in es service \<longleftrightarrow> (\<exists>e \<in> set es. reports e service)"

lemma scheduler_run_slot:
  assumes "scheduler_run F E z p clk n es w"
  shows "slot_moves (reported_in es) r h (UNKNOWN, '''') (slot r h w)"
proof -
  obtain w0 where w0: "QuobyteScheduler F E z p clk n = Inr w0" and run: "run (step F E) w0 es w"
    using assms by (auto simp: scheduler_run_def)
  have ok: "map_ok (nodes w0)" by (simp add: QuobyteScheduler_Inr [OF w0])
  have "acts E (reported_in es) w0 w"
    using run_acts [OF run ok, of "reported_in es"] by (auto simp: reported_in_def)
  from acts_slot_moves [OF this ok] show ?thesis by (simp add: initial_slot [OF w0])
qed


text \<open>
  C7: in every reachable state a running service has a task id made of its name and a host, for a
  service of a node the host of the node; a service that does not run has no task id.  So the id
  \<open>quobyte-registry-h\<close> that is killed at a shutdown is the id of the task that runs.
\<close>
theorem running_task_ids:
  assumes "scheduler_run F E z p clk n es w"
  shows "if ss_state (read_service r h w) = RUNNING
    then \<exists>service host. service_of service = Some r \<and>
      ss_task_id (read_service r h w) = service @ ''-'' @ host \<and> (is_shared r \<or> host = h)
    else ss_task_id (read_service r h w) = ''''"
proof -
  have "task_ids_ok w \<and> map_ok (nodes w)"
    by (rule task_ids.scheduler_run_keeps [OF assms]) (auto intro: initial_task_ids)
  then have "slot_ok r h (slot r h w)" by (simp add: task_ids_ok_def)
  then show ?thesis
    by (cases "ss_state (read_service r h w) = RUNNING") (auto simp: slot_ok_def slot_def owns_def)
qed

text \<open>
  The services on a host are unknown until a status about them arrives, and an unknown service
  is never launched: after events without a status update about a service of a node, other than
  the prober, its state is still unknown.
\<close>
lemma unknown_until_reported:
  assumes "scheduler_run F E z p clk n es w" and "r \<noteq> Prober_Ref"
    and "\<And>service. service_of service = Some r \<Longrightarrow> \<not> reported_in es service"
  shows "ss_state (read_service r h w) = UNKNOWN"
proof -
  have "slot_moves (reported_in es) r h (UNKNOWN, '''') (slot r h w)"
    using assms(1) by (rule scheduler_run_slot)
  then have "slot r h w = (UNKNOWN, '''')"
    by (induction rule: rtranclp_induct) (use assms(2,3) in \<open>auto elim: slot_moveE simp: owns_def\<close>)
  then show ?thesis by (simp add: slot_def)
qed

text \<open>
  C17: a host whose name has a dash is never served: whatever arrives in a run, its services stay
  unknown and its prober, once launched, stays STARTING, because the status of each of its tasks
  is taken for one of another host.
\<close>
theorem dashed_host_never_served:
  assumes "scheduler_run F E z p clk n es w" and "CHR ''-'' \<in> set h" and "\<not> is_shared r"
  shows "ss_state (read_service r h w) = UNKNOWN \<or>
    r = Prober_Ref \<and> ss_state (read_service r h w) = STARTING"
proof -
  have "dashed_idle w \<and> map_ok (nodes w)"
    by (rule dashed.scheduler_run_keeps [OF assms(1)]) (auto intro: initial_dashed)
  then show ?thesis using assms(2,3) by (auto simp: dashed_idle_def idle_slot_def slot_def)
qed

section \<open>Timestamps\<close>

text \<open>
  C26: every timestamp in a reachable state is zero or a reading of the clock that was taken, so a
  difference of a reading and a timestamp stays in the range of the clock's own values.
\<close>
theorem timestamps_are_readings:
  assumes "scheduler_run F E z p clk n es w"
  shows "ss_last_update_s (read_service r h w) \<in> insert 0 (clk ` {..<reads w}) \<and>
    ss_last_seen_s (read_service r h w) \<in> insert 0 (clk ` {..<reads w}) \<and>
    ns_last_offer_s (node_at w h) \<in> insert 0 (clk ` {..<reads w}) \<and>
    ns_last_probe_s (node_at w h) \<in> insert 0 (clk ` {..<reads w})"
proof -
  have "clock w = clk"
    using fixed_clock.scheduler_run_keeps [OF assms] by (simp add: QuobyteScheduler_Inr)
  then have "taken w t \<longleftrightarrow> t \<in> insert 0 (clk ` {..<reads w})" for t by (auto simp: taken_def)
  moreover have "stamps_ok w \<and> map_ok (nodes w)"
    by (rule stamps.scheduler_run_keeps [OF assms]) (auto intro: initial_stamps)
  ultimately show ?thesis by (simp add: stamps_ok_def)
qed

section \<open>Hosts\<close>

text \<open>
  C27: an entry of the host map is never removed and keeps its host name and the slave id it was
  created with, also when the slave reregisters under a new id.
\<close>
theorem host_entry_is_kept:
  assumes "run (step F E) w es w'" and "map_ok (nodes w)"
    and "map_find (nodes w) h = Some n" and "ns_hostname n = h"
  shows "\<exists>n'. map_find (nodes w') h = Some n' \<and> ns_hostname n' = h \<and>
    ns_slave_id_value n' = ns_slave_id_value n"
proof -
  have "host_entry h (ns_slave_id_value n) w' \<and> map_ok (nodes w')"
    using assms(3,4,2)
    by (intro host.run_invariant [OF _ assms(1)]) (auto simp: host_entry_def)
  then show ?thesis by (auto simp: host_entry_def)
qed

section \<open>Restart\<close>

text \<open>
  Whatever happens in a run, opening the state storage again gives exactly the framework id and
  target version that the scheduler holds: a scheduler that is restarted continues with them.
\<close>
lemma run_reopens:
  assumes "codec_ok E" and "storage_ok E" and "open_proxy E z path = Inr p"
    and "scheduler_run F E z p clk n es w"
  shows "open_proxy E (storage w) path = Inr (proxy w)"
proof -
  have "storage_matches E w0" if "QuobyteScheduler F E z p clk n = Inr w0" for w0
    using open_proxy_persisted [OF assms(3)]
    by (simp add: storage_matches_def QuobyteScheduler_Inr [OF that])
  with storage.scheduler_run_keeps [OF assms(4)] have "storage_matches E w" by blast
  moreover have "proxy_path (proxy w) = path"
    using fixed_path.scheduler_run_keeps [OF assms(4)] open_proxy_persisted [OF assms(3)]
    by (simp add: QuobyteScheduler_Inr)
  ultimately show ?thesis using assms(1,2) by (simp add: storage_matches_def persisted_def)
qed

section \<open>Replacing a task\<close>

lemma slot_write_cases:
  assumes "slot r' j (write_service r h f w) \<noteq> slot r' j w"
  shows "r' = r \<and> (is_shared r \<or> j = h) \<and> read_service r' j w = read_service r h w \<and>
    slot r' j (write_service r h f w) =
      (ss_state (f (read_service r h w)), ss_task_id (f (read_service r h w)))"
proof -
  have c: "r' = r \<and> (is_shared r' \<or> j = h) \<and> has_target r h w"
    using assms by (auto simp: slot_def read_write simp del: write_service.simps split: if_splits)
  moreover from c have "read_service r' j w = read_service r h w" by (metis read_shared_same)
  ultimately show ?thesis by (auto simp: slot_def read_write simp del: write_service.simps)
qed

lemma slot_reads [simp]: "slot r h (w\<lparr>reads := n\<rparr>) = slot r h w"
  by (simp add: slot_def)

lemma update_service_state_slot:
  assumes "slot r' j (update_service_state status service h r w) \<noteq> slot r' j w"
  shows "snd (slot r' j w) \<in> {'''', st_task_id status} \<and>
    slot r' j (update_service_state status service h r w) \<in>
      {(RUNNING, st_task_id status), (NOT_RUNNING, '''')}"
proof -
  define u where "u = update_service_state status service h r w"
  have "u = w \<or> u = emit (KillTask (st_task_id status)) w \<or>
    ss_task_id (read_service r h w) \<in> {'''', st_task_id status} \<and>
    (\<exists>f n. u = write_service r h f (w\<lparr>reads := n\<rparr>) \<and>
       (\<forall>s. (ss_state (f s), ss_task_id (f s)) \<in> {(RUNNING, st_task_id status), (NOT_RUNNING, '''')}))"
    unfolding u_def update_service_state_def Let_def now_simps prod.case
    by (auto simp: record_running_def record_terminal_def simp del: write_service.simps)
  moreover have "slot r' j u \<noteq> slot r' j w" using assms by (simp add: u_def)
  moreover have "slot r' j (emit c w) = slot r' j w" for c by (simp add: slot_def)
  ultimately obtain f n where mine: "ss_task_id (read_service r h w) \<in> {'''', st_task_id status}"
    and u: "u = write_service r h f (w\<lparr>reads := n\<rparr>)"
    and f: "\<And>s. (ss_state (f s), ss_task_id (f s)) \<in> {(RUNNING, st_task_id status), (NOT_RUNNING, '''')}"
    by metis
  from slot_write_cases [of r' j r h f "w\<lparr>reads := n\<rparr>"] \<open>slot r' j u \<noteq> slot r' j w\<close>
  have "read_service r' j w = read_service r h w"
    and "slot r' j u = (ss_state (f (read_service r h w)), ss_task_id (f (read_service r h w)))"
    by (auto simp: u)
  with mine f show ?thesis by (simp add: u_def [symmetric] slot_def)
qed

lemma statusUpdate_slot:
  assumes "map_ok (nodes w)" and "slot r' j (statusUpdate status w) \<noteq> slot r' j w"
  shows "snd (slot r' j w) \<in> {'''', st_task_id status} \<and>
    slot r' j (statusUpdate status w) \<in> {(RUNNING, st_task_id status), (NOT_RUNNING, '''')}"
proof (cases "split_task_id (st_task_id status)")
  case None
  with assms show ?thesis by (simp add: statusUpdate_def)
next
  case (Some q)
  obtain service h where "q = (service, h)" by (cases q)
  note split = Some [unfolded this]
  show ?thesis
  proof (cases "service_of service")
    case None
    with split assms have "slot r' j (statusUpdate status w) = slot r' j w"
      by (auto simp: statusUpdate_def getService_def find_or_create_def slot_def read_service_createHost
          split: if_splits)
    with assms(2) show ?thesis by simp
  next
    case (Some r)
    let ?p = "prepared status r h w" and ?u = "update_service_state status service h r (prepared status r h w)"
    have p: "slot r' j ?p = slot r' j w" using assms(1) by (simp add: slot_def)
    have u: "slot r' j (statusUpdate status w) = slot r' j ?u"
      unfolding statusUpdate_prepared [OF split Some]
      by (simp add: slot_def check_version_def Let_def)
    show ?thesis using update_service_state_slot [of r' j status service h r ?p] assms(2) p u by simp
  qed
qed

lemma step_slot_stays:
  assumes "step F E w e w'" and "map_ok (nodes w)" and "\<And>status. e \<noteq> Status_Update status"
    and "slot r h w = (RUNNING, t)"
  shows "slot r h w' = (RUNNING, t)"
proof -
  have "\<not> reports e s" for s using assms(3) by (cases e) auto
  then have "acts E (\<lambda>s. False) w w'" using step_acts [OF assms(1,2)] by blast
  from acts_slot_moves [OF this assms(2), of r h] assms(4) show ?thesis
    using running_slot_stays [of "\<lambda>s. False" r h t] by metis
qed

text \<open>
  C11: the task behind a running service changes only by way of NOT_RUNNING: if a service runs
  before and after an event that the scheduler handles, it runs under the same task id.
\<close>
theorem running_task_is_not_replaced:
  assumes "scheduler_run F E z p clk n es w" and "step F E w e w'"
    and "ss_state (read_service r h w) = RUNNING" and "ss_state (read_service r h w') = RUNNING"
  shows "ss_task_id (read_service r h w') = ss_task_id (read_service r h w)"
proof -
  have ok: "task_ids_ok w \<and> map_ok (nodes w)"
    by (rule task_ids.scheduler_run_keeps [OF assms(1)]) (auto intro: initial_task_ids)
  have s: "slot r h w = (RUNNING, ss_task_id (read_service r h w))"
    using assms(3) by (simp add: slot_def)
  show ?thesis
  proof (cases "\<exists>status. e = Status_Update status")
    case True
    then obtain status where w': "w' = statusUpdate status w"
      using assms(2) by (auto simp: step_iff)
    have "slot_ok r h (slot r h w)" using ok by (simp add: task_ids_ok_def)
    then have "ss_task_id (read_service r h w) \<noteq> ''''"
      using s by (auto simp: slot_ok_def owns_def)
    then show ?thesis
      using statusUpdate_slot [of w r h status] ok s assms(4)
      unfolding w'
      by (cases "ss_task_id (read_service r h (statusUpdate status w)) = ss_task_id (read_service r h w)")
        (auto simp: slot_def)
  next
    case False
    then have "slot r h w' = slot r h w" using step_slot_stays [OF assms(2) _ _ s] ok s by auto
    then show ?thesis by (simp add: slot_def)
  qed
qed

section \<open>Calls of the other events\<close>

lemma KillService_quiet: "answers [KillTask t] = []" "launches [KillTask t] = []"
  by simp_all

lemma statusUpdate_launches: "launches (calls (statusUpdate status w)) = launches (calls w)"
proof (cases "split_task_id (st_task_id status)")
  case None
  then show ?thesis by (simp add: statusUpdate_def)
next
  case (Some q)
  obtain service h where "q = (service, h)" by (cases q)
  note split = Some [unfolded this]
  show ?thesis
  proof (cases "service_of service")
    case None
    with split show ?thesis by (simp add: statusUpdate_def getService_def find_or_create_def)
  next
    case (Some r)
    have "launches (calls (update_service_state status service h r v)) = launches (calls v)" for v :: "('a, 'b) world"
      by (simp add: update_service_state_def Let_def frame_simps del: write_service.simps)
    moreover have "launches (calls (check_version status v)) = launches (calls v)" for v :: "('a, 'b) world"
      by (simp add: check_version_def Let_def)
    ultimately show ?thesis
      by (simp add: statusUpdate_prepared [OF split Some] Let_def)
  qed
qed

lemma step_launches:
  assumes "step F E w e w'" and "\<And>offers. e \<noteq> Resource_Offers offers"
  shows "launches (calls w') = launches (calls w)"
proof -
  have e: "handle F E e w = Inr w'" using assms(1) by (simp add: step_iff)
  show ?thesis
  proof (cases e)
    case (Registered fid)
    with e show ?thesis by (auto simp: registered_def bind_fatal_Inr_iff)
  next
    case (Http_Request verb path body)
    with e show ?thesis by (auto simp: handleHTTP_def bind_fatal_Inr_iff split: if_splits)
  next
    case (Framework_Message slave data)
    with e show ?thesis by (auto simp: frameworkMessage_def split: prod.splits)
  qed (use e assms(2) in \<open>auto simp: reregistered_def logging_callbacks statusUpdate_launches\<close>)
qed

section \<open>Clients\<close>

definition is_client :: "'r TaskInfo \<Rightarrow> bool" where
  "is_client t \<longleftrightarrow> ti_name t = ''quobyte-client''"

lemma outcome_no_client:
  assumes "offer_outcome E offer w cs w'" and "client_unknown w"
  shows "\<forall>t \<in> set (launches cs). \<not> is_client t"
  using assms(1)
proof (cases rule: offer_outcome.cases)
  case (services_launched tasks ks w1 rest)
  have "\<not> is_client t" if "t \<in> set tasks" for t
  proof
    assume "is_client t"
    from placed_launch [OF services_launched(4) that] obtain k where
      k: "describes E (resources w) (target_version (proxy_data (proxy w))) offer k t"
      "may_start k (offer_hostname offer) w" by blast
    then have "k = CLIENT_TASK" using \<open>is_client t\<close> by (simp add: describes_def is_client_def CLIENT_TASK_def)
    then have "key_state k (offer_hostname offer) w = UNKNOWN"
      using assms(2) by (simp add: key_state_def service_of_def CLIENT_TASK_def client_unknown_def slot_def)
    with k(2) show False using DoStartService_NOT_RUNNING by (fastforce simp: may_start_def)
  qed
  then show ?thesis using services_launched(1) by simp
qed (auto simp: quiet_def is_client_def)

lemma acts_client_unknown:
  "acts E (\<lambda>s. False) w w' \<Longrightarrow> client_unknown w \<Longrightarrow> map_ok (nodes w) \<Longrightarrow> client_unknown w'"
proof (induction rule: rtranclp_induct)
  case (step w1 w2)
  have "map_ok (nodes w1)" using step.hyps(1) step.prems(2) by (rule acts_map_ok)
  with step show ?case by (auto intro: act_client_unknown)
qed

lemma batch_no_client:
  "batch E offers w css w' \<Longrightarrow> client_unknown w \<Longrightarrow> map_ok (nodes w) \<Longrightarrow>
   \<forall>t \<in> set (launches (concat css)). \<not> is_client t"
proof (induction rule: batch.induct)
  case (batch_cons offer w cs w1 offers css w')
  then show ?case
    using outcome_no_client acts_client_unknown acts_map_ok by (metis (no_types, lifting) UnE concat.simps(2)
      launches_append set_append)
qed simp

definition no_client_launched :: "('r, 'z) world \<Rightarrow> bool" where
  "no_client_launched w \<longleftrightarrow> client_unknown w \<and> map_ok (nodes w) \<and>
     (\<forall>t \<in> set (launches (calls w)). \<not> is_client t)"

interpretation no_client: invariant_machine "step F E" "\<lambda>w e. \<not> reports e ''quobyte-client''"
  no_client_launched for F E
proof unfold_locales
  fix w w' :: "('a, 'b) world" and e
  assume I: "no_client_launched w" and e: "\<not> reports e ''quobyte-client''" and s: "step F E w e w'"
  have "client_unknown w' \<and> map_ok (nodes w')"
    using client.step_keeps [OF s] I e unfolding no_client_launched_def by metis
  moreover have "\<forall>t \<in> set (launches (calls w')). \<not> is_client t"
  proof (cases "\<exists>offers. e = Resource_Offers offers")
    case True
    then obtain offers where "resourceOffers F E offers w = Inr w'" using s by (auto simp: step_iff)
    from resourceOffers_batch [OF this] obtain css where
      "calls w' = calls w @ concat css" "batch E offers w css w'"
      using I by (auto simp: no_client_launched_def)
    with batch_no_client I show ?thesis by (fastforce simp: no_client_launched_def)
  next
    case False
    then show ?thesis using step_launches [OF s] I by (auto simp: no_client_launched_def)
  qed
  ultimately show "no_client_launched w'" by (simp add: no_client_launched_def)
qed

text \<open>
  C25: no client is ever launched: in a run in which nobody reports about a client task, and nobody
  does, because the scheduler neither launches one nor asks Mesos about one, no launch contains a
  client, whatever devices and mount points the probers report.
\<close>
theorem client_never_launched:
  assumes "scheduler_run F E z p clk n es w" and "\<And>e. e \<in> set es \<Longrightarrow> \<not> reports e ''quobyte-client''"
  shows "\<forall>t \<in> set (launches (calls w)). ti_name t \<noteq> ''quobyte-client''"
proof -
  obtain w0 where w0: "QuobyteScheduler F E z p clk n = Inr w0" and r: "run (step F E) w0 es w"
    using assms(1) by (auto simp: scheduler_run_def)
  have init: "no_client_launched w0"
    using initial_client [OF w0] by (simp add: no_client_launched_def QuobyteScheduler_Inr [OF w0])
  have "admissible_run (step F E) (\<lambda>w e. \<not> reports e ''quobyte-client'') w0 es w"
    using r assms(2) by (induction rule: run.induct) (auto intro: admissible_run.intros)
  from no_client.admissible_run_invariant [OF this init] show ?thesis
    by (simp add: no_client_launched_def is_client_def)
qed

section \<open>Shutdown\<close>

text \<open>The services that an offer of a host shuts down, in the order of the calls.\<close>

definition shutdown_list :: "string \<Rightarrow> ('r, 'z) world \<Rightarrow> (string \<times> ServiceState) list" where
  "shutdown_list h w = [(''quobyte-registry'', ns_registry (node_at w h)),
     (''quobyte-data'', ns_data (node_at w h)), (''quobyte-metadata'', ns_metadata (node_at w h)),
     (''quobyte-api'', api_state w), (''quobyte-s3'', s3_state w),
     (''quobyte-webconsole'', console_state w)]"

definition running_kills :: "string \<Rightarrow> (string \<times> ServiceState) list \<Rightarrow> 'r driver_call list" where
  "running_kills h l = map (\<lambda>(name, s). KillTask (name @ ''-'' @ h)) (filter (\<lambda>(name, s). ss_state s = RUNNING) l)"

lemma KillServiceIfRunning_frame [simp]:
  "api_state (KillServiceIfRunning t s w) = api_state w" "s3_state (KillServiceIfRunning t s w) = s3_state w"
  "console_state (KillServiceIfRunning t s w) = console_state w"
  "calls (KillServiceIfRunning t s w) = calls w @ (if ss_state s = RUNNING then [KillTask t] else [])"
  by (simp_all add: KillServiceIfRunning_def)

lemma shutdown_calls: "calls (shutdown_services h w) = calls w @ running_kills h (shutdown_list h w)"
  by (simp add: shutdown_services_def Let_def running_kills_def shutdown_list_def)


section \<open>The properties at work\<close>

definition sample_proxy :: SchedulerStateProxy where
  "sample_proxy = \<lparr>proxy_path = ''scheduler-default'', proxy_data = empty_SchedulerState\<rparr>"

text \<open>The framework registers, an earlier registry task reports, offers arrive, a version is set.\<close>

definition sample_events :: "nat event list" where
  "sample_events = [Registered ''f1'', Status_Update (plain_status ''quobyte-registry-a'' TASK_RUNNING),
     Resource_Offers sample_batch, Http_Request ''POST'' ''/v1/version'' ''1.4'']"

abbreviation sample_run where
  "sample_run es \<equiv> scheduler_run default_flags sample_externals (\<lambda>path. '''') sample_proxy (\<lambda>i. 1000 + int i) 0 es"

lemma QuobyteScheduler_total:
  "(\<And>s. resources_parse E s \<noteq> None) \<Longrightarrow> \<exists>w. QuobyteScheduler F E z p clk n = Inr w"
  using fill_total [of E F all_keys "[]"]
  by (auto simp: QuobyteScheduler_def construct_resources_fill bind_fatal_Inr_iff)

lemma registered_total: "codec_ok E \<Longrightarrow> \<exists>w'. registered E fid w = Inr w'"
  using proxy_set_total [of E _ "storage w" "proxy w"]
  by (fastforce simp: registered_def set_framework_id_def bind_fatal_Inr_iff)

lemma post_version_total:
  assumes "codec_ok E"
  shows "\<exists>w'. handle F E (Http_Request ''POST'' ''/v1/version'' v) w = Inr w'"
proof -
  have "find_str kVersionAPIUrl ''/v1/version'' = Some 0" by code_simp
  moreover obtain z p where "set_target_version E v (storage w) (proxy w) = Inr (z, p)"
    using proxy_set_total [OF assms] unfolding set_target_version_def by metis
  ultimately show ?thesis by (simp add: handleHTTP_def)
qed

lemma sample_run_exists: "\<exists>w. sample_run sample_events w"
proof -
  obtain w0 where w0: "QuobyteScheduler default_flags sample_externals (\<lambda>path. '''') sample_proxy
      (\<lambda>i. 1000 + int i) 0 = Inr w0"
    using QuobyteScheduler_total [of sample_externals] by (metis option.distinct(1) sample_externals_parse)
  obtain w1 where w1: "registered sample_externals ''f1'' w0 = Inr w1"
    using registered_total [OF sample_codec_ok] by blast
  let ?w2 = "statusUpdate (plain_status ''quobyte-registry-a'' TASK_RUNNING) w1"
  obtain w3 where w3: "resourceOffers default_flags sample_externals sample_batch ?w2 = Inr w3"
    using sample_batch_result by blast
  obtain w4 where w4: "handle default_flags sample_externals (Http_Request ''POST'' ''/v1/version'' ''1.4'') w3 = Inr w4"
    using post_version_total [OF sample_codec_ok] by blast
  have "sample_run sample_events w4"
    unfolding scheduler_run_iff sample_events_def w0 using w1 w3 w4 by simp
  then show ?thesis ..
qed


theorem running_task_ids_witness:
  "\<exists>w. sample_run sample_events w \<and> (ss_state (api_state w) \<noteq> RUNNING \<longrightarrow> ss_task_id (api_state w) = '''')"
proof -
  obtain w where w: "sample_run sample_events w" using sample_run_exists by blast
  from running_task_ids [OF w, of Api_Ref] w show ?thesis by (auto split: if_splits)
qed

theorem dashed_host_never_served_witness:
  "\<exists>w. sample_run [Resource_Offers [sample_offer ''o1'' ''n-1'' 10], Resource_Offers [sample_offer ''o2'' ''n-1'' 10],
       Status_Update (plain_status ''quobyte-device-prober-n-1'' TASK_FINISHED)] w \<and>
     ss_state (ns_prober (node_at w ''n-1'')) \<in> {UNKNOWN, STARTING}"
proof -
  let ?o1 = "[sample_offer ''o1'' ''n-1'' 10]" and ?o2 = "[sample_offer ''o2'' ''n-1'' 10]"
  obtain w0 where w0: "QuobyteScheduler default_flags sample_externals (\<lambda>path. '''') sample_proxy
      (\<lambda>i. 1000 + int i) 0 = Inr w0"
    using QuobyteScheduler_total [of sample_externals] by (metis option.distinct(1) sample_externals_parse)
  obtain w1 where w1: "resourceOffers default_flags sample_externals ?o1 w0 = Inr w1"
    using resourceOffers_total [OF default_config_ok] unfolding succeeds_iff by blast
  obtain w2 where w2: "resourceOffers default_flags sample_externals ?o2 w1 = Inr w2"
    using resourceOffers_total [OF default_config_ok] unfolding succeeds_iff by blast
  define w where "w = statusUpdate (plain_status ''quobyte-device-prober-n-1'' TASK_FINISHED) w2"
  have run: "sample_run [Resource_Offers ?o1, Resource_Offers ?o2,
      Status_Update (plain_status ''quobyte-device-prober-n-1'' TASK_FINISHED)] w"
    unfolding scheduler_run_iff w0 using w1 w2 by (simp add: w_def del: resourceOffers.simps)
  from dashed_host_never_served [OF run, of "''n-1''" Prober_Ref] run show ?thesis by auto
qed

theorem timestamps_are_readings_witness:
  "\<exists>w. sample_run sample_events w \<and> (\<exists>t \<in> insert 0 ((\<lambda>i. 1000 + int i) ` {..<reads w}). ns_last_offer_s (node_at w ''a'') = t)"
proof -
  obtain w where w: "sample_run sample_events w" using sample_run_exists by blast
  from timestamps_are_readings [OF w, of Api_Ref "''a''"] w show ?thesis by blast
qed

theorem host_entry_is_kept_witness:
  "\<exists>w' n. run (step default_flags sample_externals) sample_world [Resource_Offers sample_batch] w' \<and>
     map_find (nodes w') ''a'' = Some n \<and> ns_slave_id_value n = ''s1''"
proof -
  obtain w' where w': "resourceOffers default_flags sample_externals sample_batch sample_world = Inr w'"
    using sample_batch_result by blast
  then have r: "run (step default_flags sample_externals) sample_world [Resource_Offers sample_batch] w'"
    by (simp add: run_iff_handle_all)
  let ?n = "sample_node ''a'' ''s1'' [REGISTRY] (service_state NOT_RUNNING '''')"
  have "map_find (nodes sample_world) ''a'' = Some ?n" "ns_hostname ?n = ''a''" "ns_slave_id_value ?n = ''s1''"
    by code_simp+
  with host_entry_is_kept [OF r sample_world_map_ok] r show ?thesis by metis
qed

theorem running_task_is_not_replaced_witness:
  "\<exists>w w'. sample_run sample_events w \<and> step default_flags sample_externals w Disconnected w' \<and>
     (ss_state (api_state w) = RUNNING \<longrightarrow> ss_task_id (api_state w') = ss_task_id (api_state w))"
proof -
  obtain w where w: "sample_run sample_events w" using sample_run_exists by blast
  have s: "step default_flags sample_externals w Disconnected w" by (simp add: step_iff disconnected_def)
  from running_task_is_not_replaced [OF w s, of Api_Ref] w s show ?thesis by auto
qed

theorem client_never_launched_witness:
  "\<exists>w. sample_run sample_events w \<and> (\<forall>t \<in> set (launches (calls w)). ti_name t \<noteq> ''quobyte-client'')"
proof -
  obtain w where w: "sample_run sample_events w" using sample_run_exists by blast
  have "split_task_id (st_task_id (plain_status ''quobyte-registry-a'' TASK_RUNNING)) =
      Some (''quobyte-registry'', ''a'')" by code_simp
  then have "\<not> reports e ''quobyte-client''" if "e \<in> set sample_events" for e
    using that by (auto simp: sample_events_def)
  from client_never_launched [OF w this] w show ?thesis by blast
qed


end
