(* ===== verification/Http_Properties.thy ===== *)
theory Http_Properties
  imports Http_Server Sample
begin

text \<open>
  Properties of the HTTP interface: which requests change the scheduler, what a request to set or
  to unset the version does and answers, which requests are answered with 404, and what the health
  check counts.
\<close>

section \<open>Requests that only read\<close>

text \<open>
  C29: a request that is not a POST never changes the scheduler, however many chunks of body the
  server is called with.
\<close>
theorem only_post_changes_state:
  assumes "verb \<noteq> ''POST''"
    and "handle_calls (handleHTTP E) url verb chunks post_data w = Inr (reply, post_data', w')"
  shows "w' = w"
  using assms by (rule scheduler_http.calls_read_only)

section \<open>The version API\<close>

lemma version_prefix: "find_str kVersionAPIUrl kVersionAPIUrl = Some 0"
  by (simp add: find_str_Some_0)

lemma version_not_archive: "kVersionAPIUrl \<noteq> kArchiveUrl"
  by (simp add: kVersionAPIUrl_def kArchiveUrl_def)

lemma post_version:
  assumes "find_str kVersionAPIUrl url = Some 0"
    and "set_target_version E body (storage w) (proxy w) = Inr (z, p)"
  shows "handleHTTP E ''POST'' url body w = Inr (body, w\<lparr>storage := z, proxy := p\<rparr>)"
proof -
  have "target_version (proxy_data p) = body"
    using assms(2) proxy_set_Inr(1) [of E _ "storage w" "proxy w" z p]
    by (simp add: set_target_version_def)
  with assms show ?thesis by (simp add: handleHTTP_def)
qed

text \<open>
  C22: a POST to the version URL, its body delivered in any number of chunks, makes the whole body
  the version to deploy, in memory and in the state storage, changes nothing else, and is answered
  with the version; the empty version, which shuts the services down, is answered with 404 although
  the change is made.
\<close>
theorem version_is_deployed:
  assumes "codec_ok E" and "storage_ok E" and "find_str kVersionAPIUrl url = Some 0"
    and "\<And>c. c \<in> set chunks \<Longrightarrow> c \<noteq> []"
  shows "\<exists>z p. handle_calls (handleHTTP E) url ''POST'' ([] # chunks @ [[]]) None w =
      Inr (Some (if concat chunks = '''' then \<lparr>reply_status = 404, reply_body = ''Not found: '' @ url\<rparr>
                 else \<lparr>reply_status = 200, reply_body = concat chunks\<rparr>),
           Some (concat chunks), w\<lparr>storage := z, proxy := p\<rparr>) \<and>
    target_version (proxy_data p) = concat chunks \<and>
    framework_id_value (proxy_data p) = framework_id_value (proxy_data (proxy w)) \<and>
    open_proxy E z (proxy_path (proxy w)) = Inr p"
proof -
  obtain z p where s: "set_target_version E (concat chunks) (storage w) (proxy w) = Inr (z, p)"
    using proxy_set_total [OF assms(1)] unfolding set_target_version_def by metis
  note d = proxy_set_Inr [OF s [unfolded set_target_version_def]]
  have o: "open_proxy E z (proxy_path p) = Inr p"
    using proxy_set_persisted [OF assms(1,2) s [unfolded set_target_version_def]]
    by (simp add: persisted_def)
  have calls: "handle_calls (handleHTTP E) url ''POST'' ([] # chunks @ [[]]) None w =
      Inr (Some (make_reply url (concat chunks)), Some (concat chunks), w\<lparr>storage := z, proxy := p\<rparr>)"
    using handle_calls_collect [of chunks "handleHTTP E" url "''''" w] assms(4)
      post_version [OF assms(3) s] by (simp add: HandleRequest_def)
  have reply: "make_reply url (concat chunks) =
      (if concat chunks = '''' then \<lparr>reply_status = 404, reply_body = ''Not found: '' @ url\<rparr>
       else \<lparr>reply_status = 200, reply_body = concat chunks\<rparr>)"
    by (simp add: make_reply_def MHD_HTTP_OK_def MHD_HTTP_NOT_FOUND_def)
  have "target_version (proxy_data p) = concat chunks"
    "framework_id_value (proxy_data p) = framework_id_value (proxy_data (proxy w))"
    using d(1) by simp_all
  then show ?thesis using o d(2) unfolding calls reply
    by (intro exI [of _ z] exI [of _ p]) (simp only: simp_thms)
qed

section \<open>Answers\<close>

lemma status_page_not_empty: "status_page E w \<noteq> ''''"
  by (simp add: status_page_def page_header_def)

text \<open>
  A request other than a POST is answered with 404 exactly when it asks for nothing the
  scheduler serves, for the archive while it cannot be opened, or for the version while none is to
  be deployed; and with 200 otherwise.
\<close>
lemma not_found_iff:
  assumes "verb \<noteq> ''POST''"
    and "handle_calls (handleHTTP E) url verb (chunk # chunks) None w = Inr (Some reply, q, w')"
  shows "reply_status reply = (if
      (verb = ''GET'' \<and> url = kArchiveUrl \<and> archive_read E = None) \<or>
      (prefix kVersionAPIUrl url \<and> target_version (proxy_data (proxy w)) = '''') \<or>
      (\<not> prefix kVersionAPIUrl url \<and> (verb \<noteq> ''GET'' \<or> url \<notin> {kArchiveUrl, kHealthUrl, ''/''}))
    then 404 else 200)"
proof -
  have urls: "\<not> prefix kVersionAPIUrl kArchiveUrl" "\<not> prefix kVersionAPIUrl kHealthUrl"
    "\<not> prefix kVersionAPIUrl ''/''" "kHealthUrl \<noteq> kArchiveUrl" "''/'' \<noteq> kArchiveUrl" "''/'' \<noteq> kHealthUrl"
    by (simp_all add: kVersionAPIUrl_def kArchiveUrl_def kHealthUrl_def)
  obtain page where h: "handleHTTP E verb url '''' w = Inr (page, w')"
    and reply: "reply = make_reply url page"
    using assms(2) unfolding handle_calls_immediate [OF assms(1)] by (auto simp: bind_fatal_Inr_iff)
  have "page = '''' \<longleftrightarrow> (verb = ''GET'' \<and> url = kArchiveUrl \<and> archive_read E = None) \<or>
      (prefix kVersionAPIUrl url \<and> target_version (proxy_data (proxy w)) = '''') \<or>
      (\<not> prefix kVersionAPIUrl url \<and> (verb \<noteq> ''GET'' \<or> url \<notin> {kArchiveUrl, kHealthUrl, ''/''}))"
    using h assms(1) urls status_page_not_empty [of E w]
    by (auto simp: handleHTTP_def find_str_Some_0 serve_archive_def bind_fatal_Inr_iff
        split: if_splits option.splits)
  then show ?thesis by (simp add: reply make_reply_def MHD_HTTP_OK_def MHD_HTTP_NOT_FOUND_def)
qed

section \<open>The health check\<close>

text \<open>The services that count, each a state.\<close>

definition counted_services :: "('r, 'z) world \<Rightarrow> ServiceState list" where
  "counted_services w = [api_state w, s3_state w, console_state w] @
     concat (map (\<lambda>(h, n). [ns_registry n, ns_metadata n, ns_data n]) (nodes w))"

lemma count_node_services_spec:
  "count_node_services ns r = r + int (length (filter (\<lambda>s. ss_state s = RUNNING)
     (concat (map (\<lambda>(h, n). [ns_registry n, ns_metadata n, ns_data n]) ns))))"
  by (induction ns r rule: count_node_services.induct) (simp_all add: bit_def)

text \<open>
  C31: the health check answers with the number of running services among the three shared ones and
  the three core services of every host, at most three per host and three more, and changes
  nothing.
\<close>
theorem health_counts_running_services:
  "handleHTTP E ''GET'' kHealthUrl body w = Inr (''OK. Running services: '' @
     to_string (int (length (filter (\<lambda>s. ss_state s = RUNNING) (counted_services w)))), w) \<and>
   length (filter (\<lambda>s. ss_state s = RUNNING) (counted_services w)) \<le> 3 * length (nodes w) + 3"
proof -
  have "countRunningServices w = int (length (filter (\<lambda>s. ss_state s = RUNNING) (counted_services w)))"
    by (simp add: countRunningServices_def count_node_services_spec counted_services_def bit_def)
  moreover have "find_str kVersionAPIUrl kHealthUrl \<noteq> Some 0" and "kHealthUrl \<noteq> kArchiveUrl"
    by (simp_all add: find_str_Some_0) (simp_all add: kVersionAPIUrl_def kHealthUrl_def kArchiveUrl_def)
  moreover have "length (counted_services w) = 3 * length (nodes w) + 3"
    by (simp add: counted_services_def length_concat case_prod_beta comp_def sum_list_triv)
  ultimately show ?thesis
    using length_filter_le [of "\<lambda>s. ss_state s = RUNNING" "counted_services w"]
    by (simp add: handleHTTP_def)
qed

section \<open>The archive\<close>

text \<open>
  The archive is served as it is when its size is positive and below 100 MiB; an empty archive,
  one of 100 MiB or more, of which at most 100 MiB are read, and a read error end the scheduler.
\<close>
lemma archive_is_served:
  "handleHTTP E ''GET'' kArchiveUrl body w = (case archive_read E of
     None \<Rightarrow> Inr ('''', w)
   | Some None \<Rightarrow> Inl Binary_Too_Large
   | Some (Some content) \<Rightarrow>
       if 0 < length content \<and> length content \<noteq> 100 * 1024 * 1024 then Inr (content, w)
       else Inl Binary_Too_Large)"
  by (auto simp: handleHTTP_def serve_archive_def kBufferSize_def split: option.split)

section \<open>The properties at work\<close>

theorem only_post_changes_state_witness:
  "\<exists>reply q. handle_calls (handleHTTP sample_externals) kVersionAPIUrl ''GET'' [''''] None sample_world =
     Inr (reply, q, sample_world)"
proof -
  have "handleHTTP sample_externals ''GET'' kVersionAPIUrl '''' sample_world =
      Inr (target_version (proxy_data (proxy sample_world)), sample_world)"
    by (simp add: handleHTTP_def version_prefix version_not_archive)
  then have h: "handle_calls (handleHTTP sample_externals) kVersionAPIUrl ''GET'' [''''] None sample_world =
      Inr (Some (make_reply kVersionAPIUrl (target_version (proxy_data (proxy sample_world)))), None, sample_world)"
    by (subst handle_calls_immediate) simp_all
  from only_post_changes_state [OF _ h] show ?thesis using h by blast
qed

theorem version_is_deployed_witness:
  "\<exists>z p. handle_calls (handleHTTP sample_externals) kVersionAPIUrl ''POST'' [[], ''1.'', ''4'', []] None sample_world =
      Inr (Some \<lparr>reply_status = 200, reply_body = ''1.4''\<rparr>, Some ''1.4'', sample_world\<lparr>storage := z, proxy := p\<rparr>) \<and>
    target_version (proxy_data p) = ''1.4''"
proof -
  have "c \<noteq> []" if "c \<in> set [''1.'', ''4'']" for c using that by auto
  with version_is_deployed [OF sample_codec_ok sample_storage_ok version_prefix, of "[''1.'', ''4'']" sample_world]
  show ?thesis by auto
qed

end
