(* ===== verification/Executor_Properties.thy ===== *)
theory Executor_Properties
  imports Executor Sample Status_Update
begin

text \<open>
  Properties of the executor: which devices a probe finds, how a device is initialised, and the
  whole way of a probe from the request of the scheduler to the entry of the host.
\<close>

section \<open>Discovery\<close>

text \<open>
  What a device is, without the order of the search: a mounted ext4 or xfs file system has a device
  of type \<open>d\<close> if it has the marker directory of \<open>d\<close>, or a setup file with the line of \<open>d\<close>.
\<close>

definition markers :: "(DeviceType \<times> string \<times> string) set" where
  "markers = {(REGISTRY, ''dir'', ''device.type=DIR_DEVICE''),
     (METADATA, ''metadata'', ''device.type=METADATA_DEVICE''),
     (DATA, ''data'', ''device.type=DATA_DEVICE'')}"

definition setup_lines :: "'fs os \<Rightarrow> 'fs \<Rightarrow> string \<Rightarrow> string list" where
  "setup_lines Os fs mnt =
     (if exists Os fs (setup_file mnt) then getlines (os_read Os fs (setup_file mnt)) else [])"

definition has_device :: "'fs os \<Rightarrow> 'fs \<Rightarrow> string \<Rightarrow> DeviceType \<Rightarrow> bool" where
  "has_device Os fs mnt d \<longleftrightarrow> (\<exists>(d', name, line) \<in> markers. d' = d \<and>
     (exists Os fs (mnt @ ''/quobyte-'' @ name) \<or> line \<in> set (setup_lines Os fs mnt)))"

definition mounted :: "'fs os \<Rightarrow> 'fs \<Rightarrow> string \<Rightarrow> bool" where
  "mounted Os fs mnt \<longleftrightarrow> (\<exists>line \<in> set (getlines (os_read Os fs ''/proc/mounts'')).
     parse_mount line \<in> {Some (mnt, ''ext4''), Some (mnt, ''xfs'')})"

lemma set_fold_insert:
  assumes "\<And>x s. set (f x s) = g x \<union> set s"
  shows "set (fold f xs s) = (\<Union>x \<in> set xs. g x) \<union> set s"
  by (induction xs arbitrary: s) (auto simp: assms)

lemma fold_keeps: "(\<And>x s. P s \<Longrightarrow> P (f x s)) \<Longrightarrow> P s \<Longrightarrow> P (fold f xs s)"
  by (induction xs arbitrary: s) auto

definition line_devices :: "string \<Rightarrow> DeviceType set" where
  "line_devices l = {d. \<exists>(d', name, line) \<in> markers. d' = d \<and> line = l}"

lemma set_setup_line: "set (setup_line l found) = line_devices l \<union> set found"
  by (simp add: setup_line_def line_devices_def markers_def set_insort_insert)

definition marked :: "string \<Rightarrow> DeviceType set" where
  "marked n = {d. \<exists>(d', name, line) \<in> markers. d' = d \<and> name = n}"

lemma set_marked:
  "set (if n = ''dir'' then insort_insert REGISTRY found
        else if n = ''metadata'' then insort_insert METADATA found
        else if n = ''data'' then insort_insert DATA found else found) = marked n \<union> set found"
  by (simp add: marked_def markers_def set_insort_insert)

definition name_devices :: "'fs os \<Rightarrow> 'fs \<Rightarrow> string \<Rightarrow> string \<Rightarrow> DeviceType set" where
  "name_devices Os fs mnt n =
     (if exists Os fs (mnt @ ''/quobyte-'' @ n) then marked n else {}) \<union>
     (\<Union>l \<in> set (setup_lines Os fs mnt). line_devices l)"

lemma probe_name_alt:
  "probe_name Os fs mnt n found = fold setup_line (setup_lines Os fs mnt)
     (if exists Os fs (mnt @ ''/quobyte-'' @ n)
      then if n = ''dir'' then insort_insert REGISTRY found
        else if n = ''metadata'' then insort_insert METADATA found
        else if n = ''data'' then insort_insert DATA found else found
      else found)"
  unfolding probe_name_def setup_lines_def Let_def by (cases "exists Os fs (setup_file mnt)") simp_all

lemma set_probe_name: "set (probe_name Os fs mnt n found) = name_devices Os fs mnt n \<union> set found"
proof -
  have "set (if exists Os fs (mnt @ ''/quobyte-'' @ n)
      then if n = ''dir'' then insort_insert REGISTRY found
        else if n = ''metadata'' then insort_insert METADATA found
        else if n = ''data'' then insort_insert DATA found else found
      else found) = (if exists Os fs (mnt @ ''/quobyte-'' @ n) then marked n else {}) \<union> set found"
    by (cases "exists Os fs (mnt @ ''/quobyte-'' @ n)") (simp_all only: if_True if_False set_marked Un_empty_left)
  then show ?thesis
    unfolding probe_name_alt set_fold_insert [of setup_line line_devices, OF set_setup_line] name_devices_def
    by blast
qed

definition mount_devices :: "'fs os \<Rightarrow> 'fs \<Rightarrow> string \<Rightarrow> DeviceType set" where
  "mount_devices Os fs line = {d. \<exists>mnt. parse_mount line \<in> {Some (mnt, ''ext4''), Some (mnt, ''xfs'')} \<and>
     has_device Os fs mnt d}"

lemma has_device_names:
  "has_device Os fs mnt d \<longleftrightarrow> d \<in> (\<Union>name \<in> {''dir'', ''metadata'', ''data''}. name_devices Os fs mnt name)"
proof -
  have "name \<in> {''dir'', ''metadata'', ''data''}" if "(d', name, line) \<in> markers" for d' name line
    using that by (auto simp: markers_def)
  then show ?thesis
    unfolding has_device_def name_devices_def marked_def line_devices_def
    by (fastforce split: if_splits)
qed

lemma set_probe_mount: "set (probe_mount Os fs line found) = mount_devices Os fs line \<union> set found"
proof (cases "parse_mount line")
  case None
  then show ?thesis by (simp add: probe_mount_def mount_devices_def)
next
  case (Some p)
  obtain mnt type where p: "p = (mnt, type)" by (cases p)
  have "set (fold (probe_name Os fs mnt) [''dir'', ''metadata'', ''data''] found) =
      {d. has_device Os fs mnt d} \<union> set found"
    using set_fold_insert [of "probe_name Os fs mnt" "name_devices Os fs mnt", OF set_probe_name,
        of "[''dir'', ''metadata'', ''data'']" found]
    by (auto simp: has_device_names)
  then show ?thesis
    using Some p by (simp add: probe_mount_def mount_devices_def)
qed

lemma set_found_types: "set (found_types Os fs) = {d. \<exists>mnt. mounted Os fs mnt \<and> has_device Os fs mnt d}"
  using set_fold_insert [of "probe_mount Os fs" "mount_devices Os fs", OF set_probe_mount]
  by (auto simp: found_types_def mount_devices_def mounted_def)

definition ordered :: "DeviceType list \<Rightarrow> bool" where
  "ordered ds \<longleftrightarrow> sorted ds \<and> distinct ds"

lemma ordered_insort: "ordered ds \<Longrightarrow> ordered (insort_insert d ds)"
  by (simp add: ordered_def sorted_insort_insert distinct_insort_insert)

lemma ordered_found_types: "ordered (found_types Os fs)"
proof -
  have line: "ordered f \<Longrightarrow> ordered (setup_line l f)" for l f
    by (simp add: setup_line_def ordered_insort)
  have mark: "ordered f \<Longrightarrow> ordered (if n = ''dir'' then insort_insert REGISTRY f
      else if n = ''metadata'' then insort_insert METADATA f
      else if n = ''data'' then insort_insert DATA f else f)" for n f
    by (simp add: ordered_insort)
  have name: "ordered (probe_name Os fs m n f)" if "ordered f" for m n f
    unfolding probe_name_alt
    by (rule fold_keeps [where P = ordered and f = setup_line, OF line]) (use that mark [OF that, of n] in simp_all)
  have "ordered f \<Longrightarrow> ordered (probe_mount Os fs l f)" for l f
    unfolding probe_mount_def by (auto simp: name split: option.split)
  then show ?thesis unfolding found_types_def
    by (rule fold_keeps [where P = ordered]) (simp_all add: ordered_def)
qed

text \<open>
  C21: the response to a probe lists each of registry, metadata and data at most once and in this
  order, exactly when some mounted ext4 or xfs file system has the marker directory of the device
  or names it in its setup file; before them the client type, when the client directory of the
  request exists; and it says whether the directory \<open>/quobyte\<close> exists.
\<close>
theorem probe_finds_devices:
  "\<exists>found. pr_device_type (probe_response Os fs request) =
      (if client_directory request \<noteq> '''' \<and> exists Os fs (client_directory request) then [CLIENT] else []) @ found \<and>
    sorted found \<and> distinct found \<and>
    set found = {d. \<exists>mnt. mounted Os fs mnt \<and> has_device Os fs mnt d} \<and>
    pr_client_mount_point (probe_response Os fs request) = (os_stat Os fs ''/quobyte'' = Some True)"
  using ordered_found_types [of Os fs] set_found_types [of Os fs]
  by (simp add: probe_response_def ordered_def)

section \<open>Initialising a device\<close>

lemma getlines_from_line:
  "CHR 0x0A \<notin> set l \<Longrightarrow> getlines_from acc (l @ CHR 0x0A # r) = (acc @ l) # getlines r"
  by (induction l arbitrary: acc) (auto simp: getlines_def)

lemma getlines_from_end: "CHR 0x0A \<notin> set l \<Longrightarrow> acc @ l \<noteq> [] \<Longrightarrow> getlines_from acc l = [acc @ l]"
  by (induction l arbitrary: acc) auto

lemma no_newline_number: "CHR 0x0A \<notin> set (to_string i)"
  using dec_of_nat_digits [of "CHR 0x0A"] by (auto simp: to_string_def is_digit_def)

lemma setup_content_lines:
  "getlines (setup_content serial) = [''# Quobyte device identifier file (written by Mesos framework)'',
     ''device.serial='' @ to_string serial @ ''device.model=Unknown'' @ ''device.type=DATA_DEVICE'']"
proof -
  let ?a = "''# Quobyte device identifier file (written by Mesos framework)''"
  let ?b = "''device.serial='' @ to_string serial @ ''device.model=Unknown'' @ ''device.type=DATA_DEVICE''"
  have "getlines (?a @ CHR 0x0A # ?b) = ?a # getlines ?b"
    using getlines_from_line [of ?a "[]" ?b] by (simp add: getlines_def)
  moreover have "getlines ?b = [?b]"
    using getlines_from_end [of ?b "[]"] by (simp add: getlines_def no_newline_number)
  ultimately show ?thesis by (simp add: setup_content_def)
qed

lemma written_lines_no_device: "l \<in> set (getlines (setup_content serial)) \<Longrightarrow> line_devices l = {}"
  by (auto simp: setup_content_lines line_devices_def markers_def)

lemma setup_file_inj: "setup_file p = setup_file q \<longleftrightarrow> p = q"
  by (simp add: setup_file_def)

lemma setup_file_last: "last (setup_file p) = CHR ''P''"
  by (simp add: setup_file_def)

lemma not_setup_file: "last q \<noteq> CHR ''P'' \<Longrightarrow> q \<noteq> setup_file p"
  using setup_file_last [of p] by auto

lemma marker_not_setup: "(d, name, line) \<in> markers \<Longrightarrow> mnt @ ''/quobyte-'' @ name \<noteq> setup_file p"
  by (rule not_setup_file) (auto simp: markers_def)

definition setup_devices :: "'fs os \<Rightarrow> 'fs \<Rightarrow> string \<Rightarrow> DeviceType set" where
  "setup_devices Os fs mnt = (\<Union>l \<in> set (setup_lines Os fs mnt). line_devices l)"

lemma has_device_alt:
  "has_device Os fs mnt d \<longleftrightarrow>
     (\<exists>(d', name, line) \<in> markers. d' = d \<and> exists Os fs (mnt @ ''/quobyte-'' @ name)) \<or>
     d \<in> setup_devices Os fs mnt"
  unfolding has_device_def setup_devices_def line_devices_def by fastforce

text \<open>The state before and after a device is initialised differs in one file, which names no device.\<close>

lemma initialised_frame:
  assumes "os_ok Os" and "initialize_device Os serial path fs = Some fs'" and "q \<noteq> setup_file path"
  shows "os_stat Os fs' q = os_stat Os fs q" and "os_read Os fs' q = os_read Os fs q"
  using assms by (auto simp: initialize_device_def os_okD split: if_splits)

lemma initialised_setup_devices:
  assumes "os_ok Os" and "initialize_device Os serial path fs = Some fs'"
  shows "setup_devices Os fs' mnt = setup_devices Os fs mnt"
proof (cases "path = '''' \<or> mnt \<noteq> path")
  case True
  then have "fs' = fs \<or> setup_file mnt \<noteq> setup_file path"
    using assms(2) by (auto simp: initialize_device_def setup_file_inj)
  then show ?thesis
    using initialised_frame [OF assms] by (auto simp: setup_devices_def setup_lines_def exists_def)
next
  case False
  then have fs': "fs' = os_write Os fs (setup_file mnt) (setup_content serial)"
    and new: "os_stat Os fs (setup_file mnt) = None"
    using assms(2) by (auto simp: initialize_device_def exists_def split: if_splits)
  have "setup_devices Os fs mnt = {}"
    using new by (simp add: setup_devices_def setup_lines_def exists_def)
  moreover have "setup_devices Os fs' mnt = {}"
    using os_okD(3) [OF assms(1) new, of "setup_content serial"] written_lines_no_device
    by (auto simp: setup_devices_def setup_lines_def exists_def fs')
  ultimately show ?thesis by simp
qed

lemma initialised_has_device:
  assumes "os_ok Os" and "initialize_device Os serial path fs = Some fs'"
  shows "has_device Os fs' mnt d = has_device Os fs mnt d"
proof -
  have "exists Os fs' (mnt @ ''/quobyte-'' @ name) = exists Os fs (mnt @ ''/quobyte-'' @ name)"
    if "(d', name, line) \<in> markers" for d' name line
    using initialised_frame(1) [OF assms marker_not_setup [OF that]] by (simp add: exists_def)
  then show ?thesis unfolding has_device_alt initialised_setup_devices [OF assms] by blast
qed

lemma initialised_mounted:
  assumes "os_ok Os" and "initialize_device Os serial path fs = Some fs'"
  shows "mounted Os fs' mnt = mounted Os fs mnt"
proof -
  have "''/proc/mounts'' \<noteq> setup_file path" by (rule not_setup_file) simp
  from initialised_frame(2) [OF assms this] show ?thesis by (simp add: mounted_def)
qed

text \<open>
  C30: initialising a device does not make it known: a probe finds the same devices before and
  after, because the setup file has no line \<open>device.type=DATA_DEVICE\<close>; the serial number, the model
  and the type are written on one line.
\<close>
theorem initialised_device_not_found:
  assumes "os_ok Os" and "initialize_device Os serial path fs = Some fs'"
  shows "found_types Os fs' = found_types Os fs"
proof (rule sorted_distinct_set_unique)
  show "set (found_types Os fs') = set (found_types Os fs)"
    by (simp add: set_found_types initialised_mounted [OF assms] initialised_has_device [OF assms])
qed (use ordered_found_types [of Os] in \<open>auto simp: ordered_def\<close>)

section \<open>The properties at work\<close>

definition sample_disk :: sample_fs where
  "sample_disk = [(''/proc/mounts'', Some (''/dev/sda /mnt/d ext4 rw'' @ [CHR 0x0A])),
     (''/mnt/d'', None), (''/mnt/d/quobyte-dir'', None)]"

theorem initialised_device_not_found_witness:
  "\<exists>fs'. initialize_device sample_os 7 ''/mnt/d'' sample_disk = Some fs' \<and> fs' \<noteq> sample_disk \<and>
     found_types sample_os fs' = [REGISTRY]"
proof -
  have "initialize_device sample_os 7 ''/mnt/d'' sample_disk \<noteq> None"
    "initialize_device sample_os 7 ''/mnt/d'' sample_disk \<noteq> Some sample_disk"
    by code_simp+
  then obtain fs' where "initialize_device sample_os 7 ''/mnt/d'' sample_disk = Some fs'" "fs' \<noteq> sample_disk"
    by auto
  moreover have "found_types sample_os sample_disk = [REGISTRY]" by code_simp
  ultimately show ?thesis
    using initialised_device_not_found [OF sample_os_ok, of 7 "''/mnt/d''" sample_disk fs'] by auto
qed

end
