(* ===== verification/Probe_Cycle.thy ===== *)
theory Probe_Cycle
  imports Executor_Properties Status_Properties Offer_Properties
begin

text \<open>
  The scheduler and the executor together: the launch of a prober until the scheduler knows that it
  runs, a probe from the request of the scheduler over the answer of the executor to the entry of
  the host, and the launch of the services whose devices it found.
\<close>

section \<open>The prober comes up\<close>

lemma prober_host: "split_task_id (''quobyte-device-prober-'' @ h) = Some (''quobyte-device-prober'', h)"
  if "CHR ''-'' \<notin> set h"
proof -
  have "rfind_char CHR ''-'' (''quobyte-device-prober'' @ ''-'' @ h) = Some (length ''quobyte-device-prober'')"
    using rfind_char_last [of "CHR ''-''" h "''quobyte-device-prober''"] that by simp
  then show ?thesis by (simp add: split_task_id_def substr_def)
qed

text \<open>
  C10: a host whose prober is not running gets one: on an offer with the resources for it, when the
  last sign of life is older than the keep-alive interval, the scheduler launches one prober task
  and nothing else; the executor reports it as finished; and when that status arrives, the prober
  of the host is RUNNING under the id of the task.  This needs a host name without a dash.
\<close>
theorem prober_comes_up:
  assumes "map_find (nodes w) h = Some n" and "offer_hostname offer = h" and "\<not> host_restricted F h"
    and "clock w (Suc (reads w)) - ss_last_seen_s (ns_prober n) > FLAGS_probe_executor_keepalive_interval_s F"
    and "ss_state (ns_prober n) \<notin> {RUNNING, STARTING}" and "ss_task_id (ns_prober n) = ''''"
    and "resources_contains E (offer_resources offer) (resource_at E (resources w) PROBER_TASK)"
    and "FLAGS_framework_image F \<noteq> ''''" and "CHR ''-'' \<notin> set h" and "map_ok (nodes w)"
  shows "\<exists>w1 task status w2.
    handle F E (Resource_Offers [offer]) w = Inr w1 \<and> calls w1 = calls w @ [LaunchTasks (offer_id offer) [task]] \<and>
    executor_handle Os serial (Launch_Task task) fs = ([SendStatusUpdate status], fs) \<and>
    handle F E (Status_Update status) w1 = Inr w2 \<and> calls w2 = calls w1 \<and>
    ss_state (read_service Prober_Ref h w2) = RUNNING \<and>
    ss_task_id (read_service Prober_Ref h w2) = ti_task_id task"
proof -
  have "\<exists>task w1. start_prober F E offer (offered h w) = Inr w1 \<and>
      calls w1 = calls w @ [LaunchTasks (offer_id offer) [task]] \<and>
      ti_task_id task = ''quobyte-device-prober-'' @ h \<and> map_ok (nodes w1) \<and>
      ss_task_id (read_service Prober_Ref h w1) = ''''"
    using assms(1,2,6,8,10) offered_node [OF assms(1)]
    by (auto simp: start_prober_def createProberTaskInfo_def Let_def emit_def node_at_update_node mutable_defs
        map_ok_def frame_simps)
  then obtain task w1 where w1: "start_prober F E offer (offered h w) = Inr w1"
      "calls w1 = calls w @ [LaunchTasks (offer_id offer) [task]]"
      "ti_task_id task = ''quobyte-device-prober-'' @ h" "map_ok (nodes w1)"
      "ss_task_id (read_service Prober_Ref h w1) = ''''"
    by blast
  have "handle F E (Resource_Offers [offer]) w = Inr w1"
    using known_host_offer [of w offer n F E] assms w1(1) by simp
  moreover define status where "status = plain_status (ti_task_id task) TASK_FINISHED"
  have split: "split_task_id (st_task_id status) = Some (''quobyte-device-prober'', h)"
    using prober_host [OF assms(9)] w1(3) by (simp add: status_def plain_status_def)
  have of: "service_of ''quobyte-device-prober'' = Some Prober_Ref" by (simp add: service_of_def)
  have "service_should_run ''quobyte-device-prober'' node s tid" for node s tid
    by (simp add: service_should_run_def)
  from running_recorded [OF split of _ w1(4) this] w1(5)
  have "read_service Prober_Ref h (statusUpdate status w1) =
      record_running status (clock w1 (reads w1)) (clock w1 (Suc (reads w1))) (read_service Prober_Ref h w1) \<and>
      calls (statusUpdate status w1) = calls w1"
    by (simp add: status_def plain_status_def version_calls_def del: read_service.simps)
  moreover have "executor_handle Os serial (Launch_Task task) fs = ([SendStatusUpdate status], fs)"
    by (simp add: launchTask_def status_def)
  ultimately show ?thesis using w1
    by (intro exI [of _ w1] exI [of _ task] exI [of _ status] exI [of _ "statusUpdate status w1"])
      (simp add: record_running_def status_def plain_status_def del: read_service.simps)
qed

section \<open>A probe goes round\<close>

lemma probe_is_due:
  assumes "map_find (nodes w) (offer_hostname offer) = Some n" and "\<not> host_restricted F (offer_hostname offer)"
    and "ss_state (ns_prober n) = RUNNING"
    and "clock w (Suc (Suc (reads w))) - ns_last_probe_s n > FLAGS_probe_interval_s F"
  shows "handle_offer F E offer w = Inr (trigger_discovery F E offer
    ((offered (offer_hostname offer) w)\<lparr>reads := Suc (Suc (Suc (reads w)))\<rparr>))"
  using assms offered_node [OF assms(1)] unfolding known_host_offer [OF assms(1,2)]
  by (simp add: probe_or_place_def Let_def)

lemma trigger_discovery_node:
  assumes "map_find (nodes w) (offer_hostname offer) = Some n" and "map_ok (nodes w)"
  shows "map_find (nodes (trigger_discovery F E offer w)) (offer_hostname offer) =
    Some (n\<lparr>ns_last_probe_s_field := Some (clock w (reads w))\<rparr>)"
  using assms
  by (simp add: trigger_discovery_def Let_def emit_def reconcileHost_def createHost_def update_node_def
      map_find_modify map_find_insert)

lemma frameworkMessage_node:
  assumes "parse_response E data = Some response" and "map_find (nodes w) h = Some n"
    and "ns_slave_id_value n = slave"
  shows "\<exists>t. map_find (nodes (frameworkMessage E slave data w)) h = Some (apply_response response t n)"
proof -
  obtain ns k where p: "probe_nodes E slave data (clock w) (reads w) (nodes w) = (ns, k)"
    by fastforce
  have "list_all2 (probed slave response (clock w) (reads w) k) (nodes w) ns"
    using probe_nodes_Some [OF assms(1) p] by blast
  from probed_find [OF this assms(2)] obtain n' where "map_find ns h = Some n'"
      "probed slave response (clock w) (reads w) k (h, n) (h, n')"
    by blast
  then show ?thesis using assms(3) p by (auto simp: frameworkMessage_def probed_def from_slave_def)
qed

text \<open>What the scheduler knows about a host after a probe of the file system \<open>fs\<close>.\<close>

definition knows_host :: "flags \<Rightarrow> 'fs os \<Rightarrow> 'fs \<Rightarrow> NodeState \<Rightarrow> bool" where
  "knows_host F Os fs n \<longleftrightarrow> ns_device_types_valid n \<and>
     (\<forall>d \<in> {REGISTRY, METADATA, DATA}. d \<in> set (ns_device_type n) \<longleftrightarrow>
        (\<exists>mnt. mounted Os fs mnt \<and> has_device Os fs mnt d)) \<and>
     (CLIENT \<in> set (ns_device_type n) \<longleftrightarrow>
        FLAGS_client_mount_point F \<noteq> '''' \<and> exists Os fs (FLAGS_client_mount_point F)) \<and>
     BOOTSTRAP \<notin> set (ns_device_type n) \<and>
     (ns_client_mount_point n \<longleftrightarrow> os_stat Os fs ''/quobyte'' = Some True)"

lemma found_types_core: "d \<in> set (found_types Os fs) \<Longrightarrow> d \<in> {REGISTRY, METADATA, DATA}"
  by (auto simp: set_found_types has_device_def markers_def)

lemma probed_host_known:
  "knows_host F Os fs (apply_response (probe_response Os fs
     \<lparr>client_directory_field = Some (FLAGS_client_mount_point F), initialize_path_field = None\<rparr>) t n)"
  using found_types_core [of CLIENT Os fs] found_types_core [of BOOTSTRAP Os fs]
  by (auto simp: knows_host_def apply_response_def probe_response_def mutable_defs set_found_types)

text \<open>The entry of the host after a probe: two stamps and the answer of the executor.\<close>

definition answered_entry :: "flags \<Rightarrow> 'fs os \<Rightarrow> 'fs \<Rightarrow> NodeState \<Rightarrow> NodeState \<Rightarrow> bool" where
  "answered_entry F Os fs n n2 \<longleftrightarrow> (\<exists>t t1 t2. n2 = apply_response (probe_response Os fs
     \<lparr>client_directory_field = Some (FLAGS_client_mount_point F), initialize_path_field = None\<rparr>) t
     (n\<lparr>ns_last_offer_s_field := Some t1, ns_last_probe_s_field := Some t2\<rparr>))"

lemma answered_entry_known: "answered_entry F Os fs n n2 \<Longrightarrow> knows_host F Os fs n2"
  by (auto simp: answered_entry_def probed_host_known)

lemma answered_entry_services:
  assumes "answered_entry F Os fs n n2"
  shows "ss_state (node_service r n2) = ss_state (node_service r n)"
    and "ns_slave_id_value n2 = ns_slave_id_value n"
  using assms by (cases r; auto simp: answered_entry_def apply_response_def mutable_defs)+

lemma frameworkMessage_frame:
  "proxy (frameworkMessage E slave data w) = proxy w" "resources (frameworkMessage E slave data w) = resources w"
  "clock (frameworkMessage E slave data w) = clock w" "calls (frameworkMessage E slave data w) = calls w"
  by (simp_all add: frameworkMessage_def split: prod.split)

lemma probe_round:
  assumes "wire_ok E Os" and "map_ok (nodes w)" and "map_find (nodes w) h = Some n"
    and "offer_hostname offer = h" and "offer_slave_id offer = ns_slave_id_value n"
    and "\<not> host_restricted F h" and "ss_state (ns_prober n) = RUNNING"
    and "clock w (Suc (Suc (reads w))) - ns_last_probe_s n > FLAGS_probe_interval_s F"
  shows "\<exists>w1 executor request tasks reply w2 n2.
    handle F E (Resource_Offers [offer]) w = Inr w1 \<and>
    calls w1 = calls w @ [SendFrameworkMessage executor (ns_slave_id_value n) request,
      ReconcileTasks tasks, DeclineOffer (offer_id offer)] \<and>
    executor_handle Os serial (Framework_Request request) fs = ([SendProbeResponse reply], fs) \<and>
    handle F E (Framework_Message (ns_slave_id_value n) reply) w1 = Inr w2 \<and>
    map_find (nodes w2) h = Some n2 \<and> answered_entry F Os fs n n2 \<and>
    proxy w2 = proxy w \<and> resources w2 = resources w \<and> clock w2 = clock w \<and>
    ns_last_probe_s n2 = clock w (Suc (Suc (Suc (reads w))))"
proof -
  define u where "u = (offered h w)\<lparr>reads := Suc (Suc (Suc (reads w)))\<rparr>"
  define w1 where "w1 = trigger_discovery F E offer u"
  define request where "request = \<lparr>client_directory_field = Some (FLAGS_client_mount_point F),
    initialize_path_field = None\<rparr>"
  define reply where "reply = serialize_response Os (probe_response Os fs request)"
  have 1: "handle F E (Resource_Offers [offer]) w = Inr w1"
    using probe_is_due [of w offer n F E] assms by (simp add: w1_def u_def)
  have "\<exists>executor tasks. calls w1 = calls w @ [SendFrameworkMessage executor (ns_slave_id_value n)
      (serialize_request E request), ReconcileTasks tasks, DeclineOffer (offer_id offer)]"
    by (simp add: w1_def trigger_discovery_def Let_def emit_def reconcileHost_def update_node_def
        createHost_def u_def assms(5) request_def)
  then obtain executor tasks where 2: "calls w1 = calls w @ [SendFrameworkMessage executor (ns_slave_id_value n)
      (serialize_request E request), ReconcileTasks tasks, DeclineOffer (offer_id offer)]"
    by blast
  have 3: "executor_handle Os serial (Framework_Request (serialize_request E request)) fs =
      ([SendProbeResponse reply], fs)"
    using assms(1) by (simp add: executor_frameworkMessage_def initialize_device_def wire_okD
        reply_def request_def)
  have "map_ok (nodes u)" using assms(2) by (simp add: u_def map_ok_def)
  moreover have "map_find (nodes u) h = Some (n\<lparr>ns_last_offer_s_field := Some (clock w (reads w))\<rparr>)"
    using assms(3) by (simp add: u_def offered_def update_node_def map_find_modify)
  moreover define t2 where "t2 = clock w (Suc (Suc (Suc (reads w))))"
  ultimately have n1: "map_find (nodes w1) h = Some (n
      \<lparr>ns_last_offer_s_field := Some (clock w (reads w)), ns_last_probe_s_field := Some t2\<rparr>)"
    using trigger_discovery_node [of u offer] assms(4) by (simp add: w1_def u_def)
  have "parse_response E reply = Some (probe_response Os fs request)"
    using assms(1) by (simp add: reply_def wire_okD)
  from frameworkMessage_node [OF this n1] obtain t where
    "map_find (nodes (frameworkMessage E (ns_slave_id_value n) reply w1)) h =
       Some (apply_response (probe_response Os fs request) t (n\<lparr>ns_last_offer_s_field := Some (clock w (reads w)),
         ns_last_probe_s_field := Some t2\<rparr>))"
    by auto
  moreover have "answered_entry F Os fs n (apply_response (probe_response Os fs request) t
      (n\<lparr>ns_last_offer_s_field := Some (clock w (reads w)), ns_last_probe_s_field := Some t2\<rparr>))"
    unfolding request_def answered_entry_def by blast
  moreover have "handle F E (Framework_Message (ns_slave_id_value n) reply) w1 =
      Inr (frameworkMessage E (ns_slave_id_value n) reply w1)" by simp
  moreover have "ns_last_probe_s (apply_response response t (n\<lparr>ns_last_offer_s_field := Some (clock w (reads w)),
      ns_last_probe_s_field := Some t2\<rparr>)) = t2" for response
    by (simp add: apply_response_def mutable_defs)
  moreover have "proxy w1 = proxy w" "resources w1 = resources w" "clock w1 = clock w"
    by (simp_all add: w1_def trigger_discovery_def Let_def emit_def reconcileHost_def update_node_def
        createHost_def u_def)
  ultimately show ?thesis using 1 2 3 frameworkMessage_frame(1-3) t2_def by metis
qed

text \<open>
  C5: a probe goes round: when the prober of a host runs and the last probe is older than the probe
  interval, an offer of the host makes the scheduler send one request to the executor of its slave
  and decline the offer; the executor answers that request with one message and leaves the file
  system as it is; and when that message arrives, the scheduler knows the host: the entry lists
  exactly the registry, metadata and data devices that the file system of the host has.
\<close>
theorem probe_goes_round:
  assumes "wire_ok E Os" and "map_ok (nodes w)" and "map_find (nodes w) h = Some n"
    and "offer_hostname offer = h" and "offer_slave_id offer = ns_slave_id_value n"
    and "\<not> host_restricted F h" and "ss_state (ns_prober n) = RUNNING"
    and "clock w (Suc (Suc (reads w))) - ns_last_probe_s n > FLAGS_probe_interval_s F"
  shows "\<exists>w1 executor request tasks reply w2 n2.
    handle F E (Resource_Offers [offer]) w = Inr w1 \<and>
    calls w1 = calls w @ [SendFrameworkMessage executor (ns_slave_id_value n) request,
      ReconcileTasks tasks, DeclineOffer (offer_id offer)] \<and>
    executor_handle Os serial (Framework_Request request) fs = ([SendProbeResponse reply], fs) \<and>
    handle F E (Framework_Message (ns_slave_id_value n) reply) w1 = Inr w2 \<and>
    map_find (nodes w2) h = Some n2 \<and> knows_host F Os fs n2"
  using probe_round [OF assms] answered_entry_known by metis

section \<open>A device gets its service\<close>

text \<open>
  C6: a device that is in the file system of a host gets its service: after a probe has gone round,
  as above, while a version is to be deployed, every further offer of the host that comes before
  the next probe is due launches the task of each core service whose device the file system has
  and whose state is NOT_RUNNING, unless the tasks launched before it leave too little of the offer.
\<close>
theorem found_device_is_served:
  assumes "wire_ok E Os" and "map_ok (nodes w)" and "map_find (nodes w) h = Some n"
    and "offer_hostname offer = h" and "offer_slave_id offer = ns_slave_id_value n"
    and "\<not> host_restricted F h" and "ss_state (ns_prober n) = RUNNING"
    and "clock w (Suc (Suc (reads w))) - ns_last_probe_s n > FLAGS_probe_interval_s F"
    and "config_ok F" and "target_version (proxy_data (proxy w)) \<noteq> ''''"
    and "core_service d = Some (r, k, j)" and "mounted Os fs mnt" and "has_device Os fs mnt d"
    and "ss_state (node_service r n) = NOT_RUNNING"
  shows "\<exists>w1 executor request tasks reply w2 n2.
    handle F E (Resource_Offers [offer]) w = Inr w1 \<and>
    calls w1 = calls w @ [SendFrameworkMessage executor (ns_slave_id_value n) request,
      ReconcileTasks tasks, DeclineOffer (offer_id offer)] \<and>
    executor_handle Os serial (Framework_Request request) fs = ([SendProbeResponse reply], fs) \<and>
    handle F E (Framework_Message (ns_slave_id_value n) reply) w1 = Inr w2 \<and>
    map_find (nodes w2) h = Some n2 \<and>
    (\<forall>later. offer_hostname later = h \<and>
       clock w (Suc (Suc (reads w2))) - clock w (Suc (Suc (Suc (reads w)))) \<le> FLAGS_probe_interval_s F \<longrightarrow>
       (\<exists>w3 cs. handle F E (Resource_Offers [later]) w2 = Inr w3 \<and> calls w3 = calls w2 @ cs \<and>
          started_or_short E (resources w) (offer_resources later) k h (launches cs)))"
proof -
  obtain w1 executor request tasks reply w2 n2 where
    cycle: "handle F E (Resource_Offers [offer]) w = Inr w1"
      "calls w1 = calls w @ [SendFrameworkMessage executor (ns_slave_id_value n) request,
        ReconcileTasks tasks, DeclineOffer (offer_id offer)]"
      "executor_frameworkMessage Os serial request fs = ([SendProbeResponse reply], fs)"
      "handle F E (Framework_Message (ns_slave_id_value n) reply) w1 = Inr w2"
    and n2: "map_find (nodes w2) h = Some n2" "answered_entry F Os fs n n2"
    and same: "proxy w2 = proxy w" "resources w2 = resources w" "clock w2 = clock w"
      "ns_last_probe_s n2 = clock w (Suc (Suc (Suc (reads w))))"
    using probe_round [OF assms(1-8)] unfolding executor_handle.simps by metis
  have known: "knows_host F Os fs n2" using n2(2) by (rule answered_entry_known)
  have "d \<in> {REGISTRY, METADATA, DATA}" using assms(11) by (cases d) auto
  then have d: "d \<in> set (ns_device_type n2)" "ns_device_types_valid n2"
    using known assms(12,13) unfolding knows_host_def by blast+
  have s: "ss_state (ns_prober n2) = RUNNING" "ss_state (node_service r n2) = NOT_RUNNING"
    using answered_entry_services(1) [OF n2(2), of Prober_Ref] answered_entry_services(1) [OF n2(2), of r] assms(7,14)
    by simp_all
  have "\<exists>w3 cs. handle F E (Resource_Offers [later]) w2 = Inr w3 \<and> calls w3 = calls w2 @ cs \<and>
      started_or_short E (resources w) (offer_resources later) k h (launches cs)"
    if again: "offer_hostname later = h"
      "clock w (Suc (Suc (reads w2))) - clock w (Suc (Suc (Suc (reads w)))) \<le> FLAGS_probe_interval_s F" for later
    using core_served [OF assms(6) again(1) n2(1) s(1) again(2) [folded same(3,4)] _ d(2,1) assms(11) s(2) assms(9), of E]
      assms(10) same by auto
  then have all: "\<forall>later. offer_hostname later = h \<and>
      clock w (Suc (Suc (reads w2))) - clock w (Suc (Suc (Suc (reads w)))) \<le> FLAGS_probe_interval_s F \<longrightarrow>
      (\<exists>w3 cs. handle F E (Resource_Offers [later]) w2 = Inr w3 \<and> calls w3 = calls w2 @ cs \<and>
        started_or_short E (resources w) (offer_resources later) k h (launches cs))"
    by blast
  show ?thesis unfolding executor_handle.simps using cycle n2(1) all by blast
qed

section \<open>Devices are kept\<close>

text \<open>Whatever the executor handles, a setup file that exists keeps its content.\<close>

definition device_kept :: "'fs os \<Rightarrow> string \<Rightarrow> string \<Rightarrow> 'fs \<Rightarrow> bool" where
  "device_kept Os path content fs \<longleftrightarrow>
     (os_ok Os \<longrightarrow> exists Os fs path \<and> os_read Os fs path = content)"

lemma initialize_keeps:
  assumes "os_ok Os" and "exists Os fs q" and "initialize_device Os serial path fs = Some fs'"
  shows "exists Os fs' q \<and> os_read Os fs' q = os_read Os fs q"
proof (cases "fs' = fs")
  case False
  then have fs': "fs' = os_write Os fs (setup_file path) (setup_content serial)"
    and "\<not> exists Os fs (setup_file path)"
    using assms(3) by (auto simp: initialize_device_def split: if_splits)
  with assms(2) have "q \<noteq> setup_file path" by auto
  with assms(1,2) show ?thesis by (simp add: fs' os_okD exists_def)
qed (use assms in simp)

interpretation devices: invariant_machine "executor_step Os" "\<lambda>fs e. True" "device_kept Os path content"
  for Os :: "'fs os" and path content
proof unfold_locales
  fix fs fs' :: 'fs and e :: "'r executor_event"
  assume kept: "device_kept Os path content fs" and "executor_step Os fs e fs'"
  then obtain serial cs where e: "executor_handle Os serial e fs = (cs, fs')"
    by (auto elim: executor_stepE)
  show "device_kept Os path content fs'"
  proof (cases e)
    case (Framework_Request data)
    then have "fs' = fs \<or> initialize_device Os serial (initialize_path (parse_request Os data)) fs = Some fs'"
      using e by (auto simp: executor_frameworkMessage_def Let_def split: option.splits)
    then show ?thesis using kept initialize_keeps unfolding device_kept_def by metis
  qed (use e kept in auto)
qed

text \<open>
  C23: a device keeps its identity: whatever events the executor handles, a setup file that exists
  is never written again.
\<close>
theorem device_identity_is_kept:
  assumes "os_ok Os" and "run (executor_step Os) fs es fs'" and "exists Os fs path"
  shows "exists Os fs' path \<and> os_read Os fs' path = os_read Os fs path"
proof -
  have "device_kept Os path (os_read Os fs path) fs'"
    by (rule devices.run_invariant [OF _ assms(2)]) (use assms in \<open>simp_all add: device_kept_def\<close>)
  with assms(1) show ?thesis by (simp add: device_kept_def)
qed

section \<open>The properties at work\<close>

definition probing_flags :: flags where
  "probing_flags = default_flags\<lparr>FLAGS_probe_interval_s := 5\<rparr>"

text \<open>Host \<open>c\<close> has been seen in an offer, nothing else is known about it.\<close>

definition sample_fresh :: "(nat, string \<Rightarrow> string) world" where
  "sample_fresh = sample_world\<lparr>nodes := [(''c'', new_NodeState
     \<lparr>ns_hostname_field := Some ''c'', ns_slave_id_value_field := Some ''s1''\<rparr>)]\<rparr>"

theorem prober_comes_up_witness:
  "\<exists>w1 task w2. resourceOffers default_flags sample_externals [sample_offer ''o1'' ''c'' 10] sample_fresh = Inr w1 \<and>
     calls w1 = [LaunchTasks ''o1'' [task]] \<and> statusUpdate (plain_status (ti_task_id task) TASK_FINISHED) w1 = w2 \<and>
     ss_state (read_service Prober_Ref ''c'' w2) = RUNNING"
proof -
  let ?n = "new_NodeState\<lparr>ns_hostname_field := Some ''c'', ns_slave_id_value_field := Some ''s1''\<rparr>"
    and ?o = "sample_offer ''o1'' ''c'' 10"
  have 1: "map_find (nodes sample_fresh) ''c'' = Some ?n" "offer_hostname ?o = ''c''"
    "\<not> host_restricted default_flags ''c''"
    "clock sample_fresh (Suc (reads sample_fresh)) - ss_last_seen_s (ns_prober ?n) >
       FLAGS_probe_executor_keepalive_interval_s default_flags"
    "ss_state (ns_prober ?n) \<notin> {RUNNING, STARTING}" "ss_task_id (ns_prober ?n) = ''''"
    "resources_contains sample_externals (offer_resources ?o)
       (resource_at sample_externals (resources sample_fresh) PROBER_TASK)"
    "FLAGS_framework_image default_flags \<noteq> ''''" "CHR ''-'' \<notin> set ''c''" "calls sample_fresh = []"
    by code_simp+
  have 2: "map_ok (nodes sample_fresh)" by (simp add: sample_fresh_def map_ok_Cons)
  obtain w1 task status w2 where
    "handle default_flags sample_externals (Resource_Offers [?o]) sample_fresh = Inr w1"
    "calls w1 = calls sample_fresh @ [LaunchTasks (offer_id ?o) [task]]"
    "executor_handle sample_os 0 (Launch_Task task) sample_disk = ([SendStatusUpdate status], sample_disk)"
    "handle default_flags sample_externals (Status_Update status) w1 = Inr w2"
    "ss_state (read_service Prober_Ref ''c'' w2) = RUNNING"
    using prober_comes_up [OF 1(1-9) 2, where Os = sample_os and serial = 0 and fs = sample_disk] by blast
  moreover from this(3) have "status = plain_status (ti_task_id task) TASK_FINISHED"
    by (simp add: launchTask_def)
  ultimately show ?thesis using 1(10) by (simp add: sample_offer_def del: resourceOffers.simps read_service.simps)
qed

theorem probe_goes_round_witness:
  "\<exists>w1 reply n2. resourceOffers probing_flags sample_externals [sample_offer ''o1'' ''a'' 10] sample_world = Inr w1 \<and>
     map_find (nodes (frameworkMessage sample_externals ''s1'' reply w1)) ''a'' = Some n2 \<and>
     set (ns_device_type n2) = {REGISTRY}"
proof -
  let ?n = "sample_node ''a'' ''s1'' [REGISTRY] (service_state NOT_RUNNING '''')"
    and ?o = "sample_offer ''o1'' ''a'' 10"
  have 1: "map_find (nodes sample_world) ''a'' = Some ?n" "offer_hostname ?o = ''a''"
    "offer_slave_id ?o = ns_slave_id_value ?n" "\<not> host_restricted probing_flags ''a''"
    "ss_state (ns_prober ?n) = RUNNING"
    "clock sample_world (Suc (Suc (reads sample_world))) - ns_last_probe_s ?n > FLAGS_probe_interval_s probing_flags"
    "ns_slave_id_value ?n = ''s1''" "FLAGS_client_mount_point probing_flags = ''''"
    "found_types sample_os sample_disk = [REGISTRY]"
    by code_simp+
  obtain w1 reply w2 n2 where w:
    "handle probing_flags sample_externals (Resource_Offers [?o]) sample_world = Inr w1"
    "handle probing_flags sample_externals (Framework_Message (ns_slave_id_value ?n) reply) w1 = Inr w2"
    "map_find (nodes w2) ''a'' = Some n2" "knows_host probing_flags sample_os sample_disk n2"
    using probe_goes_round [OF sample_wire_ok sample_world_map_ok 1(1-6), of 0 sample_disk] by blast
  have "d \<in> set (ns_device_type n2) \<longleftrightarrow> d = REGISTRY" for d
    using w(4) 1(8,9) set_found_types [of sample_os sample_disk]
    by (cases d) (auto simp: knows_host_def)
  then show ?thesis using w(1-3) 1(7) by auto
qed

text \<open>Host \<open>a\<close> when its prober was never asked, with a clock that stands still.\<close>

definition sample_waiting :: "(nat, string \<Rightarrow> string) world" where
  "sample_waiting = sample_world\<lparr>nodes := [(''a'', (sample_node ''a'' ''s1'' [] (service_state NOT_RUNNING ''''))
     \<lparr>ns_last_probe_s_field := Some 0\<rparr>)], clock := (\<lambda>i. 1000)\<rparr>"

theorem found_device_is_served_witness:
  "\<exists>w2 w3 cs. map_find (nodes w2) ''a'' \<noteq> None \<and>
     resourceOffers default_flags sample_externals [sample_offer ''o2'' ''a'' 10] w2 = Inr w3 \<and> calls w3 = calls w2 @ cs \<and>
     started_or_short sample_externals (resources sample_waiting) 10 REGISTRY_TASK ''a'' (launches cs)"
proof -
  let ?n = "(sample_node ''a'' ''s1'' [] (service_state NOT_RUNNING ''''))\<lparr>ns_last_probe_s_field := Some 0\<rparr>"
    and ?o = "sample_offer ''o1'' ''a'' 10" and ?p = "sample_offer ''o2'' ''a'' 10"
  have 1: "map_find (nodes sample_waiting) ''a'' = Some ?n" "offer_hostname ?o = ''a''"
    "offer_slave_id ?o = ns_slave_id_value ?n" "\<not> host_restricted default_flags ''a''"
    "ss_state (ns_prober ?n) = RUNNING"
    "clock sample_waiting (Suc (Suc (reads sample_waiting))) - ns_last_probe_s ?n > FLAGS_probe_interval_s default_flags"
    "target_version (proxy_data (proxy sample_waiting)) \<noteq> ''''"
    "core_service REGISTRY = Some (Registry_Ref, REGISTRY_TASK, 0)"
    "ss_state (node_service Registry_Ref ?n) = NOT_RUNNING" "offer_hostname ?p = ''a''" "offer_resources ?p = 10"
    by code_simp+
  have 2: "map_ok (nodes sample_waiting)" by (simp add: sample_waiting_def map_ok_Cons)
  have "REGISTRY \<in> set (found_types sample_os sample_disk)" by code_simp
  then obtain mnt where 3: "mounted sample_os sample_disk mnt" "has_device sample_os sample_disk mnt REGISTRY"
    unfolding set_found_types by blast
  have 4: "offer_hostname later = ''a'' \<and>
      clock sample_waiting (Suc (Suc (reads w2))) - clock sample_waiting (Suc (Suc (Suc (reads sample_waiting)))) \<le>
        FLAGS_probe_interval_s default_flags"
    if "later = ?p" for w2 later
    using that 1(10) by (simp add: sample_waiting_def default_flags_def)
  have "\<exists>w2 n2. map_find (nodes w2) ''a'' = Some n2 \<and>
     (\<exists>w3 cs. handle default_flags sample_externals (Resource_Offers [?p]) w2 = Inr w3 \<and> calls w3 = calls w2 @ cs \<and>
        started_or_short sample_externals (resources sample_waiting) (offer_resources ?p) REGISTRY_TASK ''a'' (launches cs))"
    using found_device_is_served [OF sample_wire_ok 2 1(1-6) default_config_ok 1(7,8) 3 1(9), of 0] 4 [OF refl]
    by meson
  then show ?thesis using 1(11) by (metis handle.simps(4) option.distinct(1))
qed

theorem device_identity_is_kept_witness:
  "\<exists>fs'. run (executor_step sample_os) ((setup_file ''/mnt/d'', Some ''mine'') # sample_disk)
       [Framework_Request (sample_request \<lparr>client_directory_field = None, initialize_path_field = Some ''/mnt/d''\<rparr>)] fs' \<and>
     os_read sample_os fs' (setup_file ''/mnt/d'') = ''mine''"
proof -
  let ?fs = "(setup_file ''/mnt/d'', Some ''mine'') # sample_disk"
    and ?e = "Framework_Request (sample_request \<lparr>client_directory_field = None, initialize_path_field = Some ''/mnt/d''\<rparr>)"
  obtain cs fs' where "executor_handle sample_os 7 ?e ?fs = (cs, fs')" by fastforce
  then have r: "run (executor_step sample_os) ?fs [?e] fs'"
    by (auto simp: run_Cons_iff intro: executor_step)
  have e: "exists sample_os ?fs (setup_file ''/mnt/d'')" "os_read sample_os ?fs (setup_file ''/mnt/d'') = ''mine''"
    by code_simp+
  from device_identity_is_kept [OF sample_os_ok r e(1)] r e(2) show ?thesis by auto
qed

end
