(* ===== verification/Main_Program.thy ===== *)
theory Main_Program
  imports Machine
begin

text \<open>
  \<open>scheduler/quobyte-mesos.cpp\<close>: the flags of the scheduler process and its \<open>main\<close>.  What \<open>main\<close>
  gets from outside is a parameter: the storage, the environment (\<open>surroundings\<close>), the events
  that arrive between the start of the HTTP server and the end of \<open>run\<close>, and the status that \<open>run\<close>
  returns.  A start that fails is \<^term>\<open>Inl\<close>.
\<close>

section \<open>Flags\<close>

record main_flags =
  FLAGS_master :: string
  FLAGS_zk :: string
  FLAGS_zk_path :: string
  FLAGS_port :: int
  FLAGS_failover_timeout_s :: int
  FLAGS_deployment :: string
  FLAGS_framework_url :: string
  FLAGS_framework_name :: string
  FLAGS_framework_user :: string
  FLAGS_framework_role :: string
  FLAGS_framework_principal :: string
  FLAGS_reset :: bool

definition default_main_flags :: main_flags where
  "default_main_flags = \<lparr>
     FLAGS_master = '''',
     FLAGS_zk = '''',
     FLAGS_zk_path = ''/quobyte'',
     FLAGS_port = 7888,
     FLAGS_failover_timeout_s = 24 * 3600,
     FLAGS_deployment = ''default'',
     FLAGS_framework_url = '''',
     FLAGS_framework_name = ''quobyte'',
     FLAGS_framework_user = '''',
     FLAGS_framework_role = ''*'',
     FLAGS_framework_principal = ''*'',
     FLAGS_reset = False\<rparr>"

text \<open>\<open>ParseCommandLineFlags\<close> ends the program when a registered validator rejects its flag.\<close>

definition NotEmpty :: "string \<Rightarrow> bool" where
  "NotEmpty value \<longleftrightarrow> value \<noteq> ''''"

definition flags_valid :: "main_flags \<Rightarrow> bool" where
  "flags_valid M \<longleftrightarrow> NotEmpty (FLAGS_master M) \<and> NotEmpty (FLAGS_zk M)"

section \<open>What the process finds\<close>

text \<open>
  \<open>host_name\<close> is the \<open>h_name\<close> of \<open>gethostbyname\<close> for the name of the machine, \<^term>\<open>None\<close> when it
  returns a null pointer; \<open>mesos_secret\<close> is the environment variable; \<open>daemon_starts\<close> is whether
  \<open>MHD_start_daemon\<close> succeeds.
\<close>

record surroundings =
  host_name :: "string option"
  mesos_secret :: "string option"
  daemon_starts :: bool

text \<open>The code dereferences the result of \<open>gethostbyname\<close> without a check.\<close>

definition GetHostname :: "surroundings \<Rightarrow> fatal + string" where
  "GetHostname S = (case host_name S of None \<Rightarrow> Inl Hostname_Unknown | Some name \<Rightarrow> Inr name)"

section \<open>The framework\<close>

record FrameworkInfo =
  fw_user :: string
  fw_name :: string
  fw_role :: string
  fw_principal :: string
  fw_failover_timeout :: int
  fw_id :: string
  fw_webui_url :: string
  fw_checkpoint :: bool

definition webui_url :: "main_flags \<Rightarrow> surroundings \<Rightarrow> fatal + string" where
  "webui_url M S =
     (if FLAGS_framework_url M = ''''
      then bind_fatal (GetHostname S) (\<lambda>name. Inr (''http://'' @ name @ '':'' @ to_string (FLAGS_port M)))
      else Inr (FLAGS_framework_url M))"

definition framework_info :: "main_flags \<Rightarrow> surroundings \<Rightarrow> string \<Rightarrow> fatal + FrameworkInfo" where
  "framework_info M S fid =
     bind_fatal (webui_url M S) (\<lambda>url. Inr
       \<lparr>fw_user = FLAGS_framework_user M,
        fw_name = FLAGS_framework_name M,
        fw_role = FLAGS_framework_role M,
        fw_principal = FLAGS_framework_principal M,
        fw_failover_timeout = FLAGS_failover_timeout_s M,
        fw_id = fid,
        fw_webui_url = url,
        fw_checkpoint = True\<rparr>)"

section \<open>The driver\<close>

text \<open>The arguments of the driver's constructor; the credential is a principal and a secret.\<close>

record driver =
  drv_framework :: FrameworkInfo
  drv_master :: string
  drv_credential :: "(string \<times> string) option"

definition create_driver :: "main_flags \<Rightarrow> surroundings \<Rightarrow> FrameworkInfo \<Rightarrow> fatal + driver" where
  "create_driver M S framework =
     (case mesos_secret S of
        Some secret \<Rightarrow>
          if FLAGS_framework_principal M = '''' then Inl Principal_Unset
          else Inr \<lparr>drv_framework = framework, drv_master = FLAGS_master M,
                    drv_credential = Some (FLAGS_framework_principal M, secret)\<rparr>
      | None \<Rightarrow> Inr \<lparr>drv_framework = framework, drv_master = FLAGS_master M, drv_credential = None\<rparr>)"

section \<open>main\<close>

definition state_path :: "main_flags \<Rightarrow> string" where
  "state_path M = ''scheduler-'' @ FLAGS_deployment M"

text \<open>What is left when the process ends; \<open>out_driver\<close> is the driver that ran, if any.\<close>

record ('r, 'z) outcome =
  exit_status :: int
  out_storage :: 'z
  out_driver :: "driver option"
  out_calls :: "'r driver_call list"
  out_http :: "HttpServer option"

text \<open>Everything before \<open>run\<close>: the framework, the scheduler, the HTTP server and the driver.\<close>

definition start_up ::
    "flags \<Rightarrow> main_flags \<Rightarrow> ('r, 'z) externals \<Rightarrow> surroundings \<Rightarrow> 'z \<Rightarrow> SchedulerStateProxy \<Rightarrow>
     (nat \<Rightarrow> int) \<Rightarrow> nat \<Rightarrow> fatal + (('r, 'z) world \<times> HttpServer \<times> driver)" where
  "start_up F M E S z state_proxy clk n =
     bind_fatal (framework_info M S (framework_id state_proxy)) (\<lambda>framework.
     bind_fatal (QuobyteScheduler F E z state_proxy clk n) (\<lambda>w.
     bind_fatal (Start (daemon_starts S) (new_HttpServer (FLAGS_port M))) (\<lambda>http.
     bind_fatal (GetHostname S) (\<lambda>name.
     bind_fatal (create_driver M S framework) (\<lambda>driver.
     Inr (w, http, driver))))))"

definition scheduler_main ::
    "flags \<Rightarrow> main_flags \<Rightarrow> ('r, 'z) externals \<Rightarrow> surroundings \<Rightarrow> 'z \<Rightarrow> (nat \<Rightarrow> int) \<Rightarrow> nat \<Rightarrow>
     'r event list \<Rightarrow> DriverStatus \<Rightarrow> fatal + ('r, 'z) outcome" where
  "scheduler_main F M E S z clk n events status =
     (if \<not> flags_valid M then Inl Invalid_Flags
      else bind_fatal (open_proxy E z (state_path M)) (\<lambda>state_proxy.
        if FLAGS_reset M then
          bind_fatal (erase E z state_proxy) (\<lambda>(z, state_proxy). Inr
            \<lparr>exit_status = 0, out_storage = z, out_driver = None, out_calls = [], out_http = None\<rparr>)
        else
          bind_fatal (start_up F M E S z state_proxy clk n) (\<lambda>(w, http, driver).
          bind_fatal (handle_all F E events w) (\<lambda>w. Inr
            \<lparr>exit_status = (if status = DRIVER_STOPPED then 0 else 1),
             out_storage = storage w, out_driver = Some driver, out_calls = calls w,
             out_http = Some (Stop http)\<rparr>))))"

end
