(* ===== verification/Main_Properties.thy ===== *)
theory Main_Properties
  imports Main_Program Run_Properties
begin

text \<open>
  Properties of the scheduler process: when it starts, what it leaves in the storage, and what the
  next process with the same deployment name finds there.
\<close>

section \<open>The persistent state as a specification\<close>

text \<open>What one event does to the framework id and the target version, and nothing else does.\<close>

fun settle :: "'r event \<Rightarrow> SchedulerState \<Rightarrow> SchedulerState" where
  "settle (Registered fid) d = d\<lparr>framework_id_value_field := Some fid\<rparr>"
| "settle (Http_Request verb path body) d =
     (if verb = ''POST'' \<and> find_str kVersionAPIUrl path = Some 0
      then d\<lparr>target_version_field := Some body\<rparr> else d)"
| "settle _ d = d"

lemma batch_proxy: "batch E offers w css w' \<Longrightarrow> proxy w' = proxy w"
  by (induction rule: batch.induct) (auto dest: outcome_frame)

lemma KillTask_proxy [simp]: "proxy (emit c w) = proxy w"
  by (simp add: emit_def)

lemma update_service_state_proxy: "proxy (update_service_state status service h r w) = proxy w"
  by (simp add: update_service_state_def Let_def frame_simps del: write_service.simps)

lemma check_version_proxy: "proxy (check_version status w) = proxy w"
  by (simp add: check_version_def Let_def)

lemma statusUpdate_proxy: "proxy (statusUpdate status w) = proxy w"
proof (cases "split_task_id (st_task_id status)")
  case (Some p)
  obtain service h where split: "split_task_id (st_task_id status) = Some (service, h)"
    using Some by (cases p) auto
  show ?thesis
  proof (cases "service_of service")
    case None
    then show ?thesis using split
      by (simp add: statusUpdate_def getService_def find_or_create_def createHost_def)
  next
    case (Some r)
    then show ?thesis unfolding statusUpdate_prepared [OF split Some]
      by (simp add: Let_def update_service_state_proxy check_version_proxy)
  qed
qed (simp add: statusUpdate_def)

lemma handle_settles:
  assumes "handle F E e w = Inr w'" and "map_ok (nodes w)"
  shows "proxy_data (proxy w') = settle e (proxy_data (proxy w))"
proof (cases e)
  case (Registered fid)
  then show ?thesis using assms(1)
    by (auto simp: registered_def set_framework_id_def proxy_set_Inr(1) bind_fatal_Inr_iff)
next
  case (Resource_Offers offers)
  then show ?thesis
    using assms resourceOffers_batch [of F E offers w w'] batch_proxy by fastforce
next
  case (Http_Request verb path body)
  then show ?thesis using assms(1) unfolding kVersionAPIUrl_def
    by (auto simp: handleHTTP_def set_target_version_def proxy_set_Inr(1) bind_fatal_Inr_iff
        kArchiveUrl_def kVersionAPIUrl_def split: if_splits)
qed (use assms(1) in \<open>auto simp: logging_callbacks reregistered_def statusUpdate_proxy frameworkMessage_def
      split: prod.splits\<close>)

lemma handle_all_settles:
  "handle_all F E es w = Inr w' \<Longrightarrow> map_ok (nodes w) \<Longrightarrow>
   proxy_data (proxy w') = fold settle es (proxy_data (proxy w)) \<and> map_ok (nodes w')"
proof (induction es arbitrary: w)
  case (Cons e es)
  then obtain w1 where 1: "handle F E e w = Inr w1" "handle_all F E es w1 = Inr w'"
    by (auto simp: bind_fatal_Inr_iff)
  have "acts E (\<lambda>s. True) w w1" using step_acts [of F E w e w1] 1(1) Cons.prems(2) by (simp add: step_iff)
  then have "map_ok (nodes w1)" using Cons.prems(2) by (rule acts_map_ok)
  with Cons.IH [OF 1(2)] handle_settles [OF 1(1) Cons.prems(2)] show ?case by simp
qed simp

section \<open>Starting\<close>

lemma framework_info_id: "framework_info M S fid = Inr framework \<Longrightarrow> fw_id framework = fid"
  by (cases "webui_url M S") (auto simp: framework_info_def)

lemma create_driver_Inr:
  assumes "create_driver M S framework = Inr d"
  shows "drv_framework d = framework" and "drv_credential d = None \<longleftrightarrow> mesos_secret S = None"
  using assms by (cases "mesos_secret S"; cases "FLAGS_framework_principal M"; force simp: create_driver_def)+

lemma start_up_Inr:
  assumes "start_up F M E S z p clk n = Inr (w, http, d)"
  shows "QuobyteScheduler F E z p clk n = Inr w" and "fw_id (drv_framework d) = framework_id p"
    and "drv_credential d = None \<longleftrightarrow> mesos_secret S = None"
proof -
  obtain framework where fw: "framework_info M S (framework_id p) = Inr framework"
    using assms by (cases "framework_info M S (framework_id p)") (simp_all add: start_up_def)
  obtain w' where w: "QuobyteScheduler F E z p clk n = Inr w'"
    using assms fw by (cases "QuobyteScheduler F E z p clk n") (simp_all add: start_up_def)
  obtain http' where http: "Start (daemon_starts S) (new_HttpServer (FLAGS_port M)) = Inr http'"
    using assms fw w by (cases "Start (daemon_starts S) (new_HttpServer (FLAGS_port M))") (simp_all add: start_up_def)
  obtain name where name: "GetHostname S = Inr name"
    using assms fw w http by (cases "GetHostname S") (simp_all add: start_up_def)
  obtain d' where d: "create_driver M S framework = Inr d'"
    using assms fw w http name by (cases "create_driver M S framework") (simp_all add: start_up_def)
  have "w' = w" "d' = d" using assms fw w http name d by (simp_all add: start_up_def)
  with w d fw show "QuobyteScheduler F E z p clk n = Inr w" "fw_id (drv_framework d) = framework_id p"
    "drv_credential d = None \<longleftrightarrow> mesos_secret S = None"
    using framework_info_id create_driver_Inr by auto
qed

lemma scheduler_main_run:
  assumes "scheduler_main F M E S z clk n es status = Inr out" and "\<not> FLAGS_reset M"
  obtains p w http d where "open_proxy E z (state_path M) = Inr p"
    and "start_up F M E S z p clk n = Inr (w, http, d)" and "out_driver out = Some d"
    and "\<exists>w'. handle_all F E es w = Inr w' \<and> out_storage out = storage w'"
    and "out_http out = Some (Stop http)" and "exit_status out = (if status = DRIVER_STOPPED then 0 else 1)"
proof -
  note defs = scheduler_main_def
  have valid: "flags_valid M" using assms(1) by (cases "flags_valid M") (simp_all add: defs)
  obtain p where p: "open_proxy E z (state_path M) = Inr p"
    using assms valid by (cases "open_proxy E z (state_path M)") (simp_all add: defs)
  obtain w http d where up: "start_up F M E S z p clk n = Inr (w, http, d)"
    using assms valid p by (cases "start_up F M E S z p clk n") (auto simp: defs)
  obtain w' where w': "handle_all F E es w = Inr w'"
    using assms valid p up by (cases "handle_all F E es w") (simp_all add: defs)
  have out: "out = \<lparr>exit_status = (if status = DRIVER_STOPPED then 0 else 1), out_storage = storage w',
      out_driver = Some d, out_calls = calls w', out_http = Some (Stop http)\<rparr>"
    using assms valid p up w' by (simp add: defs)
  show ?thesis by (rule that [OF p up]) (simp_all add: out w')
qed

lemma open_proxy_text: "open_proxy E z path = Inr p \<Longrightarrow> text_parse E (state_fetch E z path) = Some (proxy_data p)"
  by (auto simp: open_proxy_def split: option.splits)

lemma main_starts:
  assumes "\<not> FLAGS_reset M"
  shows "succeeds (scheduler_main F M E S z clk n [] status) \<longleftrightarrow>
    FLAGS_master M \<noteq> '''' \<and> FLAGS_zk M \<noteq> '''' \<and>
    text_parse E (state_fetch E z (state_path M)) \<noteq> None \<and>
    succeeds (construct_resources F E) \<and>
    host_name S \<noteq> None \<and> daemon_starts S \<and>
    (mesos_secret S \<noteq> None \<longrightarrow> FLAGS_framework_principal M \<noteq> '''')"
proof (cases "text_parse E (state_fetch E z (state_path M))")
  case (Some d)
  then have p: "open_proxy E z (state_path M) = Inr \<lparr>proxy_path = state_path M, proxy_data = d\<rparr>"
    by (simp add: open_proxy_def)
  show ?thesis
  proof (cases "flags_valid M \<and> host_name S \<noteq> None \<and> daemon_starts S")
    case True
    then obtain name where name: "GetHostname S = Inr name" by (auto simp: GetHostname_def)
    then have "\<exists>url. webui_url M S = Inr url" by (simp add: webui_url_def)
    then show ?thesis using True assms p name Some
      by (cases "construct_resources F E")
        (auto simp: scheduler_main_def start_up_def framework_info_def QuobyteScheduler_def Start_def
          create_driver_def flags_valid_def NotEmpty_def split: option.split)
  next
    case False
    then show ?thesis using assms
      by (auto simp: scheduler_main_def start_up_def GetHostname_def Start_def flags_valid_def NotEmpty_def
          succeeds_iff bind_fatal_Inr_iff)
  qed
qed (auto simp: scheduler_main_def open_proxy_def succeeds_iff bind_fatal_Inr_iff)


section \<open>Restart and reset\<close>

text \<open>What a process leaves in the storage.\<close>

lemma main_leaves:
  assumes "codec_ok E" and "storage_ok E"
    and "scheduler_main F M E S z clk n es status = Inr out" and "\<not> FLAGS_reset M"
    and "text_parse E (state_fetch E z (state_path M)) = Some d"
  shows "text_parse E (state_fetch E (out_storage out) (state_path M)) = Some (fold settle es d)"
proof -
  obtain p w http drv w' where p: "open_proxy E z (state_path M) = Inr p"
    and up: "start_up F M E S z p clk n = Inr (w, http, drv)"
    and w': "handle_all F E es w = Inr w'" "out_storage out = storage w'"
    using scheduler_main_run [OF assms(3,4)] by metis
  note w = start_up_Inr(1) [OF up]
  have "proxy_data p = d" using open_proxy_text [OF p] assms(5) by simp
  then have "proxy_data (proxy w') = fold settle es d"
    using handle_all_settles [OF w'(1)] by (simp add: QuobyteScheduler_Inr [OF w])
  moreover have "scheduler_run F E z p clk n es w'" using w w'(1) by (simp add: scheduler_run_iff)
  from run_reopens [OF assms(1,2) p this]
  have "text_parse E (state_fetch E (out_storage out) (state_path M)) = Some (proxy_data (proxy w'))"
    unfolding w'(2) by (rule open_proxy_text)
  ultimately show ?thesis by simp
qed

lemma reset_leaves:
  assumes "codec_ok E" and "storage_ok E"
    and "scheduler_main F M E S z clk n es status = Inr out" and "FLAGS_reset M"
  shows "text_parse E (state_fetch E (out_storage out) (state_path M)) = Some empty_SchedulerState"
    and "exit_status out = 0" "out_driver out = None" "out_http out = None" "out_calls out = []"
proof -
  obtain p z' p1 where p: "open_proxy E z (state_path M) = Inr p" and e: "erase E z p = Inr (z', p1)"
    and out: "out = \<lparr>exit_status = 0, out_storage = z', out_driver = None, out_calls = [], out_http = None\<rparr>"
    using assms(3,4) by (auto simp: scheduler_main_def bind_fatal_Inr_iff split: if_splits)
  have "proxy_path p = state_path M" using open_proxy_persisted [OF p] by simp
  with e have p1: "proxy_data p1 = empty_SchedulerState" "proxy_path p1 = state_path M"
    by (auto simp: erase_def proxy_set_Inr)
  have "persisted E z' p1" using assms(1,2) e [unfolded erase_def] by (rule proxy_set_persisted)
  then have "open_proxy E z' (state_path M) = Inr p1" by (simp add: persisted_def p1(2))
  from open_proxy_text [OF this]
  show "text_parse E (state_fetch E (out_storage out) (state_path M)) = Some empty_SchedulerState"
    by (simp add: out p1(1))
qed (use assms(3,4) in \<open>auto simp: scheduler_main_def bind_fatal_Inr_iff split: if_splits\<close>)

text \<open>What a process starts with.\<close>

lemma main_finds:
  assumes "scheduler_main F M E S z clk n es status = Inr out" and "\<not> FLAGS_reset M"
    and "text_parse E (state_fetch E z (state_path M)) = Some d"
  shows "\<exists>drv. out_driver out = Some drv \<and> fw_id (drv_framework drv) = framework_id_value d"
proof -
  obtain p w http drv where p: "open_proxy E z (state_path M) = Inr p"
    and up: "start_up F M E S z p clk n = Inr (w, http, drv)" and "out_driver out = Some drv"
    using scheduler_main_run [OF assms(1,2)] by metis
  with start_up_Inr(2) [OF up] open_proxy_text [OF p] assms(3) show ?thesis by (simp add: framework_id_def)
qed


text \<open>
  C32: a process that is started with the reset flag ends with status 0 without having started a
  driver or the HTTP server, and the next process with the same deployment name starts as a new
  framework.
\<close>
theorem reset_starts_afresh:
  assumes "codec_ok E" and "storage_ok E" and "FLAGS_reset M"
    and "scheduler_main F M E S z clk n es status = Inr out"
    and "FLAGS_deployment M' = FLAGS_deployment M" and "\<not> FLAGS_reset M'"
    and "scheduler_main F' M' E S' (out_storage out) clk' n' [] status' = Inr out'"
  shows "exit_status out = 0 \<and> out_driver out = None \<and> out_http out = None \<and> out_calls out = [] \<and>
    (\<exists>drv. out_driver out' = Some drv \<and> fw_id (drv_framework drv) = '''')"
proof -
  have "state_path M' = state_path M" using assms(5) by (simp add: state_path_def)
  with reset_leaves [OF assms(1,2,4,3)] main_finds [OF assms(7,6), of empty_SchedulerState]
  show ?thesis by (simp add: empty_SchedulerState_def)
qed

text \<open>
  The process ends with status 0 exactly when the driver was stopped, with the HTTP server
  stopped, and it authenticates exactly when a secret is set.
\<close>
lemma main_exit_status:
  assumes "scheduler_main F M E S z clk n es status = Inr out" and "\<not> FLAGS_reset M"
  shows "(exit_status out = 0 \<longleftrightarrow> status = DRIVER_STOPPED) \<and>
    (\<exists>http. out_http out = Some http \<and> \<not> http_daemon http) \<and>
    (\<exists>drv. out_driver out = Some drv \<and> (drv_credential drv = None \<longleftrightarrow> mesos_secret S = None))"
proof -
  obtain p w http drv where up: "start_up F M E S z p clk n = Inr (w, http, drv)"
    and out: "out_driver out = Some drv" "out_http out = Some (Stop http)"
      "exit_status out = (if status = DRIVER_STOPPED then 0 else 1)"
    using scheduler_main_run [OF assms] by metis
  have "drv_credential drv = None \<longleftrightarrow> mesos_secret S = None"
    using up by (rule start_up_Inr(3))
  then show ?thesis using out by (simp add: Stop_def)
qed

section \<open>The properties at work\<close>

definition sample_main :: main_flags where
  "sample_main = default_main_flags\<lparr>FLAGS_master := ''zk://m/mesos'', FLAGS_zk := ''m:2181''\<rparr>"

definition sample_host :: surroundings where
  "sample_host = \<lparr>host_name = Some ''node'', mesos_secret = None, daemon_starts = True\<rparr>"

abbreviation sample_process where
  "sample_process M z es \<equiv> scheduler_main default_flags M sample_externals sample_host z
     (\<lambda>i. 1000 + int i) 0 es DRIVER_STOPPED"

lemma sample_resources_succeed: "succeeds (construct_resources default_flags sample_externals)"
proof -
  obtain w where "QuobyteScheduler default_flags sample_externals (\<lambda>path. '''') sample_proxy (\<lambda>i. 0) 0 = Inr w"
    using QuobyteScheduler_total [of sample_externals] by (metis option.distinct(1) sample_externals_parse)
  then show ?thesis by (auto simp: QuobyteScheduler_def bind_fatal_Inr_iff)
qed

lemma sample_fields:
  "\<not> FLAGS_reset sample_main" "\<not> FLAGS_reset default_main_flags"
  "FLAGS_master sample_main \<noteq> ''''" "FLAGS_zk sample_main \<noteq> ''''" "FLAGS_zk default_main_flags = ''''"
  "text_parse sample_externals (state_fetch sample_externals (\<lambda>path. '''') path) = Some empty_SchedulerState"
  "host_name sample_host \<noteq> None" "daemon_starts sample_host" "mesos_secret sample_host = None"
  by (simp_all add: sample_main_def default_main_flags_def sample_host_def sample_externals_def sample_parse_def)

lemma sample_process_starts:
  assumes "text_parse sample_externals (state_fetch sample_externals z (state_path sample_main)) \<noteq> None"
  shows "\<exists>out. sample_process sample_main z [] = Inr out"
  using assms unfolding succeeds_iff [symmetric] main_starts [OF sample_fields(1)]
  by (simp add: sample_resources_succeed sample_fields)

lemma main_with_events:
  assumes "scheduler_main F M E S z clk n [] status = Inr out" and "\<not> FLAGS_reset M"
    and "\<And>w. succeeds (handle_all F E es w)"
  shows "\<exists>out. scheduler_main F M E S z clk n es status = Inr out"
proof -
  obtain p w http d where "open_proxy E z (state_path M) = Inr p" "start_up F M E S z p clk n = Inr (w, http, d)"
    using scheduler_main_run [OF assms(1,2)] by metis
  moreover have "flags_valid M" using assms(1) by (cases "flags_valid M") (simp_all add: scheduler_main_def)
  moreover obtain w' where "handle_all F E es w = Inr w'" using assms(3) unfolding succeeds_iff by blast
  ultimately show ?thesis using assms(2) by (simp add: scheduler_main_def)
qed

definition sample_life :: "nat event list" where
  "sample_life = [Registered ''f7'', Http_Request ''POST'' ''/v1/version'' ''1.4'']"

lemma sample_life_handled: "succeeds (handle_all default_flags sample_externals sample_life w)"
proof -
  obtain w1 where "registered sample_externals ''f7'' w = Inr w1"
    using registered_total [OF sample_codec_ok] by blast
  moreover obtain w2 where "handle default_flags sample_externals (Http_Request ''POST'' ''/v1/version'' ''1.4'') w1 = Inr w2"
    using post_version_total [OF sample_codec_ok] by blast
  ultimately show ?thesis by (simp add: sample_life_def)
qed

lemma sample_restart:
  obtains out out' where "sample_process sample_main (\<lambda>path. '''') sample_life = Inr out"
    and "sample_process sample_main (out_storage out) [] = Inr out'"
proof -
  obtain o1 where "sample_process sample_main (\<lambda>path. '''') [] = Inr o1"
    using sample_process_starts sample_fields(6) by (metis option.distinct(1))
  then obtain out where out: "sample_process sample_main (\<lambda>path. '''') sample_life = Inr out"
    using main_with_events sample_fields(1) sample_life_handled by metis
  moreover obtain out' where "sample_process sample_main (out_storage out) [] = Inr out'"
    using sample_process_starts main_leaves [OF sample_codec_ok sample_storage_ok out sample_fields(1,6)]
    by (metis option.distinct(1))
  ultimately show ?thesis by (rule that)
qed



theorem reset_starts_afresh_witness:
  "\<exists>out out' drv. sample_process (sample_main\<lparr>FLAGS_reset := True\<rparr>) (\<lambda>path. '''') [] = Inr out \<and>
     sample_process sample_main (out_storage out) [] = Inr out' \<and>
     out_driver out' = Some drv \<and> fw_id (drv_framework drv) = ''''"
proof -
  let ?M = "sample_main\<lparr>FLAGS_reset := True\<rparr>"
  have M: "FLAGS_reset ?M" "FLAGS_deployment sample_main = FLAGS_deployment ?M" "flags_valid ?M"
    "state_path sample_main = state_path ?M"
    using sample_fields(3,4) by (simp_all add: flags_valid_def NotEmpty_def state_path_def)
  obtain p where p: "open_proxy sample_externals (\<lambda>path. '''') (state_path ?M) = Inr p"
    using sample_fields(6) by (simp add: open_proxy_def)
  obtain z' p' where "erase sample_externals (\<lambda>path. '''') p = Inr (z', p')"
    using proxy_set_total [OF sample_codec_ok] unfolding erase_def by blast
  then obtain out where out: "sample_process ?M (\<lambda>path. '''') [] = Inr out"
    using M p by (simp add: scheduler_main_def)
  obtain out' where out': "sample_process sample_main (out_storage out) [] = Inr out'"
    using sample_process_starts reset_leaves(1) [OF sample_codec_ok sample_storage_ok out M(1)] M(4)
    by (metis option.distinct(1))
  from reset_starts_afresh [OF sample_codec_ok sample_storage_ok M(1) out M(2) sample_fields(1) out'] out out'
  show ?thesis by blast
qed

end
