(* ===== verification/Spec2Isabelle.thy ===== *)
theory Spec2Isabelle
  imports Run_Properties Http_Properties Probe_Cycle Main_Properties
begin

text \<open>
  A verification development for the Quobyte framework for Mesos: the scheduler
  (\<open>src/scheduler\<close>), which decides from resource offers, task statuses and probe responses which
  Quobyte service runs on which host, and the executor (\<open>src/executor\<close>), the prober that looks for
  Quobyte devices on every host.  The definitions are translations of the C++ functions and keep
  their names; where a name would clash it has a prefix.

  \<^bold>\<open>Parts and theories.\<close>
  \<^item> \<open>Prelude\<close>: fatal ends of the program as values, optional fields, runs of a labelled step
    relation and the locale \<open>invariant_machine\<close>.  \<open>Cpp_String\<close>: the operations of \<open>std::string\<close>
    and \<open>std::stoi\<close> that the code uses.  \<open>Std_Map\<close>: \<open>std::map\<close> as an ordered list of pairs, with its
    contract as the locale \<open>ordered_map\<close>.
  \<^item> \<open>Proto\<close>: the messages of \<open>common/quobyte.proto\<close>; a record has one optional field per field of
    the message, its accessor reads the default.  \<open>Mesos_Types\<close>: the Mesos messages the code fills
    and reads, the calls on the driver, and the record \<open>externals\<close> of all code outside the
    repository (resources, state storage, codecs, the archive file).
  \<^item> \<open>Flags\<close>: the flags and constants at the top of \<open>scheduler.cpp\<close>.  \<open>Tasks\<close>: the commands,
    containers, resources and labels of the tasks (\<open>constructDockerExecuteCommand\<close>, \<open>makeTask\<close> and
    their helpers).  \<open>State_Proxy\<close>: \<open>SchedulerStateProxy\<close>.
  \<^item> \<open>Scheduler_State\<close>: the members of \<open>QuobyteScheduler\<close> as the record \<open>world\<close> (with the clock and the
    list of calls made so far), its constructor and helpers, and the pointers of \<open>getService\<close> with
    their contract \<open>service_cell\<close>.  \<open>Offers\<close>: \<open>resourceOffers\<close>.  \<open>Status_Update\<close>: \<open>statusUpdate\<close>,
    \<open>frameworkMessage\<close> and the other callbacks.  \<open>Http_Api\<close>: \<open>handleHTTP\<close> with the status page.
    \<open>Http_Server\<close>: \<open>http_server.cpp\<close>, whose contract with the handler is \<open>read_only_dispatcher\<close>.
  \<^item> \<open>Executor\<close>: \<open>executor.cpp\<close> and its \<open>main\<close>, over an operating system that is a parameter.
    \<open>Main_Program\<close>: \<open>quobyte-mesos.cpp\<close>, the flags and the \<open>main\<close> of the scheduler process.
  \<^item> \<open>Machine\<close>: the callbacks and HTTP requests as events, \<open>step\<close> as the relation of the states
    before and after an event, and \<open>scheduler_run\<close>, the runs from the constructor.

  The driver calls a callback of the scheduler, which is one event; the callback reads the flags and
  the clock, changes the \<open>world\<close> and appends calls on the driver.  A request message in these calls
  reaches the executor, whose answer comes back as an event of \<open>frameworkMessage\<close>; the tasks in them
  come back as events of \<open>statusUpdate\<close>.  The framework id and the target version go through the
  proxy into the storage, from which the next process continues.

  \<^bold>\<open>What is proved.\<close>
  \<^item> \<open>Offer_Lemmas\<close> describes every way in which one offer can be handled (\<open>offer_outcome\<close>, \<open>placed\<close>);
    \<open>Offer_Properties\<close> draws from it that every offer is answered once, that what is launched fits the
    offer, which services may be launched and how often, and that a core service that does not run
    is launched.
  \<^item> \<open>Actions\<close> refines every callback to a sequence of primitive writes (\<open>act\<close>), \<open>Life_Cycle\<close> those to
    the moves of an abstract service (\<open>slot_move\<close>), and \<open>Invariants\<close> interprets the locale
    \<open>act_invariant\<close> for the task ids, timestamps, hosts, storage, clients and hosts with a dash.
    \<open>Run_Properties\<close> states the results for all runs from the constructor.
  \<^item> \<open>Status_Properties\<close>, \<open>Task_Properties\<close> and \<open>Http_Properties\<close> give the functional behaviour of each
    operation: what a status changes, which tasks are killed, what a command and a resource string
    contain, what a request returns, over any division of a body into chunks.
  \<^item> \<open>Executor_Properties\<close> compares the search for devices with a specification without its order;
    \<open>Probe_Cycle\<close> composes the scheduler and the executor over the wire; \<open>Main_Properties\<close> relates one
    process to the next over the storage, with \<open>settle\<close> as the specification of what is stored.
  \<^item> \<open>Sample\<close> is a concrete environment.  It satisfies the hypotheses about outside code (\<open>codec_ok\<close>,
    \<open>storage_ok\<close>, \<open>resources_ok\<close>, \<open>os_ok\<close>, \<open>wire_ok\<close>), and each property with a hypothesis is applied
    to it in a theorem with the suffix \<open>_witness\<close>.

  \<^bold>\<open>Reading the model.\<close>
  No definition needs fuel: every loop of the code runs over a list, a map or a string, and the
  recursion follows it.  A \<open>LOG(FATAL)\<close>, a failing \<open>Try::get\<close> and an exception that nobody catches end
  the program and are \<^term>\<open>Inl\<close>.  Log lines are left out.  \<open>int32\<close> flags and the clock are integers;
  a sum of flags that leaves 32 bits is undefined behaviour in C++ and has its value here; \<open>uint16_t\<close>
  wraps.  Each reading of the clock is a new one, so two readings in one callback may differ.

  \<^bold>\<open>Not modelled.\<close>
  Callbacks and HTTP requests are taken one at a time: the program has no lock, although the daemon
  runs requests on its own threads, so the properties hold for the runs in which they do not
  overlap.  Mesos, ZooKeeper, protobuf, gflags, libmicrohttpd and the operating system are
  parameters with named hypotheses.  Code that is not compiled (\<open>BRIDGE_NETWORKING\<close>, \<open>#if 0\<close>), build
  files, Docker files and deployment scripts have no model; \<open>HttpServer::port\<close> and the two port
  constants of \<open>quobyte-mesos.cpp\<close> have no use.
\<close>

end
